(* ===== verification/Prelude.thy ===== *)
theory Prelude
  imports Main "HOL-Library.Word" "HOL-Library.State_Monad"
begin

text \<open>
  The vocabulary shared by every component: Rust's fixed-width integers with their
  checked, saturating and build-dependent arithmetic, Rust's \<open>Result\<close> as a sum, panics as
  \<open>None\<close>, and the \<open>?\<close> operator over computations that call the host.

  Conventions. A Rust \<open>Result<T, E>\<close> is a value of \<open>'e + 't\<close>, written with the
  abbreviations \<open>Ok\<close> and \<open>Err\<close>. Code that can panic has type \<open>'a option\<close>,
  with \<open>None\<close> for the panic; where the Rust value is itself an \<open>Option\<close> the two layers
  are kept apart. The operators \<open>+\<close>, \<open>-\<close> and \<open>*\<close> of Rust panic on overflow when the crate is
  compiled with overflow checks (debug builds) and wrap otherwise (release builds, which
  \<open>Cargo.toml\<close> leaves at their default); the flag \<open>chk\<close> of \<open>rust_add\<close>, \<open>rust_sub\<close>,
  \<open>rust_mul\<close> and \<open>rust_pow\<close> selects between the two, so a theorem that does not
  mention a value of \<open>chk\<close> holds for both builds.
\<close>

section \<open>Automation\<close>

named_theorems run_simps \<open>evaluation of host computations\<close>
named_theorems dispatch_defs \<open>definitions of the dispatchable functions\<close>

section \<open>Fixed-width integers\<close>

type_synonym u8 = "8 word"
type_synonym u16 = "16 word"
type_synonym u32 = "32 word"
type_synonym u64 = "64 word"
type_synonym u128 = "128 word"

definition checked_add :: "'a::len word \<Rightarrow> 'a word \<Rightarrow> 'a word option" where
  "checked_add a b = (if unat a + unat b < 2 ^ LENGTH('a) then Some (a + b) else None)"

definition checked_sub :: "'a::len word \<Rightarrow> 'a word \<Rightarrow> 'a word option" where
  "checked_sub a b = (if b \<le> a then Some (a - b) else None)"

definition saturating_add :: "'a::len word \<Rightarrow> 'a word \<Rightarrow> 'a word" where
  "saturating_add a b = (if unat a + unat b < 2 ^ LENGTH('a) then a + b else - 1)"

definition saturating_sub :: "'a::len word \<Rightarrow> 'a word \<Rightarrow> 'a word" where
  "saturating_sub a b = (if b \<le> a then a - b else 0)"

text \<open>The plain operators, with \<open>chk\<close> the crate's \<open>overflow-checks\<close> setting.\<close>

definition rust_add :: "bool \<Rightarrow> 'a::len word \<Rightarrow> 'a word \<Rightarrow> 'a word option" where
  "rust_add chk a b = (if chk \<and> \<not> unat a + unat b < 2 ^ LENGTH('a) then None else Some (a + b))"

definition rust_sub :: "bool \<Rightarrow> 'a::len word \<Rightarrow> 'a word \<Rightarrow> 'a word option" where
  "rust_sub chk a b = (if chk \<and> \<not> b \<le> a then None else Some (a - b))"

definition rust_mul :: "bool \<Rightarrow> 'a::len word \<Rightarrow> 'a word \<Rightarrow> 'a word option" where
  "rust_mul chk a b = (if chk \<and> \<not> unat a * unat b < 2 ^ LENGTH('a) then None else Some (a * b))"

definition rust_pow :: "bool \<Rightarrow> 'a::len word \<Rightarrow> nat \<Rightarrow> 'a word option" where
  "rust_pow chk a n = (if chk \<and> \<not> unat a ^ n < 2 ^ LENGTH('a) then None else Some (a ^ n))"

text \<open>Division by zero panics in every build.\<close>

definition rust_div :: "'a::len word \<Rightarrow> 'a word \<Rightarrow> 'a word option" where
  "rust_div a b = (if b = 0 then None else Some (a div b))"

text \<open>\<open>TryInto\<close> between unsigned widths: an error when the value does not fit.\<close>

definition try_into :: "'a::len word \<Rightarrow> unit + 'b::len word" where
  "try_into a = (if unat a < 2 ^ LENGTH('b) then Inr (ucast a) else Inl ())"

lemma unat_less_pow [simp]: "unat (a :: 'a::len word) < 2 ^ LENGTH('a)"
  by (rule unsigned_less)

lemma unat_ucast_up:
  "LENGTH('a) \<le> LENGTH('b) \<Longrightarrow> unat (ucast (a :: 'a::len word) :: 'b::len word) = unat a"
proof -
  assume "LENGTH('a) \<le> LENGTH('b)"
  then have "unat a < 2 ^ LENGTH('b)"
    by (intro less_le_trans [OF unat_less_pow]) simp
  then show ?thesis
    by (simp add: unsigned_ucast_eq take_bit_nat_eq_self)
qed

lemma unat_minus_one_word_eq: "unat (- 1 :: 'a::len word) = 2 ^ LENGTH('a) - 1"
  by (simp add: unsigned_minus_1_eq_mask mask_eq_exp_minus_1)

lemma unat_saturating_add:
  "unat (saturating_add a (b :: 'a::len word)) = min (unat a + unat b) (2 ^ LENGTH('a) - 1)"
proof (cases "unat a + unat b < 2 ^ LENGTH('a)")
  case True
  then have "unat (a + b) = unat a + unat b"
    by (simp add: unat_word_ariths)
  with True show ?thesis
    by (simp add: saturating_add_def)
next
  case False
  then show ?thesis
    by (simp add: saturating_add_def unat_minus_one_word_eq)
qed

lemma unat_saturating_sub: "unat (saturating_sub a (b :: 'a::len word)) = unat a - unat b"
  by (simp add: saturating_sub_def unat_sub word_le_nat_alt)

lemma unat_foldl_saturating_add:
  "unat (foldl saturating_add a (xs :: 'a::len word list)) =
     min (unat a + sum_list (map unat xs)) (2 ^ LENGTH('a) - 1)"
proof (induction xs arbitrary: a)
  case Nil
  have "unat a \<le> 2 ^ LENGTH('a) - 1" using unat_less_pow [of a] by linarith
  then show ?case by simp
next
  case (Cons x xs)
  then show ?case by (simp add: unat_saturating_add)
qed

lemma rust_add_fits:
  "unat a + unat (b :: 'a::len word) < 2 ^ LENGTH('a) \<Longrightarrow>
     rust_add chk a b = Some (a + b) \<and> unat (a + b) = unat a + unat b"
  by (simp add: rust_add_def unat_word_ariths)

lemma rust_add_wrapping [simp]: "rust_add False a b = Some (a + b)"
  by (simp add: rust_add_def)

lemma rust_add_SomeD: "rust_add chk a b = Some c \<Longrightarrow> c = a + b"
  by (simp add: rust_add_def split: if_splits)

lemma rust_sub_le [simp]: "b \<le> a \<Longrightarrow> rust_sub chk a b = Some (a - b)"
  by (simp add: rust_sub_def)

lemma rust_mul_fits:
  "unat a * unat (b :: 'a::len word) < 2 ^ LENGTH('a) \<Longrightarrow>
     rust_mul chk a b = Some (a * b) \<and> unat (a * b) = unat a * unat b"
  by (simp add: rust_mul_def unat_word_ariths)

lemma unat_power_fits:
  "unat (a :: 'a::len word) ^ n < 2 ^ LENGTH('a) \<Longrightarrow> unat (a ^ n) = unat a ^ n"
proof -
  assume fits: "unat a ^ n < 2 ^ LENGTH('a)"
  have "a ^ n = word_of_nat (unat a ^ n)" by simp
  then show ?thesis
    by (rule of_nat_inverse [OF sym]) (rule fits)
qed

lemma rust_pow_fits:
  "unat a ^ n < 2 ^ LENGTH('a) \<Longrightarrow>
     rust_pow chk (a :: 'a::len word) n = Some (a ^ n) \<and> unat (a ^ n) = unat a ^ n"
  by (simp add: rust_pow_def unat_power_fits)

lemma rust_div_nonzero [simp]: "b \<noteq> 0 \<Longrightarrow> rust_div a b = Some (a div b)"
  by (simp add: rust_div_def)

section \<open>Results and the question-mark operator\<close>

abbreviation Ok :: "'a \<Rightarrow> 'e + 'a" where "Ok \<equiv> Inr"
abbreviation Err :: "'e \<Rightarrow> 'e + 'a" where "Err \<equiv> Inl"

definition map_err :: "('e \<Rightarrow> 'f) \<Rightarrow> 'e + 'a \<Rightarrow> 'f + 'a" where
  "map_err f r = (case r of Err e \<Rightarrow> Err (f e) | Ok a \<Rightarrow> Ok a)"

text \<open>\<open>r?\<close> followed by \<open>k\<close>, for a result that is already a value.\<close>

definition and_then :: "'e + 'a \<Rightarrow> ('a \<Rightarrow> 'e + 'b) \<Rightarrow> 'e + 'b" where
  "and_then r k = (case r of Err e \<Rightarrow> Err e | Ok a \<Rightarrow> k a)"

definition is_err :: "'e + 'a \<Rightarrow> bool" where
  "is_err r = (case r of Err _ \<Rightarrow> True | Ok _ \<Rightarrow> False)"

definition ok_or :: "'e \<Rightarrow> 'a option \<Rightarrow> 'e + 'a" where
  "ok_or e x = (case x of None \<Rightarrow> Err e | Some a \<Rightarrow> Ok a)"

lemma map_err_simps [simp]:
  "map_err f (Err e) = Err (f e)"
  "map_err f (Ok a) = Ok a"
  by (simp_all add: map_err_def)

lemma and_then_simps [simp]:
  "and_then (Err e) k = Err e"
  "and_then (Ok a) k = k a"
  by (simp_all add: and_then_def)

lemma and_then_eq_Ok: "and_then r k = Ok b \<longleftrightarrow> (\<exists>a. r = Ok a \<and> k a = Ok b)"
  by (cases r) simp_all

lemma map_err_eq_Ok [simp]: "map_err f r = Ok a \<longleftrightarrow> r = Ok a"
  by (cases r) simp_all

lemma map_err_eq_Err [simp]: "map_err f r = Err e \<longleftrightarrow> (\<exists>e'. r = Err e' \<and> e = f e')"
  by (cases r) auto

lemma map_sum_eq_Ok [simp]: "map_sum f g r = Ok b \<longleftrightarrow> (\<exists>a. r = Ok a \<and> b = g a)"
  by (cases r) auto

lemma is_err_simps [simp]: "is_err (Err e)" "\<not> is_err (Ok a)"
  by (simp_all add: is_err_def)

lemma ok_or_simps [simp]: "ok_or e None = Err e" "ok_or e (Some a) = Ok a"
  by (simp_all add: ok_or_def)

text \<open>
  \<open>m?\<close> followed by \<open>k\<close>, for a computation over the host state \<open>'h\<close> that cannot panic
  (\<open>bind_result\<close>) and for one that can (\<open>bind_panic\<close>).
\<close>

definition bind_result ::
  "('h, 'e + 'a) state \<Rightarrow> ('a \<Rightarrow> ('h, 'e + 'b) state) \<Rightarrow> ('h, 'e + 'b) state" where
  "bind_result m k = do {
     r \<leftarrow> m;
     case r of Err e \<Rightarrow> State_Monad.return (Err e) | Ok a \<Rightarrow> k a
   }"

definition bind_panic ::
  "('h, ('e + 'a) option) state \<Rightarrow> ('a \<Rightarrow> ('h, ('e + 'b) option) state)
     \<Rightarrow> ('h, ('e + 'b) option) state" where
  "bind_panic m k = do {
     r \<leftarrow> m;
     case r of
       None \<Rightarrow> State_Monad.return None
     | Some (Err e) \<Rightarrow> State_Monad.return (Some (Err e))
     | Some (Ok a) \<Rightarrow> k a
   }"

text \<open>Applying a pure function to the result of a host computation.\<close>

definition map_run :: "('a \<Rightarrow> 'b) \<Rightarrow> ('h, 'a) state \<Rightarrow> ('h, 'b) state" where
  "map_run f m = do { r \<leftarrow> m; State_Monad.return (f r) }"

lemma run_bind_result [run_simps]:
  "run_state (bind_result m k) h =
     (case run_state m h of
        (Err e, h') \<Rightarrow> (Err e, h')
      | (Ok a, h') \<Rightarrow> run_state (k a) h')"
  by (simp add: bind_result_def split: prod.splits sum.splits)

lemma run_bind_panic [run_simps]:
  "run_state (bind_panic m k) h =
     (case run_state m h of
        (None, h') \<Rightarrow> (None, h')
      | (Some (Err e), h') \<Rightarrow> (Some (Err e), h')
      | (Some (Ok a), h') \<Rightarrow> run_state (k a) h')"
  by (simp add: bind_panic_def split: prod.splits sum.splits option.splits)

lemma run_map_run [run_simps]:
  "run_state (map_run f m) h = (case run_state m h of (r, h') \<Rightarrow> (f r, h'))"
  by (simp add: map_run_def split: prod.splits)

section \<open>Lists\<close>

text \<open>The last \<open>n\<close> elements of a list.\<close>

definition last_n :: "nat \<Rightarrow> 'a list \<Rightarrow> 'a list" where
  "last_n n xs = drop (length xs - n) xs"

lemma length_last_n [simp]: "length (last_n n xs) = min n (length xs)"
  by (simp add: last_n_def)

lemma last_n_short: "length xs \<le> n \<Longrightarrow> last_n n xs = xs"
  by (simp add: last_n_def)

lemma last_n_snoc:
  "0 < n \<Longrightarrow>
     last_n n (xs @ [x]) = (if length xs < n then xs else tl (last_n n xs)) @ [x]"
  by (auto simp: last_n_def tl_drop drop_Suc Suc_diff_le not_less)

lemma sum_list_le_const:
  "(\<And>x. x \<in> set xs \<Longrightarrow> f x \<le> (b :: nat)) \<Longrightarrow> sum_list (map f xs) \<le> length xs * b"
  by (induction xs) (auto simp: add_mono)

lemma sum_list_ge_const:
  "(\<And>x. x \<in> set xs \<Longrightarrow> (b :: nat) \<le> f x) \<Longrightarrow> length xs * b \<le> sum_list (map f xs)"
  by (induction xs) (auto simp: add_mono)

end
