(* ===== verification/Scale.thy ===== *)
theory Scale
  imports Prelude
begin

text \<open>
  The interface of a SCALE codec. The code of \<open>parity-scale-codec\<close> is not part of the repository;
  what the payloads and the local storage rely on is that decoding an encoded value that is followed by
  other bytes gives back the value and those bytes. The locale states this law once and derives
  that encodings are injective and prefix free; a codec of two fields is again a codec.

  The fixed-width integers are the one instance spelled out: SCALE documents their encoding as
  little-endian. The payload definitions take the codecs of their fields as arguments, and
  these integers instantiate them in the interpretations and witnesses.
\<close>

type_synonym 'a encoder = "'a \<Rightarrow> u8 list"
type_synonym 'a decoder = "u8 list \<Rightarrow> ('a \<times> u8 list) option"

section \<open>The contract\<close>

locale scale_codec =
  fixes enc :: "'a encoder" and dec :: "'a decoder"
  assumes dec_enc: "dec (enc a @ bs) = Some (a, bs)"
begin

lemma dec_exact: "dec (enc a) = Some (a, [])"
  using dec_enc [of a "[]"] by simp

lemma enc_prefix_free: "enc a @ bs = enc b @ cs \<Longrightarrow> a = b \<and> bs = cs"
  using dec_enc [of a bs] dec_enc [of b cs] by (metis option.inject prod.inject)

lemma enc_inject: "enc a = enc b \<longleftrightarrow> a = b"
  using enc_prefix_free [of a "[]" b "[]"] by auto

end

text \<open>Two fields, one after the other.\<close>

definition enc_fields :: "'a encoder \<Rightarrow> 'b encoder \<Rightarrow> ('a \<times> 'b) encoder" where
  "enc_fields ea eb ab = ea (fst ab) @ eb (snd ab)"

definition dec_fields :: "'a decoder \<Rightarrow> 'b decoder \<Rightarrow> ('a \<times> 'b) decoder" where
  "dec_fields da db bs = do {
     (a, bs) \<leftarrow> da bs;
     (b, bs) \<leftarrow> db bs;
     Some ((a, b), bs)
   }"

locale scale_fields = first: scale_codec ea da + second: scale_codec eb db
  for ea :: "'a encoder" and da :: "'a decoder" and eb :: "'b encoder" and db :: "'b decoder"

sublocale scale_fields \<subseteq> fields: scale_codec "enc_fields ea eb" "dec_fields da db"
  by unfold_locales (simp add: enc_fields_def dec_fields_def first.dec_enc second.dec_enc)

section \<open>Little-endian integers\<close>

fun le_bytes :: "nat \<Rightarrow> nat \<Rightarrow> u8 list" where
  "le_bytes 0 n = []"
| "le_bytes (Suc k) n = of_nat (n mod 256) # le_bytes k (n div 256)"

fun le_value :: "u8 list \<Rightarrow> nat" where
  "le_value [] = 0"
| "le_value (b # bs) = unat b + 256 * le_value bs"

lemma length_le_bytes [simp]: "length (le_bytes k n) = k"
  by (induction k arbitrary: n) simp_all

lemma le_value_bytes: "le_value (le_bytes k n) = n mod 256 ^ k"
proof (induction k arbitrary: n)
  case 0
  then show ?case by simp
next
  case (Suc k)
  have "unat (of_nat (n mod 256) :: u8) = n mod 256"
    by (rule of_nat_inverse [OF refl]) simp
  then show ?case
    by (simp add: Suc.IH mod_mult2_eq)
qed

lemma le_bytes_append: "le_bytes (j + k) n = le_bytes j n @ le_bytes k (n div 256 ^ j)"
  by (induction j arbitrary: n) (simp_all add: div_mult2_eq)

lemma le_bytes_mod: "k \<le> j \<Longrightarrow> le_bytes k (n mod 256 ^ j) = le_bytes k n"
proof (induction k arbitrary: n j)
  case 0
  then show ?case by simp
next
  case (Suc k)
  then obtain i where j: "j = Suc i" by (cases j) simp_all
  have "n mod 256 ^ j mod 256 = n mod 256"
    using j by (simp add: mod_mod_cancel)
  moreover have "n mod 256 ^ j div 256 = n div 256 mod 256 ^ i"
    using j by (simp add: mod_mult2_eq)
  ultimately show ?case
    using Suc.IH [of i "n div 256"] Suc.prems j by simp
qed

definition le_enc :: "'a::len word encoder" where
  "le_enc a = le_bytes (LENGTH('a) div 8) (unat a)"

definition le_dec :: "'a::len word decoder" where
  "le_dec bs = (let k = LENGTH('a) div 8
     in if length bs < k then None else Some (of_nat (le_value (take k bs)), drop k bs))"

lemma le_dec_enc:
  assumes "256 ^ (LENGTH('a) div 8) = (2 :: nat) ^ LENGTH('a)"
  shows "le_dec (le_enc a @ bs) = Some (a :: 'a::len word, bs)"
  using assms by (simp add: le_dec_def le_enc_def Let_def le_value_bytes)

interpretation le_u32: scale_codec "le_enc :: u32 encoder" le_dec
  by unfold_locales (simp add: le_dec_enc)

interpretation le_u64: scale_codec "le_enc :: u64 encoder" le_dec
  by unfold_locales (simp add: le_dec_enc)

interpretation le_block_and_price: scale_fields "le_enc :: u32 encoder" le_dec "le_enc :: u32 encoder" le_dec ..

text \<open>A 64-bit integer is encoded as its low half followed by its high half.\<close>

definition low32 :: "u64 \<Rightarrow> u32" where "low32 n = ucast n"
definition high32 :: "u64 \<Rightarrow> u32" where "high32 n = ucast (drop_bit 32 n)"

lemma unat_low32: "unat (low32 n) = unat n mod 2 ^ 32"
  by (simp add: low32_def unsigned_ucast_eq take_bit_eq_mod)

lemma unat_high32: "unat (high32 n) = unat n div 2 ^ 32"
proof -
  have "unat (drop_bit 32 n) = unat n div 2 ^ 32"
    by (simp add: drop_bit_eq_div unat_div)
  moreover have "unat n div 2 ^ 32 < 2 ^ 32"
    using unat_less_pow [of n] by (simp add: less_mult_imp_div_less)
  ultimately show ?thesis
    by (simp add: high32_def unsigned_ucast_eq take_bit_nat_eq_self)
qed

lemma halves_value: "unat n = unat (high32 n) * 2 ^ 32 + unat (low32 n)"
  by (simp add: unat_low32 unat_high32)

lemma le_enc_u64_halves: "le_enc n = le_enc (low32 n) @ le_enc (high32 n)"
proof -
  have "le_bytes (4 + 4) (unat n) = le_bytes 4 (unat n) @ le_bytes 4 (unat n div 256 ^ 4)"
    by (rule le_bytes_append)
  then show ?thesis
    using le_bytes_mod [of 4 4 "unat n"] by (simp add: le_enc_def unat_low32 unat_high32)
qed

end
