(* ===== verification/Frame.thy ===== *)
theory Frame
  imports Prelude
begin

text \<open>
  What the pallets use of FRAME, and the contracts a pallet offers to the runtime.

  FRAME itself is not part of the repository. Its functions are fields of the record
  \<open>frame_api\<close>, an argument of every definition that calls them; nothing is assumed about them
  unless a theorem says so. A storage item declared with \<^verbatim>\<open>#[pallet::storage]\<close> is a field of
  the pallet's state record, and \<open>deposit_event\<close> appends to a field that records the
  calls made to it, in order.

  The locales state the interfaces between a pallet and its clients: a bounded store of
  recent values, a pallet whose calls can be dispatched, and a pallet that also validates
  unsigned calls. Each is interpreted on the definitions of the pallets that provide it.
\<close>

section \<open>FRAME types\<close>

datatype bad_origin = BadOrigin

text \<open>\<open>DispatchError\<close>: the origin check failed, or the pallet's own error was raised.\<close>

datatype 'e dispatch_error = OriginError bad_origin | Module 'e

record ('o, 'a) frame_api =
  ensure_signed :: "'o \<Rightarrow> bad_origin + 'a"
  ensure_none :: "'o \<Rightarrow> bad_origin + unit"
  default_account :: 'a

text \<open>
  A dispatchable called from the state \<open>'s\<close>: \<open>None\<close> for a panic, otherwise the
  \<open>DispatchResult\<close> and the storage as the call left it.
\<close>

type_synonym ('e, 's) dispatched = "(('e dispatch_error + unit) \<times> 's) option"

text \<open>
  FRAME's \<open>RawOrigin\<close> with the origin checks as FRAME documents them: \<open>ensure_signed\<close>
  returns the account of a signed origin, \<open>ensure_none\<close> accepts the unsigned one, and each rejects
  the rest. No definition of a pallet refers to it; it instantiates \<open>frame_api\<close> in witnesses.
\<close>

datatype 'a raw_origin = RootOrigin | SignedOrigin 'a | NoneOrigin

definition raw_api :: "'a \<Rightarrow> ('a raw_origin, 'a) frame_api" where
  "raw_api dflt = \<lparr>
     ensure_signed = (\<lambda>org. case org of SignedOrigin a \<Rightarrow> Ok a | _ \<Rightarrow> Err BadOrigin),
     ensure_none = (\<lambda>org. case org of NoneOrigin \<Rightarrow> Ok () | _ \<Rightarrow> Err BadOrigin),
     default_account = dflt\<rparr>"

lemma raw_api_simps [simp]:
  "ensure_signed (raw_api d) (SignedOrigin a) = Ok a"
  "ensure_signed (raw_api d) NoneOrigin = Err BadOrigin"
  "ensure_none (raw_api d) NoneOrigin = Ok ()"
  "ensure_none (raw_api d) (SignedOrigin a) = Err BadOrigin"
  "default_account (raw_api d) = d"
  by (simp_all add: raw_api_def)

section \<open>Transaction validity\<close>

text \<open>The variants of \<open>InvalidTransaction\<close> that the pallets return.\<close>

datatype invalid_transaction = InvalidCall | InvalidStale | InvalidFuture | InvalidBadProof

text \<open>
  A \<open>ValidTransactionBuilder\<close> as the pallet configures it: the arguments of
  \<open>with_tag_prefix\<close>, \<open>priority\<close>, \<open>and_provides\<close>, \<open>longevity\<close> and \<open>propagate\<close>.
\<close>

record 'tag valid_transaction =
  vt_tag_prefix :: string
  vt_priority :: u64
  vt_provides :: "'tag list"
  vt_longevity :: u64
  vt_propagate :: bool

section \<open>Running a list of calls\<close>

text \<open>
  Calls applied one after the other, as the extrinsics of a block are: a call that returns an
  error keeps whatever it had written and the next one runs; a panic ends the run.
\<close>

fun apply_calls :: "('c \<Rightarrow> 'o \<Rightarrow> 's \<Rightarrow> ('e, 's) dispatched) \<Rightarrow> ('c \<times> 'o) list \<Rightarrow> 's \<Rightarrow> 's option" where
  "apply_calls d [] s = Some s"
| "apply_calls d ((c, org) # cs) s =
     (case d c org s of None \<Rightarrow> None | Some (_, s') \<Rightarrow> apply_calls d cs s')"

section \<open>Contracts\<close>

text \<open>
  A pallet: every call keeps the storage invariant, and a call that returns an error has
  written nothing. The second law matters because dispatchables of this FRAME version are not
  transactional, so FRAME does not roll back what a failing call wrote.
\<close>

locale pallet =
  fixes dispatch :: "'c \<Rightarrow> 'o \<Rightarrow> 's \<Rightarrow> ('e, 's) dispatched"
    and inv :: "'s \<Rightarrow> bool"
  assumes dispatch_inv: "inv s \<Longrightarrow> dispatch c org s = Some (r, s') \<Longrightarrow> inv s'"
    and dispatch_err: "dispatch c org s = Some (Err e, s') \<Longrightarrow> s' = s"
begin

lemma apply_calls_inv:
  "inv s \<Longrightarrow> apply_calls dispatch cs s = Some s' \<Longrightarrow> inv s'"
proof (induction cs arbitrary: s)
  case Nil
  then show ?case by simp
next
  case (Cons co cs)
  obtain c org where co: "co = (c, org)" by (cases co)
  with Cons.prems obtain r s1 where
    "dispatch c org s = Some (r, s1)" and rest: "apply_calls dispatch cs s1 = Some s'"
    by (auto split: option.splits)
  with Cons.prems have "inv s1" by (blast dest: dispatch_inv)
  then show ?case using rest by (rule Cons.IH)
qed

text \<open>The failing calls of a run can be dropped without changing what it computes.\<close>

lemma apply_calls_drop_failing:
  assumes "dispatch c org s = Some (Err e, s')"
  shows "apply_calls dispatch ((c, org) # cs) s = apply_calls dispatch cs s"
  using assms dispatch_err [OF assms] by simp

end

text \<open>A pallet whose calls never panic in a state that satisfies the invariant.\<close>

locale total_pallet = pallet +
  assumes dispatch_total: "inv s \<Longrightarrow> \<exists>r s'. dispatch c org s = Some (r, s')"
begin

lemma apply_calls_total: "inv s \<Longrightarrow> \<exists>s'. apply_calls dispatch cs s = Some s' \<and> inv s'"
proof (induction cs arbitrary: s)
  case Nil
  then show ?case by simp
next
  case (Cons co cs)
  obtain c org where co: "co = (c, org)" by (cases co)
  from Cons.prems obtain r s1 where s1: "dispatch c org s = Some (r, s1)"
    using dispatch_total by blast
  with Cons.prems have "inv s1" by (rule dispatch_inv)
  then show ?case using Cons.IH s1 co by auto
qed

end

text \<open>
  A pallet with a \<open>ValidateUnsigned\<close> implementation. \<open>unsigned\<close> is the property of an origin
  that \<open>ensure_none\<close> accepts. What the validator lets through executes without an error.
\<close>

locale unsigned_pallet = total_pallet +
  fixes validate :: "'c \<Rightarrow> 's \<Rightarrow> ('iv + 'vt) option"
    and unsigned :: "'o \<Rightarrow> bool"
  assumes validated_ok:
    "inv s \<Longrightarrow> unsigned org \<Longrightarrow> validate c s = Some (Ok vt) \<Longrightarrow>
       \<exists>s'. dispatch c org s = Some (Ok (), s')"
    and validate_total: "inv s \<Longrightarrow> \<exists>r. validate c s = Some r"
begin

lemma validated_or_rejected:
  assumes "inv s" "unsigned org"
  shows "(\<exists>e. validate c s = Some (Err e)) \<or>
         (\<exists>s'. dispatch c org s = Some (Ok (), s') \<and> inv s')"
proof -
  from validate_total [OF assms(1)] obtain r where r: "validate c s = Some r" by blast
  show ?thesis
  proof (cases r)
    case (Inl e)
    with r show ?thesis by simp
  next
    case (Inr vt)
    with r validated_ok [OF assms] obtain s' where "dispatch c org s = Some (Ok (), s')"
      by blast
    with assms(1) show ?thesis by (blast dest: dispatch_inv)
  qed
qed

end

text \<open>
  A store of recent values with a capacity. Both \<open>Prices\<close> and \<open>Numbers\<close> are such stores; they
  differ in which value makes room for a new one, which the contract leaves open.
\<close>

locale bounded_store =
  fixes push :: "'v \<Rightarrow> 's \<Rightarrow> 's"
    and vals :: "'s \<Rightarrow> 'v list"
    and cap :: nat
  assumes push_length: "length (vals s) \<le> cap \<Longrightarrow>
      length (vals (push v s)) = min cap (Suc (length (vals s)))"
    and push_stores: "length (vals s) \<le> cap \<Longrightarrow> v \<in> set (vals (push v s))"
    and push_sources: "set (vals (push v s)) \<subseteq> insert v (set (vals s))"
    and push_appends: "length (vals s) < cap \<Longrightarrow> vals (push v s) = vals s @ [v]"
begin

lemma fold_push_length:
  "length (vals s) \<le> cap \<Longrightarrow>
     length (vals (fold push vs s)) = min cap (length (vals s) + length vs)"
  by (induction vs arbitrary: s) (auto simp: push_length)

lemma fold_push_sources: "set (vals (fold push vs s)) \<subseteq> set vs \<union> set (vals s)"
proof (induction vs arbitrary: s)
  case Nil
  then show ?case by simp
next
  case (Cons v vs)
  from Cons.IH [of "push v s"] push_sources [of v s] show ?case by auto
qed

lemma fold_push_appends:
  "length (vals s) + length vs \<le> cap \<Longrightarrow> vals (fold push vs s) = vals s @ vs"
  by (induction vs arbitrary: s) (auto simp: push_appends)

end

end
