(* ===== verification/Pallet_Template.thy ===== *)
theory Pallet_Template
  imports Frame
begin

text \<open>
  \<open>pallets/template\<close>: one optional \<open>u32\<close> in storage, a call that sets it and a call that
  increments it or fails. The theory shows that the two calls meet the pallet contract, and what
  a run of increments does up to and past the width of the stored integer.
\<close>

section \<open>State and calls\<close>

datatype 'a template_event = SomethingStored u32 'a

datatype template_error = NoneValue | StorageOverflow

record 'a template_state =
  something :: "u32 option"
  template_events :: "'a template_event list"

datatype template_call = Call_do_something u32 | Call_cause_error

definition do_something ::
  "('o, 'a) frame_api \<Rightarrow> 'o \<Rightarrow> u32 \<Rightarrow> 'a template_state
     \<Rightarrow> (template_error, 'a template_state) dispatched" where
  "do_something api origin v s =
     (case ensure_signed api origin of
        Err e \<Rightarrow> Some (Err (OriginError e), s)
      | Ok who \<Rightarrow>
          (let s = s\<lparr>something := Some v\<rparr>;
               s = s\<lparr>template_events := template_events s @ [SomethingStored v who]\<rparr>
           in Some (Ok (), s)))"

definition cause_error ::
  "('o, 'a) frame_api \<Rightarrow> 'o \<Rightarrow> 'a template_state
     \<Rightarrow> (template_error, 'a template_state) dispatched" where
  "cause_error api origin s =
     (case ensure_signed api origin of
        Err e \<Rightarrow> Some (Err (OriginError e), s)
      | Ok _ \<Rightarrow>
          (case something s of
             None \<Rightarrow> Some (Err (Module NoneValue), s)
           | Some old \<Rightarrow>
               (case ok_or StorageOverflow (checked_add old 1) of
                  Err e \<Rightarrow> Some (Err (Module e), s)
                | Ok new \<Rightarrow> Some (Ok (), s\<lparr>something := Some new\<rparr>))))"

fun template_dispatch ::
  "('o, 'a) frame_api \<Rightarrow> template_call \<Rightarrow> 'o \<Rightarrow> 'a template_state
     \<Rightarrow> (template_error, 'a template_state) dispatched" where
  "template_dispatch api (Call_do_something v) origin s = do_something api origin v s"
| "template_dispatch api Call_cause_error origin s = cause_error api origin s"

lemmas [dispatch_defs] = do_something_def cause_error_def

section \<open>The pallet contract\<close>

interpretation template: total_pallet "template_dispatch api" "\<lambda>_. True" for api
proof unfold_locales
  fix c org s e s'
  show "template_dispatch api c org s = Some (Err e, s') \<Longrightarrow> s' = s"
    by (cases c) (auto simp: dispatch_defs Let_def split: sum.splits option.splits)
next
  fix c org s
  show "\<exists>r s'. template_dispatch api c org s = Some (r, s')"
    by (cases c) (auto simp: dispatch_defs Let_def split: sum.splits option.splits)
qed simp

section \<open>Behaviour\<close>

lemma cause_error_signed:
  assumes "ensure_signed api origin = Ok who" and "something s = Some old"
  shows "cause_error api origin s =
    (if unat old < 2 ^ 32 - 1
     then Some (Ok (), s\<lparr>something := Some (old + 1)\<rparr>)
     else Some (Err (Module StorageOverflow), s))"
  using assms unat_less_pow [of old]
  by (auto simp: cause_error_def checked_add_def)

text \<open>
  A run of increments from a stored \<open>v\<close>: the value climbs to the largest \<open>u32\<close> and stays
  there, whatever the signers; no event is deposited.
\<close>

lemma cause_error_run:
  assumes "\<forall>org \<in> set orgs. \<exists>who. ensure_signed api org = Ok who"
    and "something s = Some v"
  shows "apply_calls (template_dispatch api) (map (Pair Call_cause_error) orgs) s =
    Some (s\<lparr>something := Some (of_nat (min (unat v + length orgs) (2 ^ 32 - 1)))\<rparr>)"
  using assms
proof (induction orgs arbitrary: s v)
  case Nil
  have "min (unat v) (2 ^ 32 - 1) = unat v"
    using unat_less_pow [of v] by simp
  with Nil show ?case by simp
next
  case (Cons org orgs)
  then obtain who where who: "ensure_signed api org = Ok who" by auto
  show ?case
  proof (cases "unat v < 2 ^ 32 - 1")
    case True
    then have "unat (v + 1) = unat v + 1"
      by (simp add: unat_word_ariths)
    with True Cons.IH [of "s\<lparr>something := Some (v + 1)\<rparr>" "v + 1"] Cons.prems show ?thesis
      by (simp add: cause_error_signed [OF who])
  next
    case False
    then have v: "unat v = 2 ^ 32 - 1"
      using unat_less_pow [of v] by simp
    with False Cons.IH [of s v] Cons.prems show ?thesis
      by (simp add: cause_error_signed [OF who])
  qed
qed

section \<open>Properties\<close>

text \<open>
  C31. A signed \<open>do_something v\<close> followed by any number of signed \<open>cause_error\<close> calls always runs to
  the end and leaves \<open>min (v + number of calls) (2^32 - 1)\<close> in storage: the counter never wraps.
  Exactly one event is deposited, naming the value and the signer of the first call.
\<close>

theorem template_counter_saturates:
  assumes "ensure_signed api org = Ok who"
    and "\<forall>o' \<in> set orgs. \<exists>w. ensure_signed api o' = Ok w"
  shows "apply_calls (template_dispatch api)
      ((Call_do_something v, org) # map (Pair Call_cause_error) orgs) s =
    Some \<lparr>something = Some (of_nat (min (unat v + length orgs) (2 ^ 32 - 1))),
          template_events = template_events s @ [SomethingStored v who]\<rparr>"
  using assms by (simp add: do_something_def Let_def cause_error_run)

theorem template_counter_saturates_witness:
  "apply_calls (template_dispatch (raw_api 0))
      ((Call_do_something (- 2), SignedOrigin (7 :: nat)) #
        map (Pair Call_cause_error) [SignedOrigin 1, SignedOrigin 2, SignedOrigin 3])
      \<lparr>something = None, template_events = []\<rparr> =
    Some \<lparr>something = Some (- 1), template_events = [SomethingStored (- 2) 7]\<rparr>"
proof -
  have "unat (- 2 :: u32) = 4294967294" by simp
  then show ?thesis
    using template_counter_saturates [of "raw_api 0" "SignedOrigin (7 :: nat)" 7
        "[SignedOrigin 1, SignedOrigin 2, SignedOrigin 3]" "- 2"
        "\<lparr>something = None, template_events = []\<rparr>"]
    by simp
qed

text \<open>
  \<open>cause_error\<close> distinguishes its failures: \<open>BadOrigin\<close> for an origin that is not signed,
  \<open>NoneValue\<close> when nothing was stored, \<open>StorageOverflow\<close> at the largest \<open>u32\<close>, and on success it
  stores the successor. In the failing cases storage is as before.
\<close>

lemma cause_error_outcomes:
  "cause_error api org s =
     (if \<not> (\<exists>who. ensure_signed api org = Ok who) then Some (Err (OriginError BadOrigin), s)
      else if something s = None then Some (Err (Module NoneValue), s)
      else if something s = Some (- 1) then Some (Err (Module StorageOverflow), s)
      else Some (Ok (), s\<lparr>something := map_option (\<lambda>v. v + 1) (something s)\<rparr>))"
proof (cases "ensure_signed api org")
  case (Inl e)
  then show ?thesis by (cases e) (simp add: cause_error_def)
next
  case (Inr who)
  show ?thesis
  proof (cases "something s")
    case None
    with Inr show ?thesis by (simp add: cause_error_def)
  next
    case (Some v)
    have "unat v < 2 ^ 32 - 1 \<longleftrightarrow> v \<noteq> - 1"
      using unat_less_pow [of v] by (simp add: word_unat_eq_iff unat_minus_one_word_eq) arith
    with Inr Some show ?thesis by (simp add: cause_error_signed)
  qed
qed

end
