(* ===== verification/Pallet_Ocw.thy ===== *)
theory Pallet_Ocw
  imports Frame
begin

text \<open>
  \<open>pallets/ocw\<close>, the on-chain half: the double-ended queue \<open>Numbers\<close> of the ten most recent
  numbers, the three calls that submit one, and the validator of unsigned calls. The theory
  shows that the queue is a sliding window over the submissions, that the calls meet the pallet
  contract, and exactly which unsigned calls the validator lets through.
\<close>

section \<open>State and data\<close>

definition NUM_VEC_LEN :: nat where "NUM_VEC_LEN = 10"
definition UNSIGNED_TXS_PRIORITY :: u64 where "UNSIGNED_TXS_PRIORITY = 100"

record 'pub payload =
  pl_number :: u64
  pl_public :: 'pub

datatype 'a ocw_event = NewNumber "'a option" u64

datatype ocw_error =
    UnknownOffchainMux
  | NoLocalAcctForSigning
  | OffchainSignedTxError
  | OffchainUnsignedTxError
  | OffchainUnsignedTxSignedPayloadError
  | HttpFetchingError
  | DeserializeToObjError
  | DeserializeToStrError

record 'a ocw_state =
  numbers :: "u64 list"
  ocw_events :: "'a ocw_event list"

datatype ('pub, 'sig) ocw_call =
    Call_submit_number_signed u64
  | Call_submit_number_unsigned u64
  | Call_submit_number_unsigned_with_signed_payload "'pub payload" 'sig

section \<open>Operations\<close>

text \<open>
  \<open>VecDeque::pop_front\<close> on an empty queue removes nothing, as \<open>tl\<close> does.
\<close>

definition append_or_replace_number :: "u64 \<Rightarrow> 'a ocw_state \<Rightarrow> 'a ocw_state" where
  "append_or_replace_number number s =
     (let ns = numbers s;
          ns = (if length ns = NUM_VEC_LEN then tl ns else ns);
          ns = ns @ [number]
      in s\<lparr>numbers := ns\<rparr>)"

definition ocw_deposit_event :: "'a ocw_event \<Rightarrow> 'a ocw_state \<Rightarrow> 'a ocw_state" where
  "ocw_deposit_event e s = s\<lparr>ocw_events := ocw_events s @ [e]\<rparr>"

definition submit_number_signed ::
  "('o, 'a) frame_api \<Rightarrow> 'o \<Rightarrow> u64 \<Rightarrow> 'a ocw_state \<Rightarrow> (ocw_error, 'a ocw_state) dispatched" where
  "submit_number_signed api origin number s =
     (case ensure_signed api origin of
        Err e \<Rightarrow> Some (Err (OriginError e), s)
      | Ok who \<Rightarrow>
          (let s = append_or_replace_number number s;
               s = ocw_deposit_event (NewNumber (Some who) number) s
           in Some (Ok (), s)))"

definition submit_number_unsigned ::
  "('o, 'a) frame_api \<Rightarrow> 'o \<Rightarrow> u64 \<Rightarrow> 'a ocw_state \<Rightarrow> (ocw_error, 'a ocw_state) dispatched" where
  "submit_number_unsigned api origin number s =
     (case ensure_none api origin of
        Err e \<Rightarrow> Some (Err (OriginError e), s)
      | Ok _ \<Rightarrow>
          (let s = append_or_replace_number number s;
               s = ocw_deposit_event (NewNumber None number) s
           in Some (Ok (), s)))"

definition submit_number_unsigned_with_signed_payload ::
  "('o, 'a) frame_api \<Rightarrow> 'o \<Rightarrow> 'pub payload \<Rightarrow> 'sig \<Rightarrow> 'a ocw_state
     \<Rightarrow> (ocw_error, 'a ocw_state) dispatched" where
  "submit_number_unsigned_with_signed_payload api origin payload signature s =
     (case ensure_none api origin of
        Err e \<Rightarrow> Some (Err (OriginError e), s)
      | Ok _ \<Rightarrow>
          (let number = pl_number payload;
               s = append_or_replace_number number s;
               s = ocw_deposit_event (NewNumber None number) s
           in Some (Ok (), s)))"

fun ocw_dispatch ::
  "('o, 'a) frame_api \<Rightarrow> ('pub, 'sig) ocw_call \<Rightarrow> 'o \<Rightarrow> 'a ocw_state
     \<Rightarrow> (ocw_error, 'a ocw_state) dispatched" where
  "ocw_dispatch api (Call_submit_number_signed number) origin s =
     submit_number_signed api origin number s"
| "ocw_dispatch api (Call_submit_number_unsigned number) origin s =
     submit_number_unsigned api origin number s"
| "ocw_dispatch api (Call_submit_number_unsigned_with_signed_payload payload signature) origin s =
     submit_number_unsigned_with_signed_payload api origin payload signature s"

text \<open>
  \<open>ValidateUnsigned\<close>. The tag passed to \<open>and_provides\<close> is a one-element array, so a
  tag is a list of byte strings. \<open>verify\<close> stands for
  \<open>SignedPayload::<T>::verify::<T::AuthorityId>\<close>.
\<close>

definition ocw_valid_tx :: "string \<Rightarrow> invalid_transaction + string list valid_transaction" where
  "ocw_valid_tx provide = Ok \<lparr>
     vt_tag_prefix = ''ocw-demo'',
     vt_priority = UNSIGNED_TXS_PRIORITY,
     vt_provides = [[provide]],
     vt_longevity = 3,
     vt_propagate = True\<rparr>"

fun ocw_validate_unsigned ::
  "('pub payload \<Rightarrow> 'sig \<Rightarrow> bool) \<Rightarrow> ('pub, 'sig) ocw_call
     \<Rightarrow> invalid_transaction + string list valid_transaction" where
  "ocw_validate_unsigned verify (Call_submit_number_unsigned _) =
     ocw_valid_tx ''submit_number_unsigned''"
| "ocw_validate_unsigned verify (Call_submit_number_unsigned_with_signed_payload payload signature) =
     (if \<not> verify payload signature then Err InvalidBadProof
      else ocw_valid_tx ''submit_number_unsigned_with_signed_payload'')"
| "ocw_validate_unsigned verify _ = Err InvalidCall"

lemmas [dispatch_defs] =
  submit_number_signed_def submit_number_unsigned_def
  submit_number_unsigned_with_signed_payload_def

section \<open>The queue as a bounded store and as a sliding window\<close>

lemma numbers_append_or_replace:
  "numbers (append_or_replace_number n s) =
     (if length (numbers s) = NUM_VEC_LEN then tl (numbers s) else numbers s) @ [n]"
  by (simp add: append_or_replace_number_def Let_def)

lemma ocw_events_append_or_replace [simp]:
  "ocw_events (append_or_replace_number n s) = ocw_events s"
  by (simp add: append_or_replace_number_def Let_def)

lemma deposit_event_fields [simp]:
  "numbers (ocw_deposit_event e s) = numbers s"
  "ocw_events (ocw_deposit_event e s) = ocw_events s @ [e]"
  by (simp_all add: ocw_deposit_event_def)

interpretation number_queue:
  bounded_store append_or_replace_number "numbers :: 'a ocw_state \<Rightarrow> u64 list" NUM_VEC_LEN
proof unfold_locales
  fix s :: "'a ocw_state" and v
  show "set (numbers (append_or_replace_number v s)) \<subseteq> insert v (set (numbers s))"
    by (cases "numbers s") (auto simp: numbers_append_or_replace)
qed (auto simp: numbers_append_or_replace NUM_VEC_LEN_def)

definition ocw_inv :: "'a ocw_state \<Rightarrow> bool" where
  "ocw_inv s \<longleftrightarrow> length (numbers s) \<le> NUM_VEC_LEN"

lemma append_or_replace_inv: "ocw_inv s \<Longrightarrow> ocw_inv (append_or_replace_number n s)"
  using number_queue.push_length [of s n] by (simp add: ocw_inv_def)

lemma window_step:
  "numbers s = last_n NUM_VEC_LEN hist \<Longrightarrow>
     numbers (append_or_replace_number n s) = last_n NUM_VEC_LEN (hist @ [n])"
  by (auto simp: numbers_append_or_replace last_n_snoc NUM_VEC_LEN_def last_n_short)

section \<open>The pallet contract\<close>

text \<open>
  Every call takes one of two shapes: the origin check fails and nothing is written, or the
  number is stored and one event deposited.
\<close>

fun call_number :: "('pub, 'sig) ocw_call \<Rightarrow> u64" where
  "call_number (Call_submit_number_signed n) = n"
| "call_number (Call_submit_number_unsigned n) = n"
| "call_number (Call_submit_number_unsigned_with_signed_payload p _) = pl_number p"

fun call_sender ::
  "('o, 'a) frame_api \<Rightarrow> ('pub, 'sig) ocw_call \<Rightarrow> 'o \<Rightarrow> bad_origin + 'a option" where
  "call_sender api (Call_submit_number_signed _) org = map_sum id Some (ensure_signed api org)"
| "call_sender api _ org = map_sum id (\<lambda>_. None) (ensure_none api org)"

lemma ocw_dispatch_eq:
  "ocw_dispatch api c org s =
     (case call_sender api c org of
        Err e \<Rightarrow> Some (Err (OriginError e), s)
      | Ok who \<Rightarrow> Some (Ok (), ocw_deposit_event (NewNumber who (call_number c))
                               (append_or_replace_number (call_number c) s)))"
  by (cases c) (auto simp: dispatch_defs Let_def split: sum.splits)

lemma ocw_deposit_inv [simp]: "ocw_inv (ocw_deposit_event e s) = ocw_inv s"
  by (simp add: ocw_inv_def)

interpretation ocw: total_pallet "ocw_dispatch api" ocw_inv for api
proof unfold_locales
  fix c org r s' and s :: "'b ocw_state"
  assume "ocw_inv s" and d: "ocw_dispatch api c org s = Some (r, s')"
  then show "ocw_inv s'"
    by (auto simp: ocw_dispatch_eq append_or_replace_inv split: sum.splits)
next
  fix c org e s' and s :: "'b ocw_state"
  assume "ocw_dispatch api c org s = Some (Err e, s')"
  then show "s' = s"
    by (auto simp: ocw_dispatch_eq split: sum.splits)
next
  fix c org and s :: "'b ocw_state"
  show "\<exists>r s'. ocw_dispatch api c org s = Some (r, s')"
    by (auto simp: ocw_dispatch_eq split: sum.splits)
qed

interpretation ocw_unsigned: unsigned_pallet "ocw_dispatch api" ocw_inv
    "\<lambda>c s. Some (ocw_validate_unsigned verify c)" "\<lambda>org. ensure_none api org = Ok ()"
  for api verify
proof unfold_locales
  fix c org vt and s :: "'b ocw_state"
  assume "ensure_none api org = Ok ()"
    and "Some (ocw_validate_unsigned verify c) = Some (Ok vt)"
  then show "\<exists>s'. ocw_dispatch api c org s = Some (Ok (), s')"
    by (cases c) (auto simp: dispatch_defs Let_def)
qed simp

section \<open>Properties\<close>

fun event_number :: "'a ocw_event \<Rightarrow> u64" where
  "event_number (NewNumber _ n) = n"

text \<open>The events of the calls in a run whose origin check passes, in order.\<close>

fun accepted_events ::
  "('o, 'a) frame_api \<Rightarrow> (('pub, 'sig) ocw_call \<times> 'o) list \<Rightarrow> 'a ocw_event list" where
  "accepted_events api [] = []"
| "accepted_events api ((c, org) # cs) =
     (case call_sender api c org of
        Err _ \<Rightarrow> accepted_events api cs
      | Ok who \<Rightarrow> NewNumber who (call_number c) # accepted_events api cs)"

lemma ocw_run:
  assumes "numbers s = last_n NUM_VEC_LEN hist"
  shows "\<exists>s'. apply_calls (ocw_dispatch api) cs s = Some s' \<and>
    ocw_events s' = ocw_events s @ accepted_events api cs \<and>
    numbers s' = last_n NUM_VEC_LEN (hist @ map event_number (accepted_events api cs))"
  using assms
proof (induction cs arbitrary: s hist)
  case Nil
  then show ?case by simp
next
  case (Cons co cs)
  obtain c org where co: "co = (c, org)" by (cases co)
  show ?case
  proof (cases "call_sender api c org")
    case (Inl e)
    with Cons co show ?thesis by (simp add: ocw_dispatch_eq)
  next
    case (Inr who)
    let ?n = "call_number c"
    let ?s = "ocw_deposit_event (NewNumber who ?n) (append_or_replace_number ?n s)"
    have "numbers ?s = last_n NUM_VEC_LEN (hist @ [?n])"
      using window_step [OF Cons.prems] by simp
    from Cons.IH [OF this] Inr co show ?thesis by (simp add: ocw_dispatch_eq)
  qed
qed

text \<open>
  C13. Starting from empty storage, any sequence of calls with any origins runs to the end; the
  events deposited are those of the calls whose origin check passed, in order, and \<open>Numbers\<close> holds
  exactly the ten most recent of their numbers (fewer when fewer were accepted).
\<close>

theorem numbers_are_the_last_ten:
  "\<exists>s'. apply_calls (ocw_dispatch api) cs \<lparr>numbers = [], ocw_events = []\<rparr> = Some s' \<and>
     ocw_events s' = accepted_events api cs \<and>
     numbers s' = last_n 10 (map event_number (accepted_events api cs))"
  using ocw_run [of "\<lparr>numbers = [], ocw_events = []\<rparr>" "[]" api cs]
  by (simp add: NUM_VEC_LEN_def last_n_short)

text \<open>
  The validator accepts an unsigned call if and only if it is \<open>submit_number_unsigned\<close>, or
  \<open>submit_number_unsigned_with_signed_payload\<close> with a signature that verifies. An accepted call gets
  the fixed priority 100 and longevity 3, is propagated, and provides one tag made of its
  function's name alone, so two accepted calls of the same function always carry the same tag.
\<close>

lemma ocw_validator_exact:
  "(\<exists>vt. ocw_validate_unsigned verify c = Ok vt) =
     (case c of
        Call_submit_number_signed _ \<Rightarrow> False
      | Call_submit_number_unsigned _ \<Rightarrow> True
      | Call_submit_number_unsigned_with_signed_payload p sig \<Rightarrow> verify p sig) \<and>
   (case ocw_validate_unsigned verify c of
      Err e \<Rightarrow> e = (case c of Call_submit_number_signed _ \<Rightarrow> InvalidCall | _ \<Rightarrow> InvalidBadProof)
    | Ok vt \<Rightarrow> vt_priority vt = 100 \<and> vt_longevity vt = 3 \<and> vt_propagate vt \<and>
        vt_tag_prefix vt = ''ocw-demo'' \<and>
        vt_provides vt = [[case c of Call_submit_number_unsigned _ \<Rightarrow> ''submit_number_unsigned''
           | _ \<Rightarrow> ''submit_number_unsigned_with_signed_payload'']])"
  by (cases c) (auto simp: ocw_valid_tx_def UNSIGNED_TXS_PRIORITY_def)

text \<open>
  The two halves of an unsigned submission agree: from any state within the queue bound, an
  unsigned call is either rejected by the validator or executes successfully and keeps the bound.
\<close>

lemma ocw_unsigned_validated_or_rejected:
  assumes "ocw_inv s" and "ensure_none api org = Ok ()"
  shows "(\<exists>e. ocw_validate_unsigned verify c = Err e) \<or>
    (\<exists>s'. ocw_dispatch api c org s = Some (Ok (), s') \<and> ocw_inv s')"
  using ocw_unsigned.validated_or_rejected [OF assms, of verify c] by simp

end
