(* ===== verification/Price_Oracle.thy ===== *)
theory Price_Oracle
  imports Frame
begin

text \<open>
  \<open>pallets/example-offchain-worker\<close>, the on-chain half: the price vector and its average, the
  three calls that submit a price, and the validator of unsigned calls. The pallet's generic
  types are those of the runtime, so a block number is a \<open>u32\<close>. The configured constants are
  the record \<open>oracle_config\<close>, and the current block number (\<open>system::Pallet::block_number\<close>) is
  the argument \<open>now\<close>.
\<close>

section \<open>State and data\<close>

record oracle_config =
  grace_period :: u32
  unsigned_interval :: u32
  unsigned_priority :: u64

record 'pub price_payload =
  pp_block_number :: u32
  pp_price :: u32
  pp_public :: 'pub

datatype 'a oracle_event = NewPrice u32 'a

record 'a oracle_state =
  prices :: "u32 list"
  next_unsigned_at :: u32
  oracle_events :: "'a oracle_event list"

datatype ('pub, 'sig) oracle_call =
    Call_submit_price u32
  | Call_submit_price_unsigned u32 u32
  | Call_submit_price_unsigned_with_signed_payload "'pub price_payload" 'sig

text \<open>The pallet declares no errors of its own.\<close>

datatype oracle_error = NoOracleError

definition MAX_LEN :: nat where "MAX_LEN = 64"

section \<open>Prices\<close>

text \<open>
  \<open>prices.iter().fold(0_u32, saturating_add) / prices.len() as u32\<close>: the length is cut to
  32 bits, so the division is checked.
\<close>

definition average_price :: "'a oracle_state \<Rightarrow> u32 option option" where
  "average_price s =
     (if prices s = [] then Some None
      else do {
        avg \<leftarrow> rust_div (foldl saturating_add 0 (prices s)) (of_nat (length (prices s)));
        Some (Some avg)
      })"

text \<open>The closure passed to \<open>Prices::mutate\<close>; an index out of range panics.\<close>

definition push_price :: "u32 \<Rightarrow> u32 list \<Rightarrow> u32 list option" where
  "push_price price ps =
     (if length ps < MAX_LEN then Some (ps @ [price])
      else
        let i = unat price mod MAX_LEN
        in if i < length ps then Some (ps[i := price]) else None)"

definition add_price :: "'a \<Rightarrow> u32 \<Rightarrow> 'a oracle_state \<Rightarrow> 'a oracle_state option" where
  "add_price who price s = do {
     ps \<leftarrow> push_price price (prices s);
     let s = s\<lparr>prices := ps\<rparr>;
     average \<leftarrow> average_price s;
     _ \<leftarrow> average; \<comment> \<open>\<open>expect\<close> panics on \<open>None\<close>\<close>
     Some (s\<lparr>oracle_events := oracle_events s @ [NewPrice price who]\<rparr>)
   }"

section \<open>Calls\<close>

definition submit_price ::
  "('o, 'a) frame_api \<Rightarrow> 'o \<Rightarrow> u32 \<Rightarrow> 'a oracle_state
     \<Rightarrow> (oracle_error, 'a oracle_state) dispatched" where
  "submit_price api origin price s =
     (case ensure_signed api origin of
        Err e \<Rightarrow> Some (Err (OriginError e), s)
      | Ok who \<Rightarrow> do {
          s \<leftarrow> add_price who price s;
          Some (Ok (), s)
        })"

definition submit_price_unsigned ::
  "bool \<Rightarrow> oracle_config \<Rightarrow> ('o, 'a) frame_api \<Rightarrow> u32 \<Rightarrow> 'o \<Rightarrow> u32 \<Rightarrow> u32
     \<Rightarrow> 'a oracle_state \<Rightarrow> (oracle_error, 'a oracle_state) dispatched" where
  "submit_price_unsigned chk cfg api now origin block_number price s =
     (case ensure_none api origin of
        Err e \<Rightarrow> Some (Err (OriginError e), s)
      | Ok _ \<Rightarrow> do {
          s \<leftarrow> add_price (default_account api) price s;
          next_at \<leftarrow> rust_add chk now (unsigned_interval cfg);
          Some (Ok (), s\<lparr>next_unsigned_at := next_at\<rparr>)
        })"

definition submit_price_unsigned_with_signed_payload ::
  "bool \<Rightarrow> oracle_config \<Rightarrow> ('o, 'a) frame_api \<Rightarrow> u32 \<Rightarrow> 'o \<Rightarrow> 'pub price_payload \<Rightarrow> 'sig
     \<Rightarrow> 'a oracle_state \<Rightarrow> (oracle_error, 'a oracle_state) dispatched" where
  "submit_price_unsigned_with_signed_payload chk cfg api now origin payload signature s =
     (case ensure_none api origin of
        Err e \<Rightarrow> Some (Err (OriginError e), s)
      | Ok _ \<Rightarrow> do {
          s \<leftarrow> add_price (default_account api) (pp_price payload) s;
          next_at \<leftarrow> rust_add chk now (unsigned_interval cfg);
          Some (Ok (), s\<lparr>next_unsigned_at := next_at\<rparr>)
        })"

fun oracle_dispatch ::
  "bool \<Rightarrow> oracle_config \<Rightarrow> ('o, 'a) frame_api \<Rightarrow> u32 \<Rightarrow> ('pub, 'sig) oracle_call \<Rightarrow> 'o
     \<Rightarrow> 'a oracle_state \<Rightarrow> (oracle_error, 'a oracle_state) dispatched" where
  "oracle_dispatch chk cfg api now (Call_submit_price price) origin s =
     submit_price api origin price s"
| "oracle_dispatch chk cfg api now (Call_submit_price_unsigned bn price) origin s =
     submit_price_unsigned chk cfg api now origin bn price s"
| "oracle_dispatch chk cfg api now (Call_submit_price_unsigned_with_signed_payload p sig) origin s =
     submit_price_unsigned_with_signed_payload chk cfg api now origin p sig s"

lemmas [dispatch_defs] =
  submit_price_def submit_price_unsigned_def submit_price_unsigned_with_signed_payload_def

section \<open>Validation\<close>

definition validate_transaction_parameters ::
  "bool \<Rightarrow> oracle_config \<Rightarrow> u32 \<Rightarrow> u32 \<Rightarrow> u32 \<Rightarrow> 'a oracle_state
     \<Rightarrow> (invalid_transaction + u32 valid_transaction) option" where
  "validate_transaction_parameters chk cfg now block_number new_price s =
     (if next_unsigned_at s > block_number then Some (Err InvalidStale)
      else if now < block_number then Some (Err InvalidFuture)
      else do {
        average \<leftarrow> average_price s;
        avg_price \<leftarrow>
          (case average of
             None \<Rightarrow> Some 0
           | Some price \<Rightarrow>
               if price > new_price then rust_sub chk price new_price
               else rust_sub chk new_price price);
        Some (Ok \<lparr>
          vt_tag_prefix = ''ExampleOffchainWorker'',
          vt_priority = saturating_add (unsigned_priority cfg) (ucast avg_price),
          vt_provides = [next_unsigned_at s],
          vt_longevity = 5,
          vt_propagate = True\<rparr>)
      })"

fun oracle_validate_unsigned ::
  "bool \<Rightarrow> oracle_config \<Rightarrow> ('pub price_payload \<Rightarrow> 'sig \<Rightarrow> bool) \<Rightarrow> u32
     \<Rightarrow> ('pub, 'sig) oracle_call \<Rightarrow> 'a oracle_state
     \<Rightarrow> (invalid_transaction + u32 valid_transaction) option" where
  "oracle_validate_unsigned chk cfg verify now
       (Call_submit_price_unsigned_with_signed_payload payload signature) s =
     (if \<not> verify payload signature then Some (Err InvalidBadProof)
      else validate_transaction_parameters chk cfg now (pp_block_number payload) (pp_price payload) s)"
| "oracle_validate_unsigned chk cfg verify now (Call_submit_price_unsigned block_number new_price) s =
     validate_transaction_parameters chk cfg now block_number new_price s"
| "oracle_validate_unsigned chk cfg verify now _ s = Some (Err InvalidCall)"

text \<open>The calls that the validator can accept.\<close>

fun_cases accepted_callE: "oracle_validate_unsigned chk cfg verify now c s = Some (Ok vt)"

section \<open>The price vector is a bounded store\<close>

definition store_price :: "u32 \<Rightarrow> u32 list \<Rightarrow> u32 list" where
  "store_price price ps =
     (if length ps < MAX_LEN then ps @ [price] else ps[unat price mod MAX_LEN := price])"

lemma price_index_in_range: "\<not> length ps < MAX_LEN \<Longrightarrow> unat (p :: u32) mod MAX_LEN < length ps"
  by (rule less_le_trans [of _ MAX_LEN]) (simp_all add: MAX_LEN_def)

lemma push_price_total: "push_price price ps = Some (store_price price ps)"
  by (simp add: push_price_def store_price_def Let_def price_index_in_range)

lemma store_price_nonempty [simp]: "store_price p ps \<noteq> []"
proof
  assume "store_price p ps = []"
  then have "length (store_price p ps) = 0" by simp
  then show False by (simp add: store_price_def MAX_LEN_def split: if_splits)
qed

interpretation price_store: bounded_store store_price "\<lambda>ps. ps" MAX_LEN
proof unfold_locales
  fix ps :: "u32 list" and v
  show "set (store_price v ps) \<subseteq> insert v (set ps)"
    by (auto simp: store_price_def dest: set_update_subset_insert [THEN subsetD])
  show "length ps \<le> MAX_LEN \<Longrightarrow> v \<in> set (store_price v ps)"
    using price_index_in_range [of ps v] by (auto simp: store_price_def set_update_memI)
qed (auto simp: store_price_def MAX_LEN_def)

section \<open>The average\<close>

definition oracle_inv :: "'a oracle_state \<Rightarrow> bool" where
  "oracle_inv s \<longleftrightarrow> length (prices s) \<le> MAX_LEN"

lemma unat_of_nat_length:
  "length ps < 2 ^ 32 \<Longrightarrow> unat (of_nat (length ps) :: u32) = length ps"
  by (rule of_nat_inverse [OF refl]) simp

lemma average_price_value:
  assumes "prices s \<noteq> []" and "length (prices s) < 2 ^ 32"
  obtains avg where "average_price s = Some (Some avg)"
    and "unat avg = min (sum_list (map unat (prices s))) (2 ^ 32 - 1) div length (prices s)"
proof -
  let ?len = "of_nat (length (prices s)) :: u32"
  let ?sum = "foldl saturating_add 0 (prices s)"
  have len: "unat ?len = length (prices s)"
    using assms(2) by (rule unat_of_nat_length)
  then have "?len \<noteq> 0"
    using assms(1) by (metis length_0_conv unat_0)
  then have "average_price s = Some (Some (?sum div ?len))"
    using assms(1) by (simp add: average_price_def)
  moreover have "unat (?sum div ?len) =
      min (sum_list (map unat (prices s))) (2 ^ 32 - 1) div length (prices s)"
    by (simp add: unat_div len unat_foldl_saturating_add)
  ultimately show ?thesis by (rule that)
qed

lemma average_price_total:
  "length (prices s) < 2 ^ 32 \<Longrightarrow> \<exists>a. average_price s = Some a \<and> (a = None \<longleftrightarrow> prices s = [])"
proof (cases "prices s = []")
  case True
  then show ?thesis by (simp add: average_price_def)
next
  case False
  assume "length (prices s) < 2 ^ 32"
  with False obtain avg where "average_price s = Some (Some avg)"
    by (rule average_price_value)
  with False show ?thesis by simp
qed

lemma oracle_inv_small: "oracle_inv s \<Longrightarrow> length (prices s) < 2 ^ 32"
  by (simp add: oracle_inv_def MAX_LEN_def)

lemma store_price_inv: "oracle_inv s \<Longrightarrow> length (store_price p (prices s)) \<le> MAX_LEN"
  using price_store.push_length [of "prices s" p] by (simp add: oracle_inv_def)

text \<open>Adding a price never panics and deposits exactly one event.\<close>

lemma add_price_eq:
  assumes "oracle_inv s"
  shows "add_price who price s =
    Some (s\<lparr>prices := store_price price (prices s),
            oracle_events := oracle_events s @ [NewPrice price who]\<rparr>)"
proof -
  let ?s = "s\<lparr>prices := store_price price (prices s)\<rparr>"
  have "length (prices ?s) < 2 ^ 32"
    using store_price_inv [OF assms, of price] by (simp add: MAX_LEN_def)
  then obtain a where "average_price ?s = Some (Some a)"
    using average_price_total [of ?s] by auto
  then show ?thesis
    by (simp add: add_price_def push_price_total)
qed

section \<open>The pallet contract\<close>

text \<open>
  Who an accepted call credits the price to, and what else it writes: an unsigned call also
  moves the block at which the next one is accepted.
\<close>

fun call_price :: "('pub, 'sig) oracle_call \<Rightarrow> u32" where
  "call_price (Call_submit_price p) = p"
| "call_price (Call_submit_price_unsigned _ p) = p"
| "call_price (Call_submit_price_unsigned_with_signed_payload p _) = pp_price p"

fun is_signed_call :: "('pub, 'sig) oracle_call \<Rightarrow> bool" where
  "is_signed_call (Call_submit_price _) = True"
| "is_signed_call _ = False"

definition price_sender ::
  "('o, 'a) frame_api \<Rightarrow> ('pub, 'sig) oracle_call \<Rightarrow> 'o \<Rightarrow> bad_origin + 'a" where
  "price_sender api c org =
     (if is_signed_call c then ensure_signed api org
      else map_sum id (\<lambda>_. default_account api) (ensure_none api org))"

definition price_recorded :: "'a \<Rightarrow> u32 \<Rightarrow> 'a oracle_state \<Rightarrow> 'a oracle_state" where
  "price_recorded who p s = s\<lparr>prices := store_price p (prices s),
     oracle_events := oracle_events s @ [NewPrice p who]\<rparr>"

lemma price_recorded_fields [simp]:
  "prices (price_recorded who p s) = store_price p (prices s)"
  "oracle_events (price_recorded who p s) = oracle_events s @ [NewPrice p who]"
  "next_unsigned_at (price_recorded who p s) = next_unsigned_at s"
  by (simp_all add: price_recorded_def)

lemma oracle_dispatch_eq:
  assumes "oracle_inv s"
  shows "oracle_dispatch chk cfg api now c org s =
     (case price_sender api c org of
        Err e \<Rightarrow> Some (Err (OriginError e), s)
      | Ok who \<Rightarrow>
          if is_signed_call c then Some (Ok (), price_recorded who (call_price c) s)
          else map_option
            (\<lambda>n. (Ok (), (price_recorded who (call_price c) s)\<lparr>next_unsigned_at := n\<rparr>))
            (rust_add chk now (unsigned_interval cfg)))"
  using assms
  by (cases c)
    (auto simp: dispatch_defs price_sender_def add_price_eq price_recorded_def rust_add_def
       split: sum.splits)

lemma oracle_inv_price_recorded:
  "oracle_inv s \<Longrightarrow> oracle_inv (price_recorded who p s)"
  "oracle_inv (s\<lparr>next_unsigned_at := n\<rparr>) = oracle_inv s"
  using store_price_inv [of s p] by (simp_all add: oracle_inv_def)

lemma oracle_dispatch_inv:
  assumes "oracle_inv s" and "oracle_dispatch chk cfg api now c org s = Some (r, s')"
  shows "oracle_inv s'"
  using assms
  by (auto simp: oracle_dispatch_eq oracle_inv_price_recorded split: sum.splits if_splits)

lemma oracle_dispatch_err:
  "oracle_dispatch chk cfg api now c org s = Some (Err e, s') \<Longrightarrow> s' = s"
  by (cases c) (auto simp: dispatch_defs split: sum.splits bind_splits)

interpretation oracle_any: pallet "oracle_dispatch chk cfg api now" oracle_inv for chk cfg api now
  by unfold_locales (erule (1) oracle_dispatch_inv, erule oracle_dispatch_err)

text \<open>The release build, where the block-number addition wraps, has no panicking call.\<close>

interpretation oracle_release:
  total_pallet "oracle_dispatch False cfg api now" oracle_inv for cfg api now
  by unfold_locales (auto simp: oracle_dispatch_eq split: sum.splits)

section \<open>What the validator accepts\<close>

definition price_distance :: "u32 option \<Rightarrow> u32 \<Rightarrow> nat" where
  "price_distance avg p =
     (case avg of None \<Rightarrow> 0 | Some a \<Rightarrow> (unat a - unat p) + (unat p - unat a))"

lemma price_distance_bound: "price_distance avg p < 2 ^ 33"
proof (cases avg)
  case (Some a)
  then show ?thesis
    using unat_less_pow [of a] unat_less_pow [of p] by (simp add: price_distance_def)
qed (simp add: price_distance_def)

lemma unat_distance:
  "unat (if a > p then a - p else p - a) = (unat a - unat p) + (unat p - unat (a :: u32))"
  by (auto simp: unat_sub word_less_nat_alt word_le_nat_alt)

lemma validate_transaction_parameters_ok:
  assumes "average_price s = Some avg"
    and "next_unsigned_at s \<le> bn" and "bn \<le> now"
  obtains vt where "validate_transaction_parameters chk cfg now bn p s = Some (Ok vt)"
    and "vt_tag_prefix vt = ''ExampleOffchainWorker''"
    and "unat (vt_priority vt) =
           min (unat (unsigned_priority cfg) + price_distance avg p) (2 ^ 64 - 1)"
    and "vt_provides vt = [next_unsigned_at s]"
    and "vt_longevity vt = 5" and "vt_propagate vt"
proof -
  let ?d = "case avg of None \<Rightarrow> 0 | Some a \<Rightarrow> if a > p then a - p else p - a"
  have d: "unat ?d = price_distance avg p"
    by (auto simp: price_distance_def unat_distance split: option.splits)
  have "unat (ucast ?d :: u64) = unat ?d"
    by (rule unat_ucast_up) simp
  with d assms show ?thesis
    by (intro that [of "\<lparr>vt_tag_prefix = ''ExampleOffchainWorker'',
          vt_priority = saturating_add (unsigned_priority cfg) (ucast ?d),
          vt_provides = [next_unsigned_at s], vt_longevity = 5, vt_propagate = True\<rparr>"])
      (auto simp: validate_transaction_parameters_def unat_saturating_add not_less
         split: option.splits)
qed

section \<open>Properties\<close>

text \<open>The configuration of the demonstrations, with the values that the runtime uses.\<close>

definition demo_config :: oracle_config where
  "demo_config = \<lparr>grace_period = 3, unsigned_interval = 3, unsigned_priority = 3\<rparr>"

text \<open>The error for a block number outside the window; \<open>Stale\<close> is checked first.\<close>

definition window_error :: "u32 \<Rightarrow> 'a oracle_state \<Rightarrow> u32 \<Rightarrow> invalid_transaction \<Rightarrow> bool" where
  "window_error now s bn e \<longleftrightarrow>
     bn < next_unsigned_at s \<and> e = InvalidStale \<or>
     next_unsigned_at s \<le> bn \<and> now < bn \<and> e = InvalidFuture"

text \<open>
  C6. In every state within the price bound and in both builds, the validator accepts exactly the
  unsigned calls whose block number lies between \<open>NextUnsignedAt\<close> and the current block and, for
  a signed payload, whose signature verifies. A signed call is never accepted. The refusals are told
  apart: a bad signature before anything else, then a block number too old, then one too new.
\<close>

theorem oracle_validator_accepts_iff:
  assumes "oracle_inv s"
  shows "((\<exists>vt. oracle_validate_unsigned chk cfg verify now c s = Some (Ok vt)) \<longleftrightarrow>
    (case c of
       Call_submit_price _ \<Rightarrow> False
     | Call_submit_price_unsigned bn _ \<Rightarrow> next_unsigned_at s \<le> bn \<and> bn \<le> now
     | Call_submit_price_unsigned_with_signed_payload p sig \<Rightarrow>
         verify p sig \<and> next_unsigned_at s \<le> pp_block_number p \<and> pp_block_number p \<le> now)) \<and>
    (oracle_validate_unsigned chk cfg verify now c s = Some (Err e) \<longleftrightarrow>
      (case c of
         Call_submit_price _ \<Rightarrow> e = InvalidCall
       | Call_submit_price_unsigned bn _ \<Rightarrow> window_error now s bn e
       | Call_submit_price_unsigned_with_signed_payload p sig \<Rightarrow>
           if verify p sig then window_error now s (pp_block_number p) e else e = InvalidBadProof))"
proof -
  obtain avg where avg: "average_price s = Some avg"
    using average_price_total [OF oracle_inv_small [OF assms]] by blast
  have "(\<exists>vt. validate_transaction_parameters chk cfg now bn p s = Some (Ok vt)) \<longleftrightarrow>
      next_unsigned_at s \<le> bn \<and> bn \<le> now" for bn p
  proof
    assume "\<exists>vt. validate_transaction_parameters chk cfg now bn p s = Some (Ok vt)"
    then show "next_unsigned_at s \<le> bn \<and> bn \<le> now"
      by (auto simp: validate_transaction_parameters_def not_less split: if_splits)
  next
    assume "next_unsigned_at s \<le> bn \<and> bn \<le> now"
    then show "\<exists>vt. validate_transaction_parameters chk cfg now bn p s = Some (Ok vt)"
      using validate_transaction_parameters_ok [OF avg, of bn now] by metis
  qed
  moreover have "validate_transaction_parameters chk cfg now bn p s = Some (Err e) \<longleftrightarrow>
      window_error now s bn e" for bn p
    by (auto simp: validate_transaction_parameters_def window_error_def not_less avg
          split: option.splits bind_splits)
  ultimately show ?thesis by (cases c) auto
qed

theorem oracle_validator_accepts_iff_witness:
  "\<exists>vt. oracle_validate_unsigned True demo_config (\<lambda>_ _. True) 9 (Call_submit_price_unsigned 8 155 :: (unit, unit) oracle_call)
        \<lparr>prices = [100], next_unsigned_at = 7, oracle_events = ([] :: nat oracle_event list)\<rparr> = Some (Ok vt)"
proof -
  have "oracle_inv \<lparr>prices = [100], next_unsigned_at = 7, oracle_events = ([] :: nat oracle_event list)\<rparr>"
    by (simp add: oracle_inv_def MAX_LEN_def)
  from oracle_validator_accepts_iff [OF this, of True "demo_config" "\<lambda>_ _. True" 9 "Call_submit_price_unsigned 8 155 :: (unit, unit) oracle_call"]
  show ?thesis by simp
qed

lemma accepted_price_parameters:
  assumes "oracle_inv s"
    and "oracle_validate_unsigned chk cfg verify now c s = Some (Ok vt)"
  shows "vt_tag_prefix vt = ''ExampleOffchainWorker'' \<and> vt_longevity vt = 5 \<and> vt_propagate vt \<and>
    vt_provides vt = [next_unsigned_at s] \<and>
    (\<exists>avg. average_price s = Some avg \<and>
       unat (vt_priority vt) =
         min (unat (unsigned_priority cfg) + price_distance avg (call_price c)) (2 ^ 64 - 1))"
proof -
  obtain avg where avg: "average_price s = Some avg"
    using average_price_total [OF oracle_inv_small [OF assms(1)]] by blast
  obtain bn where bn:
    "validate_transaction_parameters chk cfg now bn (call_price c) s = Some (Ok vt)"
    using assms(2) by (auto elim!: accepted_callE split: if_splits)
  then have "next_unsigned_at s \<le> bn" and "bn \<le> now"
    by (auto simp: validate_transaction_parameters_def not_less split: if_splits)
  with bn avg show ?thesis
    by (elim validate_transaction_parameters_ok [OF avg, of bn now chk cfg "call_price c"]) auto
qed

text \<open>
  Every accepted unsigned price carries the pallet's tag prefix, lives for 5 blocks, is
  propagated, and provides the single tag \<open>NextUnsignedAt\<close>, so all prices accepted for the same
  slot compete for one place; its priority is the configured base plus its distance from the
  current average, saturating at the largest \<open>u64\<close>.
\<close>

lemma accepted_price_priority:
  assumes "oracle_inv s"
    and "oracle_validate_unsigned chk cfg verify now c s = Some (Ok vt)"
  shows "vt_tag_prefix vt = ''ExampleOffchainWorker'' \<and> vt_longevity vt = 5 \<and> vt_propagate vt \<and>
    vt_provides vt = [next_unsigned_at s] \<and>
    (\<exists>avg. average_price s = Some avg \<and>
       unat (vt_priority vt) =
         min (unat (unsigned_priority cfg) + price_distance avg (call_price c)) (2 ^ 64 - 1))"
  using assms by (rule accepted_price_parameters)

lemma accepted_price_priority_example:
  "\<exists>vt. oracle_validate_unsigned False demo_config (\<lambda>_ _. True) 9 (Call_submit_price_unsigned 8 155 :: (unit, unit) oracle_call)
        \<lparr>prices = [100], next_unsigned_at = 7, oracle_events = ([] :: nat oracle_event list)\<rparr> = Some (Ok vt)
     \<and> unat (vt_priority vt) = 58"
proof -
  let ?s = "\<lparr>prices = [100], next_unsigned_at = 7, oracle_events = ([] :: nat oracle_event list)\<rparr>"
  let ?c = "Call_submit_price_unsigned 8 155 :: (unit, unit) oracle_call"
  have inv: "oracle_inv ?s" by (simp add: oracle_inv_def MAX_LEN_def)
  have avg: "average_price ?s = Some (Some 100)"
    by (simp add: average_price_def saturating_add_def)
  have "\<exists>vt. oracle_validate_unsigned False demo_config (\<lambda>_ _. True) 9 ?c ?s = Some (Ok vt)"
    by (simp add: validate_transaction_parameters_def avg)
  then obtain vt where vt: "oracle_validate_unsigned False demo_config (\<lambda>_ _. True) 9 ?c ?s = Some (Ok vt)"
    by blast
  from accepted_price_priority [OF inv vt] vt avg show ?thesis
    by (auto simp: price_distance_def demo_config_def)
qed

text \<open>
  C22. As long as the stored prices add up to less than \<open>2^32\<close>, \<open>average_price\<close> is their
  arithmetic mean rounded down, and lies between the smallest and the largest of them.
\<close>

theorem average_price_is_the_mean:
  assumes "oracle_inv s" and "prices s \<noteq> []"
    and "sum_list (map unat (prices s)) < 2 ^ 32"
  shows "\<exists>avg. average_price s = Some (Some avg) \<and>
    unat avg = sum_list (map unat (prices s)) div length (prices s) \<and>
    Min (set (prices s)) \<le> avg \<and> avg \<le> Max (set (prices s))"
proof -
  let ?n = "length (prices s)" and ?sum = "sum_list (map unat (prices s))"
  from assms obtain avg where avg: "average_price s = Some (Some avg)" "unat avg = ?sum div ?n"
    by (auto elim: average_price_value [OF _ oracle_inv_small])
  have n: "0 < ?n" using assms(2) by simp
  have "?n * unat (Min (set (prices s))) \<le> ?sum"
    using assms(2) by (intro sum_list_ge_const) (simp flip: word_le_nat_alt)
  then have lower: "unat (Min (set (prices s))) \<le> ?sum div ?n"
    using n by (simp add: less_eq_div_iff_mult_less_eq mult.commute)
  have "?sum \<le> ?n * unat (Max (set (prices s)))"
    using assms(2) by (intro sum_list_le_const) (simp flip: word_le_nat_alt)
  then have upper: "?sum div ?n \<le> unat (Max (set (prices s)))"
    using n by (metis div_le_mono nonzero_mult_div_cancel_left neq0_conv)
  from avg lower upper show ?thesis
    by (auto simp: word_le_nat_alt)
qed

theorem average_price_is_the_mean_witness:
  "\<exists>avg. average_price \<lparr>prices = [27, 43], next_unsigned_at = 0,
      oracle_events = ([] :: nat oracle_event list)\<rparr> = Some (Some avg) \<and> unat avg = 35"
  using average_price_is_the_mean [of "\<lparr>prices = [27, 43], next_unsigned_at = 0,
      oracle_events = ([] :: nat oracle_event list)\<rparr>"]
  by (auto simp: oracle_inv_def MAX_LEN_def numeral_2_eq_2 [symmetric])

text \<open>
  Beyond that sum the saturating addition drops value: with 64 stored prices of \<open>2^31\<close> the
  computed average is \<open>67108863\<close>, about a thirty-second of every single price.
\<close>

lemma average_price_saturates:
  "average_price (s\<lparr>prices := replicate 64 (2 ^ 31)\<rparr>) = Some (Some 67108863) \<and>
   list_all (\<lambda>p. 31 * 67108863 < unat p) (replicate 64 (2 ^ 31 :: u32))"
proof -
  let ?s = "s\<lparr>prices := replicate 64 (2 ^ 31)\<rparr>"
  have sum: "sum_list (map unat (prices ?s)) = 64 * 2 ^ 31"
    by (simp add: sum_list_replicate)
  have "prices ?s \<noteq> []" and "length (prices ?s) < 2 ^ 32" by simp_all
  then obtain avg where "average_price ?s = Some (Some avg)" and
    "unat avg = min (sum_list (map unat (prices ?s))) (2 ^ 32 - 1) div length (prices ?s)"
    by (rule average_price_value)
  moreover from this(2) sum have "unat avg = unat (67108863 :: u32)" by simp
  ultimately show ?thesis
    by (simp add: word_unat_eq_iff list_all_iff)
qed

text \<open>
  Adding a price to a vector within its bound never panics, in either build. While there are
  fewer than 64 prices the new one is appended; once there are 64 it overwrites the one at index
  \<open>price mod 64\<close>. One event with the price and its sender is deposited, and the next
  acceptance block is untouched.
\<close>

lemma add_price_effect:
  assumes "oracle_inv s"
  shows "add_price who p s = Some \<lparr>
    prices = (if length (prices s) < 64 then prices s @ [p] else (prices s)[unat p mod 64 := p]),
    next_unsigned_at = next_unsigned_at s,
    oracle_events = oracle_events s @ [NewPrice p who]\<rparr>"
  using assms by (simp add: add_price_eq store_price_def MAX_LEN_def)

lemma add_price_effect_example:
  "add_price (9 :: nat) 130 \<lparr>prices = replicate 64 1, next_unsigned_at = 5, oracle_events = []\<rparr> =
     Some \<lparr>prices = (replicate 64 1)[2 := 130], next_unsigned_at = 5,
           oracle_events = [NewPrice 130 9]\<rparr>"
  by (subst add_price_effect) (simp_all add: oracle_inv_def MAX_LEN_def)

text \<open>
  The vector does not hold the last 64 prices: because the slot is chosen by the price and not
  by age, two equal prices added to a full vector end up in one slot. Of the last 64 prices
  submitted two are 65, and the vector holds one.
\<close>

lemma full_vector_is_not_the_last_64:
  "\<exists>s'. Option.bind (add_price who 65 \<lparr>prices = replicate 64 1, next_unsigned_at = n, oracle_events = es\<rparr>)
          (add_price who 65) = Some s' \<and>
     length (prices s') = 64 \<and> count_list (prices s') 65 = 1 \<and>
     count_list (last_n 64 (replicate 64 1 @ [65, 65 :: u32])) 65 = 2"
proof -
  let ?s = "\<lparr>prices = replicate 64 1, next_unsigned_at = n, oracle_events = es\<rparr>"
  let ?ps = "(replicate 64 (1 :: u32))[1 := 65]"
  have inv: "oracle_inv ?s" by (simp add: oracle_inv_def MAX_LEN_def)
  have first: "add_price who 65 ?s = Some (?s\<lparr>prices := ?ps, oracle_events := es @ [NewPrice 65 who]\<rparr>)"
    by (simp add: add_price_eq [OF inv] store_price_def MAX_LEN_def)
  have "add_price who 65 (?s\<lparr>prices := ?ps, oracle_events := es @ [NewPrice 65 who]\<rparr>) =
      Some (?s\<lparr>prices := ?ps, oracle_events := (es @ [NewPrice 65 who]) @ [NewPrice 65 who]\<rparr>)"
    by (subst add_price_eq) (simp_all add: oracle_inv_def store_price_def MAX_LEN_def)
  with first have "Option.bind (add_price who 65 ?s) (add_price who 65) =
      Some (?s\<lparr>prices := ?ps, oracle_events := (es @ [NewPrice 65 who]) @ [NewPrice 65 who]\<rparr>)"
    by simp
  moreover have "count_list ?ps 65 = 1" by code_simp
  moreover have "count_list (last_n 64 (replicate 64 1 @ [65, 65 :: u32])) 65 = 2" by code_simp
  ultimately show ?thesis by simp
qed

end
