(* ===== verification/Pacing.thy ===== *)
theory Pacing
  imports Prelude
begin

text \<open>
  Runs of a step relation whose steps may be observed with a block number, and the contract of a
  rate limiter: a gate that an observed block has to have reached, and that the step then moves
  to the block plus a gap. Two parts of the price oracle are such limiters, with different gates:
  the chain, which accepts unsigned prices (\<open>Price_Chain\<close>), and the local storage entry with which
  concurrent worker runs agree on who sends (\<open>Price_Race\<close>).
\<close>

section \<open>Observed runs\<close>

inductive run_of :: "('s \<Rightarrow> 'b option \<Rightarrow> 's \<Rightarrow> bool) \<Rightarrow> 's \<Rightarrow> 'b list \<Rightarrow> 's \<Rightarrow> bool" for step where
  run_start: "run_of step s [] s"
| run_quiet: "run_of step s bs t \<Longrightarrow> step t None t' \<Longrightarrow> run_of step s bs t'"
| run_observed: "run_of step s bs t \<Longrightarrow> step t (Some b) t' \<Longrightarrow> run_of step s (bs @ [b]) t'"

lemma run_of_invariant:
  assumes "run_of step s bs t" and "I s" and "\<And>s obs s'. step s obs s' \<Longrightarrow> I s \<Longrightarrow> I s'"
  shows "I t"
  using assms(1,2) by (induction rule: run_of.induct) (blast intro: assms(3))+

lemma run_of_append:
  assumes "run_of step s as t" and "run_of step t bs u"
  shows "run_of step s (as @ bs) u"
  using assms(2,1)
proof (induction rule: run_of.induct)
  case (run_start t)
  then show ?case by simp
next
  case (run_quiet t bs v v')
  then show ?case by (blast intro: run_of.run_quiet)
next
  case (run_observed t bs v b v')
  then show ?case by (metis append_assoc run_of.run_observed)
qed

section \<open>Spacing\<close>

definition spaced :: "nat \<Rightarrow> u32 list \<Rightarrow> bool" where
  "spaced gap bs \<longleftrightarrow> sorted_wrt (\<lambda>a b. unat a + gap \<le> unat b) bs"

text \<open>A block number from which the gap can be counted without wrapping around.\<close>

definition in_range :: "nat \<Rightarrow> u32 \<Rightarrow> bool" where
  "in_range gap b \<longleftrightarrow> unat b + gap < 2 ^ 32"

lemma spaced_Nil [simp]: "spaced gap []"
  by (simp add: spaced_def)

lemma spaced_snoc [simp]:
  "spaced gap (bs @ [b]) \<longleftrightarrow> spaced gap bs \<and> (\<forall>a \<in> set bs. unat a + gap \<le> unat b)"
  by (auto simp: spaced_def sorted_wrt_append)

section \<open>The contract\<close>

locale rate_limiter =
  fixes step :: "'s \<Rightarrow> u32 option \<Rightarrow> 's \<Rightarrow> bool"
    and inv :: "'s \<Rightarrow> bool"
    and gate :: "'s \<Rightarrow> nat"
    and gap :: nat
  assumes step_inv: "step s obs s' \<Longrightarrow> inv s \<Longrightarrow> inv s'"
    and quiet_gate: "step s None s' \<Longrightarrow> inv s \<Longrightarrow> gate s \<le> gate s'"
    and send_gate: "step s (Some b) s' \<Longrightarrow> inv s \<Longrightarrow> in_range gap b \<Longrightarrow>
      gate s \<le> unat b \<and> unat b + gap \<le> gate s'"
begin

lemma run_below_gate:
  assumes "run_of step s bs t" and "inv s" and "list_all (in_range gap) bs"
  shows "spaced gap bs \<and> (\<forall>b \<in> set bs. unat b + gap \<le> gate t)"
  using assms
proof (induction rule: run_of.induct)
  case (run_start s)
  then show ?case by simp
next
  case (run_quiet s bs t t')
  have "inv t"
    using run_quiet.hyps(1) run_quiet.prems(1) by (rule run_of_invariant) (rule step_inv)
  then have "gate t \<le> gate t'"
    by (rule quiet_gate [OF run_quiet.hyps(2)])
  with run_quiet.IH run_quiet.prems show ?case by fastforce
next
  case (run_observed s bs t b t')
  have "inv t"
    using run_observed.hyps(1) run_observed.prems(1) by (rule run_of_invariant) (rule step_inv)
  then have "gate t \<le> unat b" and "unat b + gap \<le> gate t'"
    using send_gate [OF run_observed.hyps(2)] run_observed.prems(2) by simp_all
  with run_observed.IH run_observed.prems show ?case by fastforce
qed

lemma run_spaced:
  "run_of step s bs t \<Longrightarrow> inv s \<Longrightarrow> list_all (in_range gap) bs \<Longrightarrow> spaced gap bs"
  by (blast dest: run_below_gate)

end

section \<open>Abstraction\<close>

text \<open>
  A machine that a smaller one abstracts: an observed step is one of the smaller machine with the same
  observation, a quiet step is one of it or leaves its state alone. Runs carry over, and with them the
  contract of a rate limiter.
\<close>

locale abstraction =
  fixes step :: "'s \<Rightarrow> 'b option \<Rightarrow> 's \<Rightarrow> bool"
    and small_step :: "'t \<Rightarrow> 'b option \<Rightarrow> 't \<Rightarrow> bool"
    and abs :: "'s \<Rightarrow> 't"
  assumes quiet_step: "step s None s' \<Longrightarrow> abs s' = abs s \<or> small_step (abs s) None (abs s')"
    and observed_step: "step s (Some b) s' \<Longrightarrow> small_step (abs s) (Some b) (abs s')"
begin

lemma run_abstracted: "run_of step s bs s' \<Longrightarrow> run_of small_step (abs s) bs (abs s')"
proof (induction rule: run_of.induct)
  case (run_start s)
  then show ?case by (rule run_of.run_start)
next
  case (run_quiet s bs t t')
  from quiet_step [OF run_quiet.hyps(2)] run_quiet.IH show ?case by (auto intro: run_of.run_quiet)
next
  case (run_observed s bs t b t')
  from run_observed.IH observed_step [OF run_observed.hyps(2)] show ?case by (rule run_of.run_observed)
qed

end

locale limited_abstraction = abstraction step small_step abs + small: rate_limiter small_step inv gate gap
  for step :: "'s \<Rightarrow> u32 option \<Rightarrow> 's \<Rightarrow> bool" and small_step :: "'t \<Rightarrow> u32 option \<Rightarrow> 't \<Rightarrow> bool"
    and abs :: "'s \<Rightarrow> 't" and inv :: "'t \<Rightarrow> bool" and gate :: "'t \<Rightarrow> nat" and gap :: nat

sublocale limited_abstraction \<subseteq> whole: rate_limiter step "\<lambda>s. inv (abs s)" "\<lambda>s. gate (abs s)" gap
proof unfold_locales
  fix s obs s'
  assume step: "step s obs s'" and inv: "inv (abs s)"
  show "inv (abs s')"
    using step inv quiet_step observed_step by (cases obs) (metis small.step_inv)+
next
  fix s s'
  assume "step s None s'" and "inv (abs s)"
  then show "gate (abs s) \<le> gate (abs s')"
    using quiet_step small.quiet_gate by fastforce
next
  fix s b s'
  assume "step s (Some b) s'" and "inv (abs s)" and "in_range gap b"
  then show "gate (abs s) \<le> unat b \<and> unat b + gap \<le> gate (abs s')"
    using observed_step small.send_gate by blast
qed

end
