(* ===== verification/Price_Chain.thy ===== *)
theory Price_Chain
  imports Price_Oracle Pacing
begin

text \<open>
  The price oracle as blocks execute it. A state is the current block number and the pallet's
  storage. A step is the start of the next block or one extrinsic: an unsigned one runs only
  after \<open>validate_unsigned\<close> accepted it in the current state, as the source relies on
  (\<open>lib.rs\<close> lines 241-244); one with any other origin (signed or root) runs as it is. A run
  records the block of every unsigned price that was accepted. The theory shows that the
  chain is a rate limiter for those blocks, and the bounds that every reachable state keeps.
\<close>

record 'a chain =
  current_block :: u32
  oracle_store :: "'a oracle_state"

inductive chain_step ::
  "bool \<Rightarrow> oracle_config \<Rightarrow> ('o, 'a) frame_api \<Rightarrow> ('pub price_payload \<Rightarrow> 'sig \<Rightarrow> bool)
     \<Rightarrow> 'a chain \<Rightarrow> u32 option \<Rightarrow> 'a chain \<Rightarrow> bool"
  for chk cfg api verify where
  new_block: "unat (current_block c) + 1 < 2 ^ 32 \<Longrightarrow>
     chain_step chk cfg api verify c None (c\<lparr>current_block := current_block c + 1\<rparr>)"
| unsigned_extrinsic: "ensure_none api org = Ok () \<Longrightarrow>
     oracle_validate_unsigned chk cfg verify (current_block c) call (oracle_store c) = Some (Ok vt) \<Longrightarrow>
     oracle_dispatch chk cfg api (current_block c) call org (oracle_store c) = Some (r, s') \<Longrightarrow>
     chain_step chk cfg api verify c (Some (current_block c)) (c\<lparr>oracle_store := s'\<rparr>)"
| other_extrinsic: "ensure_none api org = Err e \<Longrightarrow>
     oracle_dispatch chk cfg api (current_block c) (call :: ('pub, 'sig) oracle_call) org (oracle_store c) = Some (r, s') \<Longrightarrow>
     chain_step chk cfg api verify c None (c\<lparr>oracle_store := s'\<rparr>)"

text \<open>A run, with the blocks of the unsigned prices that were accepted.\<close>

abbreviation chain_run ::
  "bool \<Rightarrow> oracle_config \<Rightarrow> ('o, 'a) frame_api \<Rightarrow> ('pub price_payload \<Rightarrow> 'sig \<Rightarrow> bool)
     \<Rightarrow> 'a chain \<Rightarrow> u32 list \<Rightarrow> 'a chain \<Rightarrow> bool" where
  "chain_run chk cfg api verify \<equiv> run_of (chain_step chk cfg api verify)"

definition genesis_chain :: "'a chain" where
  "genesis_chain = \<lparr>current_block = 0,
     oracle_store = \<lparr>prices = [], next_unsigned_at = 0, oracle_events = []\<rparr>\<rparr>"

inductive_cases quiet_stepE [elim]: "chain_step chk cfg api verify c None c'"
inductive_cases price_stepE: "chain_step chk cfg api verify c (Some b) c'"

section \<open>Steps keep the storage invariant\<close>

lemma chain_step_inv:
  "chain_step chk cfg api verify c obs c' \<Longrightarrow> oracle_inv (oracle_store c) \<Longrightarrow> oracle_inv (oracle_store c')"
  by (induction rule: chain_step.induct) (auto intro: oracle_dispatch_inv)

section \<open>What a step does to the next acceptance block\<close>

text \<open>A step without an accepted unsigned price leaves the next acceptance block alone.\<close>

lemma quiet_step_next:
  assumes "chain_step chk cfg api verify c None c'" and "oracle_inv (oracle_store c)"
  shows "next_unsigned_at (oracle_store c') = next_unsigned_at (oracle_store c)"
  using assms
  by (auto simp: oracle_dispatch_eq price_sender_def split: sum.splits if_splits)

lemma validated_window:
  assumes "oracle_validate_unsigned chk cfg verify now call s = Some (Ok vt)"
  shows "\<not> is_signed_call call" and "next_unsigned_at s \<le> now"
proof -
  have window: "next_unsigned_at s \<le> now"
    if "Some (Ok vt) = validate_transaction_parameters chk cfg now bn p s" for bn p
    using that [symmetric]
    by (auto simp: validate_transaction_parameters_def not_less split: if_splits)
  show "\<not> is_signed_call call" and "next_unsigned_at s \<le> now"
    using assms by (auto elim!: accepted_callE dest: window split: if_splits)
qed

text \<open>
  An unsigned price accepted in block \<open>b\<close> waited for the acceptance block, and moves it to
  \<open>b\<close> plus the interval.
\<close>

lemma price_step_next:
  assumes step: "chain_step chk cfg api verify c (Some b) c'" and inv: "oracle_inv (oracle_store c)"
  shows "b = current_block c" and "current_block c' = b"
    and "next_unsigned_at (oracle_store c) \<le> b"
    and "next_unsigned_at (oracle_store c') = b + unsigned_interval cfg"
proof -
  from step obtain org call vt r s' where
    b: "b = current_block c" and c': "c' = c\<lparr>oracle_store := s'\<rparr>"
    and none: "ensure_none api org = Ok ()"
    and valid: "oracle_validate_unsigned chk cfg verify b call (oracle_store c) = Some (Ok vt)"
    and disp: "oracle_dispatch chk cfg api b call org (oracle_store c) = Some (r, s')"
    by (auto elim: price_stepE)
  show "b = current_block c" and "current_block c' = b"
    using b c' by simp_all
  show "next_unsigned_at (oracle_store c) \<le> b"
    using valid by (rule validated_window)
  have "next_unsigned_at s' = b + unsigned_interval cfg"
    using disp none validated_window(1) [OF valid]
    by (auto simp: oracle_dispatch_eq [OF inv] price_sender_def dest: rust_add_SomeD)
  then show "next_unsigned_at (oracle_store c') = b + unsigned_interval cfg"
    using c' by simp
qed

section \<open>The chain is a rate limiter\<close>

interpretation price_limiter: rate_limiter "chain_step chk cfg api verify"
    "\<lambda>c. oracle_inv (oracle_store c)" "\<lambda>c. unat (next_unsigned_at (oracle_store c))"
    "unat (unsigned_interval cfg)"
  for chk cfg api verify
proof unfold_locales
  fix c c' :: "'b chain" and b
  assume step: "chain_step chk cfg api verify c (Some b) c'" and inv: "oracle_inv (oracle_store c)"
    and "in_range (unat (unsigned_interval cfg)) b"
  then show "unat (next_unsigned_at (oracle_store c)) \<le> unat b \<and>
      unat b + unat (unsigned_interval cfg) \<le> unat (next_unsigned_at (oracle_store c'))"
    using price_step_next(3,4) [OF step inv] rust_add_fits [of b "unsigned_interval cfg" False]
    by (simp add: word_le_nat_alt in_range_def)
qed (auto simp: quiet_step_next intro: chain_step_inv)

section \<open>The validator and the dispatcher agree\<close>

interpretation oracle_unsigned: unsigned_pallet "oracle_dispatch False cfg api now" oracle_inv
    "oracle_validate_unsigned False cfg verify now" "\<lambda>org. ensure_none api org = Ok ()"
  for cfg api now verify
proof unfold_locales
  fix s :: "'b oracle_state" and org c vt
  assume inv: "oracle_inv s" and none: "ensure_none api org = Ok ()"
    and valid: "oracle_validate_unsigned False cfg verify now c s = Some (Ok vt)"
  show "\<exists>s'. oracle_dispatch False cfg api now c org s = Some (Ok (), s')"
    using validated_window(1) [OF valid] none
    by (simp add: oracle_dispatch_eq [OF inv] price_sender_def)
next
  fix s :: "'b oracle_state" and c
  assume inv: "oracle_inv s"
  obtain a where a: "average_price s = Some a"
    using average_price_total [OF oracle_inv_small [OF inv]] by blast
  have "\<exists>r. validate_transaction_parameters False cfg now bn p s = Some r" for bn p
    using a by (auto simp: validate_transaction_parameters_def rust_sub_def split: option.splits)
  then show "\<exists>r. oracle_validate_unsigned False cfg verify now c s = Some r"
    by (cases c) auto
qed

section \<open>The price vector and the event log\<close>

fun event_price :: "'a oracle_event \<Rightarrow> u32" where
  "event_price (NewPrice p _) = p"

text \<open>The prices that a log of events leads to, starting from an empty vector.\<close>

definition replay :: "'a oracle_event list \<Rightarrow> u32 list" where
  "replay es = fold store_price (map event_price es) []"

lemma replay_snoc: "replay (es @ [e]) = store_price (event_price e) (replay es)"
  by (simp add: replay_def)

lemma replay_bounds:
  "length (replay es) = min MAX_LEN (length es)"
  "set (replay es) \<subseteq> event_price ` set es"
  "length es \<le> MAX_LEN \<Longrightarrow> replay es = map event_price es"
  using price_store.fold_push_length [of "[]" "map event_price es"]
    price_store.fold_push_sources [of "map event_price es" "[]"]
    price_store.fold_push_appends [of "[]" "map event_price es"]
  by (auto simp: replay_def)

definition replayed :: "'a oracle_state \<Rightarrow> bool" where
  "replayed s \<longleftrightarrow> prices s = replay (oracle_events s)"

lemma replayed_inv: "replayed s \<Longrightarrow> oracle_inv s"
  by (simp add: replayed_def oracle_inv_def replay_bounds(1))

lemma replayed_recorded:
  "replayed s \<Longrightarrow> replayed (price_recorded who p s)"
  "replayed (s\<lparr>next_unsigned_at := n\<rparr>) = replayed s"
  by (simp_all add: replayed_def replay_snoc)

lemma oracle_dispatch_replayed:
  assumes "replayed s" and "oracle_dispatch chk cfg api now c org s = Some (r, s')"
  shows "replayed s'"
  using assms
  by (auto simp: oracle_dispatch_eq [OF replayed_inv] replayed_recorded
        split: sum.splits if_splits)

lemma chain_step_replayed:
  "chain_step chk cfg api verify c obs c' \<Longrightarrow> replayed (oracle_store c) \<Longrightarrow> replayed (oracle_store c')"
  by (induction rule: chain_step.induct) (auto intro: oracle_dispatch_replayed)

lemma chain_run_replayed:
  "chain_run chk cfg api verify c bs c' \<Longrightarrow> replayed (oracle_store c) \<Longrightarrow> replayed (oracle_store c')"
  by (erule run_of_invariant [where I = "\<lambda>c. replayed (oracle_store c)"]) (auto intro: chain_step_replayed)

lemma genesis_chain_store [simp]:
  "replayed (oracle_store genesis_chain)" "oracle_inv (oracle_store genesis_chain)"
  by (simp_all add: genesis_chain_def replayed_def replay_def oracle_inv_def)

section \<open>The window opens again\<close>

text \<open>The next acceptance block is at most an interval ahead, also where block numbers wrap.\<close>

definition window_near :: "oracle_config \<Rightarrow> 'a chain \<Rightarrow> bool" where
  "window_near cfg c \<longleftrightarrow> oracle_inv (oracle_store c) \<and>
     unat (next_unsigned_at (oracle_store c)) \<le> unat (current_block c) + unat (unsigned_interval cfg)"

lemma unat_add_le: "unat (a + b :: 'a::len word) \<le> unat a + unat b"
  by (simp add: unat_word_ariths)

lemma chain_step_window:
  assumes "chain_step chk cfg api verify c obs c'" and "window_near cfg c"
  shows "window_near cfg c'"
proof -
  have inv: "oracle_inv (oracle_store c)" "oracle_inv (oracle_store c')"
    using assms chain_step_inv [OF assms(1)] by (simp_all add: window_near_def)
  show ?thesis
  proof (cases obs)
    case None
    with assms(1) have "chain_step chk cfg api verify c None c'" by simp
    from quiet_step_next [OF this inv(1)] this assms(2) inv(2) show ?thesis
      by (auto simp: window_near_def unat_word_ariths)
  next
    case (Some b)
    with assms(1) have "chain_step chk cfg api verify c (Some b) c'" by simp
    from price_step_next [OF this inv(1)] inv(2) show ?thesis
      by (simp add: window_near_def unat_add_le)
  qed
qed

lemma chain_run_window:
  "chain_run chk cfg api verify genesis_chain bs c \<Longrightarrow> window_near cfg c"
proof (erule run_of_invariant [where I = "window_near cfg"])
  show "window_near cfg genesis_chain"
    by (simp add: window_near_def genesis_chain_def oracle_inv_def)
qed (rule chain_step_window)

text \<open>Empty blocks up to a given one.\<close>

lemma empty_blocks:
  assumes "unat (current_block c) + n < 2 ^ 32"
  shows "chain_run chk cfg api verify c [] (c\<lparr>current_block := current_block c + of_nat n\<rparr>)"
  using assms
proof (induction n)
  case 0
  then show ?case by (simp add: run_of.run_start)
next
  case (Suc n)
  let ?b = "current_block c + of_nat n"
  have "unat ?b = unat (current_block c) + n"
    using Suc.prems by (simp add: unat_word_ariths unat_of_nat)
  then have "chain_step chk cfg api verify (c\<lparr>current_block := ?b\<rparr>) None
      (c\<lparr>current_block := ?b + 1\<rparr>)"
    using chain_step.new_block [of "c\<lparr>current_block := ?b\<rparr>"] Suc.prems by simp
  moreover have "?b + 1 = current_block c + of_nat (Suc n)" by simp
  ultimately show ?case
    using run_of.run_quiet [of "chain_step chk cfg api verify" c "[]"] Suc by (metis Suc_lessD add_Suc_right)
qed

lemma acceptable_parameters:
  assumes "oracle_inv s" and "next_unsigned_at s \<le> bn" and "bn \<le> now"
  shows "\<exists>vt. validate_transaction_parameters chk cfg now bn p s = Some (Ok vt)"
proof -
  obtain avg where "average_price s = Some avg"
    using average_price_total [OF oracle_inv_small [OF assms(1)]] by blast
  then show ?thesis
    using assms(2,3) by (rule validate_transaction_parameters_ok [of s avg bn now]) blast
qed

lemma open_window_accepts:
  assumes "oracle_inv (oracle_store c)" and "next_unsigned_at (oracle_store c) \<le> current_block c"
    and "ensure_none api org = Ok ()"
    and "unat (current_block c) + unat (unsigned_interval cfg) < 2 ^ 32"
  shows "\<exists>c'. chain_step chk cfg api (verify :: 'pub price_payload \<Rightarrow> 'sig \<Rightarrow> bool) c (Some (current_block c)) c' \<and>
    oracle_events (oracle_store c') = oracle_events (oracle_store c) @ [NewPrice p (default_account api)]"
proof -
  let ?call = "Call_submit_price_unsigned (current_block c) p :: ('pub, 'sig) oracle_call"
  let ?s = "(price_recorded (default_account api) p (oracle_store c))
      \<lparr>next_unsigned_at := current_block c + unsigned_interval cfg\<rparr>"
  obtain vt where
    "oracle_validate_unsigned chk cfg verify (current_block c) ?call (oracle_store c) = Some (Ok vt)"
    using acceptable_parameters [OF assms(1,2) order_refl] by (simp only: oracle_validate_unsigned.simps) blast
  moreover have "oracle_dispatch chk cfg api (current_block c) ?call org (oracle_store c) = Some (Ok (), ?s)"
    using assms(3,4) rust_add_fits [of "current_block c" "unsigned_interval cfg" chk]
    by (simp add: oracle_dispatch_eq [OF assms(1)] price_sender_def)
  ultimately have "chain_step chk cfg api verify c (Some (current_block c)) (c\<lparr>oracle_store := ?s\<rparr>)"
    using assms(3) by (intro chain_step.unsigned_extrinsic)
  then show ?thesis by (intro exI conjI) (assumption, simp)
qed

section \<open>Properties\<close>

text \<open>
  C1. Unsigned prices are rate limited. In every run of the chain from genesis, whatever the
  signed and root extrinsics in between, any two accepted unsigned prices are at least
  \<open>UnsignedInterval\<close> blocks apart, as long as their block numbers plus the interval fit in 32
  bits.
\<close>

theorem unsigned_prices_are_rate_limited:
  assumes "chain_run chk cfg api verify genesis_chain bs c"
    and "list_all (\<lambda>b. unat b + unat (unsigned_interval cfg) < 2 ^ 32) bs"
  shows "sorted_wrt (\<lambda>a b. unat a + unat (unsigned_interval cfg) \<le> unat b) bs"
  using price_limiter.run_spaced [OF assms(1) genesis_chain_store(2)] assms(2)
  by (simp add: spaced_def in_range_def [abs_def])

text \<open>
  C12. The stored prices are a function of the deposited events: in every state reachable from
  genesis, replaying the announced prices yields the vector. Hence it holds the smaller of 64 and the
  number of announcements, only announced prices, and all of them in order up to the 64th.
\<close>

theorem stored_prices_replay_the_events:
  assumes "chain_run chk cfg api verify genesis_chain bs c"
  shows "prices (oracle_store c) = replay (oracle_events (oracle_store c)) \<and>
    length (prices (oracle_store c)) = min 64 (length (oracle_events (oracle_store c))) \<and>
    set (prices (oracle_store c)) \<subseteq> event_price ` set (oracle_events (oracle_store c)) \<and>
    (length (oracle_events (oracle_store c)) \<le> 64 \<longrightarrow>
       prices (oracle_store c) = map event_price (oracle_events (oracle_store c)))"
  using chain_run_replayed [OF assms genesis_chain_store(1)]
    replay_bounds [of "oracle_events (oracle_store c)"]
  by (simp add: replayed_def MAX_LEN_def)

text \<open>
  C10. The price feed is never locked out. From every state that a run from genesis can reach, and for every
  block at least \<open>UnsignedInterval\<close> blocks later, the chain can go on through empty blocks up to that
  block and then accept an unsigned price, which is stored and announced.
\<close>

theorem unsigned_price_accepted_after_interval:
  assumes "chain_run chk cfg api (verify :: 'pub price_payload \<Rightarrow> 'sig \<Rightarrow> bool) genesis_chain bs c"
    and "unat (current_block c) + unat (unsigned_interval cfg) \<le> unat b"
    and "unat b + unat (unsigned_interval cfg) < 2 ^ 32" and "ensure_none api org = Ok ()"
  shows "\<exists>c'. chain_run chk cfg api verify c [b] c' \<and>
    oracle_events (oracle_store c') = oracle_events (oracle_store c) @ [NewPrice p (default_account api)]"
proof -
  let ?c = "c\<lparr>current_block := b\<rparr>"
  have near: "oracle_inv (oracle_store c)"
    "unat (next_unsigned_at (oracle_store c)) \<le> unat (current_block c) + unat (unsigned_interval cfg)"
    using chain_run_window [OF assms(1)] by (simp_all add: window_near_def)
  have "current_block c + of_nat (unat b - unat (current_block c)) = b"
    using assms(2) by (simp add: of_nat_diff)
  moreover have "unat (current_block c) + (unat b - unat (current_block c)) < 2 ^ 32"
    using assms(2,3) by simp
  ultimately have "chain_run chk cfg api verify c [] ?c"
    using empty_blocks [of c "unat b - unat (current_block c)"] by metis
  moreover obtain c' where "chain_step chk cfg api verify ?c (Some b) c'"
    and "oracle_events (oracle_store c') = oracle_events (oracle_store c) @ [NewPrice p (default_account api)]"
    using open_window_accepts [of ?c api org cfg chk verify p] near assms(2-4)
    by (auto simp: word_le_nat_alt)
  ultimately show ?thesis
    using run_of.run_observed [of "chain_step chk cfg api verify" c "[]" ?c b c'] by auto
qed

text \<open>
  What the validator accepts executes: an unsigned call that \<open>validate_unsigned\<close> accepts is
  dispatched without an error, credits its price to the default account, and closes the window:
  right after it every unsigned call of a block before \<open>now + UnsignedInterval\<close> is refused.
\<close>

lemma validated_price_executes:
  assumes "oracle_inv s" and "ensure_none api org = Ok ()"
    and "oracle_validate_unsigned False cfg verify now call s = Some (Ok vt)"
  shows "\<exists>s'. oracle_dispatch False cfg api now call org s = Some (Ok (), s') \<and>
    oracle_events s' = oracle_events s @ [NewPrice (call_price call) (default_account api)] \<and>
    prices s' = store_price (call_price call) (prices s) \<and>
    next_unsigned_at s' = now + unsigned_interval cfg \<and>
    (\<forall>now' call' vt'. now' < now + unsigned_interval cfg \<longrightarrow>
       oracle_validate_unsigned False cfg verify now' call' s' \<noteq> Some (Ok vt'))"
proof -
  let ?s = "(price_recorded (default_account api) (call_price call) s)
      \<lparr>next_unsigned_at := now + unsigned_interval cfg\<rparr>"
  have "oracle_dispatch False cfg api now call org s = Some (Ok (), ?s)"
    using assms(2) validated_window(1) [OF assms(3)]
    by (simp add: oracle_dispatch_eq [OF assms(1)] price_sender_def rust_add_def)
  moreover have "oracle_validate_unsigned False cfg verify now' call' ?s \<noteq> Some (Ok vt')"
    if "now' < now + unsigned_interval cfg" for now' call' vt'
    using validated_window(2) [of False cfg verify now' call' ?s vt'] that by auto
  ultimately show ?thesis by auto
qed

section \<open>A run\<close>

text \<open>Two unsigned prices, in blocks 0 and 3, at the interval that the runtime configures.\<close>

definition demo_chain :: "u32 \<Rightarrow> u32 list \<Rightarrow> u32 \<Rightarrow> nat chain" where
  "demo_chain b ps n = \<lparr>current_block = b,
     oracle_store = \<lparr>prices = ps, next_unsigned_at = n, oracle_events = map (\<lambda>p. NewPrice p 0) ps\<rparr>\<rparr>"

lemma demo_new_block:
  "unat b + 1 < 2 ^ 32 \<Longrightarrow>
   chain_step chk cfg api verify (demo_chain b ps n) None (demo_chain (b + 1) ps n)"
  using chain_step.new_block [of "demo_chain b ps n" chk cfg api verify]
  by (simp add: demo_chain_def)

lemma demo_chain_price:
  assumes "length ps < 64" and "n \<le> b"
  shows "chain_step False demo_config (raw_api 0) (verify :: 'pub price_payload \<Rightarrow> 'sig \<Rightarrow> bool)
    (demo_chain b ps n) (Some b) (demo_chain b (ps @ [p]) (b + 3))"
proof -
  let ?c = "demo_chain b ps n" and ?call = "Call_submit_price_unsigned b p :: ('pub, 'sig) oracle_call"
  have inv: "oracle_inv (oracle_store ?c)"
    using assms by (simp add: demo_chain_def oracle_inv_def MAX_LEN_def)
  obtain a where a: "average_price (oracle_store ?c) = Some a"
    using average_price_total [OF oracle_inv_small [OF inv]] by blast
  have "\<exists>vt. oracle_validate_unsigned False demo_config verify b ?call (oracle_store ?c) = Some (Ok vt)"
    using a assms(2)
    by (auto simp: validate_transaction_parameters_def demo_chain_def rust_sub_def not_less
          split: option.splits)
  then obtain vt where
    "oracle_validate_unsigned False demo_config verify (current_block ?c) ?call (oracle_store ?c)
       = Some (Ok vt)"
    by (auto simp: demo_chain_def)
  moreover have "oracle_dispatch False demo_config (raw_api 0) (current_block ?c) ?call NoneOrigin
      (oracle_store ?c) = Some (Ok (), oracle_store (demo_chain b (ps @ [p]) (b + 3)))"
    using assms(1) unfolding oracle_dispatch_eq [OF inv]
    by (simp add: price_sender_def rust_add_def price_recorded_def
          demo_chain_def demo_config_def store_price_def MAX_LEN_def)
  ultimately have "chain_step False demo_config (raw_api 0) verify ?c (Some (current_block ?c))
      (?c\<lparr>oracle_store := oracle_store (demo_chain b (ps @ [p]) (b + 3))\<rparr>)"
    by (rule chain_step.unsigned_extrinsic [of _ NoneOrigin, rotated]) simp
  then show ?thesis by (simp add: demo_chain_def)
qed

lemma demo_run:
  "chain_run False demo_config (raw_api 0) (verify :: 'pub price_payload \<Rightarrow> 'sig \<Rightarrow> bool)
     genesis_chain [0, 3] (demo_chain 3 [27, 43] 6)"
proof -
  let ?run = "chain_run False demo_config (raw_api 0) verify genesis_chain"
  have "?run [] (demo_chain 0 [] 0)"
    using run_start by (simp add: genesis_chain_def demo_chain_def)
  then have "?run ([] @ [0]) (demo_chain 0 [27] 3)"
    by (rule run_observed) (rule demo_chain_price [of "[]" 0 0 verify 27, simplified])
  then have "?run ([] @ [0]) (demo_chain 1 [27] 3)"
    by (rule run_quiet) (rule demo_new_block [of 0, simplified])
  then have "?run ([] @ [0]) (demo_chain 2 [27] 3)"
    by (rule run_quiet) (rule demo_new_block [of 1, simplified])
  then have "?run ([] @ [0]) (demo_chain 3 [27] 3)"
    by (rule run_quiet) (rule demo_new_block [of 2, simplified])
  then have "?run (([] @ [0]) @ [3]) (demo_chain 3 [27, 43] 6)"
    by (rule run_observed) (rule demo_chain_price [of "[27]" 3 3 verify 43, simplified])
  then show ?thesis by simp
qed

text \<open>The verifier of the demonstration accepts every signature.\<close>

abbreviation any_signature :: "unit price_payload \<Rightarrow> unit \<Rightarrow> bool" where
  "any_signature \<equiv> \<lambda>_ _. True"

theorem unsigned_prices_are_rate_limited_witness:
  "chain_run False demo_config (raw_api 0) any_signature genesis_chain [0, 3]
     (demo_chain 3 [27, 43] 6) \<and>
   sorted_wrt (\<lambda>a b. unat a + 3 \<le> unat b) [0, 3 :: u32]"
  using unsigned_prices_are_rate_limited [OF demo_run [of any_signature]] demo_run [of any_signature]
  by (simp add: demo_config_def)

theorem stored_prices_replay_the_events_witness:
  "prices (oracle_store (demo_chain 3 [27, 43] 6)) = [27, 43] \<and>
   replay (oracle_events (oracle_store (demo_chain 3 [27, 43] 6))) = [27, 43]"
  using stored_prices_replay_the_events [OF demo_run [of any_signature], THEN conjunct1, symmetric]
  by (simp add: demo_chain_def)

lemma validated_price_executes_example:
  "\<exists>s'. oracle_dispatch False demo_config (raw_api 0) 5
       (Call_submit_price_unsigned 4 43 :: (unit, unit) oracle_call) NoneOrigin
       \<lparr>prices = [27], next_unsigned_at = 3, oracle_events = [NewPrice 27 (0 :: nat)]\<rparr> = Some (Ok (), s') \<and>
     prices s' = [27, 43] \<and> next_unsigned_at s' = 8"
proof -
  let ?s = "\<lparr>prices = [27], next_unsigned_at = 3, oracle_events = [NewPrice 27 (0 :: nat)]\<rparr>"
  have "oracle_inv ?s" by (simp add: oracle_inv_def MAX_LEN_def)
  moreover have "\<exists>vt. oracle_validate_unsigned False demo_config any_signature 5
      (Call_submit_price_unsigned 4 43) ?s = Some (Ok vt)"
    by (simp add: validate_transaction_parameters_def average_price_def saturating_add_def
          rust_div_def rust_sub_def)
  ultimately show ?thesis
    using validated_price_executes [of ?s "raw_api 0" NoneOrigin demo_config any_signature 5
        "Call_submit_price_unsigned 4 43"]
    by (auto simp: store_price_def MAX_LEN_def demo_config_def)
qed

theorem unsigned_price_accepted_after_interval_witness:
  "\<exists>c'. chain_run False demo_config (raw_api 0) (\<lambda>(_ :: unit price_payload) (_ :: unit). True)
      (demo_chain 3 [27, 43] 6) [6] c' \<and>
    oracle_events (oracle_store c') = oracle_events (oracle_store (demo_chain 3 [27, 43] 6)) @ [NewPrice 50 0]"
  using unsigned_price_accepted_after_interval [OF demo_run, of 6 NoneOrigin
      "\<lambda>(_ :: unit price_payload) (_ :: unit). True" 50]
  by (simp add: demo_config_def demo_chain_def)

end
