(* ===== verification/Runtime.thy ===== *)
theory Runtime
  imports Pallet_Template Pallet_Ocw Price_Chain
begin

text \<open>
  \<open>runtime/src/lib.rs\<close>: the constants, the configuration of the price oracle, the composition of
  the repository's three pallets into one \<open>Call\<close> with its dispatcher and its validator of
  unsigned calls, and the signing of transactions for the off-chain workers. The FRAME pallets
  that the runtime also includes (System, Timestamp, Aura, Grandpa, Balances, Sudo) are not part of the
  repository; of System only the block number is kept.
\<close>

section \<open>Constants\<close>

definition MILLISECS_PER_BLOCK :: u64 where "MILLISECS_PER_BLOCK = 6000"
definition SLOT_DURATION :: u64 where "SLOT_DURATION = MILLISECS_PER_BLOCK"
definition MINUTES :: u32 where "MINUTES = 60000 div ucast MILLISECS_PER_BLOCK"
definition HOURS :: u32 where "HOURS = MINUTES * 60"
definition DAYS :: u32 where "DAYS = HOURS * 24"
definition MinimumPeriod :: u64 where "MinimumPeriod = SLOT_DURATION div 2"
definition BlockHashCount :: u32 where "BlockHashCount = 2400"
definition SS58Prefix :: u8 where "SS58Prefix = 42"
definition MaxAuthorities :: u32 where "MaxAuthorities = 32"
definition ExistentialDeposit :: u128 where "ExistentialDeposit = 500"
definition MaxLocks :: u32 where "MaxLocks = 50"
definition TransactionByteFee :: u128 where "TransactionByteFee = 1"

record runtime_version =
  spec_name :: string
  impl_name :: string
  authoring_version :: u32
  spec_version :: u32
  impl_version :: u32
  transaction_version :: u32

definition VERSION :: runtime_version where
  "VERSION = \<lparr>
     spec_name = ''node-template'',
     impl_name = ''node-template'',
     authoring_version = 1,
     spec_version = 100,
     impl_version = 1,
     transaction_version = 1\<rparr>"

text \<open>
  The parameters of the price oracle. All three are declared at type \<open>BlockNumber\<close>; the
  priority is widened to 64 bits where the pallet reads it.
\<close>

definition GracePeriod :: u32 where "GracePeriod = 3"
definition UnsignedInterval :: u32 where "UnsignedInterval = 3"
definition UnsignedPriority :: u32 where "UnsignedPriority = 3"

definition runtime_oracle_config :: oracle_config where
  "runtime_oracle_config = \<lparr>
     grace_period = GracePeriod,
     unsigned_interval = UnsignedInterval,
     unsigned_priority = ucast UnsignedPriority\<rparr>"

section \<open>The composed runtime\<close>

datatype ('pub, 'sig) runtime_call =
    TemplateModule template_call
  | OcwDemo "('pub, 'sig) ocw_call"
  | OcwExample "('pub, 'sig) oracle_call"

datatype runtime_error =
    TemplateError template_error
  | OcwError ocw_error
  | OracleError oracle_error

text \<open>
  The storage of the three pallets. FRAME keeps the storage of every pallet under a prefix of its own; the
  model has a field per pallet instead, so that pallets cannot touch each other's storage is part of the
  model and not a result.
\<close>

record 'a runtime_state =
  block_number :: u32
  template_store :: "'a template_state"
  ocw_store :: "'a ocw_state"
  example_store :: "'a oracle_state"

definition lift_error :: "('e \<Rightarrow> runtime_error) \<Rightarrow> 'e dispatch_error + unit
    \<Rightarrow> runtime_error dispatch_error + unit" where
  "lift_error f r = map_sum (map_dispatch_error f) id r"

text \<open>The release build of the runtime; the price oracle's additions wrap.\<close>

fun runtime_dispatch ::
  "('o, 'a) frame_api \<Rightarrow> ('pub, 'sig) runtime_call \<Rightarrow> 'o \<Rightarrow> 'a runtime_state
     \<Rightarrow> (runtime_error, 'a runtime_state) dispatched" where
  "runtime_dispatch api (TemplateModule c) origin s =
     map_option (\<lambda>(r, t). (lift_error TemplateError r, s\<lparr>template_store := t\<rparr>))
       (template_dispatch api c origin (template_store s))"
| "runtime_dispatch api (OcwDemo c) origin s =
     map_option (\<lambda>(r, t). (lift_error OcwError r, s\<lparr>ocw_store := t\<rparr>))
       (ocw_dispatch api c origin (ocw_store s))"
| "runtime_dispatch api (OcwExample c) origin s =
     map_option (\<lambda>(r, t). (lift_error OracleError r, s\<lparr>example_store := t\<rparr>))
       (oracle_dispatch False runtime_oracle_config api (block_number s) c origin
          (example_store s))"

text \<open>
  \<open>construct_runtime!\<close> routes an unsigned call to the pallets listed with \<open>ValidateUnsigned\<close>
  (\<open>OcwDemo\<close> and \<open>OcwExample\<close>); a call of any other pallet has no validator. The tags the two
  validators provide have different types.
\<close>

datatype runtime_tag = OcwTag "string list" | ExampleTag u32

datatype validity_error = Invalid invalid_transaction | NoUnsignedValidator

definition retag :: "('t \<Rightarrow> runtime_tag) \<Rightarrow> 't valid_transaction \<Rightarrow> runtime_tag valid_transaction" where
  "retag f vt = \<lparr>
     vt_tag_prefix = vt_tag_prefix vt,
     vt_priority = vt_priority vt,
     vt_provides = map f (vt_provides vt),
     vt_longevity = vt_longevity vt,
     vt_propagate = vt_propagate vt\<rparr>"

fun runtime_validate_unsigned ::
  "('pub payload \<Rightarrow> 'sig \<Rightarrow> bool) \<Rightarrow> ('pub price_payload \<Rightarrow> 'sig \<Rightarrow> bool)
     \<Rightarrow> ('pub, 'sig) runtime_call \<Rightarrow> 'a runtime_state
     \<Rightarrow> (validity_error + runtime_tag valid_transaction) option" where
  "runtime_validate_unsigned verify_ocw verify_price (OcwDemo c) s =
     Some (map_sum Invalid (retag OcwTag) (ocw_validate_unsigned verify_ocw c))"
| "runtime_validate_unsigned verify_ocw verify_price (OcwExample c) s =
     map_option (map_sum Invalid (retag ExampleTag))
       (oracle_validate_unsigned False runtime_oracle_config verify_price (block_number s) c
          (example_store s))"
| "runtime_validate_unsigned verify_ocw verify_price _ s = Some (Err NoUnsignedValidator)"

section \<open>Signing a transaction\<close>

text \<open>
  The signed extensions that carry data: the era, the nonce and the tip. \<open>era_mortal\<close> stands for
  \<open>generic::Era::mortal\<close>, \<open>payload_new\<close> for \<open>SignedPayload::new\<close>, \<open>sign\<close> for signing the encoded
  payload with \<open>C::sign\<close>, and \<open>deconstruct\<close> for \<open>SignedPayload::deconstruct\<close>.
\<close>

record 'era signed_extra =
  check_era :: 'era
  check_nonce :: u32
  charge_tip :: u128

datatype 'acc multi_address = Id 'acc

definition create_transaction ::
  "(u64 \<Rightarrow> u64 \<Rightarrow> 'era) \<Rightarrow> ('call \<Rightarrow> 'era signed_extra \<Rightarrow> 'verr + 'raw) \<Rightarrow> ('raw \<Rightarrow> 'pub \<Rightarrow> 'sig option)
     \<Rightarrow> ('raw \<Rightarrow> 'call \<times> 'era signed_extra \<times> 'add) \<Rightarrow> u32
     \<Rightarrow> 'call \<Rightarrow> 'pub \<Rightarrow> 'acc \<Rightarrow> u32
     \<Rightarrow> ('call \<times> ('acc multi_address \<times> 'sig \<times> 'era signed_extra)) option" where
  "create_transaction era_mortal payload_new sign deconstruct now call public account index =
     (let period = ucast BlockHashCount;
          current_block = saturating_sub (ucast now) 1;
          tip = 0;
          extra = \<lparr>check_era = era_mortal period current_block,
                   check_nonce = index, charge_tip = tip\<rparr>
      in case payload_new call extra of
           Err _ \<Rightarrow> None
         | Ok raw_payload \<Rightarrow> do {
             signature \<leftarrow> sign raw_payload public;
             let address = account;
             let (call, extra, _) = deconstruct raw_payload;
             Some (call, (Id address, signature, extra))
           })"

section \<open>Runtime API answers that are fixed\<close>

text \<open>
  Equivocation reports are switched off: the two Grandpa entry points return \<open>None\<close> whatever
  they are given.
\<close>

definition submit_report_equivocation_unsigned_extrinsic :: "'proof \<Rightarrow> 'owner \<Rightarrow> unit option" where
  "submit_report_equivocation_unsigned_extrinsic equivocation_proof key_owner_proof = None"

definition generate_key_ownership_proof :: "'set_id \<Rightarrow> 'auth \<Rightarrow> 'owner option" where
  "generate_key_ownership_proof set_id authority_id = None"

section \<open>The composed runtime meets the contract of its pallets\<close>

definition runtime_inv :: "'a runtime_state \<Rightarrow> bool" where
  "runtime_inv s \<longleftrightarrow> ocw_inv (ocw_store s) \<and> oracle_inv (example_store s)"

lemma lift_error_iff [simp]:
  "lift_error f r = Ok () \<longleftrightarrow> r = Ok ()"
  "lift_error f r = Err e \<longleftrightarrow> (\<exists>e'. r = Err e' \<and> e = map_dispatch_error f e')"
  by (cases r; auto simp: lift_error_def)+

interpretation runtime: total_pallet "runtime_dispatch api" runtime_inv for api
proof unfold_locales
  fix s s' :: "'b runtime_state" and c org r
  assume inv: "runtime_inv s" and d: "runtime_dispatch api c org s = Some (r, s')"
  then show "runtime_inv s'"
    by (cases c)
      (auto simp: runtime_inv_def intro: ocw.dispatch_inv oracle_any.dispatch_inv)
next
  fix s s' :: "'b runtime_state" and c org e
  assume "runtime_dispatch api c org s = Some (Err e, s')"
  then show "s' = s"
    by (cases c)
      (auto dest: template.dispatch_err ocw.dispatch_err oracle_any.dispatch_err)
next
  fix s :: "'b runtime_state" and c org
  assume "runtime_inv s"
  then show "\<exists>r s'. runtime_dispatch api c org s = Some (r, s')"
    by (cases c)
      (auto simp: runtime_inv_def template.dispatch_total
         dest: ocw.dispatch_total oracle_release.dispatch_total)
qed

interpretation runtime_unsigned: unsigned_pallet "runtime_dispatch api" runtime_inv
    "runtime_validate_unsigned verify_ocw verify_price" "\<lambda>org. ensure_none api org = Ok ()"
  for api verify_ocw verify_price
proof unfold_locales
  fix s :: "'b runtime_state" and c org vt
  assume "runtime_inv s" and "ensure_none api org = Ok ()"
    and "runtime_validate_unsigned verify_ocw verify_price c s = Some (Ok vt)"
  then show "\<exists>s'. runtime_dispatch api c org s = Some (Ok (), s')"
    by (cases c)
      (auto simp: runtime_inv_def dest: oracle_unsigned.validated_ok
         intro: ocw_unsigned.validated_ok)
next
  fix s :: "'b runtime_state" and c
  assume "runtime_inv s"
  then show "\<exists>r. runtime_validate_unsigned verify_ocw verify_price c s = Some r"
    using oracle_unsigned.validate_total by (cases c) (auto simp: runtime_inv_def)
qed

section \<open>The pallets of the runtime do not interfere\<close>

text \<open>The calls of one pallet among the calls of a block, with their origins.\<close>

fun template_part :: "('pub, 'sig) runtime_call \<times> 'o \<Rightarrow> (template_call \<times> 'o) option" where
  "template_part (TemplateModule c, org) = Some (c, org)"
| "template_part _ = None"

fun ocw_part :: "('pub, 'sig) runtime_call \<times> 'o \<Rightarrow> (('pub, 'sig) ocw_call \<times> 'o) option" where
  "ocw_part (OcwDemo c, org) = Some (c, org)"
| "ocw_part _ = None"

fun example_part :: "('pub, 'sig) runtime_call \<times> 'o \<Rightarrow> (('pub, 'sig) oracle_call \<times> 'o) option" where
  "example_part (OcwExample c, org) = Some (c, org)"
| "example_part _ = None"

text \<open>What a projection of the state and the matching projection of the calls have to satisfy.\<close>

lemma apply_calls_projected:
  assumes step: "\<And>c org s r s'. d c org s = Some (r, s') \<Longrightarrow> I s \<Longrightarrow>
      I s' \<and>
      (case part (c, org) of
         None \<Rightarrow> proj s' = proj s
       | Some (c', org') \<Rightarrow> \<exists>r'. e c' org' (proj s) = Some (r', proj s'))"
    and "apply_calls d cs s = Some s'" and "I s"
  shows "apply_calls e (List.map_filter part cs) (proj s) = Some (proj s')"
  using assms(2,3)
proof (induction cs arbitrary: s)
  case Nil
  then show ?case by (simp add: map_filter_simps)
next
  case (Cons co cs)
  obtain c org where co: "co = (c, org)" by (cases co)
  with Cons.prems obtain r s1 where
    d: "d c org s = Some (r, s1)" and rest: "apply_calls d cs s1 = Some s'"
    by (auto split: option.splits)
  from step [OF d Cons.prems(2)] Cons.IH [OF rest] co show ?case
    by (auto simp: map_filter_simps split: option.splits)
qed

lemma runtime_step_parts:
  assumes "runtime_dispatch api c org s = Some (r, s')" and "block_number s = b"
  shows "block_number s' = b \<and> (case template_part (c, org) of
        None \<Rightarrow> template_store s' = template_store s
      | Some (c', org') \<Rightarrow> \<exists>r'. template_dispatch api c' org' (template_store s) = Some (r', template_store s'))"
    and "block_number s' = b \<and> (case ocw_part (c, org) of
        None \<Rightarrow> ocw_store s' = ocw_store s
      | Some (c', org') \<Rightarrow> \<exists>r'. ocw_dispatch api c' org' (ocw_store s) = Some (r', ocw_store s'))"
    and "block_number s' = b \<and> (case example_part (c, org) of
        None \<Rightarrow> example_store s' = example_store s
      | Some (c', org') \<Rightarrow> \<exists>r'. oracle_dispatch False runtime_oracle_config api b c' org'
          (example_store s) = Some (r', example_store s'))"
  using assms by (cases c; auto)+

lemma runtime_projections:
  assumes "apply_calls (runtime_dispatch api) cs s = Some s'"
  shows "apply_calls (template_dispatch api) (List.map_filter template_part cs) (template_store s) =
      Some (template_store s')"
    and "apply_calls (ocw_dispatch api) (List.map_filter ocw_part cs) (ocw_store s) =
      Some (ocw_store s')"
    and "apply_calls (oracle_dispatch False runtime_oracle_config api (block_number s))
      (List.map_filter example_part cs) (example_store s) = Some (example_store s')"
  by (rule apply_calls_projected [where I = "\<lambda>t. block_number t = block_number s",
        OF _ assms refl], erule (1) runtime_step_parts)+

section \<open>Properties\<close>

text \<open>
  C11. A block of calls never panics and never breaks a bound. From any state in which the price
  vector has at most 64 and the number queue at most 10 entries, every sequence of calls of the
  three pallets with any origins runs to the end and keeps both bounds.
\<close>

theorem runtime_runs_are_total:
  assumes "length (prices (example_store s)) \<le> 64" and "length (numbers (ocw_store s)) \<le> 10"
  shows "\<exists>s'. apply_calls (runtime_dispatch api) cs s = Some s' \<and>
    length (prices (example_store s')) \<le> 64 \<and> length (numbers (ocw_store s')) \<le> 10"
  using runtime.apply_calls_total [of s api cs] assms
  by (auto simp: runtime_inv_def ocw_inv_def oracle_inv_def MAX_LEN_def NUM_VEC_LEN_def)

text \<open>
  C27. A call that returns an error has written nothing, in any pallet. Since dispatchables of this
  FRAME version are not rolled back, this is what makes a failing extrinsic harmless: removing it
  from a block does not change the state the block leads to.
\<close>

theorem runtime_errors_change_nothing:
  assumes "runtime_dispatch api c org s = Some (Err e, s')"
  shows "s' = s \<and> apply_calls (runtime_dispatch api) ((c, org) # cs) s =
    apply_calls (runtime_dispatch api) cs s"
  using runtime.dispatch_err [OF assms] runtime.apply_calls_drop_failing [OF assms] by blast

text \<open>
  C21. What the composed validator accepts executes. An unsigned call is rejected before it runs, or
  runs without an error and keeps the bounds; calls of the template pallet are always rejected, as
  that pallet has no validator.
\<close>

theorem runtime_unsigned_validated_or_rejected:
  assumes "runtime_inv s" and "ensure_none api org = Ok ()"
  shows "((\<exists>e. runtime_validate_unsigned verify_ocw verify_price c s = Some (Err e)) \<or>
     (\<exists>s'. runtime_dispatch api c org s = Some (Ok (), s') \<and> runtime_inv s')) \<and>
    runtime_validate_unsigned verify_ocw verify_price (TemplateModule tc) s =
      Some (Err NoUnsignedValidator)"
  using runtime_unsigned.validated_or_rejected [OF assms, of verify_ocw verify_price c] by simp

text \<open>
  The storage that a block of mixed calls leaves in a pallet is the storage that its own calls of the
  block alone, in their order, leave there. This follows from the separate fields of \<open>runtime_state\<close>.
\<close>

lemma pallets_do_not_interfere:
  assumes "apply_calls (runtime_dispatch api) cs s = Some s'"
  shows "apply_calls (template_dispatch api) (List.map_filter template_part cs) (template_store s) =
      Some (template_store s') \<and>
    apply_calls (ocw_dispatch api) (List.map_filter ocw_part cs) (ocw_store s) =
      Some (ocw_store s') \<and>
    apply_calls (oracle_dispatch False runtime_oracle_config api (block_number s))
      (List.map_filter example_part cs) (example_store s) = Some (example_store s')"
  using runtime_projections [OF assms] by simp

text \<open>
  C32. \<open>create_transaction\<close> returns a transaction exactly if the payload can be built and signed. It
  carries the caller's call, account and nonce, no tip, and an era of 2400 blocks that starts at the
  block before the current one (at block zero: at zero).
\<close>

theorem create_transaction_spec:
  assumes "\<forall>c ex raw. payload_new c ex = Ok raw \<longrightarrow> (\<exists>add. deconstruct raw = (c, ex, add))"
  shows "create_transaction era_mortal payload_new sign deconstruct now call public account index =
     Some (call', (addr, sig, extra)) \<longleftrightarrow>
   call' = call \<and> addr = Id account \<and> check_nonce extra = index \<and> charge_tip extra = 0 \<and>
   (\<exists>raw. payload_new call extra = Ok raw \<and> sign raw public = Some sig) \<and>
   (\<exists>parent. unat parent = unat now - 1 \<and> check_era extra = era_mortal 2400 parent)"
proof -
  let ?p = "saturating_sub (ucast now) 1 :: u64"
  let ?extra = "\<lparr>check_era = era_mortal 2400 ?p, check_nonce = index, charge_tip = 0\<rparr>"
  have "unat parent = unat now - 1 \<longleftrightarrow> parent = ?p" for parent :: u64
    by (simp add: word_unat_eq_iff unat_saturating_sub unat_ucast_up)
  then have p: "(\<exists>parent. unat parent = unat now - 1 \<and> check_era extra = era_mortal 2400 parent) \<longleftrightarrow>
      check_era extra = era_mortal 2400 ?p"
    by simp
  have "extra = ?extra \<longleftrightarrow> check_nonce extra = index \<and> charge_tip extra = 0 \<and>
      check_era extra = era_mortal 2400 ?p"
    by (cases extra) auto
  moreover have "create_transaction era_mortal payload_new sign deconstruct now call public account index =
     Some (call', (addr, sig, extra)) \<longleftrightarrow>
     call' = call \<and> addr = Id account \<and> extra = ?extra \<and>
     (\<exists>raw. payload_new call ?extra = Ok raw \<and> sign raw public = Some sig)"
    using assms
    by (fastforce simp: create_transaction_def Let_def BlockHashCount_def
          split: sum.splits bind_splits prod.splits)
  ultimately show ?thesis
    unfolding p by auto
qed

text \<open>
  The time constants fit together: a day of blocks takes a day (86400 seconds), an hour of them
  an hour, and the smallest distance of two timestamps is half a slot.
\<close>

lemma runtime_time_constants:
  "unat DAYS * unat MILLISECS_PER_BLOCK = 24 * 60 * 60 * 1000 \<and>
   unat HOURS * unat MILLISECS_PER_BLOCK = 60 * 60 * 1000 \<and>
   2 * MinimumPeriod = SLOT_DURATION"
  by (simp add: DAYS_def HOURS_def MINUTES_def MILLISECS_PER_BLOCK_def MinimumPeriod_def
        SLOT_DURATION_def)

section \<open>A concrete block\<close>

definition demo_runtime :: "nat runtime_state" where
  "demo_runtime = \<lparr>
     block_number = 9,
     template_store = \<lparr>something = None, template_events = []\<rparr>,
     ocw_store = \<lparr>numbers = [4, 5], ocw_events = []\<rparr>,
     example_store = \<lparr>prices = [27, 43], next_unsigned_at = 6, oracle_events = []\<rparr>\<rparr>"

text \<open>One call for each pallet, and one that fails.\<close>

definition demo_block :: "((unit, unit) runtime_call \<times> nat raw_origin) list" where
  "demo_block = [
     (TemplateModule (Call_do_something 8), SignedOrigin 1),
     (OcwDemo (Call_submit_number_unsigned 9), NoneOrigin),
     (OcwExample (Call_submit_price 50), NoneOrigin),
     (OcwExample (Call_submit_price_unsigned 9 50), NoneOrigin)]"

definition demo_runtime_after :: "nat runtime_state" where
  "demo_runtime_after = \<lparr>
     block_number = 9,
     template_store = \<lparr>something = Some 8, template_events = [SomethingStored 8 1]\<rparr>,
     ocw_store = \<lparr>numbers = [4, 5, 9], ocw_events = [NewNumber None 9]\<rparr>,
     example_store = \<lparr>prices = [27, 43, 50], next_unsigned_at = 12, oracle_events = [NewPrice 50 0]\<rparr>\<rparr>"

lemma demo_runtime_inv: "runtime_inv demo_runtime"
  by (simp add: runtime_inv_def ocw_inv_def oracle_inv_def demo_runtime_def NUM_VEC_LEN_def
        MAX_LEN_def)

lemma demo_block_runs:
  "apply_calls (runtime_dispatch (raw_api 0)) demo_block demo_runtime = Some demo_runtime_after"
proof -
  have inv: "oracle_inv \<lparr>prices = [27, 43], next_unsigned_at = 6, oracle_events = ([] :: nat oracle_event list)\<rparr>"
    by (simp add: oracle_inv_def MAX_LEN_def)
  show ?thesis
    by (simp add: demo_block_def demo_runtime_def demo_runtime_after_def dispatch_defs Let_def
          ocw_deposit_event_def append_or_replace_number_def NUM_VEC_LEN_def lift_error_def
          add_price_eq [OF inv] store_price_def MAX_LEN_def rust_add_def runtime_oracle_config_def
          UnsignedInterval_def)
qed

theorem runtime_runs_are_total_witness:
  "\<exists>s'. apply_calls (runtime_dispatch (raw_api 0)) demo_block demo_runtime = Some s' \<and>
     length (prices (example_store s')) \<le> 64 \<and> length (numbers (ocw_store s')) \<le> 10"
  by (rule runtime_runs_are_total) (simp_all add: demo_runtime_def)

theorem runtime_errors_change_nothing_witness:
  "apply_calls (runtime_dispatch (raw_api 0))
     ((OcwExample (Call_submit_price 50 :: (unit, unit) oracle_call), NoneOrigin) # demo_block)
     demo_runtime = Some demo_runtime_after"
proof -
  have "runtime_dispatch (raw_api 0) (OcwExample (Call_submit_price 50 :: (unit, unit) oracle_call))
      NoneOrigin demo_runtime = Some (Err (OriginError BadOrigin), demo_runtime)"
    by (simp add: dispatch_defs demo_runtime_def lift_error_def)
  from runtime_errors_change_nothing [OF this, of demo_block] show ?thesis
    by (simp only: demo_block_runs)
qed

theorem runtime_unsigned_validated_or_rejected_witness:
  "\<exists>s'. runtime_dispatch (raw_api 0) (OcwDemo (Call_submit_number_unsigned 9 :: (unit, unit) ocw_call))
      NoneOrigin demo_runtime = Some (Ok (), s') \<and> runtime_inv s'"
  using runtime_unsigned_validated_or_rejected [OF demo_runtime_inv, of "raw_api 0" NoneOrigin
      "\<lambda>_ _. True" "\<lambda>_ _. True" "OcwDemo (Call_submit_number_unsigned 9 :: (unit, unit) ocw_call)"]
  by (simp add: ocw_valid_tx_def)

lemma pallets_do_not_interfere_example:
  "apply_calls (ocw_dispatch (raw_api 0))
     [(Call_submit_number_unsigned 9 :: (unit, unit) ocw_call, NoneOrigin)] (ocw_store demo_runtime) =
   Some (ocw_store demo_runtime_after)"
proof -
  have "List.map_filter ocw_part demo_block = [(Call_submit_number_unsigned 9, NoneOrigin)]"
    by (simp add: demo_block_def map_filter_simps)
  with pallets_do_not_interfere [OF demo_block_runs] show ?thesis by (simp only:)
qed

theorem create_transaction_spec_witness:
  "create_transaction Pair (\<lambda>c ex. Ok (c, ex, ()) :: unit + nat \<times> (u64 \<times> u64) signed_extra \<times> unit)
     (\<lambda>raw pub. Some pub) id 0 (7 :: nat) (1 :: nat) (3 :: nat) 5 =
   Some (7, (Id 3, 1, \<lparr>check_era = (2400, 0), check_nonce = 5, charge_tip = 0\<rparr>))"
proof -
  have "\<exists>parent. unat parent = unat (0 :: u32) - 1 \<and> (2400, 0 :: u64) = (2400, parent :: u64)"
    by simp
  then show ?thesis
    by (subst create_transaction_spec) simp_all
qed

end
