(* ===== verification/Payloads.thy ===== *)
theory Payloads
  imports Scale Runtime
begin

text \<open>
  The two payloads that the off-chain workers sign, \<open>Payload\<close> of \<open>pallets/ocw\<close> and
  \<open>PricePayload\<close> of \<open>pallets/example-offchain-worker\<close>, with the codecs that their
  \<^verbatim>\<open>#[derive(Encode, Decode)]\<close> gives them (the fields in the order of their declaration) and their
  \<open>public\<close> accessors.

  A signed payload is verified by \<open>SignedPayload::verify\<close>, a provided method of \<open>frame_system\<close>: it
  passes the encoded payload, what \<open>public()\<close> returns and the signature to \<open>AppCrypto::verify\<close> of
  the pallet's \<open>AuthorityId\<close>. The runtime configures both pallets with a \<open>TestAuthId\<close> over sr25519,
  so one function \<open>app_verify\<close> of the encoded bytes, the key and the signature stands for both;
  the key type of a pallet only selects the key store entries that its worker signs with.
\<close>

section \<open>Codecs\<close>

definition encode_payload :: "u64 encoder \<Rightarrow> 'pub encoder \<Rightarrow> 'pub payload encoder" where
  "encode_payload enc_u64 enc_pub p = enc_u64 (pl_number p) @ enc_pub (pl_public p)"

definition decode_payload :: "u64 decoder \<Rightarrow> 'pub decoder \<Rightarrow> 'pub payload decoder" where
  "decode_payload dec_u64 dec_pub bs = do {
     (number, bs) \<leftarrow> dec_u64 bs;
     (public, bs) \<leftarrow> dec_pub bs;
     Some (\<lparr>pl_number = number, pl_public = public\<rparr>, bs)
   }"

definition payload_public :: "'pub payload \<Rightarrow> 'pub" where
  "payload_public self = pl_public self"

definition encode_price_payload :: "u32 encoder \<Rightarrow> 'pub encoder \<Rightarrow> 'pub price_payload encoder" where
  "encode_price_payload enc_u32 enc_pub p =
     enc_u32 (pp_block_number p) @ enc_u32 (pp_price p) @ enc_pub (pp_public p)"

definition decode_price_payload :: "u32 decoder \<Rightarrow> 'pub decoder \<Rightarrow> 'pub price_payload decoder" where
  "decode_price_payload dec_u32 dec_pub bs = do {
     (block_number, bs) \<leftarrow> dec_u32 bs;
     (price, bs) \<leftarrow> dec_u32 bs;
     (public, bs) \<leftarrow> dec_pub bs;
     Some (\<lparr>pp_block_number = block_number, pp_price = price, pp_public = public\<rparr>, bs)
   }"

definition price_payload_public :: "'pub price_payload \<Rightarrow> 'pub" where
  "price_payload_public self = pp_public self"

section \<open>Verification\<close>

type_synonym ('pub, 'sig) app_crypto = "u8 list \<Rightarrow> 'pub \<Rightarrow> 'sig \<Rightarrow> bool"

definition verify_payload ::
  "('pub, 'sig) app_crypto \<Rightarrow> u64 encoder \<Rightarrow> 'pub encoder \<Rightarrow> 'pub payload \<Rightarrow> 'sig \<Rightarrow> bool" where
  "verify_payload app_verify enc_u64 enc_pub p sig =
     app_verify (encode_payload enc_u64 enc_pub p) (payload_public p) sig"

definition verify_price_payload ::
  "('pub, 'sig) app_crypto \<Rightarrow> u32 encoder \<Rightarrow> 'pub encoder \<Rightarrow> 'pub price_payload \<Rightarrow> 'sig \<Rightarrow> bool" where
  "verify_price_payload app_verify enc_u32 enc_pub p sig =
     app_verify (encode_price_payload enc_u32 enc_pub p) (price_payload_public p) sig"

section \<open>The payload codecs keep the contract of their fields\<close>

locale payload_fields = number: scale_codec enc_u64 dec_u64 + public: scale_codec enc_pub dec_pub
  for enc_u64 :: "u64 encoder" and dec_u64 and enc_pub :: "'pub encoder" and dec_pub

sublocale payload_fields \<subseteq>
  payload_codec: scale_codec "encode_payload enc_u64 enc_pub" "decode_payload dec_u64 dec_pub"
  by unfold_locales
    (simp add: encode_payload_def decode_payload_def number.dec_enc public.dec_enc)

locale price_fields = block_or_price: scale_codec enc_u32 dec_u32 + public: scale_codec enc_pub dec_pub
  for enc_u32 :: "u32 encoder" and dec_u32 and enc_pub :: "'pub encoder" and dec_pub

sublocale price_fields \<subseteq>
  price_codec: scale_codec "encode_price_payload enc_u32 enc_pub" "decode_price_payload dec_u32 dec_pub"
  by unfold_locales
    (simp add: encode_price_payload_def decode_price_payload_def block_or_price.dec_enc
       public.dec_enc)

context payload_fields
begin

lemma payload_roundtrip:
  "decode_payload dec_u64 dec_pub (encode_payload enc_u64 enc_pub p @ bs) = Some (p, bs)"
  by (rule payload_codec.dec_enc)

end

context price_fields
begin

lemma price_roundtrip:
  "decode_price_payload dec_u32 dec_pub (encode_price_payload enc_u32 enc_pub p @ bs) = Some (p, bs)"
  by (rule price_codec.dec_enc)

text \<open>
  The bytes of a price are those of another price only if it is the same, and those of a number only if
  the number has the block as its lower and the price as its upper half, with the same key.
\<close>

lemma price_bytes_cases:
  assumes "\<And>n. enc_u64 n = enc_u32 (low32 n) @ enc_u32 (high32 n)"
    and "encode_price_payload enc_u32 enc_pub p \<in>
      encode_price_payload enc_u32 enc_pub ` A \<union> encode_payload enc_u64 enc_pub ` B"
  shows "p \<in> A \<or> (\<exists>q \<in> B. pl_public q = pp_public p \<and>
    low32 (pl_number q) = pp_block_number p \<and> high32 (pl_number q) = pp_price p)"
proof -
  from assms(2) consider (price) q where "q \<in> A"
      "encode_price_payload enc_u32 enc_pub p = encode_price_payload enc_u32 enc_pub q"
    | (number) q where "q \<in> B" "encode_price_payload enc_u32 enc_pub p = encode_payload enc_u64 enc_pub q"
    by blast
  then show ?thesis
  proof cases
    case price
    then show ?thesis by (simp add: price_codec.enc_inject)
  next
    case number
    then have "enc_u32 (pp_block_number p) @ enc_u32 (pp_price p) @ enc_pub (pp_public p) =
        enc_u32 (low32 (pl_number q)) @ enc_u32 (high32 (pl_number q)) @ enc_pub (pl_public q)"
      by (simp add: encode_price_payload_def encode_payload_def assms(1))
    then have "pp_block_number p = low32 (pl_number q) \<and> pp_price p = high32 (pl_number q) \<and>
        pp_public p = pl_public q"
      using block_or_price.enc_prefix_free public.enc_inject by metis
    with number(1) show ?thesis by auto
  qed
qed

end

text \<open>The codecs of the payloads at the integers of SCALE, with keys of 32 bits.\<close>

interpretation le_payload: payload_fields le_enc le_dec "le_enc :: u32 encoder" le_dec ..
interpretation le_price_payload: price_fields le_enc le_dec "le_enc :: u32 encoder" le_dec ..

section \<open>The runtime's validator over encoded payloads\<close>

text \<open>The signature is the first thing the validator of a signed price checks.\<close>

lemma accepted_signed_price:
  "runtime_validate_unsigned vo vp
      (OcwExample (Call_submit_price_unsigned_with_signed_payload p sig)) s = Some (Ok vt) \<Longrightarrow>
   vp p sig"
  by (auto split: if_splits)

section \<open>Properties\<close>

text \<open>
  Encoding either payload and decoding the bytes gives the payload back, with the bytes that follow
  it left over, whenever the codecs of the fields do so.
\<close>

lemma payloads_roundtrip:
  assumes "scale_codec enc_u32 dec_u32" and "scale_codec enc_u64 dec_u64"
    and "scale_codec enc_pub dec_pub"
  shows "decode_payload dec_u64 dec_pub (encode_payload enc_u64 enc_pub p @ bs) = Some (p, bs) \<and>
    decode_price_payload dec_u32 dec_pub (encode_price_payload enc_u32 enc_pub q @ bs) = Some (q, bs)"
  using payload_fields.payload_roundtrip [OF payload_fields.intro [OF assms(2,3)]]
    price_fields.price_roundtrip [OF price_fields.intro [OF assms(1,3)]]
  by blast

text \<open>
  C9. Where an accepted signed price comes from. Suppose that a signature that verifies proves that the owner
  of the key signed the message, that the owner of this key signs nothing but payloads of the two pallets,
  the prices in \<open>A\<close> and the numbers in \<open>B\<close>, and that integers are encoded little-endian, as in SCALE. Then a
  signed price that the runtime's validator accepts for this key is one of the prices in \<open>A\<close>, with
  neither block nor price changed, or it has the bytes of a number in \<open>B\<close>: the number is the
  price times \<open>2 ^ 32\<close> plus the block. There is no other confusion; the second case does occur.
\<close>

theorem accepted_signed_price_is_signed:
  assumes "scale_codec enc_u32 dec_u32" and "scale_codec enc_pub dec_pub"
    and "\<forall>n. enc_u64 n = enc_u32 (low32 n) @ enc_u32 (high32 n)"
    and "\<forall>m key sg. app_verify m key sg \<longrightarrow> m \<in> signed_by key"
    and "signed_by (pp_public p) \<subseteq>
      encode_price_payload enc_u32 enc_pub ` A \<union> encode_payload enc_u64 enc_pub ` B"
    and "runtime_validate_unsigned verify_ocw (verify_price_payload app_verify enc_u32 enc_pub)
      (OcwExample (Call_submit_price_unsigned_with_signed_payload p sig)) s = Some (Ok vt)"
  shows "p \<in> A \<or> (\<exists>q \<in> B. pl_public q = pp_public p \<and>
    unat (pl_number q) = unat (pp_price p) * 2 ^ 32 + unat (pp_block_number p))"
proof -
  have "app_verify (encode_price_payload enc_u32 enc_pub p) (pp_public p) sig"
    using accepted_signed_price [OF assms(6)] by (simp add: verify_price_payload_def price_payload_public_def)
  with assms(4,5) have "encode_price_payload enc_u32 enc_pub p \<in>
      encode_price_payload enc_u32 enc_pub ` A \<union> encode_payload enc_u64 enc_pub ` B"
    by blast
  from price_fields.price_bytes_cases [OF price_fields.intro [OF assms(1,2)] assms(3) [rule_format] this]
  show ?thesis
    using halves_value by metis
qed

text \<open>
  C20. The payloads of the two pallets are not told apart. With the little-endian integers of SCALE a
  \<open>Payload\<close> of \<open>pallets/ocw\<close> and the \<open>PricePayload\<close> whose block is the lower and whose price is
  the upper half of its number have the same bytes, so a signature that is good for the first is good
  for the second. A signed number that the runtime accepts can be submitted again as a price: what the
  worker of \<open>pallets/ocw\<close> signs in block \<open>b\<close> is also a signed price of zero for block \<open>b\<close>, and the
  runtime accepts it when its window for unsigned prices is open at \<open>b\<close>.
\<close>

theorem signed_number_replays_as_price:
  assumes "\<forall>n. enc_u64 n = enc_u32 (low32 n) @ enc_u32 (high32 n)"
    and "runtime_validate_unsigned (verify_payload app_verify enc_u64 enc_pub)
      (verify_price_payload app_verify enc_u32 enc_pub)
      (OcwDemo (Call_submit_number_unsigned_with_signed_payload
         \<lparr>pl_number = ucast b, pl_public = key\<rparr> sig)) s = Some (Ok vt)"
    and "runtime_validate_unsigned (verify_payload app_verify enc_u64 enc_pub)
      (verify_price_payload app_verify enc_u32 enc_pub)
      (OcwExample (Call_submit_price_unsigned b 0)) s = Some (Ok wt)"
  shows "runtime_validate_unsigned (verify_payload app_verify enc_u64 enc_pub)
      (verify_price_payload app_verify enc_u32 enc_pub)
      (OcwExample (Call_submit_price_unsigned_with_signed_payload
         \<lparr>pp_block_number = b, pp_price = 0, pp_public = key\<rparr> sig)) s = Some (Ok wt)"
proof -
  let ?p = "\<lparr>pp_block_number = b, pp_price = 0, pp_public = key\<rparr>"
  have halves: "low32 (ucast b) = b" "high32 (ucast b) = 0"
    using unat_less_pow [of b]
    by (simp_all add: word_unat_eq_iff unat_low32 unat_high32 unat_ucast_up)
  have "verify_payload app_verify enc_u64 enc_pub \<lparr>pl_number = ucast b, pl_public = key\<rparr> sig"
    using assms(2) by (auto split: if_splits)
  then have "verify_price_payload app_verify enc_u32 enc_pub ?p sig"
    by (simp add: verify_payload_def verify_price_payload_def encode_payload_def
          encode_price_payload_def payload_public_def price_payload_public_def assms(1) halves)
  with assms(3) show ?thesis
    by (simp cong: if_cong)
qed

section \<open>Concrete payloads\<close>

lemma payloads_roundtrip_example:
  "decode_payload le_dec le_dec
     (encode_payload le_enc le_enc \<lparr>pl_number = 300, pl_public = (7 :: u32)\<rparr> @ [1, 2]) =
   Some (\<lparr>pl_number = 300, pl_public = (7 :: u32)\<rparr>, [1, 2])"
  by (rule payloads_roundtrip [OF le_u32.scale_codec_axioms le_u64.scale_codec_axioms
        le_u32.scale_codec_axioms, THEN conjunct1])

text \<open>A scheme in which a signature is the signed message itself, made by the keys of \<open>signed_by\<close>.\<close>

definition listed_verify :: "(u32 \<Rightarrow> u8 list set) \<Rightarrow> (u32, u8 list) app_crypto" where
  "listed_verify signed_by m key sig \<longleftrightarrow> sig = m \<and> m \<in> signed_by key"

text \<open>The owner of key 7 has signed one price, 50 for block 9, and one number, 6.\<close>

definition demo_price :: "u32 price_payload" where
  "demo_price = \<lparr>pp_block_number = 9, pp_price = 50, pp_public = 7\<rparr>"

definition demo_number :: "u32 payload" where
  "demo_number = \<lparr>pl_number = 6, pl_public = 7\<rparr>"

definition demo_signed :: "u32 \<Rightarrow> u8 list set" where
  "demo_signed key = (if key = 7
     then {encode_price_payload le_enc le_enc demo_price, encode_payload le_enc le_enc demo_number} else {})"

text \<open>Its price is accepted; with the price changed to 51 it is rejected, whatever signature comes with it.\<close>

theorem accepted_signed_price_is_signed_witness:
  "(\<exists>vt. runtime_validate_unsigned (\<lambda>_ _. True) (verify_price_payload (listed_verify demo_signed) le_enc le_enc)
      (OcwExample (Call_submit_price_unsigned_with_signed_payload demo_price
        (encode_price_payload le_enc le_enc demo_price))) demo_runtime = Some (Ok vt)) \<and>
   \<not> (\<exists>sig vt. runtime_validate_unsigned (\<lambda>_ _. True) (verify_price_payload (listed_verify demo_signed) le_enc le_enc)
      (OcwExample (Call_submit_price_unsigned_with_signed_payload (demo_price\<lparr>pp_price := 51\<rparr>) sig))
      demo_runtime = Some (Ok vt))"
proof (intro conjI notI)
  show "\<exists>vt. runtime_validate_unsigned (\<lambda>_ _. True) (verify_price_payload (listed_verify demo_signed) le_enc le_enc)
      (OcwExample (Call_submit_price_unsigned_with_signed_payload demo_price
        (encode_price_payload le_enc le_enc demo_price))) demo_runtime = Some (Ok vt)"
    by (simp add: verify_price_payload_def price_payload_public_def listed_verify_def demo_runtime_def
          validate_transaction_parameters_def average_price_def rust_div_def rust_sub_def
          runtime_oracle_config_def demo_price_def demo_signed_def)
next
  assume "\<exists>sig vt. runtime_validate_unsigned (\<lambda>_ _. True) (verify_price_payload (listed_verify demo_signed) le_enc le_enc)
      (OcwExample (Call_submit_price_unsigned_with_signed_payload (demo_price\<lparr>pp_price := 51\<rparr>) sig))
      demo_runtime = Some (Ok vt)"
  then obtain sig vt where "runtime_validate_unsigned (\<lambda>_ _. True)
      (verify_price_payload (listed_verify demo_signed) le_enc le_enc)
      (OcwExample (Call_submit_price_unsigned_with_signed_payload (demo_price\<lparr>pp_price := 51\<rparr>) sig))
      demo_runtime = Some (Ok vt)"
    by blast
  from accepted_signed_price_is_signed [OF le_u32.scale_codec_axioms le_u32.scale_codec_axioms
      allI [OF le_enc_u64_halves] _ _ this, of demo_signed "{demo_price}" "{demo_number}"]
  show False
    by (simp add: listed_verify_def demo_signed_def demo_price_def demo_number_def)
qed

theorem signed_number_replays_as_price_witness:
  "\<exists>wt. runtime_validate_unsigned (verify_payload (\<lambda>m key sig. sig = m) le_enc le_enc)
      (verify_price_payload (\<lambda>m key sig. sig = m) le_enc le_enc)
      (OcwExample (Call_submit_price_unsigned_with_signed_payload
         \<lparr>pp_block_number = 6, pp_price = 0, pp_public = (7 :: u32)\<rparr>
         (encode_payload le_enc le_enc \<lparr>pl_number = 6, pl_public = (7 :: u32)\<rparr>))) demo_runtime = Some (Ok wt)"
proof -
  let ?vo = "verify_payload (\<lambda>m (key :: u32) sig. sig = m) le_enc le_enc"
  let ?vp = "verify_price_payload (\<lambda>m (key :: u32) sig. sig = m) le_enc le_enc"
  let ?q = "\<lparr>pl_number = ucast (6 :: u32), pl_public = 7 :: u32\<rparr>"
  obtain vt where vt: "runtime_validate_unsigned ?vo ?vp
      (OcwDemo (Call_submit_number_unsigned_with_signed_payload ?q (encode_payload le_enc le_enc ?q)))
      demo_runtime = Some (Ok vt)"
    by (simp add: verify_payload_def ocw_valid_tx_def)
  have "\<exists>wt. runtime_validate_unsigned ?vo ?vp (OcwExample (Call_submit_price_unsigned 6 0))
      demo_runtime = Some (Ok wt)"
    by (simp add: demo_runtime_def validate_transaction_parameters_def average_price_def rust_div_def
          rust_sub_def runtime_oracle_config_def)
  then obtain wt where "runtime_validate_unsigned ?vo ?vp (OcwExample (Call_submit_price_unsigned 6 0))
      demo_runtime = Some (Ok wt)"
    by blast
  from signed_number_replays_as_price [OF _ vt this] le_enc_u64_halves
  have "\<exists>wt. runtime_validate_unsigned ?vo ?vp
      (OcwExample (Call_submit_price_unsigned_with_signed_payload
         \<lparr>pp_block_number = 6, pp_price = 0, pp_public = 7\<rparr> (encode_payload le_enc le_enc ?q)))
      demo_runtime = Some (Ok wt)"
    by blast
  moreover have "ucast (6 :: u32) = (6 :: u64)" by simp
  ultimately show ?thesis by (simp only:)
qed

end
