(* ===== verification/Offchain.thy ===== *)
theory Offchain
  imports Prelude
begin

text \<open>
  What the off-chain workers use of their host: the clock and HTTP requests, the local storage
  shared by all runs of a worker, the lock built on it, the key store and the transaction pool.
  None of this code is in the repository. Every host function is a field of a record that the
  worker definitions take as an argument, a computation over an unspecified host state \<open>'h\<close>;
  the theorems that need a law of a host function state it.

  \<open>from_utf8\<close> is the standard library's check of a byte vector, after the table of
  well-formed byte sequences of the Unicode standard, which \<open>core::str\<close> follows.
\<close>

section \<open>UTF-8\<close>

type_synonym str = "u8 list"

definition is_cont :: "u8 \<Rightarrow> bool" where
  "is_cont b \<longleftrightarrow> 0x80 \<le> b \<and> b \<le> 0xBF"

definition lead3_ok :: "u8 \<Rightarrow> u8 \<Rightarrow> bool" where
  "lead3_ok b0 b1 \<longleftrightarrow>
     b0 = 0xE0 \<and> 0xA0 \<le> b1 \<and> b1 \<le> 0xBF \<or>
     0xE1 \<le> b0 \<and> b0 \<le> 0xEC \<and> is_cont b1 \<or>
     b0 = 0xED \<and> 0x80 \<le> b1 \<and> b1 \<le> 0x9F \<or>
     0xEE \<le> b0 \<and> b0 \<le> 0xEF \<and> is_cont b1"

definition lead4_ok :: "u8 \<Rightarrow> u8 \<Rightarrow> bool" where
  "lead4_ok b0 b1 \<longleftrightarrow>
     b0 = 0xF0 \<and> 0x90 \<le> b1 \<and> b1 \<le> 0xBF \<or>
     0xF1 \<le> b0 \<and> b0 \<le> 0xF3 \<and> is_cont b1 \<or>
     b0 = 0xF4 \<and> 0x80 \<le> b1 \<and> b1 \<le> 0x8F"

fun valid_utf8 :: "u8 list \<Rightarrow> bool" where
  "valid_utf8 [] = True"
| "valid_utf8 (b0 # bs) =
     (if b0 < 0x80 then valid_utf8 bs
      else if 0xC2 \<le> b0 \<and> b0 \<le> 0xDF then
        (case bs of b1 # bs' \<Rightarrow> is_cont b1 \<and> valid_utf8 bs' | _ \<Rightarrow> False)
      else if 0xE0 \<le> b0 \<and> b0 \<le> 0xEF then
        (case bs of b1 # b2 # bs' \<Rightarrow> lead3_ok b0 b1 \<and> is_cont b2 \<and> valid_utf8 bs' | _ \<Rightarrow> False)
      else if 0xF0 \<le> b0 \<and> b0 \<le> 0xF4 then
        (case bs of b1 # b2 # b3 # bs' \<Rightarrow>
            lead4_ok b0 b1 \<and> is_cont b2 \<and> is_cont b3 \<and> valid_utf8 bs'
          | _ \<Rightarrow> False)
      else False)"

definition from_utf8 :: "u8 list \<Rightarrow> unit + str" where
  "from_utf8 bs = (if valid_utf8 bs then Ok bs else Err ())"

text \<open>The code points that \<open>chars()\<close> yields of an ASCII literal.\<close>

definition chars :: "string \<Rightarrow> nat list" where
  "chars s = map of_char s"

section \<open>Clock and HTTP\<close>

text \<open>\<open>sp_runtime::offchain::http::Error\<close>.\<close>

datatype http_error = DeadlineReached | IoError | Unknown

text \<open>
  \<open>http_get url deadline\<close> stands for \<open>Request::get(url).deadline(deadline).send()\<close>,
  \<open>try_wait\<close> for \<open>PendingRequest::try_wait\<close>, which hands the request back when
  the deadline passes; \<open>body\<close> reads the response to its end.
\<close>

record ('h, 't, 'pending, 'response) http_host =
  timestamp :: "('h, 't) state"
  timestamp_add :: "'t \<Rightarrow> u64 \<Rightarrow> 't"
  http_get :: "string \<Rightarrow> 't \<Rightarrow> ('h, unit + 'pending) state"
  try_wait :: "'pending \<Rightarrow> 't \<Rightarrow> ('h, 'pending + (http_error + 'response)) state"
  response_code :: "'response \<Rightarrow> u16"
  response_body :: "'response \<Rightarrow> ('h, u8 list) state"

section \<open>Local storage and lock\<close>

datatype ('v, 'e) mutate_error = ConcurrentModification 'v | ValueFunctionFailed 'e

text \<open>
  \<open>StorageValueRef::persistent(key)\<close> with \<open>get\<close>, \<open>set\<close> and \<open>mutate\<close> on values
  of type \<open>'v\<close>; the error of \<open>get\<close> is a value that does not decode. The closure of \<open>mutate\<close> may
  panic, and then so does the call.
\<close>

record ('h, 'v) storage_host =
  local_get :: "string \<Rightarrow> ('h, unit + 'v option) state"
  local_set :: "string \<Rightarrow> 'v \<Rightarrow> ('h, unit) state"
  local_mutate ::
    "string \<Rightarrow> (unit + 'v option \<Rightarrow> (unit + 'v) option)
       \<Rightarrow> ('h, (('v, unit) mutate_error + 'v) option) state"

text \<open>
  \<open>StorageLock::with_block_and_time_deadline(key, blocks, millis)\<close> followed by \<open>try_lock\<close>;
  \<open>drop_guard\<close> is what happens when the guard goes out of scope.
\<close>

record ('h, 'guard) lock_host =
  try_lock :: "string \<Rightarrow> u32 \<Rightarrow> u64 \<Rightarrow> ('h, unit + 'guard) state"
  drop_guard :: "'guard \<Rightarrow> ('h, unit) state"

section \<open>Signing and submitting\<close>

record ('id, 'pub) account =
  acc_id :: 'id
  acc_public :: 'pub

text \<open>
  \<open>Signer::all_accounts()\<close> and \<open>Signer::any_account()\<close> for the pallet's \<open>AuthorityId\<close>, and
  \<open>SubmitTransaction::submit_unsigned_transaction\<close>. A signer reports one result per account
  it used.
\<close>

record ('h, 'acc, 'payload, 'sig, 'call) tx_host =
  can_sign :: "('h, bool) state"
  all_send_signed :: "('acc \<Rightarrow> 'call) \<Rightarrow> ('h, ('acc \<times> (unit + unit)) list) state"
  any_send_signed :: "('acc \<Rightarrow> 'call) \<Rightarrow> ('h, ('acc \<times> (unit + unit)) option) state"
  all_send_unsigned ::
    "('acc \<Rightarrow> 'payload) \<Rightarrow> ('payload \<Rightarrow> 'sig \<Rightarrow> 'call) \<Rightarrow> ('h, ('acc \<times> (unit + unit)) list) state"
  any_send_unsigned ::
    "('acc \<Rightarrow> 'payload) \<Rightarrow> ('payload \<Rightarrow> 'sig \<Rightarrow> 'call) \<Rightarrow> ('h, ('acc \<times> (unit + unit)) option) state"
  submit_unsigned_transaction :: "'call \<Rightarrow> ('h, unit + unit) state"

end
