(* ===== verification/Host_Laws.thy ===== *)
theory Host_Laws
  imports Offchain
begin

text \<open>
  Laws of host functions, stated over any host. A computation keeps a property of the host state when no
  run of it takes the property away; \<open>http_keeps\<close> and \<open>pool_keeps\<close> say so for the HTTP functions
  and for the key store and transaction pool. With them a theorem about a worker on an unspecified
  host needs no more of the host than what the property is about.
\<close>

section \<open>Computations that keep a property of the host\<close>

lemma state_eqI: "(\<And>h. run_state m h = run_state m' h) \<Longrightarrow> m = m'"
  by (cases m; cases m') auto

definition keeps :: "('h \<Rightarrow> bool) \<Rightarrow> ('h, 'r) state \<Rightarrow> bool" where
  "keeps P m \<longleftrightarrow> (\<forall>h. P h \<longrightarrow> P (snd (run_state m h)))"

lemma keeps_return [simp, intro]: "keeps P (State_Monad.return x)"
  by (simp add: keeps_def)

lemma keeps_bind:
  "keeps P m \<Longrightarrow> (\<And>r. keeps P (k r)) \<Longrightarrow> keeps P (State_Monad.bind m k)"
  by (auto simp: keeps_def split: prod.splits)

text \<open>The rest need only keep the property for results that can occur.\<close>

lemma keeps_bind_run:
  "keeps P m \<Longrightarrow> (\<And>r h h'. run_state m h = (r, h') \<Longrightarrow> keeps P (k r)) \<Longrightarrow>
   keeps P (State_Monad.bind m k)"
  by (auto simp: keeps_def split: prod.splits)

lemma keeps_map_run: "keeps P m \<Longrightarrow> keeps P (map_run f m)"
  by (auto simp: map_run_def intro: keeps_bind)

lemma keeps_bind_panic:
  "keeps P m \<Longrightarrow> (\<And>a. keeps P (k a)) \<Longrightarrow> keeps P (bind_panic m k)"
  unfolding bind_panic_def by (auto intro!: keeps_bind split: option.splits sum.splits)

lemma keeps_bind_result:
  "keeps P m \<Longrightarrow> (\<And>a. keeps P (k a)) \<Longrightarrow> keeps P (bind_result m k)"
  unfolding bind_result_def by (auto intro!: keeps_bind split: sum.splits)

lemmas keeps_intros = keeps_bind keeps_map_run keeps_bind_panic keeps_bind_result

section \<open>Hosts that keep a property\<close>

definition http_keeps ::
  "('h \<Rightarrow> bool) \<Rightarrow> ('h, 't, 'pending, 'response) http_host \<Rightarrow> bool" where
  "http_keeps P http \<longleftrightarrow>
     keeps P (timestamp http) \<and>
     (\<forall>url d. keeps P (http_get http url d)) \<and>
     (\<forall>p d. keeps P (try_wait http p d)) \<and>
     (\<forall>r. keeps P (response_body http r))"

definition lock_keeps :: "('h \<Rightarrow> bool) \<Rightarrow> ('h, 'guard) lock_host \<Rightarrow> bool" where
  "lock_keeps P lock \<longleftrightarrow>
     (\<forall>k blocks millis. keeps P (try_lock lock k blocks millis)) \<and> (\<forall>g. keeps P (drop_guard lock g))"

text \<open>
  A transaction pool in which \<open>P\<close> survives every submission of a call that \<open>good\<close> holds of. A
  payload is signed by the account it was built for, so the call built from it need only be good
  for signatures that \<open>verify\<close> accepts.
\<close>

definition pool_keeps ::
  "('h \<Rightarrow> bool) \<Rightarrow> ('call \<Rightarrow> bool) \<Rightarrow> ('payload \<Rightarrow> 'sig \<Rightarrow> bool)
     \<Rightarrow> ('h, 'acc, 'payload, 'sig, 'call) tx_host \<Rightarrow> bool" where
  "pool_keeps P good verify tx \<longleftrightarrow>
     keeps P (can_sign tx) \<and>
     (\<forall>f. (\<forall>acc. good (f acc)) \<longrightarrow>
        keeps P (any_send_signed tx f) \<and> keeps P (all_send_signed tx f)) \<and>
     (\<forall>f g. (\<forall>acc sig. verify (f acc) sig \<longrightarrow> good (g (f acc) sig)) \<longrightarrow>
        keeps P (any_send_unsigned tx f g) \<and> keeps P (all_send_unsigned tx f g)) \<and>
     (\<forall>c. good c \<longrightarrow> keeps P (submit_unsigned_transaction tx c))"

lemma pool_keeps_payload:
  assumes "pool_keeps P good verify tx"
    and "\<And>acc sig. verify (f acc) sig \<Longrightarrow> good (g (f acc) sig)"
  shows "keeps P (any_send_unsigned tx f g)" and "keeps P (all_send_unsigned tx f g)"
  using assms by (simp_all add: pool_keeps_def)

end
