(* ===== verification/Mock_Host.thy ===== *)
theory Mock_Host
  imports Host_Laws
begin

text \<open>
  A concrete host on which the worker models run, in the role that \<open>TestOffchainExt\<close>,
  \<open>TestTransactionPoolExt\<close> and the in-memory key store have in the pallets' unit tests: canned
  HTTP answers, a pool that collects what is submitted, a key store with a given list of
  accounts, one local storage entry and one lock. It instantiates the host arguments in the
  witnesses.
\<close>

record ('call, 'v) mock =
  answers :: "(u16 \<times> u8 list) list"
  pool :: "'call list"
  entry :: "'v option"
  held :: bool

definition mock_init :: "(u16 \<times> u8 list) list \<Rightarrow> ('call, 'v) mock" where
  "mock_init as = \<lparr>answers = as, pool = [], entry = None, held = False\<rparr>"

definition mock_http :: "(('call, 'v) mock, u64, unit, u16 \<times> u8 list) http_host" where
  "mock_http = \<lparr>
     timestamp = State_Monad.return 0,
     timestamp_add = (\<lambda>t d. t + d),
     http_get = (\<lambda>_ _. State_Monad.return (Ok ())),
     try_wait = (\<lambda>p _. State (\<lambda>h. case answers h of
        [] \<Rightarrow> (Err p, h) | r # rs \<Rightarrow> (Ok (Ok r), h\<lparr>answers := rs\<rparr>))),
     response_code = fst,
     response_body = (\<lambda>r. State_Monad.return (snd r))\<rparr>"

definition mock_submit :: "'call list \<Rightarrow> (('call, 'v) mock, unit) state" where
  "mock_submit cs = State (\<lambda>h. ((), h\<lparr>pool := pool h @ cs\<rparr>))"

definition mock_tx ::
  "'acc list \<Rightarrow> ('payload \<Rightarrow> 'sig) \<Rightarrow> (('call, 'v) mock, 'acc, 'payload, 'sig, 'call) tx_host" where
  "mock_tx accs sign = \<lparr>
     can_sign = State_Monad.return (accs \<noteq> []),
     all_send_signed = (\<lambda>f. do {
       _ \<leftarrow> mock_submit (map f accs);
       State_Monad.return (map (\<lambda>a. (a, Ok ())) accs) }),
     any_send_signed = (\<lambda>f. case accs of
       [] \<Rightarrow> State_Monad.return None
     | a # _ \<Rightarrow> do { _ \<leftarrow> mock_submit [f a]; State_Monad.return (Some (a, Ok ())) }),
     all_send_unsigned = (\<lambda>f g. do {
       _ \<leftarrow> mock_submit (map (\<lambda>a. g (f a) (sign (f a))) accs);
       State_Monad.return (map (\<lambda>a. (a, Ok ())) accs) }),
     any_send_unsigned = (\<lambda>f g. case accs of
       [] \<Rightarrow> State_Monad.return None
     | a # _ \<Rightarrow> do {
         _ \<leftarrow> mock_submit [g (f a) (sign (f a))];
         State_Monad.return (Some (a, Ok ())) }),
     submit_unsigned_transaction = (\<lambda>c. do { _ \<leftarrow> mock_submit [c]; State_Monad.return (Ok ()) })\<rparr>"

definition mock_store :: "(('call, 'v) mock, 'v) storage_host" where
  "mock_store = \<lparr>
     local_get = (\<lambda>_. State (\<lambda>h. (Ok (entry h), h))),
     local_set = (\<lambda>_ v. State (\<lambda>h. ((), h\<lparr>entry := Some v\<rparr>))),
     local_mutate = (\<lambda>_ f. State (\<lambda>h. case f (Ok (entry h)) of
        None \<Rightarrow> (None, h)
      | Some (Err e) \<Rightarrow> (Some (Err (ValueFunctionFailed e)), h)
      | Some (Ok v) \<Rightarrow> (Some (Ok v), h\<lparr>entry := Some v\<rparr>)))\<rparr>"

definition mock_lock :: "(('call, 'v) mock, unit) lock_host" where
  "mock_lock = \<lparr>
     try_lock = (\<lambda>_ _ _. State (\<lambda>h. if held h then (Err (), h) else (Ok (), h\<lparr>held := True\<rparr>))),
     drop_guard = (\<lambda>_. State (\<lambda>h. ((), h\<lparr>held := False\<rparr>)))\<rparr>"

lemmas mock_defs = mock_init_def mock_http_def mock_submit_def mock_tx_def mock_store_def
  mock_lock_def

section \<open>What the host keeps\<close>

lemma mock_http_keeps: "http_keeps (\<lambda>h. Q (pool h)) mock_http"
  by (auto simp: http_keeps_def keeps_def mock_http_def split: list.split)

lemma mock_store_keeps: "keeps (\<lambda>h. Q (pool h)) (local_mutate mock_store k f)"
  by (auto simp: keeps_def mock_store_def split: option.split sum.split)

lemma mock_pool_keeps:
  assumes "\<And>pl. verify pl (sign pl)"
  shows "pool_keeps (\<lambda>h. list_all good (pool h)) good verify (mock_tx accs sign)"
  using assms
  by (auto simp: pool_keeps_def keeps_def mock_tx_def mock_submit_def list_all_iff
        split: list.split)

end
