(* ===== verification/Ocw_Worker.thy ===== *)
theory Ocw_Worker
  imports Pallet_Ocw Mock_Host
begin

text \<open>
  The off-chain half of \<open>pallets/ocw\<close>: the hook that rotates through four demonstrations by
  block number, the three ways of sending a number on chain, and the fetch of a remote JSON
  document that is cached in local storage and guarded by a lock.
\<close>

section \<open>Constants and data\<close>

definition HTTP_REMOTE_REQUEST :: string where
  "HTTP_REMOTE_REQUEST = ''https://hacker-news.firebaseio.com/v0/item/9129911.json''"
definition FETCH_TIMEOUT_PERIOD :: u64 where "FETCH_TIMEOUT_PERIOD = 3000"
definition LOCK_TIMEOUT_EXPIRATION :: u64 where
  "LOCK_TIMEOUT_EXPIRATION = FETCH_TIMEOUT_PERIOD + 1000"
definition LOCK_BLOCK_EXPIRATION :: u32 where "LOCK_BLOCK_EXPIRATION = 3"

record hacker_news_info =
  hn_by :: "u8 list"
  hn_title :: "u8 list"
  hn_url :: "u8 list"
  hn_descendants :: u32

type_synonym ('h, 'id, 'pub, 'sig) ocw_tx_host =
  "('h, ('id, 'pub) account, 'pub payload, 'sig, ('pub, 'sig) ocw_call) tx_host"

text \<open>\<open>deserialize\<close> stands for \<open>Deserialize::deserialize\<close> at type \<open>&str\<close>.\<close>

definition de_string_to_bytes :: "('d \<Rightarrow> 'err + str) \<Rightarrow> 'd \<Rightarrow> 'err + u8 list" where
  "de_string_to_bytes deserialize de =
     (case deserialize de of Err e \<Rightarrow> Err e | Ok s \<Rightarrow> Ok s)"

section \<open>Fetching and caching\<close>

definition fetch_from_remote ::
  "('h, 't, 'pending, 'response) http_host \<Rightarrow> ('h, ocw_error + u8 list) state" where
  "fetch_from_remote http = do {
     now \<leftarrow> timestamp http;
     let timeout = timestamp_add http now FETCH_TIMEOUT_PERIOD;
     bind_result (map_run (map_err (\<lambda>_. HttpFetchingError))
         (http_get http HTTP_REMOTE_REQUEST timeout)) (\<lambda>pending.
     bind_result (map_run (map_err (\<lambda>_. HttpFetchingError)) (try_wait http pending timeout))
       (\<lambda>waited.
     bind_result (State_Monad.return (map_err (\<lambda>_. HttpFetchingError) waited)) (\<lambda>response.
     if response_code http response \<noteq> 200 then State_Monad.return (Err HttpFetchingError)
     else do {
       body \<leftarrow> response_body http response;
       State_Monad.return (Ok body)
     })))
   }"

text \<open>\<open>from_str\<close> stands for \<open>serde_json::from_str\<close> at type \<open>HackerNewsInfo\<close>.\<close>

definition fetch_n_parse ::
  "('h, 't, 'pending, 'response) http_host \<Rightarrow> (str \<Rightarrow> 'perr + hacker_news_info)
     \<Rightarrow> ('h, ocw_error + hacker_news_info) state" where
  "fetch_n_parse http from_str =
     bind_result (map_run (map_err (\<lambda>_. HttpFetchingError)) (fetch_from_remote http))
       (\<lambda>resp_bytes.
     bind_result (State_Monad.return (map_err (\<lambda>_. DeserializeToStrError) (from_utf8 resp_bytes)))
       (\<lambda>resp_str.
     State_Monad.return (map_err (\<lambda>_. DeserializeToObjError) (from_str resp_str))))"

text \<open>
  The guard lives until the end of the \<open>if let\<close>, so it is dropped after the value is set, and
  also when the \<open>return Err(err)\<close> leaves the block.
\<close>

definition fetch_remote_info ::
  "('h, 't, 'pending, 'response) http_host \<Rightarrow> (str \<Rightarrow> 'perr + hacker_news_info)
     \<Rightarrow> ('h, hacker_news_info) storage_host \<Rightarrow> ('h, 'guard) lock_host
     \<Rightarrow> ('h, ocw_error + unit) state" where
  "fetch_remote_info http from_str store lock = do {
     cached \<leftarrow> local_get store ''offchain-demo::hn-info'';
     (case cached of
        Ok (Some info) \<Rightarrow> State_Monad.return (Ok ())
      | _ \<Rightarrow> do {
          locked \<leftarrow> try_lock lock ''offchain-demo::lock'' LOCK_BLOCK_EXPIRATION LOCK_TIMEOUT_EXPIRATION;
          (case locked of
             Err _ \<Rightarrow> State_Monad.return (Ok ())
           | Ok guard \<Rightarrow> do {
               fetched \<leftarrow> fetch_n_parse http from_str;
               (case fetched of
                  Ok info \<Rightarrow> do {
                    _ \<leftarrow> local_set store ''offchain-demo::hn-info'' info;
                    _ \<leftarrow> drop_guard lock guard;
                    State_Monad.return (Ok ())
                  }
                | Err err \<Rightarrow> do {
                    _ \<leftarrow> drop_guard lock guard;
                    State_Monad.return (Err err)
                  })
             })
        })
   }"

section \<open>Sending\<close>

text \<open>\<open>block_number.try_into().unwrap_or(0)\<close> at type \<open>u64\<close>.\<close>

definition block_as_u64 :: "u32 \<Rightarrow> u64" where
  "block_as_u64 block_number = (case try_into block_number of Ok n \<Rightarrow> n | Err _ \<Rightarrow> 0)"

definition offchain_signed_tx ::
  "('h, 'id, 'pub, 'sig) ocw_tx_host \<Rightarrow> u32 \<Rightarrow> ('h, ocw_error + unit) state" where
  "offchain_signed_tx tx block_number = do {
     let number = block_as_u64 block_number;
     result \<leftarrow> any_send_signed tx (\<lambda>acct. Call_submit_number_signed number);
     State_Monad.return
       (case result of
          Some (acc, res) \<Rightarrow> if is_err res then Err OffchainSignedTxError else Ok ()
        | None \<Rightarrow> Err NoLocalAcctForSigning)
   }"

definition offchain_unsigned_tx ::
  "('h, 'id, 'pub, 'sig) ocw_tx_host \<Rightarrow> u32 \<Rightarrow> ('h, ocw_error + unit) state" where
  "offchain_unsigned_tx tx block_number =
     (let number = block_as_u64 block_number;
          call = Call_submit_number_unsigned number
      in map_run (map_err (\<lambda>_. OffchainUnsignedTxError)) (submit_unsigned_transaction tx call))"

definition offchain_unsigned_tx_signed_payload ::
  "('h, 'id, 'pub, 'sig) ocw_tx_host \<Rightarrow> u32 \<Rightarrow> ('h, ocw_error + unit) state" where
  "offchain_unsigned_tx_signed_payload tx block_number = do {
     let number = block_as_u64 block_number;
     result \<leftarrow> any_send_unsigned tx
       (\<lambda>acct. \<lparr>pl_number = number, pl_public = acc_public acct\<rparr>)
       (\<lambda>payload signature. Call_submit_number_unsigned_with_signed_payload payload signature);
     State_Monad.return
       (case result of
          Some (_, res) \<Rightarrow> map_err (\<lambda>_. OffchainUnsignedTxSignedPayloadError) res
        | None \<Rightarrow> Err NoLocalAcctForSigning)
   }"

section \<open>The hook\<close>

definition TX_TYPES :: u32 where "TX_TYPES = 4"

text \<open>
  \<open>block_number.try_into().map_or(TX_TYPES, |bn: usize| (bn as u32) % TX_TYPES)\<close>; the width of
  \<open>usize\<close> is that of the target. The result is the one the hook logs when it is an error.
\<close>

definition tx_mux :: "nat \<Rightarrow> u32 \<Rightarrow> u32" where
  "tx_mux usize_bits block_number =
     (if unat block_number < 2 ^ usize_bits
      then (let bn = unat block_number in (of_nat bn :: u32) mod TX_TYPES)
      else TX_TYPES)"

definition ocw_offchain_worker ::
  "nat \<Rightarrow> ('h, 't, 'pending, 'response) http_host \<Rightarrow> (str \<Rightarrow> 'perr + hacker_news_info)
     \<Rightarrow> ('h, hacker_news_info) storage_host \<Rightarrow> ('h, 'guard) lock_host
     \<Rightarrow> ('h, 'id, 'pub, 'sig) ocw_tx_host \<Rightarrow> u32 \<Rightarrow> ('h, ocw_error + unit) state" where
  "ocw_offchain_worker usize_bits http from_str store lock tx block_number =
     (let modu = tx_mux usize_bits block_number
      in if modu = 0 then offchain_signed_tx tx block_number
         else if modu = 1 then offchain_unsigned_tx tx block_number
         else if modu = 2 then offchain_unsigned_tx_signed_payload tx block_number
         else if modu = 3 then fetch_remote_info http from_str store lock
         else State_Monad.return (Err UnknownOffchainMux))"

section \<open>Facts about the rotation and the number sent\<close>

lemma unat_block_as_u64: "unat (block_as_u64 bn) = unat bn"
proof -
  have "unat bn < 2 ^ 64"
    by (rule less_trans [OF unat_less_pow]) simp
  then show ?thesis
    by (simp add: block_as_u64_def try_into_def unat_ucast_up)
qed

lemma unat_tx_mux:
  assumes "32 \<le> usize_bits"
  shows "unat (tx_mux usize_bits bn) = unat bn mod 4"
proof -
  have "unat bn < 2 ^ 32"
    using unat_less_pow [of bn] by simp
  also have "(2 :: nat) ^ 32 \<le> 2 ^ usize_bits"
    using assms by (intro power_increasing) simp_all
  finally show ?thesis
    by (simp add: tx_mux_def TX_TYPES_def unat_mod)
qed

section \<open>Facts about the cached fetch\<close>

text \<open>A result computed from a response, by the kind of failure.\<close>

lemma fetch_n_parse_cases:
  "run_state (fetch_n_parse http from_str) h =
     (case run_state (fetch_from_remote http) h of
        (Err _, h') \<Rightarrow> (Err HttpFetchingError, h')
      | (Ok body, h') \<Rightarrow>
          (if \<not> valid_utf8 body then Err DeserializeToStrError
           else map_err (\<lambda>_. DeserializeToObjError) (from_str body), h'))"
  by (auto simp: fetch_n_parse_def from_utf8_def run_simps split: prod.splits sum.splits)

lemma fetch_from_remote_keeps: "http_keeps P http \<Longrightarrow> keeps P (fetch_from_remote http)"
  unfolding fetch_from_remote_def Let_def
  by (auto simp: http_keeps_def intro!: keeps_intros)

lemma fetch_n_parse_keeps: "http_keeps P http \<Longrightarrow> keeps P (fetch_n_parse http from_str)"
  unfolding fetch_n_parse_def
  by (auto intro!: keeps_intros fetch_from_remote_keeps)

lemma fetch_n_parse_Ok:
  "run_state (fetch_n_parse http from_str) h = (Ok info, h') \<Longrightarrow>
   \<exists>s. valid_utf8 s \<and> from_str s = Ok info"
  by (auto simp: fetch_n_parse_cases split: prod.splits sum.splits if_splits)

lemma fetch_remote_info_keeps:
  assumes "http_keeps P http" and "lock_keeps P lock"
    and "\<And>key. keeps P (local_get store key)"
    and "\<And>key s info. valid_utf8 s \<Longrightarrow> from_str s = Ok info \<Longrightarrow> keeps P (local_set store key info)"
  shows "keeps P (fetch_remote_info http from_str store lock)"
proof -
  have stored: "keeps P (local_set store key info)"
    if "run_state (fetch_n_parse http from_str) h = (Ok info, h')" for key info h h'
    using fetch_n_parse_Ok [OF that] assms(4) by blast
  show ?thesis
    unfolding fetch_remote_info_def using assms(2,3)
    by (auto simp: lock_keeps_def intro!: keeps_bind_run fetch_n_parse_keeps [OF assms(1)]
          split: sum.splits option.splits) (erule stored)+
qed

text \<open>Once the lock is held, whatever happens the last thing done to the host is dropping it.\<close>

lemma guarded_part:
  assumes "run_state (local_get store ''offchain-demo::hn-info'') h = (cached, h1)"
    and "\<And>i. cached \<noteq> Ok (Some i)"
    and "run_state (try_lock lock ''offchain-demo::lock''
           LOCK_BLOCK_EXPIRATION LOCK_TIMEOUT_EXPIRATION) h1 = (Ok guard, h2)"
  shows "run_state (fetch_remote_info http from_str store lock) h =
    (case run_state (fetch_n_parse http from_str) h2 of
       (Ok info, h3) \<Rightarrow>
         (Ok (), snd (run_state (drop_guard lock guard)
                   (snd (run_state (local_set store ''offchain-demo::hn-info'' info) h3))))
     | (Err err, h3) \<Rightarrow> (Err err, snd (run_state (drop_guard lock guard) h3)))"
  using assms
  by (auto simp: fetch_remote_info_def split: prod.splits sum.splits option.splits)

section \<open>Properties\<close>

lemma tx_mux_cases:
  assumes "32 \<le> usize_bits"
  shows "tx_mux usize_bits b = 0 \<longleftrightarrow> unat b mod 4 = 0"
    and "tx_mux usize_bits b = 1 \<longleftrightarrow> unat b mod 4 = 1"
    and "tx_mux usize_bits b = 2 \<longleftrightarrow> unat b mod 4 = 2"
    and "tx_mux usize_bits b = 3 \<longleftrightarrow> unat b mod 4 = 3"
  using unat_tx_mux [OF assms, of b] by (simp_all add: word_unat_eq_iff)

text \<open>
  The hook rotates through its four demonstrations with the block number modulo four. On a
  target whose \<open>usize\<close> has 32 bits or more the branch for an unknown value is never taken.
\<close>

lemma ocw_worker_runs:
  assumes "32 \<le> usize_bits"
  shows "ocw_offchain_worker usize_bits http from_str store lock tx b =
    [offchain_signed_tx tx b, offchain_unsigned_tx tx b, offchain_unsigned_tx_signed_payload tx b,
     fetch_remote_info http from_str store lock] ! (unat b mod 4)"
proof -
  have "unat b mod 4 \<in> {0, 1, 2, 3}"
    using mod_less_divisor [of 4 "unat b"] by auto
  then show ?thesis
    by (auto simp: ocw_offchain_worker_def Let_def tx_mux_cases [OF assms])
qed

text \<open>
  Every outcome of \<open>fetch_n_parse\<close>, for any host: a request that fails, times out or is not
  answered with status 200 gives \<open>HttpFetchingError\<close>; a body that is not UTF-8 gives
  \<open>DeserializeToStrError\<close>; one that does not parse gives \<open>DeserializeToObjError\<close>; otherwise
  the parsed value is returned.
\<close>

lemma fetch_n_parse_outcomes:
  "fst (run_state (fetch_n_parse http from_str) h) =
   (let (now, h1) = run_state (timestamp http) h;
        timeout = timestamp_add http now 3000
    in case run_state (http_get http HTTP_REMOTE_REQUEST timeout) h1 of
         (Err _, _) \<Rightarrow> Err HttpFetchingError
       | (Ok pending, h2) \<Rightarrow>
           (case run_state (try_wait http pending timeout) h2 of
              (Ok (Ok response), h3) \<Rightarrow>
                if response_code http response \<noteq> 200 then Err HttpFetchingError
                else
                  let body = fst (run_state (response_body http response) h3)
                  in if \<not> valid_utf8 body then Err DeserializeToStrError
                     else (case from_str body of
                             Err _ \<Rightarrow> Err DeserializeToObjError | Ok info \<Rightarrow> Ok info)
            | _ \<Rightarrow> Err HttpFetchingError))"
  by (auto simp: fetch_n_parse_cases fetch_from_remote_def FETCH_TIMEOUT_PERIOD_def run_simps
        Let_def split: prod.splits sum.splits if_splits)

text \<open>
  The lock is released on every path. On any host, once the lock is held, the last thing the
  function does is to drop its guard: after storing the fetched value when the fetch succeeds,
  and before passing the error on when it fails.
\<close>

lemma fetch_guard_is_dropped:
  assumes "run_state (local_get store ''offchain-demo::hn-info'') h = (cached, h1)"
    and "\<forall>i. cached \<noteq> Ok (Some i)"
    and "run_state (try_lock lock ''offchain-demo::lock'' 3 4000) h1 = (Ok guard, h2)"
  shows "\<exists>h3. snd (run_state (fetch_remote_info http from_str store lock) h) =
      snd (run_state (drop_guard lock guard) h3) \<and>
    (case run_state (fetch_n_parse http from_str) h2 of
       (Ok info, h') \<Rightarrow> h3 = snd (run_state (local_set store ''offchain-demo::hn-info'' info) h') \<and>
         fst (run_state (fetch_remote_info http from_str store lock) h) = Ok ()
     | (Err err, h') \<Rightarrow> h3 = h' \<and>
         fst (run_state (fetch_remote_info http from_str store lock) h) = Err err)"
proof -
  have "run_state (try_lock lock ''offchain-demo::lock''
      LOCK_BLOCK_EXPIRATION LOCK_TIMEOUT_EXPIRATION) h1 = (Ok guard, h2)"
    using assms(3)
    by (simp add: LOCK_BLOCK_EXPIRATION_def LOCK_TIMEOUT_EXPIRATION_def FETCH_TIMEOUT_PERIOD_def)
  from guarded_part [OF assms(1) _ this, of http from_str] assms(2) show ?thesis
    by (auto split: prod.splits sum.splits)
qed

text \<open>
  The cached fetch on the host of the unit tests, on every branch: with a cached value or a
  lock held by another run nothing happens; otherwise one answer is consumed, the value is stored
  only if the answer is good, and the lock is free again.
\<close>

lemma fetch_remote_info_outcomes:
  "run_state (fetch_remote_info mock_http from_str mock_store mock_lock) h =
   (if held h \<or> (\<exists>i. entry h = Some i) then (Ok (), h)
    else case answers h of
      [] \<Rightarrow> (Err HttpFetchingError, h)
    | (code, body) # rest \<Rightarrow>
        let h' = h\<lparr>answers := rest\<rparr>
        in if code \<noteq> 200 then (Err HttpFetchingError, h')
           else if \<not> valid_utf8 body then (Err DeserializeToStrError, h')
           else (case from_str body of
                   Err _ \<Rightarrow> (Err DeserializeToObjError, h')
                 | Ok info \<Rightarrow> (Ok (), h'\<lparr>entry := Some info\<rparr>)))"
  by (auto simp: fetch_remote_info_def fetch_n_parse_cases fetch_from_remote_def mock_http_def
        mock_store_def mock_lock_def run_simps Let_def
        split: option.splits list.splits prod.splits sum.splits)

text \<open>
  C29. The worker end to end, on the host of the unit tests with an account: in three blocks out of
  four it submits exactly one call that carries the block number, unchanged by the conversion to 64
  bits. In blocks divisible by four it is the signed call, and dispatching it with a signed origin appends
  the block number to \<open>Numbers\<close>; in the other two kinds of blocks the pallet's validator accepts the
  call if the key store's signatures verify, and dispatching it unsigned appends the block number to
  \<open>Numbers\<close>.
\<close>

theorem ocw_worker_submits_block_number:
  assumes "accs \<noteq> []" and "32 \<le> usize_bits" and "unat b mod 4 \<noteq> 3"
    and "\<forall>p. verify p (sign p)" and "ensure_none api unsig = Ok ()" and "ensure_signed api sig_org = Ok who"
  shows "\<exists>c. run_state (ocw_offchain_worker usize_bits mock_http from_str mock_store mock_lock
        (mock_tx accs sign) b) h = (Ok (), h\<lparr>pool := pool h @ [c]\<rparr>) \<and>
      unat (call_number c) = unat b \<and>
      (unat b mod 4 = 0 \<longleftrightarrow> c = Call_submit_number_signed (call_number c)) \<and>
      (unat b mod 4 \<noteq> 0 \<longrightarrow> (\<exists>vt. ocw_validate_unsigned verify c = Ok vt)) \<and>
      (\<exists>s'. ocw_dispatch api c (if unat b mod 4 = 0 then sig_org else unsig) s = Some (Ok (), s') \<and>
         last (numbers s') = call_number c)"
proof -
  from assms(3) have "unat b mod 4 \<in> {0, 1, 2}"
    using mod_less_divisor [of 4 "unat b"] by auto
  moreover obtain a rest where "accs = a # rest" using assms(1) by (cases accs) simp_all
  ultimately show ?thesis
    using assms(4-6)
    by (auto simp: ocw_worker_runs [OF assms(2)] offchain_signed_tx_def offchain_unsigned_tx_def
          offchain_unsigned_tx_signed_payload_def mock_tx_def mock_submit_def run_simps Let_def
          unat_block_as_u64 ocw_valid_tx_def is_err_def ocw_dispatch_eq
          numbers_append_or_replace)
qed

section \<open>Concrete runs\<close>

definition demo_info :: hacker_news_info where
  "demo_info = \<lparr>hn_by = [97], hn_title = [98], hn_url = [99], hn_descendants = 7\<rparr>"

type_synonym ocw_demo_host = "((nat, nat) ocw_call, hacker_news_info) mock"

definition demo_ocw_tx :: "(ocw_demo_host, nat, nat, nat) ocw_tx_host" where
  "demo_ocw_tx = mock_tx [\<lparr>acc_id = 0, acc_public = 5\<rparr>] pl_public"

abbreviation demo_from_str :: "str \<Rightarrow> unit + hacker_news_info" where
  "demo_from_str \<equiv> \<lambda>_. Ok demo_info"

lemma fetch_guard_is_dropped_example:
  "held (snd (run_state (fetch_remote_info mock_http demo_from_str mock_store mock_lock)
     (mock_init [(200, [98])] :: ocw_demo_host))) = False"
proof -
  let ?h = "mock_init [(200, [98])] :: ocw_demo_host"
  have "run_state (local_get mock_store ''offchain-demo::hn-info'') ?h = (Ok None, ?h)"
    and "run_state (try_lock mock_lock ''offchain-demo::lock'' 3 4000) ?h = (Ok (), ?h\<lparr>held := True\<rparr>)"
    by (simp_all add: mock_defs)
  from fetch_guard_is_dropped [OF this(1) _ this(2), of mock_http demo_from_str] show ?thesis
    by (auto simp: mock_lock_def)
qed

text \<open>Block 8, in which the call is signed, and block 6, in which its payload is.\<close>

theorem ocw_worker_submits_block_number_witness:
  "(\<exists>c s'. run_state (ocw_offchain_worker 64 mock_http demo_from_str mock_store mock_lock demo_ocw_tx 8)
      (mock_init []) = (Ok (), (mock_init [])\<lparr>pool := [c]\<rparr>) \<and>
    ocw_dispatch (raw_api (0 :: nat)) c (SignedOrigin 5) \<lparr>numbers = [], ocw_events = []\<rparr> = Some (Ok (), s') \<and>
    unat (last (numbers s')) = 8) \<and>
   (\<exists>c s'. run_state (ocw_offchain_worker 64 mock_http demo_from_str mock_store mock_lock demo_ocw_tx 6)
      (mock_init []) = (Ok (), (mock_init [])\<lparr>pool := [c]\<rparr>) \<and>
    ocw_dispatch (raw_api (0 :: nat)) c NoneOrigin \<lparr>numbers = [], ocw_events = []\<rparr> = Some (Ok (), s') \<and>
    unat (last (numbers s')) = 6)"
proof -
  note run = ocw_worker_submits_block_number [where accs = "[\<lparr>acc_id = 0, acc_public = 5\<rparr>]" and usize_bits = 64
      and verify = "\<lambda>p sig. sig = pl_public p" and sign = pl_public and api = "raw_api (0 :: nat)"
      and unsig = NoneOrigin and sig_org = "SignedOrigin 5" and who = 5 and from_str = demo_from_str
      and h = "mock_init []" and s = "\<lparr>numbers = [], ocw_events = []\<rparr>"]
  from run [of 8] run [of 6] show ?thesis
    by (force simp: demo_ocw_tx_def mock_init_def)
qed

end
