(* ===== verification/Info_Cache.thy ===== *)
theory Info_Cache
  imports Scale Ocw_Worker
begin

text \<open>
  The remote document that \<open>pallets/ocw\<close> fetches and caches, from the JSON text to the bytes in
  local storage: the derived \<open>Deserialize\<close> of \<open>HackerNewsInfo\<close> with its \<open>de_string_to_bytes\<close> fields, the
  derived SCALE codec, and \<open>StorageValueRef\<close> over stored bytes.

  The JSON parser is a parameter: \<open>parse_fields\<close> gives access to the named fields of the document
  (an error for a document that is no object, or a field that is missing or given twice), and
  \<open>de_str\<close> and \<open>de_u32\<close> deserialize the value of a field.
\<close>

section \<open>From the text to the struct\<close>

definition deserialize_info ::
  "('d \<Rightarrow> 'err + str) \<Rightarrow> ('d \<Rightarrow> 'err + u32) \<Rightarrow> (string \<Rightarrow> 'err + 'd) \<Rightarrow> 'err + hacker_news_info" where
  "deserialize_info de_str de_u32 field =
     and_then (and_then (field ''by'') (de_string_to_bytes de_str)) (\<lambda>by.
     and_then (and_then (field ''title'') (de_string_to_bytes de_str)) (\<lambda>title.
     and_then (and_then (field ''url'') (de_string_to_bytes de_str)) (\<lambda>url.
     and_then (and_then (field ''descendants'') de_u32) (\<lambda>descendants.
     Ok \<lparr>hn_by = by, hn_title = title, hn_url = url, hn_descendants = descendants\<rparr>))))"

definition info_from_str ::
  "(str \<Rightarrow> 'err + (string \<Rightarrow> 'err + 'd)) \<Rightarrow> ('d \<Rightarrow> 'err + str) \<Rightarrow> ('d \<Rightarrow> 'err + u32)
     \<Rightarrow> str \<Rightarrow> 'err + hacker_news_info" where
  "info_from_str parse_fields de_str de_u32 s =
     and_then (parse_fields s) (deserialize_info de_str de_u32)"

section \<open>From the struct to bytes\<close>

definition encode_info :: "u8 list encoder \<Rightarrow> u32 encoder \<Rightarrow> hacker_news_info encoder" where
  "encode_info enc_vec enc_u32 i =
     enc_vec (hn_by i) @ enc_vec (hn_title i) @ enc_vec (hn_url i) @ enc_u32 (hn_descendants i)"

definition decode_info :: "u8 list decoder \<Rightarrow> u32 decoder \<Rightarrow> hacker_news_info decoder" where
  "decode_info dec_vec dec_u32 bs = do {
     (by, bs) \<leftarrow> dec_vec bs;
     (title, bs) \<leftarrow> dec_vec bs;
     (url, bs) \<leftarrow> dec_vec bs;
     (descendants, bs) \<leftarrow> dec_u32 bs;
     Some (\<lparr>hn_by = by, hn_title = title, hn_url = url, hn_descendants = descendants\<rparr>, bs)
   }"

text \<open>
  Local storage holds bytes. \<open>StorageValueRef::get\<close> decodes them, ignores what follows the value and
  reports bytes that do not decode as an error; \<open>set\<close> encodes. The pallet does not use \<open>mutate\<close>.
\<close>

record 'h byte_store =
  bytes_get :: "string \<Rightarrow> ('h, u8 list option) state"
  bytes_set :: "string \<Rightarrow> u8 list \<Rightarrow> ('h, unit) state"

definition value_ref ::
  "'v encoder \<Rightarrow> 'v decoder \<Rightarrow> 'h byte_store \<Rightarrow> (string \<Rightarrow> (unit + 'v option \<Rightarrow> (unit + 'v) option)
       \<Rightarrow> ('h, (('v, unit) mutate_error + 'v) option) state) \<Rightarrow> ('h, 'v) storage_host" where
  "value_ref enc dec bytes mut = \<lparr>
     local_get = (\<lambda>key. map_run (\<lambda>found. case found of
         None \<Rightarrow> Ok None
       | Some bs \<Rightarrow> (case dec bs of None \<Rightarrow> Err () | Some (v, _) \<Rightarrow> Ok (Some v))) (bytes_get bytes key)),
     local_set = (\<lambda>key v. bytes_set bytes key (enc v)),
     local_mutate = mut\<rparr>"

section \<open>The codec of the cached document\<close>

locale info_fields = vec: scale_codec enc_vec dec_vec + count: scale_codec enc_u32 dec_u32
  for enc_vec :: "u8 list encoder" and dec_vec and enc_u32 :: "u32 encoder" and dec_u32

sublocale info_fields \<subseteq>
  info_codec: scale_codec "encode_info enc_vec enc_u32" "decode_info dec_vec dec_u32"
  by unfold_locales (simp add: encode_info_def decode_info_def vec.dec_enc count.dec_enc)

context info_fields
begin

lemma info_exact:
  "decode_info dec_vec dec_u32 (encode_info enc_vec enc_u32 i) = Some (i, [])"
  by (rule info_codec.dec_exact)

end

text \<open>
  A codec of byte vectors for the witnesses: every byte is announced by a one, and a zero ends the
  vector.
\<close>

fun marked_enc :: "u8 list encoder" where
  "marked_enc [] = [0]"
| "marked_enc (b # bs) = 1 # b # marked_enc bs"

fun marked_dec :: "u8 list decoder" where
  "marked_dec (m # bs) =
     (if m = 0 then Some ([], bs)
      else case bs of
        [] \<Rightarrow> None
      | b # bs \<Rightarrow> (case marked_dec bs of None \<Rightarrow> None | Some (v, rest) \<Rightarrow> Some (b # v, rest)))"
| "marked_dec [] = None"

interpretation marked: scale_codec marked_enc marked_dec
proof unfold_locales
  fix v bs :: "u8 list"
  show "marked_dec (marked_enc v @ bs) = Some (v, bs)" by (induction v) simp_all
qed

interpretation marked_info: info_fields marked_enc marked_dec "le_enc :: u32 encoder" le_dec ..

section \<open>What reaches the cache\<close>

text \<open>The fields that hold text are well-formed UTF-8.\<close>

definition info_utf8 :: "hacker_news_info \<Rightarrow> bool" where
  "info_utf8 i \<longleftrightarrow> valid_utf8 (hn_by i) \<and> valid_utf8 (hn_title i) \<and> valid_utf8 (hn_url i)"

lemma de_string_to_bytes_Ok: "de_string_to_bytes de d = Ok bs \<longleftrightarrow> de d = Ok bs"
  by (simp add: de_string_to_bytes_def split: sum.splits)

lemma deserialize_info_utf8:
  assumes "\<And>key d s. field key = Ok d \<Longrightarrow> de_str d = Ok s \<Longrightarrow> valid_utf8 s"
    and "deserialize_info de_str de_u32 field = Ok i"
  shows "info_utf8 i"
  using assms(2)
  by (auto simp: deserialize_info_def and_then_eq_Ok de_string_to_bytes_Ok info_utf8_def
        dest: assms(1))

section \<open>Laws of local storage\<close>

text \<open>
  Local storage maps keys to bytes: reading returns what is stored under the key and changes nothing, writing
  changes that key and no other. A lock keeps its state in local storage as well: taking the lock of a
  key and dropping its guard leave every other key alone.
\<close>

definition keyed_bytes :: "('h \<Rightarrow> string \<Rightarrow> u8 list option) \<Rightarrow> 'h byte_store \<Rightarrow> bool" where
  "keyed_bytes stored bytes \<longleftrightarrow>
     (\<forall>key h. run_state (bytes_get bytes key) h = (stored h key, h)) \<and>
     (\<forall>key bs h. stored (snd (run_state (bytes_set bytes key bs) h)) = (stored h)(key := Some bs))"

definition keyed_lock :: "('h \<Rightarrow> string \<Rightarrow> u8 list option) \<Rightarrow> ('h, 'guard) lock_host \<Rightarrow> bool" where
  "keyed_lock stored lock \<longleftrightarrow> (\<forall>k blocks millis h res h1.
     run_state (try_lock lock k blocks millis) h = (res, h1) \<longrightarrow>
       (\<forall>key. key \<noteq> k \<longrightarrow> stored h1 key = stored h key) \<and>
       (\<forall>guard h2 key. res = Ok guard \<and> key \<noteq> k \<longrightarrow>
          stored (snd (run_state (drop_guard lock guard) h2)) key = stored h2 key))"

lemma keyed_lock_keeps:
  assumes "keyed_lock stored lock" and "run_state (try_lock lock k blocks millis) h = (Ok guard, h1)"
    and "key \<noteq> k"
  shows "stored h1 key = stored h key"
    and "stored (snd (run_state (drop_guard lock guard) h2)) key = stored h2 key"
  using assms unfolding keyed_lock_def by blast+

text \<open>A reference to a stored value, on such a storage.\<close>

lemma value_ref_get:
  assumes "keyed_bytes stored bytes"
  shows "stored h key = None \<Longrightarrow> run_state (local_get (value_ref enc dec bytes mut) key) h = (Ok None, h)"
    and "stored h key = Some bs \<Longrightarrow> dec bs = Some (v, rest) \<Longrightarrow>
      run_state (local_get (value_ref enc dec bytes mut) key) h = (Ok (Some v), h)"
  using assms by (simp_all add: keyed_bytes_def value_ref_def run_simps)

lemma value_ref_set:
  assumes "keyed_bytes stored bytes"
  shows "stored (snd (run_state (local_set (value_ref enc dec bytes mut) key v) h)) =
    (stored h)(key := Some (enc v))"
  using assms by (simp add: keyed_bytes_def value_ref_def)

lemma found_info_ends_run:
  assumes "run_state (local_get store ''offchain-demo::hn-info'') h = (Ok (Some info), h)"
  shows "run_state (fetch_remote_info http from_str store lock) h = (Ok (), h)"
  using assms by (simp add: fetch_remote_info_def)

section \<open>Properties\<close>

text \<open>
  C19. What is cached is text. On any host, if a property of the host survives the storing of documents
  whose author, title and link are well-formed UTF-8, it survives every run of the cached fetch: no
  other document is ever stored, whatever bytes the server sends. The JSON library is only relied on
  for texts that are well-formed: the strings it finds in such a text are well-formed too. It is the
  check of the response that makes this enough.
\<close>

theorem cached_info_is_utf8:
  assumes "\<forall>text fields key d s. valid_utf8 text \<and> parse_fields text = Ok fields \<and> fields key = Ok d \<and>
      de_str d = Ok s \<longrightarrow> valid_utf8 s"
    and "http_keeps P http" and "lock_keeps P lock" and "\<forall>key. keeps P (local_get store key)"
    and "\<forall>key i. valid_utf8 (hn_by i) \<and> valid_utf8 (hn_title i) \<and> valid_utf8 (hn_url i) \<longrightarrow>
      keeps P (local_set store key i)"
  shows "keeps P (fetch_remote_info http (info_from_str parse_fields de_str de_u32) store lock)"
proof (rule fetch_remote_info_keeps [OF assms(2,3)])
  show "keeps P (local_get store key)" for key
    using assms(4) by blast
  show "keeps P (local_set store key i)"
    if "valid_utf8 s" and "info_from_str parse_fields de_str de_u32 s = Ok i" for key s i
  proof -
    from that(2) obtain fields where "parse_fields s = Ok fields"
      and "deserialize_info de_str de_u32 fields = Ok i"
      by (auto simp: info_from_str_def and_then_eq_Ok)
    then have "info_utf8 i"
      using assms(1) that(1) by (intro deserialize_info_utf8 [of fields de_str de_u32]) blast+
    then show ?thesis
      using assms(5) by (simp add: info_utf8_def)
  qed
qed

text \<open>
  C16. The document is fetched once. Take any host whose local storage maps keys to bytes and whose lock
  touches only its own key. If a run finds nothing cached, gets the
  lock and receives a document, it succeeds and leaves the encoded document under the key at which the
  cache is looked up; every later run that finds these bytes there decodes the same document,
  returns at once and leaves the host as it is.
\<close>

theorem fetched_info_is_found_again:
  assumes "scale_codec enc_vec dec_vec" and "scale_codec enc_u32 dec_u32"
    and "keyed_bytes stored bytes" and "keyed_lock stored lock"
    and "stored h ''offchain-demo::hn-info'' = None"
    and "run_state (try_lock lock ''offchain-demo::lock'' 3 4000) h = (Ok guard, h1)"
    and "run_state (fetch_n_parse http from_str) h1 = (Ok info, h2)"
  shows "\<exists>h3. run_state (fetch_remote_info http from_str
        (value_ref (encode_info enc_vec enc_u32) (decode_info dec_vec dec_u32) bytes mut) lock) h =
      (Ok (), h3) \<and>
    stored h3 ''offchain-demo::hn-info'' = Some (encode_info enc_vec enc_u32 info) \<and>
    (\<forall>h4. stored h4 ''offchain-demo::hn-info'' = stored h3 ''offchain-demo::hn-info'' \<longrightarrow>
      run_state (local_get (value_ref (encode_info enc_vec enc_u32) (decode_info dec_vec dec_u32) bytes mut)
        ''offchain-demo::hn-info'') h4 = (Ok (Some info), h4) \<and>
      run_state (fetch_remote_info http from_str
        (value_ref (encode_info enc_vec enc_u32) (decode_info dec_vec dec_u32) bytes mut) lock) h4 =
      (Ok (), h4))"
proof -
  let ?enc = "encode_info enc_vec enc_u32" and ?dec = "decode_info dec_vec dec_u32"
  let ?store = "value_ref ?enc ?dec bytes mut" and ?key = "''offchain-demo::hn-info''"
  let ?set = "snd (run_state (local_set ?store ?key info) h2)"
  let ?h3 = "snd (run_state (drop_guard lock guard) ?set)"
  have lock: "run_state (try_lock lock ''offchain-demo::lock''
      LOCK_BLOCK_EXPIRATION LOCK_TIMEOUT_EXPIRATION) h = (Ok guard, h1)"
    using assms(6)
    by (simp add: LOCK_BLOCK_EXPIRATION_def LOCK_TIMEOUT_EXPIRATION_def FETCH_TIMEOUT_PERIOD_def)
  have "run_state (local_get ?store ?key) h = (Ok None, h)"
    by (rule value_ref_get(1) [OF assms(3), OF assms(5)])
  from guarded_part [OF this _ lock, of http from_str] assms(7)
  have run: "run_state (fetch_remote_info http from_str ?store lock) h = (Ok (), ?h3)"
    by simp
  have "stored ?set ?key = Some (?enc info)"
    by (simp add: value_ref_set [OF assms(3)])
  then have kept: "stored ?h3 ?key = Some (?enc info)"
    using keyed_lock_keeps(2) [OF assms(4,6), of ?key ?set] by simp
  have exact: "?dec (?enc info) = Some (info, [])"
    by (rule info_fields.info_exact [OF info_fields.intro [OF assms(1,2)]])
  have found: "run_state (local_get ?store ?key) h4 = (Ok (Some info), h4)"
    if "stored h4 ?key = stored ?h3 ?key" for h4
    using that kept by (simp add: value_ref_get(2) [OF assms(3)] exact)
  have "run_state (fetch_remote_info http from_str ?store lock) h4 = (Ok (), h4)"
    if "stored h4 ?key = stored ?h3 ?key" for h4
    using found [OF that] by (rule found_info_ends_run)
  with run kept found show ?thesis
    by (intro exI [of _ ?h3] conjI allI impI)
qed

section \<open>Concrete runs\<close>

lemma mock_keeps_entry:
  "http_keeps (\<lambda>h. Q (entry h)) mock_http" "lock_keeps (\<lambda>h. Q (entry h)) mock_lock"
  by (auto simp: http_keeps_def lock_keeps_def keeps_def mock_http_def mock_lock_def split: list.split)

text \<open>A parser that finds the whole text in every field, and a deserializer that passes it on unchecked.\<close>

definition demo_fields :: "str \<Rightarrow> unit + (string \<Rightarrow> unit + str)" where
  "demo_fields text = Ok (\<lambda>_. Ok text)"

abbreviation demo_info_from_str :: "str \<Rightarrow> unit + hacker_news_info" where
  "demo_info_from_str \<equiv> info_from_str demo_fields Ok (\<lambda>_. Ok 7)"

theorem cached_info_is_utf8_witness:
  "pred_option info_utf8 (entry (snd (run_state
     (fetch_remote_info mock_http demo_info_from_str mock_store mock_lock)
     (mock_init [(200, [98])] :: ocw_demo_host))))"
proof -
  have "keeps (\<lambda>h :: ocw_demo_host. pred_option info_utf8 (entry h))
      (fetch_remote_info mock_http demo_info_from_str mock_store mock_lock)"
    by (rule cached_info_is_utf8 [OF _ mock_keeps_entry])
      (auto simp: demo_fields_def keeps_def mock_store_def info_utf8_def)
  then show ?thesis
    by (simp add: keeps_def mock_init_def)
qed

text \<open>
  A host with a local storage of many keys, on which the lock of a key is an entry at that key, and
  with a queue of answers.
\<close>

type_synonym keyed_host = "(u16 \<times> u8 list) list \<times> (string \<Rightarrow> u8 list option)"

definition kv_bytes :: "keyed_host byte_store" where
  "kv_bytes = \<lparr>
     bytes_get = (\<lambda>key. State (\<lambda>h. (snd h key, h))),
     bytes_set = (\<lambda>key bs. State (\<lambda>h. ((), (fst h, (snd h)(key := Some bs)))))\<rparr>"

definition kv_lock :: "(keyed_host, string) lock_host" where
  "kv_lock = \<lparr>
     try_lock = (\<lambda>k _ _. State (\<lambda>h. if snd h k = None
        then (Ok k, (fst h, (snd h)(k := Some []))) else (Err (), h))),
     drop_guard = (\<lambda>k. State (\<lambda>h. ((), (fst h, (snd h)(k := None)))))\<rparr>"

definition kv_http :: "(keyed_host, u64, unit, u16 \<times> u8 list) http_host" where
  "kv_http = \<lparr>
     timestamp = State_Monad.return 0,
     timestamp_add = (\<lambda>t d. t + d),
     http_get = (\<lambda>_ _. State_Monad.return (Ok ())),
     try_wait = (\<lambda>p _. State (\<lambda>h. case fst h of
        [] \<Rightarrow> (Err p, h) | r # rs \<Rightarrow> (Ok (Ok r), (rs, snd h)))),
     response_code = fst,
     response_body = (\<lambda>r. State_Monad.return (snd r))\<rparr>"

lemma kv_laws:
  "keyed_bytes snd kv_bytes" "keyed_lock snd kv_lock"
  by (auto simp: keyed_bytes_def kv_bytes_def keyed_lock_def kv_lock_def split: if_splits)

definition demo_info_store :: "(keyed_host, hacker_news_info) storage_host" where
  "demo_info_store = value_ref (encode_info marked_enc le_enc) (decode_info marked_dec le_dec) kv_bytes
     (\<lambda>_ _. State_Monad.return None)"

theorem fetched_info_is_found_again_witness:
  "\<exists>h3. run_state (fetch_remote_info kv_http demo_from_str demo_info_store kv_lock)
      ([(200, [98])], \<lambda>_. None) = (Ok (), h3) \<and>
    run_state (local_get demo_info_store ''offchain-demo::hn-info'') h3 = (Ok (Some demo_info), h3) \<and>
    run_state (fetch_remote_info kv_http demo_from_str demo_info_store kv_lock)
      ([(500, [])], snd h3) = (Ok (), ([(500, [])], snd h3))"
proof -
  let ?h = "([(200, [98])], \<lambda>_. None) :: keyed_host"
  let ?h1 = "([(200, [98])], [''offchain-demo::lock'' \<mapsto> []]) :: keyed_host"
  have "snd ?h ''offchain-demo::hn-info'' = None"
    and "run_state (try_lock kv_lock ''offchain-demo::lock'' 3 4000) ?h = (Ok ''offchain-demo::lock'', ?h1)"
    and "run_state (fetch_n_parse kv_http demo_from_str) ?h1 = (Ok demo_info, ([], snd ?h1))"
    by (simp_all add: kv_lock_def kv_http_def fetch_n_parse_cases fetch_from_remote_def run_simps Let_def)
  from fetched_info_is_found_again [OF marked.scale_codec_axioms le_u32.scale_codec_axioms kv_laws this, of "\<lambda>_ _. State_Monad.return None"]
  show ?thesis
    unfolding demo_info_store_def [symmetric] by auto
qed

end
