(* ===== verification/Fetch_Lock.thy ===== *)
theory Fetch_Lock
  imports Ocw_Worker
begin

text \<open>
  Concurrent runs of \<open>fetch_remote_info\<close>. Runs of a worker for different blocks can overlap, and they
  share the cached document and the lock. The machine interleaves the accesses of the runs to the shared
  state with the passing of time, in the order in which the function makes them: look into the
  cache, try the lock, fetch, store, drop the guard.

  A run is started for one block and sees the state of the chain at that block: the number that
  \<open>current_block_number\<close> returns is its own and never changes while it runs, however many blocks are
  imported meanwhile. Only the clock, the newest imported block, the lock and the cache are shared.

  A lock that is taken records what \<open>try_lock\<close> reads and is given at that moment: the clock, the block number
  of the run, and the two limits. From these \<open>sp_runtime\<close> computes a deadline and decides whether
  it has expired; the machine takes that test as its parameter \<open>expired\<close>, so that the arithmetic of
  deadlines, on a clock of 64 bits and block numbers of 32 bits, is part of the parameter. Dropping a guard
  clears the lock.
\<close>

section \<open>Shared state and runs\<close>

text \<open>System's storage as a run reads it, that of the block the run was started for.\<close>

record system_view =
  sys_number :: u32

text \<open>\<open>BlockNumberProvider::current_block_number\<close> of the pallet: the number kept by System.\<close>

definition current_block_number :: "system_view \<Rightarrow> u32" where
  "current_block_number sys = sys_number sys"

record lock_entry =
  taken_at :: u64
  taken_in :: u32
  for_blocks :: u32
  for_millis :: u64

record fetch_shared =
  clock :: u64
  height :: u32
  locked :: "lock_entry option"
  cache :: "unit + hacker_news_info option"

text \<open>
  Where a run is. From the look into the cache on it carries its view of System, and from the lock to
  the drop of the guard also the time at which it took the lock.
\<close>

datatype fetch_pc =
    Out
  | Missed system_view
  | Holding u64 system_view
  | Fetched u64 system_view hacker_news_info
  | Leaving u64 system_view

type_synonym fetch_race = "fetch_shared \<times> (nat \<Rightarrow> fetch_pc)"

type_synonym expiry = "u64 \<Rightarrow> u32 \<Rightarrow> lock_entry \<Rightarrow> bool"

definition lock_free :: "expiry \<Rightarrow> system_view \<Rightarrow> fetch_shared \<Rightarrow> bool" where
  "lock_free expired sys sh \<longleftrightarrow>
     (case locked sh of None \<Rightarrow> True | Some l \<Rightarrow> expired (clock sh) (current_block_number sys) l)"

definition take_lock :: "system_view \<Rightarrow> u32 \<Rightarrow> u64 \<Rightarrow> fetch_shared \<Rightarrow> fetch_shared" where
  "take_lock sys blocks millis sh =
     sh\<lparr>locked := Some \<lparr>taken_at = clock sh, taken_in = current_block_number sys,
       for_blocks = blocks, for_millis = millis\<rparr>\<rparr>"

definition is_cached :: "fetch_shared \<Rightarrow> bool" where
  "is_cached sh \<longleftrightarrow> (case cache sh of Ok (Some _) \<Rightarrow> True | _ \<Rightarrow> False)"

inductive fetch_step :: "expiry \<Rightarrow> fetch_race \<Rightarrow> fetch_race \<Rightarrow> bool" for expired where
  tick: "clock sh \<le> t \<Longrightarrow> height sh \<le> n \<Longrightarrow>
     fetch_step expired (sh, r) (sh\<lparr>clock := t, height := n\<rparr>, r)"
| hit: "r i = Out \<Longrightarrow> is_cached sh \<Longrightarrow> fetch_step expired (sh, r) (sh, r)"
| miss: "r i = Out \<Longrightarrow> sys_number sys \<le> height sh \<Longrightarrow> \<not> is_cached sh \<Longrightarrow>
     fetch_step expired (sh, r) (sh, r(i := Missed sys))"
| acquire: "r i = Missed sys \<Longrightarrow> lock_free expired sys sh \<Longrightarrow>
     fetch_step expired (sh, r)
       (take_lock sys LOCK_BLOCK_EXPIRATION LOCK_TIMEOUT_EXPIRATION sh,
        r(i := Holding (clock sh) sys))"
| refuse: "r i = Missed sys \<Longrightarrow> \<not> lock_free expired sys sh \<Longrightarrow>
     fetch_step expired (sh, r) (sh, r(i := Out))"
| fetched: "r i = Holding t sys \<Longrightarrow> fetch_step expired (sh, r) (sh, r(i := Fetched t sys info))"
| failed: "r i = Holding t sys \<Longrightarrow> fetch_step expired (sh, r) (sh, r(i := Leaving t sys))"
| store: "r i = Fetched t sys info \<Longrightarrow>
     fetch_step expired (sh, r) (sh\<lparr>cache := Ok (Some info)\<rparr>, r(i := Leaving t sys))"
| leave: "r i = Leaving t sys \<Longrightarrow> fetch_step expired (sh, r) (sh\<lparr>locked := None\<rparr>, r(i := Out))"

inductive_cases fetch_stepE: "fetch_step expired (sh, r) s'"

definition fetch_init :: "fetch_shared \<Rightarrow> fetch_race" where
  "fetch_init sh = (sh\<lparr>locked := None\<rparr>, \<lambda>_. Out)"

section \<open>The limits of a lock\<close>

text \<open>The clock and the block number read are past the limits with which the lock was taken.\<close>

definition time_past :: "lock_entry \<Rightarrow> u64 \<Rightarrow> bool" where
  "time_past l t \<longleftrightarrow> unat (taken_at l) + unat (for_millis l) < unat t"

definition block_past :: "lock_entry \<Rightarrow> u32 \<Rightarrow> bool" where
  "block_past l n \<longleftrightarrow> unat (taken_in l) + unat (for_blocks l) < unat n"

text \<open>The lock as a run takes it that holds it since the given time.\<close>

definition lock_of :: "u64 \<times> system_view \<Rightarrow> lock_entry" where
  "lock_of e = \<lparr>taken_at = fst e, taken_in = current_block_number (snd e),
     for_blocks = LOCK_BLOCK_EXPIRATION, for_millis = LOCK_TIMEOUT_EXPIRATION\<rparr>"

text \<open>The time at which a run took the lock and its view of System, until it drops the guard.\<close>

fun entered :: "fetch_pc \<Rightarrow> (u64 \<times> system_view) option" where
  "entered (Holding t sys) = Some (t, sys)"
| "entered (Fetched t sys _) = Some (t, sys)"
| "entered (Leaving t sys) = Some (t, sys)"
| "entered _ = None"

definition critical :: "fetch_pc \<Rightarrow> bool" where
  "critical pc \<longleftrightarrow> entered pc \<noteq> None"

text \<open>
  No run holds the lock past its time limit, and no run that is about to try the lock was started
  for a block past its block limit.
\<close>

definition timely :: "fetch_race \<Rightarrow> bool" where
  "timely s \<longleftrightarrow> (\<forall>i e. entered (snd s i) = Some e \<longrightarrow>
     \<not> time_past (lock_of e) (clock (fst s)) \<and>
     (\<forall>j sys. snd s j = Missed sys \<longrightarrow> \<not> block_past (lock_of e) (current_block_number sys)))"

text \<open>Executions in which every state is timely.\<close>

inductive timely_run :: "expiry \<Rightarrow> fetch_race \<Rightarrow> fetch_race \<Rightarrow> bool" for expired s where
  timely_refl: "timely_run expired s s"
| timely_step: "timely_run expired s s1 \<Longrightarrow> fetch_step expired s1 s2 \<Longrightarrow> timely s2 \<Longrightarrow>
     timely_run expired s s2"

text \<open>The run inside is the only one, and the lock is the one it took.\<close>

definition lock_inv :: "fetch_race \<Rightarrow> bool" where
  "lock_inv s \<longleftrightarrow>
     (\<forall>i e. entered (snd s i) = Some e \<longrightarrow>
        locked (fst s) = Some (lock_of e) \<and> (\<forall>j. critical (snd s j) \<longrightarrow> j = i))"

lemma critical_simps [simp]:
  "\<not> critical Out" "\<not> critical (Missed sys)" "critical (Holding t sys)"
  "critical (Fetched t sys info)" "critical (Leaving t sys)"
  by (simp_all add: critical_def)

lemma timely_lock_not_free:
  assumes "\<And>t n l. expired t n l \<Longrightarrow> time_past l t \<or> block_past l n"
    and "timely (sh, r)" and "lock_inv (sh, r)" and "entered (r i) = Some e" and "r j = Missed sys"
  shows "\<not> lock_free expired sys sh"
proof -
  have "locked sh = Some (lock_of e)"
    using assms(3,4) by (cases e) (auto simp: lock_inv_def)
  moreover have "\<not> time_past (lock_of e) (clock sh)" "\<not> block_past (lock_of e) (current_block_number sys)"
    using assms(2,4,5) by (cases e, auto simp: timely_def)+
  ultimately show ?thesis
    using assms(1) by (auto simp: lock_free_def)
qed

lemma lock_inv_acquire:
  assumes "\<not> (\<exists>i. critical (r i))"
  shows "lock_inv (take_lock sys LOCK_BLOCK_EXPIRATION LOCK_TIMEOUT_EXPIRATION sh,
    r(i := Holding (clock sh) sys))"
  using assms
  by (auto simp: lock_inv_def take_lock_def lock_of_def critical_def split: if_splits)

lemma lock_inv_cong:
  assumes "lock_inv (sh, r)" and "locked sh' = locked sh" and "\<And>j. entered (r' j) = entered (r j)"
  shows "lock_inv (sh', r')"
  using assms by (simp add: lock_inv_def critical_def)

lemma lock_inv_step:
  assumes "\<And>t n l. expired t n l \<Longrightarrow> time_past l t \<or> block_past l n"
    and "fetch_step expired s s'" and "timely s" and "lock_inv s"
  shows "lock_inv s'"
  using assms(2-4)
proof (cases rule: fetch_step.cases)
  case (acquire r i sys sh)
  have "\<not> (\<exists>j. critical (r j))"
    using timely_lock_not_free [OF assms(1), where sh = sh and r = r and sys = sys] acquire assms(3,4)
    by (auto simp: critical_def)
  then show ?thesis using acquire lock_inv_acquire by simp
next
  case (leave r i t sys sh)
  then show ?thesis using assms(4) by (auto simp: lock_inv_def critical_def)
qed (auto elim!: lock_inv_cong)

lemma timely_run_inv:
  assumes "\<And>t n l. expired t n l \<Longrightarrow> time_past l t \<or> block_past l n"
    and "timely_run expired (fetch_init sh) s"
  shows "timely s \<and> lock_inv s"
  using assms(2)
proof induction
  case timely_refl
  then show ?case by (simp add: timely_def lock_inv_def fetch_init_def)
next
  case (timely_step s1 s2)
  then show ?case using lock_inv_step [OF assms(1)] by blast
qed

section \<open>Locks are not from the future\<close>

text \<open>
  In every execution, timely or not, runs are for imported blocks, and a lock was taken with the limits of
  the pallet, not later than now and by a run for an imported block.
\<close>

definition not_ahead :: "fetch_race \<Rightarrow> bool" where
  "not_ahead s \<longleftrightarrow>
     (\<forall>i sys. snd s i = Missed sys \<longrightarrow> current_block_number sys \<le> height (fst s)) \<and>
     (\<forall>l. locked (fst s) = Some l \<longrightarrow> taken_at l \<le> clock (fst s) \<and> taken_in l \<le> height (fst s) \<and>
        for_blocks l = LOCK_BLOCK_EXPIRATION \<and> for_millis l = LOCK_TIMEOUT_EXPIRATION)"

lemma not_ahead_step: "fetch_step expired s s' \<Longrightarrow> not_ahead s \<Longrightarrow> not_ahead s'"
  by (induction rule: fetch_step.induct)
    (auto simp: not_ahead_def take_lock_def current_block_number_def intro: order_trans)

lemma not_ahead_run: "(fetch_step expired)\<^sup>*\<^sup>* (fetch_init sh) s \<Longrightarrow> not_ahead s"
proof (induction rule: rtranclp_induct)
  case base
  then show ?case by (simp add: not_ahead_def fetch_init_def)
next
  case (step s1 s2)
  then show ?case by (blast intro: not_ahead_step)
qed

lemma lock_limits_pass:
  assumes "not_ahead (sh, r)" and "locked sh = Some l"
    and "unat (clock sh) + 4000 < unat t" and "unat (height sh) + 3 < unat n"
  shows "time_past l t" and "block_past l n"
proof -
  have "unat (taken_at l) \<le> unat (clock sh)" "unat (taken_in l) \<le> unat (height sh)"
    using assms(1,2) by (auto simp: not_ahead_def word_le_nat_alt)
  then show "time_past l t" "block_past l n"
    using assms by (auto simp: not_ahead_def time_past_def block_past_def LOCK_TIMEOUT_EXPIRATION_def
        LOCK_BLOCK_EXPIRATION_def FETCH_TIMEOUT_PERIOD_def)
qed

section \<open>One run of the function is a run of the machine\<close>

text \<open>
  The host of a run: local storage holds the cache, the lock follows the machine with the run's view
  of System, and time can pass while the network is used.
\<close>

definition race_store :: "(fetch_shared, hacker_news_info) storage_host" where
  "race_store = \<lparr>
     local_get = (\<lambda>_. State (\<lambda>sh. (cache sh, sh))),
     local_set = (\<lambda>_ info. State (\<lambda>sh. ((), sh\<lparr>cache := Ok (Some info)\<rparr>))),
     local_mutate = (\<lambda>_ _. State_Monad.return None)\<rparr>"

definition race_lock :: "expiry \<Rightarrow> system_view \<Rightarrow> (fetch_shared, unit) lock_host" where
  "race_lock expired sys = \<lparr>
     try_lock = (\<lambda>_ blocks millis. State (\<lambda>sh.
        if lock_free expired sys sh then (Ok (), take_lock sys blocks millis sh) else (Err (), sh))),
     drop_guard = (\<lambda>_. State (\<lambda>sh. ((), sh\<lparr>locked := None\<rparr>)))\<rparr>"

definition later :: "fetch_shared \<Rightarrow> fetch_shared \<Rightarrow> bool" where
  "later sh sh' \<longleftrightarrow> (\<exists>t n. clock sh \<le> t \<and> height sh \<le> n \<and> sh' = sh\<lparr>clock := t, height := n\<rparr>)"

lemma later_refl: "later sh sh"
  unfolding later_def by (intro exI [of _ "clock sh"] exI [of _ "height sh"]) simp

lemma later_step: "later sh sh' \<Longrightarrow> fetch_step expired (sh, r) (sh', r)"
  by (auto simp: later_def intro: fetch_step.tick)

text \<open>From the lock to the drop of the guard.\<close>

lemma guarded_steps:
  assumes "later sh1 sh2" and "r i = Out"
  shows "(fetch_step expired)\<^sup>*\<^sup>* (sh1, r(i := Holding t sys)) (sh2\<lparr>locked := None\<rparr>, r)"
    and "(fetch_step expired)\<^sup>*\<^sup>* (sh1, r(i := Holding t sys))
      (sh2\<lparr>cache := Ok (Some info), locked := None\<rparr>, r)"
proof -
  let ?H = "r(i := Holding t sys)" and ?L = "r(i := Leaving t sys)" and ?F = "r(i := Fetched t sys info)"
  have wait: "fetch_step expired (sh1, ?H) (sh2, ?H)"
    using assms(1) by (rule later_step)
  have out: "?L(i := Out) = r" using assms(2) by auto
  have leave: "fetch_step expired (sh, ?L) (sh\<lparr>locked := None\<rparr>, r)" for sh
    using fetch_step.leave [of ?L i t sys expired sh] out by simp
  have "fetch_step expired (sh2, ?H) (sh2, ?L)"
    using fetch_step.failed [of ?H i t sys expired sh2] by simp
  with wait leave show "(fetch_step expired)\<^sup>*\<^sup>* (sh1, ?H) (sh2\<lparr>locked := None\<rparr>, r)"
    by (meson converse_rtranclp_into_rtranclp rtranclp.rtrancl_refl)
  have "fetch_step expired (sh2, ?H) (sh2, ?F)"
    using fetch_step.fetched [of ?H i t sys expired sh2 info] by simp
  moreover have "fetch_step expired (sh2, ?F) (sh2\<lparr>cache := Ok (Some info)\<rparr>, ?L)"
    using fetch_step.store [of ?F i t sys info expired sh2] by simp
  ultimately show "(fetch_step expired)\<^sup>*\<^sup>* (sh1, ?H)
      (sh2\<lparr>cache := Ok (Some info), locked := None\<rparr>, r)"
    using wait leave [of "sh2\<lparr>cache := Ok (Some info)\<rparr>"]
    by (meson converse_rtranclp_into_rtranclp rtranclp.rtrancl_refl)
qed

lemma fetch_is_later:
  assumes "\<forall>sh. http_keeps (later sh) http"
    and "run_state (fetch_n_parse http from_str) sh = (res, sh')"
  shows "later sh sh'"
  using fetch_n_parse_keeps [OF assms(1) [rule_format, of sh], of from_str] assms(2) later_refl [of sh]
  by (auto simp: keeps_def)

lemma fetch_remote_info_on_race:
  "run_state (fetch_remote_info http from_str race_store (race_lock expired sys)) sh =
    (if is_cached sh \<or> \<not> lock_free expired sys sh then (Ok (), sh)
     else case run_state (fetch_n_parse http from_str)
         (take_lock sys LOCK_BLOCK_EXPIRATION LOCK_TIMEOUT_EXPIRATION sh) of
       (Ok info, sh2) \<Rightarrow> (Ok (), sh2\<lparr>cache := Ok (Some info), locked := None\<rparr>)
     | (Err e, sh2) \<Rightarrow> (Err e, sh2\<lparr>locked := None\<rparr>))"
  by (auto simp: fetch_remote_info_def race_store_def race_lock_def is_cached_def
        split: sum.splits option.splits prod.splits)

section \<open>A second run that looks too early\<close>

text \<open>The runs for the blocks 7 and 3, both of which fetch. Block 7 is imported.\<close>

abbreviation block7 :: system_view where "block7 \<equiv> \<lparr>sys_number = 7\<rparr>"
abbreviation block3 :: system_view where "block3 \<equiv> \<lparr>sys_number = 3\<rparr>"

definition at_rest :: "unit + hacker_news_info option \<Rightarrow> fetch_shared" where
  "at_rest c = \<lparr>clock = 0, height = 7, locked = None, cache = c\<rparr>"

definition locked_by :: "system_view \<Rightarrow> unit + hacker_news_info option \<Rightarrow> fetch_shared" where
  "locked_by sys c = take_lock sys LOCK_BLOCK_EXPIRATION LOCK_TIMEOUT_EXPIRATION (at_rest c)"

lemma locked_by_simps [simp]:
  "clock (at_rest c) = 0" "height (at_rest c) = 7" "cache (at_rest c) = c" "locked (at_rest c) = None"
  "clock (locked_by sys c) = 0" "cache (locked_by sys c) = c"
  "(locked_by sys c)\<lparr>cache := c'\<rparr> = locked_by sys c'" "(locked_by sys c)\<lparr>locked := None\<rparr> = at_rest c"
  by (simp_all add: locked_by_def take_lock_def at_rest_def)

lemma take_at_rest [simp]:
  "take_lock sys LOCK_BLOCK_EXPIRATION LOCK_TIMEOUT_EXPIRATION (at_rest c) = locked_by sys c"
  by (simp add: locked_by_def)

lemma at_rest_free [simp]: "lock_free expired sys (at_rest c)"
  by (simp add: lock_free_def)

text \<open>When no time passes, it is enough that every run about to try the lock is for block 3.\<close>

lemma instant_step:
  assumes "timely_run expired s (sh1, r1)" and "fetch_step expired (sh1, r1) (sh2, r2)"
    and "clock sh2 = 0"
    and "(\<forall>j. \<not> critical (r2 j)) \<or> (\<forall>j sys. r2 j = Missed sys \<longrightarrow> sys_number sys = 3)"
  shows "timely_run expired s (sh2, r2)"
  using assms
  by (intro timely_step [OF assms(1,2)])
    (auto simp: timely_def time_past_def block_past_def lock_of_def current_block_number_def critical_def
      LOCK_BLOCK_EXPIRATION_def)

text \<open>From the lock to the drop of the guard, with a document fetched and stored.\<close>

lemma instant_fetch:
  assumes "timely_run expired s (at_rest c, r(i := Missed sys))" and "r i = Out"
    and "\<forall>j sys. r j = Missed sys \<longrightarrow> sys_number sys = 3"
  shows "timely_run expired s (locked_by sys c, r(i := Holding 0 sys))"
    and "timely_run expired s (locked_by sys c, r(i := Fetched 0 sys info))"
    and "timely_run expired s (at_rest (Ok (Some info)), r)"
proof -
  let ?r = "\<lambda>pc. r(i := pc)"
  have "fetch_step expired (at_rest c, ?r (Missed sys)) (locked_by sys c, ?r (Holding 0 sys))"
    using fetch_step.acquire [of "?r (Missed sys)" i sys expired "at_rest c"] by simp
  with assms(1) show held: "timely_run expired s (locked_by sys c, ?r (Holding 0 sys))"
    by (rule instant_step) (use assms(3) in auto)
  have "fetch_step expired (locked_by sys c, ?r (Holding 0 sys)) (locked_by sys c, ?r (Fetched 0 sys info))"
    using fetch_step.fetched [of "?r (Holding 0 sys)" i 0 sys expired "locked_by sys c" info] by simp
  with held show got: "timely_run expired s (locked_by sys c, ?r (Fetched 0 sys info))"
    by (rule instant_step) (use assms(3) in auto)
  have "fetch_step expired (locked_by sys c, ?r (Fetched 0 sys info))
      (locked_by sys (Ok (Some info)), ?r (Leaving 0 sys))"
    using fetch_step.store [of "?r (Fetched 0 sys info)" i 0 sys info expired "locked_by sys c"] by simp
  with got have kept: "timely_run expired s (locked_by sys (Ok (Some info)), ?r (Leaving 0 sys))"
    by (rule instant_step) (use assms(3) in auto)
  have "r(i := Out) = r" using assms(2) by auto
  then have "fetch_step expired (locked_by sys (Ok (Some info)), ?r (Leaving 0 sys))
      (at_rest (Ok (Some info)), r)"
    using fetch_step.leave [of "?r (Leaving 0 sys)" i 0 sys expired "locked_by sys (Ok (Some info))"]
    by simp
  with kept show "timely_run expired s (at_rest (Ok (Some info)), r)"
    by (rule instant_step) (use assms(3) in auto)
qed

text \<open>Two runs find nothing cached; then the one for block 7 fetches, stores and leaves.\<close>

lemma demo_both_missed:
  "timely_run expired (fetch_init (at_rest (Ok None)))
     (at_rest (Ok None), (\<lambda>_. Out)(1 := Missed block3, 0 := Missed block7))"
proof -
  let ?sh = "at_rest (Ok None)"
  have "timely_run expired (fetch_init ?sh) (?sh, \<lambda>_. Out)"
    using timely_refl [of expired "fetch_init ?sh"] by (simp add: fetch_init_def at_rest_def)
  then have "timely_run expired (fetch_init ?sh) (?sh, (\<lambda>_. Out)(1 := Missed block3))"
    by (rule instant_step) (auto simp: is_cached_def intro: fetch_step.miss)
  then show ?thesis
    by (rule instant_step) (auto simp: is_cached_def intro: fetch_step.miss)
qed

lemma demo_first_fetch:
  "timely_run expired (fetch_init (at_rest (Ok None)))
     (locked_by block7 (Ok None), (\<lambda>_. Out)(1 := Missed block3, 0 := Holding 0 block7))"
  "timely_run expired (fetch_init (at_rest (Ok None)))
     (at_rest (Ok (Some info)), (\<lambda>_. Out)(1 := Missed block3))"
  using instant_fetch [OF demo_both_missed] by simp_all

section \<open>Properties\<close>

text \<open>
  C8. Mutual exclusion. However the runs of \<open>fetch_remote_info\<close> are interleaved, at most one is
  between taking the lock and dropping it, as long as none of them stays there for more than 4000 milliseconds
  and none tries the lock that was started for a block more than three past that of the run
  inside. The test for expiry may be any that waits for one of the limits to pass.
\<close>

theorem one_fetch_at_a_time:
  assumes "\<forall>t n l. expired t n l \<longrightarrow> time_past l t \<or> block_past l n"
    and "timely_run expired (fetch_init sh) (sh', r)"
    and "critical (r i)" and "critical (r j)"
  shows "i = j"
  using timely_run_inv [of expired sh "(sh', r)"] assms by (auto simp: lock_inv_def critical_def)

text \<open>
  C17. A lock that is never dropped does not block the worker for ever. Take any execution, whatever the
  runs in it do or leave undone, and a block that is more than three past those imported so far. Once more than
  4000 milliseconds have passed and that block is imported, a new run for it that finds nothing cached takes
  the lock and is not refused, if a deadline counts as expired once its time and its block are
  both past. (A run that was started for an earlier block keeps its number, and is not helped by
  waiting.)
\<close>

theorem lock_never_stuck:
  assumes "\<forall>t n l. time_past l t \<and> block_past l n \<longrightarrow> expired t n l"
    and "(fetch_step expired)\<^sup>*\<^sup>* (fetch_init sh0) (sh, r)" and "r i = Out" and "\<not> is_cached sh"
    and "unat (clock sh) + 4000 < unat t" and "unat (height sh) + 3 < unat (sys_number sys)"
  shows "(\<exists>sh'. (fetch_step expired)\<^sup>*\<^sup>* (sh, r) (sh', r(i := Holding t sys))) \<and>
    (\<forall>s'. fetch_step expired (sh\<lparr>clock := t, height := sys_number sys\<rparr>, r(i := Missed sys)) s' \<longrightarrow>
       snd s' i \<in> {Missed sys, Holding t sys})"
proof -
  let ?sh = "sh\<lparr>clock := t, height := sys_number sys\<rparr>" and ?r = "r(i := Missed sys)"
  have free: "lock_free expired sys ?sh"
    using lock_limits_pass [OF not_ahead_run [OF assms(2)] _ assms(5,6)] assms(1)
    by (auto simp: lock_free_def current_block_number_def split: option.split)
  have "fetch_step expired (sh, r) (?sh, r)"
    using assms(5,6) by (intro fetch_step.tick) (simp_all add: word_le_nat_alt)
  moreover have "fetch_step expired (?sh, r) (?sh, ?r)"
    using assms(3,4) by (intro fetch_step.miss) (simp_all add: is_cached_def)
  moreover have "\<exists>sh'. fetch_step expired (?sh, ?r) (sh', r(i := Holding t sys))"
    using fetch_step.acquire [of ?r i sys expired ?sh] free by auto
  moreover have "snd s' i \<in> {Missed sys, Holding t sys}" if "fetch_step expired (?sh, ?r) s'" for s'
    using that free by (auto elim!: fetch_stepE split: if_splits)
  ultimately show ?thesis
    by (meson converse_rtranclp_into_rtranclp rtranclp.rtrancl_refl)
qed

text \<open>
  C15. The machine is what the function does: on a host whose storage and lock are the machine's and on which
  only time passes while the network is used, a complete run of \<open>fetch_remote_info\<close> for an imported block is
  a sequence of steps of the machine that takes one run from outside back to outside.
\<close>

theorem fetch_remote_info_refines_machine:
  assumes "\<forall>sh. http_keeps (later sh) http" and "r i = Out" and "sys_number sys \<le> height sh"
    and "run_state (fetch_remote_info http from_str race_store (race_lock expired sys)) sh = (res, sh')"
  shows "(fetch_step expired)\<^sup>*\<^sup>* (sh, r) (sh', r)"
proof -
  let ?locked = "take_lock sys LOCK_BLOCK_EXPIRATION LOCK_TIMEOUT_EXPIRATION sh"
  obtain fetched sh2 where f: "run_state (fetch_n_parse http from_str) ?locked = (fetched, sh2)"
    by fastforce
  have miss: "fetch_step expired (sh, r) (sh, r(i := Missed sys))" if "\<not> is_cached sh"
    using assms(2,3) that by (rule fetch_step.miss)
  have "r(i := Out) = r" using assms(2) by auto
  then have refuse: "fetch_step expired (sh, r(i := Missed sys)) (sh, r)" if "\<not> lock_free expired sys sh"
    using fetch_step.refuse [of "r(i := Missed sys)" i sys expired sh] that by simp
  have acquire: "fetch_step expired (sh, r(i := Missed sys)) (?locked, r(i := Holding (clock sh) sys))"
    if "lock_free expired sys sh"
    using fetch_step.acquire [of "r(i := Missed sys)" i sys expired sh] that by simp
  note guarded = guarded_steps [where r = r and i = i, OF fetch_is_later [OF assms(1) f] assms(2), of expired]
  consider "is_cached sh" | "\<not> is_cached sh" "\<not> lock_free expired sys sh"
    | "\<not> is_cached sh" "lock_free expired sys sh"
    by blast
  then show ?thesis
  proof cases
    case 1
    then show ?thesis using assms(4) by (simp add: fetch_remote_info_on_race)
  next
    case 2
    then have "sh' = sh" using assms(4) by (simp add: fetch_remote_info_on_race)
    with miss [OF 2(1)] refuse [OF 2(2)] show ?thesis
      by (meson converse_rtranclp_into_rtranclp rtranclp.rtrancl_refl)
  next
    case 3
    have "(fetch_step expired)\<^sup>*\<^sup>* (?locked, r(i := Holding (clock sh) sys)) (sh', r)"
      using assms(4) f guarded 3 by (auto simp: fetch_remote_info_on_race split: sum.splits)
    with miss [OF 3(1)] acquire [OF 3(2)] show ?thesis
      by (meson converse_rtranclp_into_rtranclp)
  qed
qed

text \<open>
  C30. The cache is looked at before the lock is taken and not again afterwards, so a document that is
  already cached can be fetched once more. From a state in which nothing is cached and no run is under way,
  a timely execution leads to a state in which one run has stored its document and has ended while a second
  one, for an earlier block, has looked in the cache too early; from there the second run, with
  the first document in the cache all the time, takes the lock, fetches a second document and overwrites the
  first one. This holds whatever the test for expiry and the two documents are.
\<close>

theorem cached_info_can_be_fetched_again:
  "\<exists>sh1 sh2 sh3 sys.
     timely_run expired (\<lparr>clock = 0, height = 7, locked = None, cache = Ok None\<rparr>, \<lambda>_. Out)
       (sh1, (\<lambda>_. Out)(1 := Missed sys)) \<and> cache sh1 = Ok (Some first) \<and>
     timely_run expired (sh1, (\<lambda>_. Out)(1 := Missed sys)) (sh2, (\<lambda>_. Out)(1 := Fetched 0 sys second)) \<and>
       cache sh2 = Ok (Some first) \<and>
     timely_run expired (sh1, (\<lambda>_. Out)(1 := Missed sys)) (sh3, \<lambda>_. Out) \<and> cache sh3 = Ok (Some second)"
proof -
  have "timely_run expired (\<lparr>clock = 0, height = 7, locked = None, cache = Ok None\<rparr>, \<lambda>_. Out)
      (at_rest (Ok (Some first)), (\<lambda>_. Out)(1 := Missed block3))"
    using demo_first_fetch(2) [of expired first] by (simp add: fetch_init_def at_rest_def)
  moreover note second = instant_fetch(2,3) [OF timely_refl, of "\<lambda>_. Out" 1 expired
      "Ok (Some first)" block3 second]
  ultimately show ?thesis
    by (intro exI [of _ "at_rest (Ok (Some first))"] exI [of _ "locked_by block3 (Ok (Some first))"]
        exI [of _ "at_rest (Ok (Some second))"] exI [of _ block3]) simp
qed

section \<open>Concrete executions\<close>

text \<open>The deadline has passed when both its time and its block have.\<close>

definition both_passed :: expiry where
  "both_passed t n l \<longleftrightarrow> time_past l t \<and> block_past l n"

lemma timely_run_steps: "timely_run expired s s' \<Longrightarrow> (fetch_step expired)\<^sup>*\<^sup>* s s'"
  by (induction rule: timely_run.induct) (auto intro: rtranclp.rtrancl_into_rtrancl)

theorem one_fetch_at_a_time_witness:
  "timely_run both_passed (fetch_init (at_rest (Ok None)))
     (locked_by block7 (Ok None), (\<lambda>_. Out)(1 := Missed block3, 0 := Holding 0 block7)) \<and>
   \<not> timely_run both_passed (fetch_init (at_rest (Ok None)))
     (locked_by block7 (Ok None), (\<lambda>_. Out)(1 := Holding 0 block3, 0 := Holding 0 block7))"
proof (intro conjI notI)
  assume "timely_run both_passed (fetch_init (at_rest (Ok None)))
     (locked_by block7 (Ok None), (\<lambda>_. Out)(1 := Holding 0 block3, 0 := Holding 0 block7))"
  from one_fetch_at_a_time [OF _ this, of 0 1] show False
    by (simp add: both_passed_def)
qed (rule demo_first_fetch(1))

text \<open>The run for block 7 never drops the lock; one for block 11 takes it after five seconds.\<close>

theorem lock_never_stuck_witness:
  "\<exists>sh'. (fetch_step both_passed)\<^sup>*\<^sup>*
       (locked_by block7 (Ok None), (\<lambda>_. Out)(1 := Missed block3, 0 := Holding 0 block7))
       (sh', (\<lambda>_. Out)(1 := Missed block3, 0 := Holding 0 block7, 2 := Holding 5000 \<lparr>sys_number = 11\<rparr>))"
  by (rule lock_never_stuck [OF _ timely_run_steps [OF demo_first_fetch(1)], THEN conjunct1])
    (simp_all add: both_passed_def is_cached_def locked_by_def take_lock_def)

text \<open>A network that answers after half a second.\<close>

definition slow_http :: "(fetch_shared, u64, unit, u16 \<times> u8 list) http_host" where
  "slow_http = \<lparr>
     timestamp = State (\<lambda>sh. (clock sh, sh)),
     timestamp_add = (\<lambda>t d. t + d),
     http_get = (\<lambda>_ _. State_Monad.return (Ok ())),
     try_wait = (\<lambda>_ _. State (\<lambda>sh. (Ok (Ok (200, [98])), sh\<lparr>clock := max (clock sh) (clock sh + 500)\<rparr>))),
     response_code = fst,
     response_body = (\<lambda>r. State_Monad.return (snd r))\<rparr>"

lemma slow_http_later: "http_keeps (later sh) slow_http"
proof -
  have "later sh (sh'\<lparr>clock := max (clock sh') (clock sh' + 500)\<rparr>)" if "later sh sh'" for sh'
    using that unfolding later_def
    by (elim exE conjE, intro exI [of _ "max (clock sh') (clock sh' + 500)"] exI [of _ "height sh'"])
      (auto intro: order_trans)
  then show ?thesis
    by (auto simp: http_keeps_def keeps_def slow_http_def)
qed

theorem fetch_remote_info_refines_machine_witness:
  "(fetch_step both_passed)\<^sup>*\<^sup>* (at_rest (Ok None), \<lambda>_. Out)
     ((at_rest (Ok (Some demo_info)))\<lparr>clock := 500\<rparr>, \<lambda>_. Out)"
proof (rule fetch_remote_info_refines_machine [of slow_http _ 0 block7 _ demo_from_str])
  show "run_state (fetch_remote_info slow_http demo_from_str race_store (race_lock both_passed block7))
      (at_rest (Ok None)) = (Ok (), (at_rest (Ok (Some demo_info)))\<lparr>clock := 500\<rparr>)"
    by (simp add: fetch_remote_info_on_race is_cached_def at_rest_def lock_free_def take_lock_def
          fetch_n_parse_cases fetch_from_remote_def slow_http_def run_simps Let_def max_def)
qed (simp_all add: slow_http_later)

end
