(* ===== verification/Fetch_Progress.thy ===== *)
theory Fetch_Progress
  imports Fetch_Lock
begin

text \<open>
  Runs of \<open>fetch_remote_info\<close> end. In the machine of \<open>Fetch_Lock\<close> a run that has started never
  waits: a lock that is held makes it give up, so it has a bounded number of steps left, whatever the other
  runs and the clock do, and it can always take the next one.
\<close>

section \<open>How much a run has left to do\<close>

fun steps_left :: "fetch_pc \<Rightarrow> nat" where
  "steps_left Out = 0"
| "steps_left (Leaving _ _) = 1"
| "steps_left (Fetched _ _ _) = 2"
| "steps_left (Holding _ _) = 3"
| "steps_left (Missed _) = 4"

lemma steps_left_bound: "steps_left pc \<le> 4"
  by (cases pc) simp_all

lemma steps_left_Out [simp]: "steps_left pc = 0 \<longleftrightarrow> pc = Out"
  by (cases pc) simp_all

text \<open>Whoever takes a step of the machine, a run under way is not moved or has less left to do.\<close>

lemma fetch_step_steps_left:
  assumes "fetch_step expired s s'" and "snd s i \<noteq> Out"
  shows "snd s' i = snd s i \<or> steps_left (snd s' i) < steps_left (snd s i)"
  using assms by (induction rule: fetch_step.induct) auto

section \<open>Steps of runs under way\<close>

definition active :: "fetch_race \<Rightarrow> nat set" where
  "active s = {i. snd s i \<noteq> Out}"

text \<open>A step in which a run that has started goes on; no run starts and the clock stands still.\<close>

definition goes_on :: "expiry \<Rightarrow> fetch_race \<Rightarrow> fetch_race \<Rightarrow> bool" where
  "goes_on expired s s' \<longleftrightarrow> fetch_step expired s s' \<and> (\<exists>i \<in> active s. snd s' i \<noteq> snd s i)"

definition work :: "fetch_race \<Rightarrow> nat" where
  "work s = (\<Sum>i \<in> active s. steps_left (snd s i))"

lemma only_one_moves:
  assumes "fetch_step expired s s'" and "snd s' i \<noteq> snd s i" and "j \<noteq> i"
  shows "snd s' j = snd s j"
  using assms by (induction rule: fetch_step.induct) (auto split: if_splits)

lemma goes_on_active:
  assumes "goes_on expired s s'"
  shows "active s' \<subseteq> active s"
proof
  fix j
  assume j: "j \<in> active s'"
  from assms obtain i where i: "i \<in> active s" "snd s' i \<noteq> snd s i" and "fetch_step expired s s'"
    by (auto simp: goes_on_def)
  with only_one_moves [of expired s s' i j] j show "j \<in> active s"
    by (cases "j = i") (auto simp: active_def)
qed

lemma work_active:
  "finite A \<Longrightarrow> active s \<subseteq> A \<Longrightarrow> work s = (\<Sum>i \<in> A. steps_left (snd s i))"
  unfolding work_def by (rule sum.mono_neutral_left) (auto simp: active_def)

lemma goes_on_work:
  assumes "goes_on expired s s'" and "finite (active s)"
  shows "work s' < work s"
proof -
  from assms(1) obtain i where i: "i \<in> active s" "snd s' i \<noteq> snd s i" and step: "fetch_step expired s s'"
    by (auto simp: goes_on_def)
  have "steps_left (snd s' j) \<le> steps_left (snd s j)" if "j \<in> active s" for j
    using fetch_step_steps_left [OF step, of j] that by (auto simp: active_def)
  moreover have "steps_left (snd s' i) < steps_left (snd s i)"
    using fetch_step_steps_left [OF step, of i] i by (auto simp: active_def)
  ultimately have "(\<Sum>j \<in> active s. steps_left (snd s' j)) < (\<Sum>j \<in> active s. steps_left (snd s j))"
    using assms(2) i(1) by (intro sum_strict_mono_ex1) auto
  then show ?thesis
    using work_active [OF assms(2) goes_on_active [OF assms(1)]] by (simp add: work_def)
qed

lemma goes_on_steps:
  "(goes_on expired ^^ n) s s' \<Longrightarrow> finite (active s) \<Longrightarrow> n + work s' \<le> work s \<and> finite (active s')"
proof (induction n arbitrary: s')
  case 0
  then show ?case by simp
next
  case (Suc n)
  then obtain t where t: "(goes_on expired ^^ n) s t" "goes_on expired t s'" by auto
  from Suc.IH [OF t(1) Suc.prems(2)] have "n + work t \<le> work s" "finite (active t)" by auto
  moreover from this(2) have "work s' < work t" by (rule goes_on_work [OF t(2)])
  moreover have "finite (active s')"
    using goes_on_active [OF t(2)] \<open>finite (active t)\<close> by (rule finite_subset)
  ultimately show ?case by simp
qed

lemma work_bound: "work s \<le> 4 * card (active s)"
  using sum_bounded_above [of "active s" "\<lambda>i. steps_left (snd s i)" 4] steps_left_bound
  by (simp add: work_def)

lemma can_go_on:
  assumes "i \<in> active s"
  shows "\<exists>s'. goes_on expired s s'"
proof -
  obtain sh r where s: "s = (sh, r)" by (cases s)
  have moves: "\<exists>s'. goes_on expired s s'" if "fetch_step expired (sh, r) (sh', r(i := pc))" "r i \<noteq> pc" for sh' pc
    using that assms s unfolding goes_on_def by (intro exI [of _ "(sh', r(i := pc))"]) auto
  show ?thesis
  proof (cases "r i")
    case Out
    with assms s show ?thesis by (simp add: active_def)
  next
    case (Missed sys)
    then show ?thesis
      using moves [OF fetch_step.acquire] moves [OF fetch_step.refuse] by (cases "lock_free expired sys sh") auto
  next
    case (Holding t sys)
    then show ?thesis using moves [OF fetch_step.failed] by auto
  next
    case (Fetched t sys info)
    then show ?thesis using moves [OF fetch_step.store] by auto
  next
    case (Leaving t sys)
    then show ?thesis using moves [OF fetch_step.leave] by auto
  qed
qed

lemma runs_out:
  "finite (active s) \<Longrightarrow> \<exists>s'. (goes_on expired)\<^sup>*\<^sup>* s s' \<and> active s' = {}"
proof (induction "work s" arbitrary: s rule: less_induct)
  case less
  show ?case
  proof (cases "active s = {}")
    case True
    then show ?thesis by blast
  next
    case False
    then obtain s1 where s1: "goes_on expired s s1" using can_go_on by blast
    have "finite (active s1)"
      using goes_on_active [OF s1] less.prems by (rule finite_subset)
    with less.hyps [OF goes_on_work [OF s1 less.prems]] s1 show ?thesis
      by (meson converse_rtranclp_into_rtranclp)
  qed
qed

section \<open>Properties\<close>

text \<open>
  C18. Runs of \<open>fetch_remote_info\<close> terminate. However many runs are under way: they take at most four steps
  each until all have ended; as long as one is under way the machine can go on, so that no run ever waits for
  another one, and a sequence of such steps leads to a state in which all have ended; and a run that
  is under way is at no time sent back, whatever steps other runs and the clock take.
\<close>

theorem fetch_runs_terminate:
  assumes "finite (active s)"
  shows "(\<forall>n s'. (goes_on expired ^^ n) s s' \<longrightarrow> n \<le> 4 * card (active s)) \<and>
    (active s \<noteq> {} \<longrightarrow> (\<exists>s'. goes_on expired s s')) \<and>
    (\<exists>s'. (goes_on expired)\<^sup>*\<^sup>* s s' \<and> (\<forall>i. snd s' i = Out)) \<and>
    (\<forall>s' i. fetch_step expired s s' \<and> snd s i \<noteq> Out \<longrightarrow>
       snd s' i = snd s i \<or> steps_left (snd s' i) < steps_left (snd s i))"
proof -
  have "n \<le> 4 * card (active s)" if "(goes_on expired ^^ n) s s'" for n s'
    using goes_on_steps [OF that assms] work_bound [of s] by simp
  moreover have "active s \<noteq> {} \<longrightarrow> (\<exists>s'. goes_on expired s s')"
    using can_go_on by blast
  moreover have "\<exists>s'. (goes_on expired)\<^sup>*\<^sup>* s s' \<and> (\<forall>i. snd s' i = Out)"
    using runs_out [OF assms] by (auto simp: active_def)
  ultimately show ?thesis
    using fetch_step_steps_left by blast
qed

text \<open>Two runs: one holds the lock, the other one has found nothing cached.\<close>

theorem fetch_runs_terminate_witness:
  "\<exists>s'. (goes_on (\<lambda>_ _ _. False))\<^sup>*\<^sup>*
       (locked_by block7 (Ok None), (\<lambda>_. Out)(1 := Missed block3, 0 := Holding 0 block7)) s' \<and>
     (\<forall>i. snd s' i = Out)"
proof -
  let ?r = "(\<lambda>_. Out)(1 := Missed block3, 0 := Holding 0 block7)"
  have "active (locked_by block7 (Ok None), ?r) = {0, 1}"
    by (auto simp: active_def)
  then show ?thesis
    using fetch_runs_terminate [of "(locked_by block7 (Ok None), ?r)"] by simp
qed

end
