(* ===== verification/Price_Json.thy ===== *)
theory Price_Json
  imports Complex_Main Offchain
begin

text \<open>
  \<open>parse_price\<close> of \<open>pallets/example-offchain-worker\<close>: from the text of the price server's
  answer to a price in cents. The JSON parser \<open>lite_json::parse_json\<close> is an argument; of its
  result type the kinds of values are modelled that the code tells apart, and numbers with all their
  fields. The theory relates the computed price to the decimal number in the answer.
\<close>

section \<open>Definitions\<close>

text \<open>
  \<open>lite_json\<close>'s \<open>NumberValue\<close>. The integer part is a 64-bit value of which the code keeps the low 32
  bits, which are the same whether it is signed or not. The exponent of a number such as \<open>1.25e3\<close> is
  a signed value of 32 bits; the code does not look at it.
\<close>

record number_value =
  nv_integer :: u64
  nv_fraction :: u64
  nv_fraction_length :: u32
  nv_exponent :: "32 word"

datatype 'x json_value =
    JsonObject "(nat list \<times> 'x json_value) list"
  | JsonNumber number_value
  | JsonOther 'x

text \<open>Lines 639-640: \<open>integer as u32 * 100 + (fraction / 10_u64.pow(exp)) as u32\<close>.\<close>

definition number_price :: "bool \<Rightarrow> number_value \<Rightarrow> u32 option" where
  "number_price chk price =
     (let exp = (case checked_sub (nv_fraction_length price) 2 of None \<Rightarrow> 0 | Some e \<Rightarrow> e)
      in do {
        whole \<leftarrow> rust_mul chk (ucast (nv_integer price)) 100;
        scale \<leftarrow> rust_pow chk (10 :: u64) (unat exp);
        cents \<leftarrow> rust_div (nv_fraction price) scale;
        rust_add chk whole (ucast cents)
      })"

definition parse_price ::
  "bool \<Rightarrow> (str \<Rightarrow> 'perr + 'x json_value) \<Rightarrow> str \<Rightarrow> u32 option option" where
  "parse_price chk parse_json price_str =
     (case parse_json price_str of
        Err _ \<Rightarrow> Some None
      | Ok (JsonObject obj) \<Rightarrow>
          (case find (\<lambda>(k, _). k = chars ''USD'') obj of
             None \<Rightarrow> Some None
           | Some (_, v) \<Rightarrow>
               (case v of
                  JsonNumber number \<Rightarrow> map_option Some (number_price chk number)
                | _ \<Rightarrow> Some None))
      | Ok _ \<Rightarrow> Some None)"

section \<open>The number in the answer, in cents\<close>

text \<open>
  The decimal \<open>integer.fraction\<close>, with \<open>fraction_length\<close> digits after the point, times ten to the
  power of the exponent; and its value in cents, rounded down.
\<close>

definition decimal_value :: "number_value \<Rightarrow> rat" where
  "decimal_value n =
     (of_nat (unat (nv_integer n)) + of_nat (unat (nv_fraction n)) / 10 ^ unat (nv_fraction_length n))
     * 10 powi sint (nv_exponent n)"

definition decimal_cents :: "number_value \<Rightarrow> nat" where
  "decimal_cents n = nat \<lfloor>100 * decimal_value n\<rfloor>"

text \<open>The same without the exponent, in natural numbers.\<close>

definition mantissa_cents :: "number_value \<Rightarrow> nat" where
  "mantissa_cents n = unat (nv_integer n) * 100
     + unat (nv_fraction n) * 100 div 10 ^ unat (nv_fraction_length n)"

lemma decimal_cents_no_exponent:
  assumes "nv_exponent n = 0"
  shows "decimal_cents n = mantissa_cents n"
proof -
  let ?i = "unat (nv_integer n)" and ?f = "unat (nv_fraction n)" and ?l = "unat (nv_fraction_length n)"
  have "100 * decimal_value n = of_nat (?f * 100) / of_nat (10 ^ ?l) + of_nat (?i * 100)"
    using assms by (simp add: decimal_value_def distrib_left)
  also have "\<dots> = of_nat (?f * 100) / of_nat (10 ^ ?l) + of_int (int (?i * 100))"
    by simp
  finally have "\<lfloor>100 * decimal_value n\<rfloor> = int (?f * 100 div 10 ^ ?l) + int (?i * 100)"
    by (simp only: floor_divide_of_nat_eq floor_add_int [symmetric])
  then show ?thesis
    by (simp only: decimal_cents_def mantissa_cents_def of_nat_add [symmetric] nat_int add.commute)
qed

text \<open>A positive exponent makes the value at least ten times that of the mantissa, a negative one smaller.\<close>

lemma decimal_value_shift:
  "decimal_value n = decimal_value (n\<lparr>nv_exponent := 0\<rparr>) * 10 powi sint (nv_exponent n)"
  by (simp add: decimal_value_def)

lemma decimal_value_nonneg: "0 \<le> decimal_value n"
  unfolding decimal_value_def
  by (intro mult_nonneg_nonneg add_nonneg_nonneg divide_nonneg_nonneg of_nat_0_le_iff zero_le_power
      zero_le_power_int) simp_all

lemma mantissa_cents_floor:
  "of_nat (mantissa_cents n) \<le> 100 * decimal_value (n\<lparr>nv_exponent := 0\<rparr>)"
  "100 * decimal_value (n\<lparr>nv_exponent := 0\<rparr>) < of_nat (mantissa_cents n) + 1"
proof -
  let ?v = "100 * decimal_value (n\<lparr>nv_exponent := 0\<rparr>)"
  have "mantissa_cents n = nat \<lfloor>?v\<rfloor>"
    using decimal_cents_no_exponent [of "n\<lparr>nv_exponent := 0\<rparr>"]
    by (simp add: decimal_cents_def mantissa_cents_def)
  moreover have "0 \<le> ?v" using decimal_value_nonneg by simp
  ultimately have "of_nat (mantissa_cents n) = (of_int \<lfloor>?v\<rfloor> :: rat)" by simp
  then show "of_nat (mantissa_cents n) \<le> ?v" "?v < of_nat (mantissa_cents n) + 1"
    by linarith+
qed

lemma exponent_raises:
  assumes "1 \<le> sint (nv_exponent n)"
  shows "10 * mantissa_cents n \<le> decimal_cents n"
proof -
  let ?v = "100 * decimal_value (n\<lparr>nv_exponent := 0\<rparr>)" and ?e = "sint (nv_exponent n)"
  have "(10 :: rat) powi 1 \<le> 10 powi ?e"
    using assms by (intro power_int_increasing) simp_all
  then have "?v * 10 \<le> ?v * 10 powi ?e"
    using decimal_value_nonneg [of "n\<lparr>nv_exponent := 0\<rparr>"] by (intro mult_left_mono) simp_all
  with mantissa_cents_floor(1) [of n] have "of_nat (10 * mantissa_cents n) \<le> 100 * decimal_value n"
    by (subst decimal_value_shift) simp
  then have "int (10 * mantissa_cents n) \<le> \<lfloor>100 * decimal_value n\<rfloor>"
    by (subst le_floor_iff) simp
  then have "nat (int (10 * mantissa_cents n)) \<le> nat \<lfloor>100 * decimal_value n\<rfloor>"
    by (rule nat_mono)
  then show ?thesis
    by (simp only: decimal_cents_def nat_int)
qed

lemma exponent_lowers:
  assumes "sint (nv_exponent n) \<le> - 1" and "0 < mantissa_cents n"
  shows "decimal_cents n < mantissa_cents n"
proof -
  let ?v = "100 * decimal_value (n\<lparr>nv_exponent := 0\<rparr>)" and ?e = "sint (nv_exponent n)"
  have "(10 :: rat) powi ?e \<le> 10 powi (- 1)"
    using assms(1) by (intro power_int_increasing) simp_all
  then have "?v * 10 powi ?e \<le> ?v * (1 / 10)"
    using decimal_value_nonneg [of "n\<lparr>nv_exponent := 0\<rparr>"] by (intro mult_left_mono) simp_all
  then have "100 * decimal_value n \<le> ?v / 10"
    by (subst decimal_value_shift) simp
  moreover have "?v / 10 < of_nat (mantissa_cents n)"
    using mantissa_cents_floor(2) [of n] assms(2) by simp
  ultimately have "100 * decimal_value n < of_nat (mantissa_cents n)" by simp
  then have "\<lfloor>100 * decimal_value n\<rfloor> < int (mantissa_cents n)"
    by (subst floor_less_iff) simp
  then have "nat \<lfloor>100 * decimal_value n\<rfloor> < nat (int (mantissa_cents n))"
    using assms(2) by (subst nat_mono_iff) simp_all
  then show ?thesis
    by (simp only: decimal_cents_def nat_int)
qed

text \<open>A parser result whose fraction has no more digits than its length says.\<close>

definition wf_number :: "number_value \<Rightarrow> bool" where
  "wf_number n \<longleftrightarrow> unat (nv_fraction n) < 10 ^ unat (nv_fraction_length n)"

definition fits_u32 :: "number_value \<Rightarrow> bool" where
  "fits_u32 n \<longleftrightarrow> unat (nv_integer n) * 100 + 99 < 2 ^ 32"

lemma power10_fits: "e \<le> 19 \<Longrightarrow> (10 :: nat) ^ e < 2 ^ 64"
proof -
  assume "e \<le> 19"
  then have "(10 :: nat) ^ e \<le> 10 ^ 19" by (intro power_increasing) simp_all
  then show ?thesis by simp
qed

lemma unat_ucast_u32: "unat (w :: u64) < 2 ^ 32 \<Longrightarrow> unat (ucast w :: u32) = unat w"
  by (simp add: unsigned_ucast_eq take_bit_nat_eq_self)

text \<open>The value of the expression, given the exponent it divides by.\<close>

lemma number_price_value:
  assumes e: "(case checked_sub (nv_fraction_length n) 2 of None \<Rightarrow> 0 | Some e \<Rightarrow> e) = e"
    and small: "unat e \<le> 19"
    and fits: "unat (nv_integer n) * 100 + unat (nv_fraction n) div 10 ^ unat e < 2 ^ 32"
  shows "\<exists>p. number_price chk n = Some p \<and>
     unat p = unat (nv_integer n) * 100 + unat (nv_fraction n) div 10 ^ unat e"
proof -
  let ?i = "ucast (nv_integer n) :: u32" and ?s = "(10 :: u64) ^ unat e"
  let ?c = "nv_fraction n div ?s"
  have i: "unat ?i = unat (nv_integer n)"
    using fits by (intro unat_ucast_u32) simp
  have mul: "rust_mul chk ?i 100 = Some (?i * 100)" "unat (?i * 100) = unat (nv_integer n) * 100"
    using rust_mul_fits [of ?i 100 chk] i fits by simp_all
  have pow: "rust_pow chk 10 (unat e) = Some ?s" "unat ?s = 10 ^ unat e"
    using rust_pow_fits [of "10 :: u64" "unat e" chk] power10_fits [OF small] by simp_all
  then have "?s \<noteq> 0" by (metis power_eq_0_iff unat_0 zero_neq_numeral)
  then have div: "rust_div (nv_fraction n) ?s = Some ?c" by simp
  have c: "unat (ucast ?c :: u32) = unat (nv_fraction n) div 10 ^ unat e"
    using fits pow(2) by (subst unat_ucast_u32) (simp_all add: unat_div)
  have "rust_add chk (?i * 100) (ucast ?c) = Some (?i * 100 + ucast ?c)
      \<and> unat (?i * 100 + ucast ?c) = unat (?i * 100) + unat (ucast ?c :: u32)"
    using fits by (intro rust_add_fits) (simp add: mul c)
  then show ?thesis
    using mul pow(1) div c e by (simp add: number_price_def Let_def)
qed

lemma exponent_cases:
  "(case checked_sub fl (2 :: u32) of None \<Rightarrow> 0 | Some e \<Rightarrow> e) = (if 2 \<le> fl then fl - 2 else 0)"
  by (simp add: checked_sub_def)

lemma decimal_cents_long:
  assumes "2 \<le> nv_fraction_length n"
  shows "unat (nv_fraction n) * 100 div 10 ^ unat (nv_fraction_length n) =
     unat (nv_fraction n) div 10 ^ unat (nv_fraction_length n - 2)"
proof -
  have "unat (nv_fraction_length n) = unat (nv_fraction_length n - 2) + 2"
    using assms by (simp add: unat_sub word_le_nat_alt)
  then have "(10 :: nat) ^ unat (nv_fraction_length n) = 10 ^ unat (nv_fraction_length n - 2) * 100"
    by (simp add: power_add)
  then show ?thesis by simp
qed

lemma fraction_cents_bound:
  assumes "wf_number n"
  shows "unat (nv_fraction n) * 100 div 10 ^ unat (nv_fraction_length n) \<le> 99"
proof -
  have "unat (nv_fraction n) * 100 < 100 * 10 ^ unat (nv_fraction_length n)"
    using assms by (simp add: wf_number_def)
  then have "unat (nv_fraction n) * 100 div 10 ^ unat (nv_fraction_length n) < 100"
    by (rule less_mult_imp_div_less)
  then show ?thesis by simp
qed

text \<open>With no fraction, or one of two digits or more, the code computes the decimal's cents.\<close>

lemma number_price_exact:
  assumes wf: "wf_number n" and fits: "fits_u32 n"
    and len: "nv_fraction_length n \<noteq> 1" "nv_fraction_length n \<le> 21"
  shows "\<exists>p. number_price chk n = Some p \<and> unat p = mantissa_cents n"
proof -
  let ?fl = "nv_fraction_length n"
  let ?e = "if 2 \<le> ?fl then ?fl - 2 else 0"
  have e: "(case checked_sub ?fl 2 of None \<Rightarrow> 0 | Some e \<Rightarrow> e) = ?e"
    by (rule exponent_cases)
  have small: "unat ?e \<le> 19"
    using len(2) by (auto simp: unat_sub word_le_nat_alt)
  have "unat (nv_fraction n) div 10 ^ unat ?e =
      unat (nv_fraction n) * 100 div 10 ^ unat ?fl"
  proof (cases "2 \<le> ?fl")
    case True
    then show ?thesis using decimal_cents_long [OF True] by simp
  next
    case False
    then have "unat ?fl < 2" and "unat ?fl \<noteq> 1"
      using len(1) by (simp_all add: word_le_nat_alt word_unat_eq_iff)
    then have "unat ?fl = 0" by simp
    then show ?thesis using wf by (simp add: wf_number_def)
  qed
  moreover have "unat (nv_integer n) * 100
      + unat (nv_fraction n) * 100 div 10 ^ unat ?fl < 2 ^ 32"
    using fraction_cents_bound [OF wf] fits by (simp add: fits_u32_def)
  ultimately show ?thesis
    using number_price_value [OF e small, of chk] by (simp add: mantissa_cents_def)
qed

text \<open>A fraction of one digit counts as cents instead of tens of cents.\<close>

lemma number_price_single_digit:
  assumes wf: "wf_number n" and fits: "fits_u32 n" and len: "nv_fraction_length n = 1"
  shows "\<exists>p. number_price chk n = Some p \<and> unat p + 9 * unat (nv_fraction n) = mantissa_cents n"
proof -
  have e: "(case checked_sub (nv_fraction_length n) 2 of None \<Rightarrow> 0 | Some e \<Rightarrow> e) = 0"
    using len by (simp add: exponent_cases word_le_nat_alt)
  have "unat (nv_integer n) * 100 + unat (nv_fraction n) div 10 ^ unat (0 :: u32) < 2 ^ 32"
    using wf fits len by (simp add: wf_number_def fits_u32_def)
  from number_price_value [OF e _ this, of chk] show ?thesis
    using len by (auto simp: mantissa_cents_def)
qed

text \<open>
  From 66 digits on, ten to the power of the exponent is a multiple of \<open>2 ^ 64\<close>: the checked
  build panics on the power, the wrapping build divides by zero.
\<close>

lemma power10_wraps: "64 \<le> e \<Longrightarrow> (10 :: u64) ^ e = 0"
proof -
  assume "64 \<le> e"
  then obtain k where "e = 64 + k" by (auto dest: le_Suc_ex)
  then have "(10 :: u64) ^ e = 10 ^ 64 * 10 ^ k"
    by (simp only: power_add)
  moreover have "(10 :: u64) ^ 64 = 0" by simp
  ultimately show ?thesis by (simp only: mult_zero_left)
qed

lemma number_price_panics:
  assumes "66 \<le> nv_fraction_length n"
  shows "number_price chk n = None"
proof -
  let ?e = "nv_fraction_length n - 2"
  have fl: "2 \<le> nv_fraction_length n"
    using assms by (rule order_trans [rotated]) simp
  then have "64 \<le> unat ?e"
    using assms by (simp add: unat_sub word_le_nat_alt)
  then have "(10 :: u64) ^ unat ?e = 0"
    by (rule power10_wraps)
  then show ?thesis
    using fl
    by (simp add: number_price_def Let_def exponent_cases rust_pow_def rust_div_def
          split: option.split bind_split)
qed

text \<open>Below that the power is not zero, so the wrapping build does not panic.\<close>

lemma power10_nonzero: "e < 64 \<Longrightarrow> (10 :: u64) ^ e \<noteq> 0"
proof
  assume "e < 64" and zero: "(10 :: u64) ^ e = 0"
  have "(10 :: u64) ^ e = word_of_nat (10 ^ e)" by simp
  with zero have "(word_of_nat (10 ^ e) :: u64) = 0" by (simp only:)
  then have "(2 :: nat) ^ 64 dvd 10 ^ e"
    by (simp only: word_of_nat_eq_0_iff) simp
  also have "(10 :: nat) ^ e = 2 ^ e * 5 ^ e"
    by (simp flip: power_mult_distrib)
  finally have dvd: "(2 :: nat) ^ 64 dvd 2 ^ e * 5 ^ e" .
  have "coprime ((2 :: nat) ^ 64) (5 ^ e)"
    by (simp only: coprime_power_left_iff coprime_power_right_iff coprime_left_2_iff_odd) simp
  from coprime_dvd_mult_left_iff [OF this] dvd have "(2 :: nat) ^ 64 dvd 2 ^ e"
    by (rule iffD1)
  then have "64 \<le> e"
    by (rule power_dvd_imp_le) simp
  with \<open>e < 64\<close> show False by simp
qed

lemma number_price_release_panics_iff:
  "number_price False n = None \<longleftrightarrow> 66 \<le> nv_fraction_length n"
proof
  assume panics: "number_price False n = None"
  show "66 \<le> nv_fraction_length n"
  proof (rule ccontr)
    assume "\<not> 66 \<le> nv_fraction_length n"
    then have "unat (if 2 \<le> nv_fraction_length n then nv_fraction_length n - 2 else 0) < 64"
      by (auto simp: word_le_nat_alt unat_sub)
    from power10_nonzero [OF this] panics show False
      by (simp add: number_price_def Let_def exponent_cases rust_mul_def rust_pow_def)
  qed
qed (rule number_price_panics)

lemma parse_price_number:
  assumes "parse_json txt = Ok (JsonObject obj)"
    and "find (\<lambda>(k, _). k = chars ''USD'') obj = Some (k, JsonNumber n)"
  shows "parse_price chk parse_json txt = map_option Some (number_price chk n)"
  using assms by (simp add: parse_price_def)

section \<open>Properties\<close>

text \<open>The answer of the price server: an object whose first \<open>USD\<close> field is the number \<open>n\<close>.\<close>

definition usd_answer :: "'perr + 'x json_value \<Rightarrow> number_value \<Rightarrow> bool" where
  "usd_answer parsed n \<longleftrightarrow>
     (\<exists>obj k. parsed = Ok (JsonObject obj) \<and>
        find (\<lambda>(k, _). k = chars ''USD'') obj = Some (k, JsonNumber n))"

lemma parse_price_usd:
  "usd_answer (parse_json txt) n \<Longrightarrow>
     parse_price chk parse_json txt = map_option Some (number_price chk n)"
  unfolding usd_answer_def by (blast intro: parse_price_number)

lemma parse_price_release_panics_iff:
  "parse_price False parse_json body = None \<longleftrightarrow>
     (\<exists>n. usd_answer (parse_json body) n \<and> 66 \<le> nv_fraction_length n)"
proof
  assume "parse_price False parse_json body = None"
  then obtain n where n: "usd_answer (parse_json body) n" "number_price False n = None"
    by (auto simp: parse_price_def usd_answer_def
          split: sum.splits json_value.splits option.splits)
  then show "\<exists>n. usd_answer (parse_json body) n \<and> 66 \<le> nv_fraction_length n"
    by (auto simp: number_price_release_panics_iff)
next
  assume "\<exists>n. usd_answer (parse_json body) n \<and> 66 \<le> nv_fraction_length n"
  then show "parse_price False parse_json body = None"
    by (auto simp: parse_price_usd number_price_panics)
qed

text \<open>
  C23. \<open>parse_price\<close> returns the price in cents, rounded down: for an answer whose \<open>USD\<close> number is written
  without exponent, has no fraction or one of 2 to 19 digits and fits 32 bits in cents, it returns exactly one
  hundred times the number, rounded down, in a checked and in an unchecked build. (A fraction of
  more than 19 digits need not fit the 64 bits it is parsed into.)
\<close>

theorem parse_price_computes_cents:
  assumes "usd_answer (parse_json txt) n" and "wf_number n" and "fits_u32 n" and "nv_exponent n = 0"
    and "nv_fraction_length n \<noteq> 1" and "nv_fraction_length n \<le> 19"
  shows "\<exists>p. parse_price chk parse_json txt = Some (Some p) \<and> unat p = decimal_cents n"
proof -
  have "nv_fraction_length n \<le> 21"
    using assms(6) by (rule order_trans) simp
  from number_price_exact [OF assms(2,3,5) this, of chk] show ?thesis
    using parse_price_usd [of parse_json _ n chk] assms(1) decimal_cents_no_exponent [OF assms(4)] by auto
qed

text \<open>
  C24. A fraction of one digit is read as cents instead of tens of cents: \<open>6.5\<close> dollars come out as
  605 cents. The result misses nine times the digit, so every such price with a non-zero digit is
  too low. The number is written without exponent.
\<close>

theorem parse_price_single_digit_too_low:
  assumes "usd_answer (parse_json txt) n" and "wf_number n" and "fits_u32 n" and "nv_exponent n = 0"
    and "nv_fraction_length n = 1"
  shows "\<exists>p. parse_price chk parse_json txt = Some (Some p) \<and>
    unat p + 9 * unat (nv_fraction n) = decimal_cents n \<and>
    (nv_fraction n \<noteq> 0 \<longrightarrow> unat p < decimal_cents n)"
proof -
  from number_price_single_digit [OF assms(2,3,5), of chk] obtain p where
    "number_price chk n = Some p" "unat p + 9 * unat (nv_fraction n) = decimal_cents n"
    by (auto simp: decimal_cents_no_exponent [OF assms(4)])
  moreover have "nv_fraction n \<noteq> 0 \<Longrightarrow> 0 < unat (nv_fraction n)"
    by (simp add: unat_gt_0)
  ultimately show ?thesis
    using parse_price_usd [of parse_json _ n chk] assms(1) by auto
qed


text \<open>
  An answer whose \<open>USD\<close> number has 66 or more digits after the point makes \<open>parse_price\<close> panic in
  every build: ten to the power of the exponent overflows 64 bits to zero, and the worker divides
  by it.
\<close>

lemma parse_price_panics_on_long_fraction:
  assumes "usd_answer (parse_json txt) n" and "66 \<le> nv_fraction_length n"
  shows "parse_price chk parse_json txt = None"
  using parse_price_usd [of parse_json _ n chk] assms(1) number_price_panics [OF assms(2), of chk] by simp

text \<open>
  The error branches: \<open>parse_price\<close> returns \<open>None\<close> (in Rust) exactly when the text does not parse
  as an object whose first \<open>USD\<close> field is a number. Such an answer never causes a panic.
\<close>

lemma parse_price_none_iff:
  "parse_price chk parse_json txt = Some None \<longleftrightarrow> \<not> (\<exists>n. usd_answer (parse_json txt) n)"
proof
  assume "parse_price chk parse_json txt = Some None"
  then show "\<not> (\<exists>n. usd_answer (parse_json txt) n)"
    by (auto simp: parse_price_usd)
next
  assume "\<not> (\<exists>n. usd_answer (parse_json txt) n)"
  then show "parse_price chk parse_json txt = Some None"
    by (auto simp: parse_price_def usd_answer_def
          split: sum.split json_value.split option.split)
qed

section \<open>Concrete answers\<close>

text \<open>The answer \<open>{"USD": 6536.92}\<close> of the pallet's unit tests, and the same field with another number.\<close>

definition usd_number :: "number_value \<Rightarrow> unit + unit json_value" where
  "usd_number n = Ok (JsonObject [(chars ''USD'', JsonNumber n)])"

definition usd_json :: "u64 \<Rightarrow> u64 \<Rightarrow> u32 \<Rightarrow> unit + unit json_value" where
  "usd_json i f l = usd_number
     \<lparr>nv_integer = i, nv_fraction = f, nv_fraction_length = l, nv_exponent = 0\<rparr>"

lemma usd_number_answer [simp]: "usd_answer (usd_number n) n"
  by (simp add: usd_answer_def usd_number_def)

lemma usd_json_answer [simp]:
  "usd_answer (usd_json i f l)
     \<lparr>nv_integer = i, nv_fraction = f, nv_fraction_length = l, nv_exponent = 0\<rparr>"
  by (simp add: usd_json_def)

theorem parse_price_computes_cents_witness:
  "\<exists>p. parse_price True (\<lambda>_. usd_json 6536 92 2) [] = Some (Some p) \<and> unat p = 653692"
  using parse_price_computes_cents [of "\<lambda>_. usd_json 6536 92 2" "[]", OF usd_json_answer]
  by (simp add: wf_number_def fits_u32_def decimal_cents_no_exponent mantissa_cents_def word_le_nat_alt)

theorem parse_price_single_digit_too_low_witness:
  "\<exists>p. parse_price True (\<lambda>_. usd_json 6 5 1) [] = Some (Some p) \<and> unat p + 45 = 650"
  using parse_price_single_digit_too_low [of "\<lambda>_. usd_json 6 5 1" "[]", OF usd_json_answer]
  by (auto simp: wf_number_def fits_u32_def decimal_cents_no_exponent mantissa_cents_def)


lemma parse_price_panics_on_long_fraction_example:
  "parse_price True (\<lambda>_. usd_json 6 5 66) [] = None \<and>
   parse_price False (\<lambda>_. usd_json 6 5 66) [] = None"
  using parse_price_panics_on_long_fraction [of "\<lambda>_. usd_json 6 5 66" "[]", OF usd_json_answer]
  by simp

end
