(* ===== verification/Price_Worker.thy ===== *)
theory Price_Worker
  imports Price_Oracle Price_Json Mock_Host
begin

text \<open>
  The off-chain half of \<open>pallets/example-offchain-worker\<close>: choosing what to send, fetching the
  price, and sending it as a signed transaction, as an unsigned one, or as an unsigned one with a
  signed payload. On-chain storage is read only, so it is an argument; everything else the
  worker does goes through the host.
\<close>

section \<open>Choosing the transaction\<close>

datatype transaction_type = Signed | UnsignedForAny | UnsignedForAll | Raw | NoTransaction

text \<open>The closure passed to \<open>mutate\<close> (lines 386-395), on what \<open>last_send\<close> reads as.\<close>

definition last_send_closure ::
  "bool \<Rightarrow> oracle_config \<Rightarrow> u32 \<Rightarrow> unit + u32 option \<Rightarrow> (unit + u32) option" where
  "last_send_closure chk cfg block_number last_send =
     (case last_send of
        Ok (Some block) \<Rightarrow> do {
          limit \<leftarrow> rust_add chk block (grace_period cfg);
          Some (if block_number < limit then Err () else Ok block_number)
        }
      | _ \<Rightarrow> Some (Ok block_number))"

definition transaction_type_of :: "u32 \<Rightarrow> transaction_type" where
  "transaction_type_of block_number =
     (let transaction_type = block_number mod 3
      in if transaction_type = 0 then Signed
         else if transaction_type = 1 then UnsignedForAny
         else if transaction_type = 2 then UnsignedForAll
         else Raw)"

definition choose_transaction_type ::
  "bool \<Rightarrow> oracle_config \<Rightarrow> ('h, u32) storage_host \<Rightarrow> u32 \<Rightarrow> ('h, transaction_type option) state" where
  "choose_transaction_type chk cfg store block_number = do {
     res \<leftarrow> local_mutate store ''example_ocw::last_send''
             (last_send_closure chk cfg block_number);
     State_Monad.return
       (case res of
          None \<Rightarrow> None
        | Some (Ok block_number) \<Rightarrow> Some (transaction_type_of block_number)
        | Some (Err (ValueFunctionFailed _)) \<Rightarrow> Some NoTransaction
        | Some (Err (ConcurrentModification _)) \<Rightarrow> Some NoTransaction)
   }"

section \<open>Fetching the price\<close>

definition price_url :: string where
  "price_url = ''https://min-api.cryptocompare.com/data/price?fsym=BTC&tsyms=USD''"

definition fetch_price ::
  "bool \<Rightarrow> ('h, 't, 'pending, 'response) http_host \<Rightarrow> (str \<Rightarrow> 'perr + 'x json_value)
     \<Rightarrow> ('h, (http_error + u32) option) state" where
  "fetch_price chk http parse_json = do {
     now \<leftarrow> timestamp http;
     let deadline = timestamp_add http now 2000;
     bind_panic (map_run (Some \<circ> map_err (\<lambda>_. IoError)) (http_get http price_url deadline))
       (\<lambda>pending.
     bind_panic (map_run (Some \<circ> map_err (\<lambda>_. DeadlineReached)) (try_wait http pending deadline))
       (\<lambda>waited.
     bind_panic (State_Monad.return (Some waited)) (\<lambda>response.
     if response_code http response \<noteq> 200 then State_Monad.return (Some (Err Unknown))
     else do {
       body \<leftarrow> response_body http response;
       State_Monad.return
         (case map_err (\<lambda>_. Unknown) (from_utf8 body) of
            Err e \<Rightarrow> Some (Err e)
          | Ok body_str \<Rightarrow> map_option (ok_or Unknown) (parse_price chk parse_json body_str))
     })))
   }"

section \<open>Sending\<close>

type_synonym ('h, 'id, 'pub, 'sig) price_tx_host =
  "('h, ('id, 'pub) account, 'pub price_payload, 'sig, ('pub, 'sig) oracle_call) tx_host"

text \<open>\<open>Self::fetch_price().map_err(|_| "Failed to fetch price")\<close>.\<close>

definition fetched ::
  "('h, (http_error + u32) option) state \<Rightarrow> ('h, (string + u32) option) state" where
  "fetched m = map_run (map_option (map_err (\<lambda>_. ''Failed to fetch price''))) m"

definition fetch_price_and_send_signed ::
  "('h, (http_error + u32) option) state \<Rightarrow> ('h, 'id, 'pub, 'sig) price_tx_host
     \<Rightarrow> ('h, (string + unit) option) state" where
  "fetch_price_and_send_signed fetch tx = do {
     can \<leftarrow> can_sign tx;
     if \<not> can then
       State_Monad.return (Some (Err
         ''No local accounts available. Consider adding one via `author_insertKey` RPC.''))
     else
       bind_panic (fetched fetch) (\<lambda>price. do {
         results \<leftarrow> all_send_signed tx (\<lambda>account. Call_submit_price price);
         State_Monad.return (Some (Ok ()))
       })
   }"

definition fetch_price_and_send_raw_unsigned ::
  "('h, (http_error + u32) option) state \<Rightarrow> ('h, 'id, 'pub, 'sig) price_tx_host
     \<Rightarrow> 'a oracle_state \<Rightarrow> u32 \<Rightarrow> ('h, (string + unit) option) state" where
  "fetch_price_and_send_raw_unsigned fetch tx s block_number =
     (if next_unsigned_at s > block_number then
        State_Monad.return (Some (Err ''Too early to send unsigned transaction''))
      else
        bind_panic (fetched fetch) (\<lambda>price.
          map_run (\<lambda>r. Some (map_err (\<lambda>_. ''Unable to submit unsigned transaction.'') r))
            (submit_unsigned_transaction tx (Call_submit_price_unsigned block_number price))))"

definition price_payload_for :: "u32 \<Rightarrow> u32 \<Rightarrow> ('id, 'pub) account \<Rightarrow> 'pub price_payload" where
  "price_payload_for price block_number account =
     \<lparr>pp_block_number = block_number, pp_price = price, pp_public = acc_public account\<rparr>"

definition fetch_price_and_send_unsigned_for_any_account ::
  "('h, (http_error + u32) option) state \<Rightarrow> ('h, 'id, 'pub, 'sig) price_tx_host
     \<Rightarrow> 'a oracle_state \<Rightarrow> u32 \<Rightarrow> ('h, (string + unit) option) state" where
  "fetch_price_and_send_unsigned_for_any_account fetch tx s block_number =
     (if next_unsigned_at s > block_number then
        State_Monad.return (Some (Err ''Too early to send unsigned transaction''))
      else
        bind_panic (fetched fetch) (\<lambda>price.
        bind_panic (map_run (Some \<circ> ok_or ''No local accounts accounts available.'')
          (any_send_unsigned tx (price_payload_for price block_number)
             (\<lambda>payload signature.
                Call_submit_price_unsigned_with_signed_payload payload signature)))
          (\<lambda>(_, result).
             State_Monad.return (Some (map_err (\<lambda>_. ''Unable to submit transaction'') result)))))"

text \<open>The loop over the results returns at the first failure.\<close>

fun check_results :: "('acc \<times> (unit + unit)) list \<Rightarrow> string + unit" where
  "check_results [] = Ok ()"
| "check_results ((account_id, result) # rest) =
     (if is_err result then Err ''Unable to submit transaction'' else check_results rest)"

definition fetch_price_and_send_unsigned_for_all_accounts ::
  "('h, (http_error + u32) option) state \<Rightarrow> ('h, 'id, 'pub, 'sig) price_tx_host
     \<Rightarrow> 'a oracle_state \<Rightarrow> u32 \<Rightarrow> ('h, (string + unit) option) state" where
  "fetch_price_and_send_unsigned_for_all_accounts fetch tx s block_number =
     (if next_unsigned_at s > block_number then
        State_Monad.return (Some (Err ''Too early to send unsigned transaction''))
      else
        bind_panic (fetched fetch) (\<lambda>price.
          map_run (Some \<circ> check_results)
            (all_send_unsigned tx (price_payload_for price block_number)
               (\<lambda>payload signature.
                  Call_submit_price_unsigned_with_signed_payload payload signature))))"

section \<open>The hook\<close>

text \<open>
  \<open>offchain_worker\<close>. The parent hash and the average are only logged, but computing them can
  panic. The result is the one the hook logs when it is an error.
\<close>

definition price_offchain_worker ::
  "bool \<Rightarrow> oracle_config \<Rightarrow> ('h, 't, 'pending, 'response) http_host \<Rightarrow> (str \<Rightarrow> 'perr + 'x json_value)
     \<Rightarrow> ('h, u32) storage_host \<Rightarrow> ('h, 'id, 'pub, 'sig) price_tx_host
     \<Rightarrow> 'a oracle_state \<Rightarrow> u32 \<Rightarrow> ('h, (string + unit) option) state" where
  "price_offchain_worker chk cfg http parse_json store tx s block_number =
     (case rust_sub chk block_number 1 of
        None \<Rightarrow> State_Monad.return None
      | Some parent \<Rightarrow>
          (case average_price s of
             None \<Rightarrow> State_Monad.return None
           | Some average \<Rightarrow> do {
               should_send \<leftarrow> choose_transaction_type chk cfg store block_number;
               let fetch = fetch_price chk http parse_json;
               (case should_send of
                  None \<Rightarrow> State_Monad.return None
                | Some Signed \<Rightarrow> fetch_price_and_send_signed fetch tx
                | Some UnsignedForAny \<Rightarrow>
                    fetch_price_and_send_unsigned_for_any_account fetch tx s block_number
                | Some UnsignedForAll \<Rightarrow>
                    fetch_price_and_send_unsigned_for_all_accounts fetch tx s block_number
                | Some Raw \<Rightarrow> fetch_price_and_send_raw_unsigned fetch tx s block_number
                | Some NoTransaction \<Rightarrow> State_Monad.return (Some (Ok ())))
             }))"

section \<open>Choosing never yields the raw transaction\<close>

lemma mod_3_cases: "(b :: u32) mod 3 = 0 \<or> b mod 3 = 1 \<or> b mod 3 = 2"
proof -
  have "unat (b mod 3) < 3"
    by (simp add: unat_mod)
  then have "unat (b mod 3) \<in> {0, 1, 2}" by auto
  then show ?thesis by (simp add: word_unat_eq_iff)
qed

lemma transaction_type_of_not_raw: "transaction_type_of b \<notin> {Raw, NoTransaction}"
  using mod_3_cases [of b] by (auto simp: transaction_type_of_def Let_def)

lemma choose_not_raw:
  "fst (run_state (choose_transaction_type chk cfg store b) h) \<noteq> Some Raw"
  using transaction_type_of_not_raw
  by (auto simp: choose_transaction_type_def split: prod.splits option.splits sum.splits
        mutate_error.splits)

lemma fetch_price_keeps: "http_keeps P http \<Longrightarrow> keeps P (fetch_price chk http parse_json)"
  unfolding fetch_price_def Let_def
  by (auto simp: http_keeps_def intro!: keeps_intros)

section \<open>Properties\<close>

text \<open>
  The branch that sends a raw unsigned transaction is dead: for every host, block and
  storage the worker does the same whatever \<open>submit_unsigned_transaction\<close> does, since
  \<open>choose_transaction_type\<close> never returns \<open>Raw\<close>.
\<close>

lemma raw_branch_is_dead:
  "price_offchain_worker chk cfg http parse_json store
     (tx\<lparr>submit_unsigned_transaction := submit\<rparr>) s b =
   price_offchain_worker chk cfg http parse_json store tx s b"
proof (rule state_eqI)
  fix h
  show "run_state (price_offchain_worker chk cfg http parse_json store
      (tx\<lparr>submit_unsigned_transaction := submit\<rparr>) s b) h =
    run_state (price_offchain_worker chk cfg http parse_json store tx s b) h"
    using choose_not_raw [of chk cfg store b h]
    by (auto simp: price_offchain_worker_def Let_def fetch_price_and_send_signed_def
          fetch_price_and_send_unsigned_for_any_account_def
          fetch_price_and_send_unsigned_for_all_accounts_def
          split: option.split transaction_type.split prod.split)
qed

text \<open>
  When \<open>fetch_price\<close> succeeds: it returns a price exactly if the request was sent, the answer
  arrived before the deadline two seconds later with status 200, its body is well-formed UTF-8, and
  \<open>parse_price\<close> reads that price in it.
\<close>

lemma fetch_price_succeeds_iff:
  "fst (run_state (fetch_price chk http parse_json) h) = Some (Ok p) \<longleftrightarrow>
   (\<exists>now h1 pending h2 response h3 body h4.
      run_state (timestamp http) h = (now, h1) \<and>
      run_state (http_get http price_url (timestamp_add http now 2000)) h1 = (Ok pending, h2) \<and>
      run_state (try_wait http pending (timestamp_add http now 2000)) h2 = (Ok (Ok response), h3) \<and>
      response_code http response = 200 \<and>
      run_state (response_body http response) h3 = (body, h4) \<and>
      valid_utf8 body \<and> parse_price chk parse_json body = Some (Some p))"
  by (auto simp: fetch_price_def run_simps Let_def from_utf8_def ok_or_def
        split: prod.splits sum.splits option.splits if_splits)

text \<open>
  Before the block stored in \<open>NextUnsignedAt\<close> none of the three unsigned senders touches the
  host: no request is made and nothing is submitted; each returns the same error.
\<close>

lemma too_early_senders_do_nothing:
  assumes "b < next_unsigned_at s"
  shows "list_all (\<lambda>send. run_state send h = (Some (Err ''Too early to send unsigned transaction''), h))
    [fetch_price_and_send_raw_unsigned fetch tx s b,
     fetch_price_and_send_unsigned_for_any_account fetch tx s b,
     fetch_price_and_send_unsigned_for_all_accounts fetch tx s b]"
  using assms
  by (simp add: fetch_price_and_send_raw_unsigned_def
        fetch_price_and_send_unsigned_for_any_account_def
        fetch_price_and_send_unsigned_for_all_accounts_def)

section \<open>Panics\<close>

text \<open>A computation that panics only if a property holds.\<close>

definition panics_only :: "bool \<Rightarrow> ('h, 'r option) state \<Rightarrow> bool" where
  "panics_only Q m \<longleftrightarrow> (\<forall>h h'. run_state m h = (None, h') \<longrightarrow> Q)"

lemma panics_only_return [simp, intro]: "panics_only Q (State_Monad.return (Some x))"
  by (simp add: panics_only_def)

lemma panics_only_bind: "(\<And>r. panics_only Q (k r)) \<Longrightarrow> panics_only Q (State_Monad.bind m k)"
  by (auto simp: panics_only_def split: prod.split_asm) blast

lemma panics_only_bind_panic:
  "panics_only Q m \<Longrightarrow> (\<And>a. panics_only Q (k a)) \<Longrightarrow> panics_only Q (bind_panic m k)"
  by (auto simp: panics_only_def run_bind_panic split: prod.split_asm option.split_asm sum.split_asm) blast+

lemma panics_only_map_run: "(\<And>r. f r \<noteq> None) \<Longrightarrow> panics_only Q (map_run f m)"
  by (auto simp: panics_only_def run_simps split: prod.split_asm) (metis option.distinct(1))

text \<open>
  When \<open>fetch_price\<close> panics: exactly if the request was sent, an answer with status 200 and a well-formed
  body arrived, and \<open>parse_price\<close> panics on that body.
\<close>

lemma fetch_price_panics_iff:
  "run_state (fetch_price chk http parse_json) h = (None, h') \<longleftrightarrow>
   (\<exists>now h1 pending h2 response h3 body.
      run_state (timestamp http) h = (now, h1) \<and>
      run_state (http_get http price_url (timestamp_add http now 2000)) h1 = (Ok pending, h2) \<and>
      run_state (try_wait http pending (timestamp_add http now 2000)) h2 = (Ok (Ok response), h3) \<and>
      response_code http response = 200 \<and>
      run_state (response_body http response) h3 = (body, h') \<and>
      valid_utf8 body \<and> parse_price chk parse_json body = None)"
  by (auto simp: fetch_price_def run_simps Let_def from_utf8_def ok_or_def
        split: prod.splits sum.splits option.splits if_splits)

lemma bind_panic_None:
  assumes "run_state (bind_panic m k) h = (None, h')" and "\<And>a. panics_only False (k a)"
  shows "run_state m h = (None, h')"
  using assms
  by (auto simp: panics_only_def run_bind_panic split: prod.split_asm option.split_asm sum.split_asm)

lemma fetched_None: "run_state (fetched m) h = (None, h') \<longleftrightarrow> run_state m h = (None, h')"
  by (auto simp: fetched_def run_simps split: prod.split)

text \<open>A sender panics only where it fetches the price.\<close>

lemma senders_panic:
  "run_state (fetch_price_and_send_signed fetch tx) h = (None, h') \<Longrightarrow>
     run_state fetch (snd (run_state (can_sign tx) h)) = (None, h')"
  "run_state (fetch_price_and_send_raw_unsigned fetch tx s b) h = (None, h') \<Longrightarrow>
     run_state fetch h = (None, h')"
  "run_state (fetch_price_and_send_unsigned_for_any_account fetch tx s b) h = (None, h') \<Longrightarrow>
     run_state fetch h = (None, h')"
  "run_state (fetch_price_and_send_unsigned_for_all_accounts fetch tx s b) h = (None, h') \<Longrightarrow>
     run_state fetch h = (None, h')"
  by (auto simp: fetch_price_and_send_signed_def fetch_price_and_send_raw_unsigned_def
        fetch_price_and_send_unsigned_for_any_account_def
        fetch_price_and_send_unsigned_for_all_accounts_def fetched_None
        split: if_splits prod.splits
        dest!: bind_panic_None
        intro!: panics_only_bind panics_only_bind_panic panics_only_map_run)

lemma closure_release_total: "last_send_closure False cfg b r \<noteq> None"
  by (auto simp: last_send_closure_def split: sum.splits option.splits)

lemma choose_release_total:
  assumes "\<And>key f h. fst (run_state (local_mutate store key f) h) = None \<Longrightarrow> \<exists>v. f v = None"
  shows "fst (run_state (choose_transaction_type False cfg store b) h) \<noteq> None"
proof -
  obtain r h' where run: "run_state (local_mutate store ''example_ocw::last_send''
      (last_send_closure False cfg b)) h = (r, h')"
    by fastforce
  have "r \<noteq> None"
    using assms [of "''example_ocw::last_send''" "last_send_closure False cfg b" h] run
      closure_release_total [of cfg b]
    by auto
  with run show ?thesis
    by (auto simp: choose_transaction_type_def split: sum.splits mutate_error.splits)
qed

text \<open>
  C14. The only panic of the release build. On any host whose \<open>mutate\<close> panics only when its closure
  does, and with the price vector within its bound, a run of the worker that panics has done the
  following: after choosing the transaction (and asking for an account, if it is to be signed) it sent the request to
  the price server, received an answer with status 200 and a well-formed body in time, and this
  body, the last thing it read, has a \<open>USD\<close> number with 66 or more digits after the point. Every other
  answer, and every failure of the host, is handled.
\<close>

theorem price_worker_panics_only_on_long_fraction:
  assumes "oracle_inv s"
    and "\<forall>key f h. fst (run_state (local_mutate store key f) h) = None \<longrightarrow> (\<exists>v. f v = None)"
    and "run_state (price_offchain_worker False cfg http parse_json store tx s b) h = (None, h')"
  shows "\<exists>h0 now h1 pending h2 response h3 body n.
    (h0 = snd (run_state (choose_transaction_type False cfg store b) h) \<or>
     h0 = snd (run_state (can_sign tx) (snd (run_state (choose_transaction_type False cfg store b) h)))) \<and>
    run_state (timestamp http) h0 = (now, h1) \<and>
    run_state (http_get http price_url (timestamp_add http now 2000)) h1 = (Ok pending, h2) \<and>
    run_state (try_wait http pending (timestamp_add http now 2000)) h2 = (Ok (Ok response), h3) \<and>
    response_code http response = 200 \<and>
    run_state (response_body http response) h3 = (body, h') \<and> valid_utf8 body \<and>
    usd_answer (parse_json body) n \<and> 66 \<le> nv_fraction_length n"
proof -
  let ?choose = "choose_transaction_type False cfg store b" and ?fetch = "fetch_price False http parse_json"
  obtain avg where avg: "average_price s = Some avg"
    using average_price_total [OF oracle_inv_small [OF assms(1)]] by blast
  obtain t hc where choose: "run_state ?choose h = (Some t, hc)"
    using choose_release_total [of store cfg b h] assms(2)
    by (cases "run_state ?choose h") auto
  have "run_state ?fetch hc = (None, h') \<or> run_state ?fetch (snd (run_state (can_sign tx) hc)) = (None, h')"
    using assms(3) choose
    by (cases t) (auto simp: price_offchain_worker_def avg rust_sub_def Let_def dest: senders_panic)
  then obtain h0 where "h0 = hc \<or> h0 = snd (run_state (can_sign tx) hc)"
    and "run_state ?fetch h0 = (None, h')"
    by blast
  then show ?thesis
    unfolding fetch_price_panics_iff parse_price_release_panics_iff choose snd_conv by blast
qed

text \<open>A host with one account, whose signature of anything is \<open>()\<close>.\<close>

type_synonym demo_host = "((nat, unit) oracle_call, u32) mock"

definition demo_tx :: "(demo_host, nat, nat, unit) price_tx_host" where
  "demo_tx = mock_tx [\<lparr>acc_id = 0, acc_public = 0\<rparr>] (\<lambda>_. ())"

text \<open>
  A server that answers with 66 digits makes the worker panic, and the theorem names the body it
  answered with.
\<close>

theorem price_worker_panics_only_on_long_fraction_witness:
  "run_state (price_offchain_worker False demo_config mock_http (\<lambda>_. usd_json 6536 92 66) mock_store
       demo_tx \<lparr>prices = [], next_unsigned_at = 0, oracle_events = ([] :: nat oracle_event list)\<rparr> 3)
       (mock_init [(200, [98])]) = (None, (mock_init [])\<lparr>entry := Some 3\<rparr>) \<and>
   (\<exists>h2 :: demo_host. \<exists>pending deadline h3 response body n.
      run_state (try_wait mock_http pending deadline) h2 = (Ok (Ok response), h3) \<and>
      run_state (response_body mock_http response) h3 = (body, (mock_init [])\<lparr>entry := Some 3\<rparr>) \<and>
      usd_answer (usd_json 6536 92 66) n \<and> 66 \<le> nv_fraction_length n)"
proof -
  let ?s = "\<lparr>prices = [], next_unsigned_at = 0, oracle_events = ([] :: nat oracle_event list)\<rparr>"
  have panics: "run_state (price_offchain_worker False demo_config mock_http (\<lambda>_. usd_json 6536 92 66) mock_store
      demo_tx ?s 3) (mock_init [(200, [98])]) = (None, (mock_init [])\<lparr>entry := Some 3\<rparr>)"
    by (simp add: price_offchain_worker_def average_price_def choose_transaction_type_def last_send_closure_def
          transaction_type_of_def fetch_price_and_send_signed_def fetch_price_def fetched_def from_utf8_def
          demo_tx_def mock_defs run_simps Let_def
          parse_price_panics_on_long_fraction [OF usd_json_answer])
  have "\<forall>key f (h :: demo_host). fst (run_state (local_mutate mock_store key f) h) = None \<longrightarrow> (\<exists>v. f v = None)"
    by (auto simp: mock_store_def split: option.split_asm sum.split_asm)
  from price_worker_panics_only_on_long_fraction [OF _ this panics]
  have "\<exists>h2 :: demo_host. \<exists>pending deadline h3 response body n.
      run_state (try_wait mock_http pending deadline) h2 = (Ok (Ok response), h3) \<and>
      run_state (response_body mock_http response) h3 = (body, (mock_init [])\<lparr>entry := Some 3\<rparr>) \<and>
      usd_answer (usd_json 6536 92 66) n \<and> 66 \<le> nv_fraction_length n"
    unfolding oracle_inv_def by simp blast
  with panics show ?thesis ..
qed

end
