(* ===== verification/Price_Race.thy ===== *)
theory Price_Race
  imports Price_Worker Pacing
begin

text \<open>
  Several runs of the price worker at once, sharing the local storage entry
  \<open>example_ocw::last_send\<close>. \<open>StorageValueRef::mutate\<close> reads the entry, computes the new value
  with the closure and writes it with \<open>compare_and_set\<close> (\<open>lib.rs\<close> lines 380-385 and
  \<open>docs/storage.md\<close>), so a run is two atomic steps between which other runs may step: it
  looks, and later it decides. The closure and the mapping of the outcome to a transaction type
  are those of \<open>choose_transaction_type\<close>.
\<close>

section \<open>The machine\<close>

datatype run_pc = Idle | Looked u32 "u32 option" | Decided "transaction_type option"

record race =
  last_send :: "u32 option"
  runs :: "nat \<Rightarrow> run_pc"

definition set_run :: "nat \<Rightarrow> run_pc \<Rightarrow> race \<Rightarrow> race" where
  "set_run i p r = r\<lparr>runs := (runs r)(i := p)\<rparr>"

text \<open>A step that writes is observed with the block number it writes: the run will send.\<close>

inductive race_step :: "bool \<Rightarrow> oracle_config \<Rightarrow> race \<Rightarrow> u32 option \<Rightarrow> race \<Rightarrow> bool" for chk cfg where
  look: "runs r i = Idle \<Longrightarrow>
     race_step chk cfg r None (set_run i (Looked block_number (last_send r)) r)"
| recently_sent: "runs r i = Looked block_number seen \<Longrightarrow>
     last_send_closure chk cfg block_number (Ok seen) = Some (Err ()) \<Longrightarrow>
     race_step chk cfg r None (set_run i (Decided (Some NoTransaction)) r)"
| written: "runs r i = Looked block_number seen \<Longrightarrow>
     last_send_closure chk cfg block_number (Ok seen) = Some (Ok v) \<Longrightarrow>
     last_send r = seen \<Longrightarrow>
     race_step chk cfg r (Some v)
       (set_run i (Decided (Some (transaction_type_of v))) (r\<lparr>last_send := Some v\<rparr>))"
| concurrent_modification: "runs r i = Looked block_number seen \<Longrightarrow>
     last_send_closure chk cfg block_number (Ok seen) = Some (Ok v) \<Longrightarrow>
     last_send r \<noteq> seen \<Longrightarrow>
     race_step chk cfg r None (set_run i (Decided (Some NoTransaction)) r)"
| panicked: "runs r i = Looked block_number seen \<Longrightarrow>
     last_send_closure chk cfg block_number (Ok seen) = None \<Longrightarrow>
     race_step chk cfg r None (set_run i (Decided None) r)"

text \<open>All runs idle, with whatever earlier runs left in the entry.\<close>

definition race_init :: "u32 option \<Rightarrow> race" where
  "race_init c = \<lparr>last_send = c, runs = (\<lambda>_. Idle)\<rparr>"

inductive_cases quiet_raceE: "race_step chk cfg r None r'"
inductive_cases send_raceE: "race_step chk cfg r (Some v) r'"

lemma set_run_fields [simp]:
  "last_send (set_run i p r) = last_send r"
  "runs (set_run i p r) = (runs r)(i := p)"
  by (simp_all add: set_run_def)

section \<open>The machine is a rate limiter\<close>

text \<open>
  The block from which the next send is possible; an entry too large to count the grace period
  from, which only the initial state can hold, does not close the gate.
\<close>

definition send_gate :: "oracle_config \<Rightarrow> race \<Rightarrow> nat" where
  "send_gate cfg r =
     (case last_send r of
        None \<Rightarrow> 0
      | Some b \<Rightarrow> if in_range (unat (grace_period cfg)) b then unat b + unat (grace_period cfg) else 0)"

lemma last_send_closure_Ok:
  assumes "last_send_closure chk cfg bn (Ok seen) = Some (Ok v)"
    and "seen = Some b" and "in_range (unat (grace_period cfg)) b"
  shows "unat b + unat (grace_period cfg) \<le> unat v"
  using assms rust_add_fits [of b "grace_period cfg" chk]
  by (auto simp: last_send_closure_def in_range_def word_le_nat_alt not_less split: if_splits)

interpretation send_limiter: rate_limiter "race_step chk cfg" "\<lambda>_. True" "send_gate cfg"
    "unat (grace_period cfg)" for chk cfg
proof unfold_locales
  fix r r' assume "race_step chk cfg r None r'"
  then show "send_gate cfg r \<le> send_gate cfg r'"
    by (auto simp: send_gate_def elim!: quiet_raceE)
next
  fix r r' v
  assume "race_step chk cfg r (Some v) r'" and range: "in_range (unat (grace_period cfg)) v"
  then show "send_gate cfg r \<le> unat v \<and> unat v + unat (grace_period cfg) \<le> send_gate cfg r'"
    by (auto simp: send_gate_def elim!: send_raceE dest: last_send_closure_Ok split: option.splits)
qed simp

section \<open>One run without interference\<close>

text \<open>
  A host whose \<open>mutate\<close> does what the machine does: \<open>interfere\<close> is what other runs do to the
  entry between the read and the write.
\<close>

definition cas_mutate ::
  "(u32 option \<Rightarrow> u32 option) \<Rightarrow> (unit + u32 option \<Rightarrow> (unit + u32) option)
     \<Rightarrow> (u32 option, ((u32, unit) mutate_error + u32) option) state" where
  "cas_mutate interfere f = State (\<lambda>seen.
     case f (Ok seen) of
       None \<Rightarrow> (None, interfere seen)
     | Some (Err e) \<Rightarrow> (Some (Err (ValueFunctionFailed e)), interfere seen)
     | Some (Ok v) \<Rightarrow>
         if interfere seen = seen then (Some (Ok v), Some v)
         else (Some (Err (ConcurrentModification v)), interfere seen))"

definition cas_store :: "(u32 option \<Rightarrow> u32 option) \<Rightarrow> (u32 option, u32) storage_host" where
  "cas_store interfere = \<lparr>
     local_get = (\<lambda>_. State (\<lambda>c. (Ok c, c))),
     local_set = (\<lambda>_ v. State (\<lambda>_. ((), Some v))),
     local_mutate = (\<lambda>_. cas_mutate interfere)\<rparr>"

text \<open>
  \<open>choose_transaction_type\<close> on that host is a decide step of the machine: from a state where the
  run has looked and the entry has since been changed by \<open>interfere\<close>, the machine can step to
  the state that the function computes.
\<close>

lemma closure_keeps_block_number:
  "last_send_closure chk cfg bn seen = Some (Ok v) \<Longrightarrow> v = bn"
  by (auto simp: last_send_closure_def split: sum.splits option.splits if_splits bind_splits)

lemmas choose_defs = choose_transaction_type_def cas_store_def cas_mutate_def

text \<open>
  C26. \<open>choose_transaction_type\<close> refines the machine: run on a host whose \<open>mutate\<close> is a
  compare-and-set, with any interference between its read and its write, it makes exactly one step
  that the machine allows: it decides what the machine decides, leaves the entry as the machine
  does, and sends exactly when the machine records a send.
\<close>

theorem choose_refines_race_step:
  assumes "runs r i = Looked bn seen" and "last_send r = interfere seen"
    and "run_state (choose_transaction_type chk cfg (cas_store interfere) bn) seen = (t, c')"
  shows "race_step chk cfg r (if t \<in> {None, Some NoTransaction} then None else Some bn)
    (set_run i (Decided t) (r\<lparr>last_send := c'\<rparr>))"
proof (cases "last_send_closure chk cfg bn (Ok seen)")
  case None
  with assms have "t = None" and "c' = last_send r"
    by (simp_all add: choose_defs)
  with race_step.panicked [OF assms(1) None] show ?thesis by simp
next
  case (Some res)
  show ?thesis
  proof (cases res)
    case (Inl e)
    with Some assms have "t = Some NoTransaction" and "c' = last_send r"
      by (simp_all add: choose_defs)
    with race_step.recently_sent [OF assms(1)] Some Inl show ?thesis by simp
  next
    case (Inr v)
    with Some have v: "v = bn" by (simp add: closure_keeps_block_number)
    show ?thesis
    proof (cases "interfere seen = seen")
      case True
      with Some Inr assms have "t = Some (transaction_type_of v)" and "c' = Some v"
        by (simp_all add: choose_defs)
      with race_step.written [OF assms(1)] Some Inr True assms(2) v
        transaction_type_of_not_raw [of v] show ?thesis by simp
    next
      case False
      with Some Inr assms have "t = Some NoTransaction" and "c' = last_send r"
        by (simp_all add: choose_defs)
      moreover have "race_step chk cfg r None (set_run i (Decided (Some NoTransaction)) r)"
        using Some Inr False assms(2)
        by (intro race_step.concurrent_modification [OF assms(1)]) simp_all
      ultimately show ?thesis by simp
    qed
  qed
qed

text \<open>A run that looked before another one wrote block 5 does not send.\<close>

theorem choose_refines_race_step_witness:
  "race_step False demo_config \<lparr>last_send = Some 5, runs = (\<lambda>_. Looked 4 None)\<rparr> None
     (set_run 0 (Decided (Some NoTransaction)) \<lparr>last_send = Some 5, runs = (\<lambda>_. Looked 4 None)\<rparr>)"
  using choose_refines_race_step [of "\<lparr>last_send = Some 5, runs = (\<lambda>_. Looked 4 None)\<rparr>"
      0 4 None "\<lambda>_. Some 5" False demo_config "Some NoTransaction" "Some 5"]
  by (simp add: choose_defs last_send_closure_def)

section \<open>Spacing of concurrent sends\<close>

text \<open>
  C7. However the runs interleave, the worker does not send twice within the grace period: in every
  run of the machine, from any entry left by earlier runs, the blocks that are written, one for each
  send, are increasing with at least \<open>GracePeriod\<close> blocks between any two, as long as block
  numbers plus the period fit 32 bits.
\<close>

theorem concurrent_sends_respect_grace_period:
  assumes "run_of (race_step chk cfg) (race_init c) bs r"
    and "list_all (\<lambda>b. unat b + unat (grace_period cfg) < 2 ^ 32) bs"
  shows "sorted_wrt (\<lambda>a b. unat a + unat (grace_period cfg) \<le> unat b) bs"
  using send_limiter.run_spaced [OF assms(1)] assms(2)
  by (simp add: spaced_def in_range_def [abs_def])

text \<open>Runs 0 and 1 race in block 4 and only one of them sends; run 2 sends in block 7.\<close>

lemma race_demo: "\<exists>r. run_of (race_step False demo_config) (race_init None) [4, 7] r"
proof -
  let ?run = "run_of (race_step False demo_config) (race_init None)"
  have first: "last_send_closure False demo_config 4 (Ok None) = Some (Ok 4)"
    by (simp add: last_send_closure_def)
  have later: "last_send_closure False demo_config 7 (Ok (Some 4)) = Some (Ok 7)"
    by (simp add: last_send_closure_def rust_add_def demo_config_def)
  let ?r1 = "set_run 0 (Looked 4 None) (race_init None)"
  let ?r2 = "set_run 1 (Looked 4 None) ?r1"
  let ?r3 = "set_run 0 (Decided (Some (transaction_type_of 4))) (?r2\<lparr>last_send := Some 4\<rparr>)"
  let ?r4 = "set_run 1 (Decided (Some NoTransaction)) ?r3"
  let ?r5 = "set_run 2 (Looked 7 (Some 4)) ?r4"
  let ?r6 = "set_run 2 (Decided (Some (transaction_type_of 7))) (?r5\<lparr>last_send := Some 7\<rparr>)"
  have "?run [] (race_init None)" by (rule run_start)
  then have "?run [] ?r1"
    by (rule run_quiet) (use look [of "race_init None" 0 False demo_config 4] in \<open>simp add: race_init_def\<close>)
  then have "?run [] ?r2"
    by (rule run_quiet) (use look [of ?r1 1 False demo_config 4] in \<open>simp add: race_init_def\<close>)
  then have "?run ([] @ [4]) ?r3"
    by (rule run_observed) (use written [OF _ first, of ?r2 0] in \<open>simp add: race_init_def\<close>)
  then have "?run ([] @ [4]) ?r4"
    by (rule run_quiet) (use concurrent_modification [OF _ first, of ?r3 1] in simp)
  then have "?run ([] @ [4]) ?r5"
    by (rule run_quiet) (use look [of ?r4 2 False demo_config 7] in \<open>simp add: race_init_def\<close>)
  then have "?run (([] @ [4]) @ [7]) ?r6"
    by (rule run_observed) (use written [OF _ later, of ?r5 2] in simp)
  then show ?thesis by (auto intro: exI [of _ ?r6])
qed

theorem concurrent_sends_respect_grace_period_witness:
  "\<exists>r. run_of (race_step False demo_config) (race_init None) [4, 7] r \<and>
     sorted_wrt (\<lambda>a b. unat a + 3 \<le> unat b) [4, 7 :: u32]"
proof -
  from race_demo obtain r where r: "run_of (race_step False demo_config) (race_init None) [4, 7] r"
    by blast
  from concurrent_sends_respect_grace_period [OF r] r show ?thesis
    by (auto simp: demo_config_def)
qed

end
