(* ===== verification/Price_System.thy ===== *)
theory Price_System
  imports Price_Chain Price_Race
begin

text \<open>
  The price worker and the price pallet together: what the worker hands to the transaction pool
  is what the pallet's validator accepts.
\<close>

definition acceptable ::
  "bool \<Rightarrow> oracle_config \<Rightarrow> ('pub price_payload \<Rightarrow> 'sig \<Rightarrow> bool) \<Rightarrow> u32 \<Rightarrow> 'a oracle_state
     \<Rightarrow> ('pub, 'sig) oracle_call \<Rightarrow> bool" where
  "acceptable chk cfg verify now s c \<longleftrightarrow>
     is_signed_call c \<or> (\<exists>vt. oracle_validate_unsigned chk cfg verify now c s = Some (Ok vt))"

lemma fetched_keeps: "keeps P fetch \<Longrightarrow> keeps P (fetched fetch)"
  by (simp add: fetched_def keeps_map_run)

lemma raw_sender_keeps:
  assumes "pool_keeps P good verify tx" and "keeps P fetch"
    and "\<And>p. next_unsigned_at s \<le> bn \<Longrightarrow> good (Call_submit_price_unsigned bn p)"
  shows "keeps P (fetch_price_and_send_raw_unsigned fetch tx s bn)"
  using assms
  by (auto simp: fetch_price_and_send_raw_unsigned_def pool_keeps_def
        intro!: keeps_bind_panic keeps_map_run fetched_keeps)

lemma signed_payload_sender_keeps:
  fixes tx :: "('h, 'id, 'pub, 'sig) price_tx_host"
  assumes "pool_keeps P good verify tx" and "keeps P fetch"
    and good: "\<And>p (acc :: ('id, 'pub) account) sig. next_unsigned_at s \<le> bn \<Longrightarrow>
      verify (price_payload_for p bn acc) sig \<Longrightarrow>
      good (Call_submit_price_unsigned_with_signed_payload (price_payload_for p bn acc) sig)"
  shows "keeps P (fetch_price_and_send_unsigned_for_any_account fetch tx s bn)"
    and "keeps P (fetch_price_and_send_unsigned_for_all_accounts fetch tx s bn)"
  using assms(2)
  by (auto simp: fetch_price_and_send_unsigned_for_any_account_def
        fetch_price_and_send_unsigned_for_all_accounts_def not_less
        intro!: keeps_bind_panic keeps_map_run fetched_keeps
          pool_keeps_payload [OF assms(1)] good)

lemma signed_sender_keeps:
  assumes "pool_keeps P good verify tx" and "keeps P fetch"
    and "\<And>p. good (Call_submit_price p)"
  shows "keeps P (fetch_price_and_send_signed fetch tx)"
  using assms
  by (auto simp: fetch_price_and_send_signed_def pool_keeps_def
        intro!: keeps_bind_panic keeps_bind fetched_keeps)

lemma choose_keeps:
  "(\<And>k f. keeps P (local_mutate store k f)) \<Longrightarrow> keeps P (choose_transaction_type chk cfg store bn)"
  by (auto simp: choose_transaction_type_def intro!: keeps_bind)

lemma price_worker_keeps:
  assumes inv: "oracle_inv s" and "bn \<le> now"
    and pool: "pool_keeps P (acceptable chk cfg verify now s) verify tx"
    and http: "http_keeps P http" and store: "\<And>k f. keeps P (local_mutate store k f)"
  shows "keeps P (price_offchain_worker chk cfg http parse_json store tx s bn)"
proof -
  let ?fetch = "fetch_price chk http parse_json"
  have fetch: "keeps P ?fetch"
    using http by (rule fetch_price_keeps)
  have raw: "keeps P (fetch_price_and_send_raw_unsigned ?fetch tx s bn)"
    using pool fetch
    by (rule raw_sender_keeps) (simp add: acceptable_def acceptable_parameters [OF inv _ assms(2)])
  have payload: "keeps P (fetch_price_and_send_unsigned_for_any_account ?fetch tx s bn)"
    "keeps P (fetch_price_and_send_unsigned_for_all_accounts ?fetch tx s bn)"
    using pool fetch
    by (rule signed_payload_sender_keeps;
        simp add: acceptable_def price_payload_for_def acceptable_parameters [OF inv _ assms(2)])+
  have signed: "keeps P (fetch_price_and_send_signed ?fetch tx)"
    using pool fetch by (rule signed_sender_keeps) (simp add: acceptable_def)
  show ?thesis
    using raw payload signed choose_keeps [OF store]
    by (auto simp: price_offchain_worker_def Let_def intro!: keeps_bind
          split: option.splits transaction_type.splits)
qed

section \<open>The worker on the test host\<close>

definition chosen_calls ::
  "('id, 'pub) account list \<Rightarrow> ('pub price_payload \<Rightarrow> 'sig) \<Rightarrow> u32 \<Rightarrow> u32 \<Rightarrow> ('pub, 'sig) oracle_call list" where
  "chosen_calls accs sign b p =
     (let signed_payload = (\<lambda>acc. Call_submit_price_unsigned_with_signed_payload
            (price_payload_for p b acc) (sign (price_payload_for p b acc)))
      in if b mod 3 = 0 then map (\<lambda>_. Call_submit_price p) accs
         else if b mod 3 = 1 then [signed_payload (hd accs)]
         else map signed_payload accs)"

lemma check_results_ok: "check_results (map (\<lambda>a. (a, Ok ())) accs) = Ok ()"
  by (induction accs) simp_all

definition grace_over :: "bool \<Rightarrow> oracle_config \<Rightarrow> u32 \<Rightarrow> u32 option \<Rightarrow> bool" where
  "grace_over chk cfg b prev \<longleftrightarrow> last_send_closure chk cfg b (Ok prev) = Some (Ok b)"

lemma mock_choose:
  assumes "grace_over chk cfg b (entry h)"
  shows "run_state (choose_transaction_type chk cfg mock_store b) h =
    (Some (transaction_type_of b), h\<lparr>entry := Some b\<rparr>)"
  using assms by (simp add: choose_transaction_type_def mock_store_def grace_over_def)

lemma mock_fetch:
  assumes "answers h = [(200, body)]" and "valid_utf8 body"
    and "parse_price chk parse_json body = Some (Some p)"
  shows "run_state (fetch_price chk mock_http parse_json) h = (Some (Ok p), h\<lparr>answers := []\<rparr>)"
  using assms by (simp add: fetch_price_def mock_http_def run_simps from_utf8_def ok_or_def)

text \<open>
  The worker end to end, on the host of the unit tests: with an account, an answer that
  parses to a price, the acceptance window open and the grace period over, it succeeds, records
  the block as the last send, and puts into the pool exactly the calls of its kind: in blocks
  divisible by three a signed \<open>submit_price\<close> for every account, with remainder one a signed
  payload of the first account, with remainder two a signed payload of every account.
\<close>

lemma price_worker_run:
  assumes "accs \<noteq> []" and "answers h = [(200, body)]" and "valid_utf8 body"
    and "parse_price chk parse_json body = Some (Some p)"
    and "oracle_inv s" and "next_unsigned_at s \<le> b" and "1 \<le> b"
    and "grace_over chk cfg b (entry h)"
  shows "run_state (price_offchain_worker chk cfg mock_http parse_json mock_store
      (mock_tx accs sign) s b) h =
    (Some (Ok ()), h\<lparr>answers := [], entry := Some b, pool := pool h @ chosen_calls accs sign b p\<rparr>)"
proof -
  obtain a where avg: "average_price s = Some a"
    using average_price_total [OF oracle_inv_small [OF assms(5)]] by blast
  have parent: "rust_sub chk b 1 = Some (b - 1)"
    using assms(7) by (simp add: rust_sub_def)
  have "run_state (fetch_price chk mock_http parse_json) (h\<lparr>entry := Some b\<rparr>) =
      (Some (Ok p), h\<lparr>entry := Some b, answers := []\<rparr>)"
    using assms(2-4) by (subst mock_fetch) simp_all
  moreover have "\<not> b < next_unsigned_at s" using assms(6) by (simp add: not_less)
  moreover obtain a1 rest where "accs = a1 # rest" using assms(1) by (cases accs) simp_all
  ultimately show ?thesis
    using mod_3_cases [of b] mock_choose [OF assms(8)]
    by (auto simp: price_offchain_worker_def avg parent Let_def transaction_type_of_def
          fetch_price_and_send_signed_def fetch_price_and_send_unsigned_for_any_account_def
          fetch_price_and_send_unsigned_for_all_accounts_def fetched_def run_simps mock_tx_def
          mock_submit_def chosen_calls_def ok_or_def check_results_ok)
qed

lemma price_worker_run_example:
  "run_state (price_offchain_worker False demo_config mock_http (\<lambda>_. usd_json 6536 92 2) mock_store
       demo_tx \<lparr>prices = [], next_unsigned_at = 0, oracle_events = ([] :: nat oracle_event list)\<rparr> 3)
     (mock_init [(200, [])]) =
   (Some (Ok ()), \<lparr>answers = [], pool = [Call_submit_price 653692], entry = Some 3, held = False\<rparr>)"
proof -
  have "parse_price False (\<lambda>_. usd_json 6536 92 2) [] = Some (Some 653692)"
    by (simp add: parse_price_def usd_json_def usd_number_def number_price_def checked_sub_def rust_mul_def
          rust_pow_def rust_add_def rust_div_def)
  moreover have "grace_over False demo_config 3 None"
    by (simp add: grace_over_def last_send_closure_def)
  ultimately show ?thesis
    using price_worker_run [of "[\<lparr>acc_id = 0, acc_public = 0\<rparr>]" "mock_init [(200, [])]" "[]"
        False "\<lambda>_. usd_json 6536 92 2" 653692
        "\<lparr>prices = [], next_unsigned_at = 0, oracle_events = ([] :: nat oracle_event list)\<rparr>" 3
        demo_config "\<lambda>_. ()"]
    by (simp add: oracle_inv_def MAX_LEN_def demo_tx_def mock_init_def chosen_calls_def
          word_le_nat_alt)
qed

text \<open>
  Within the grace period the worker does nothing: if a send was recorded less than
  \<open>GracePeriod\<close> blocks ago, the run succeeds, and no request is made, nothing is submitted and the
  recorded block stays.
\<close>

lemma price_worker_waits:
  assumes "oracle_inv s" and "1 \<le> b" and "entry h = Some e"
    and "unat e + unat (grace_period cfg) < 2 ^ 32" and "unat b < unat e + unat (grace_period cfg)"
  shows "run_state (price_offchain_worker chk cfg mock_http parse_json mock_store
      (mock_tx accs sign) s b) h = (Some (Ok ()), h)"
proof -
  obtain a where avg: "average_price s = Some a"
    using average_price_total [OF oracle_inv_small [OF assms(1)]] by blast
  have parent: "rust_sub chk b 1 = Some (b - 1)"
    using assms(2) by (simp add: rust_sub_def)
  have "last_send_closure chk cfg b (Ok (entry h)) = Some (Err ())"
    using rust_add_fits [of e "grace_period cfg" chk] assms(3-5)
    by (simp add: last_send_closure_def word_less_nat_alt)
  then have "run_state (choose_transaction_type chk cfg mock_store b) h = (Some NoTransaction, h)"
    by (simp add: choose_transaction_type_def mock_store_def)
  then show ?thesis
    by (simp add: price_offchain_worker_def avg parent Let_def)
qed

lemma price_worker_waits_example:
  "run_state (price_offchain_worker True demo_config mock_http (\<lambda>_. usd_json 6536 92 2) mock_store
       demo_tx \<lparr>prices = [], next_unsigned_at = 0, oracle_events = ([] :: nat oracle_event list)\<rparr> 5)
     \<lparr>answers = [(200, [])], pool = [], entry = Some 3, held = False\<rparr> =
   (Some (Ok ()), \<lparr>answers = [(200, [])], pool = [], entry = Some 3, held = False\<rparr>)"
  unfolding demo_tx_def
  by (rule price_worker_waits [of _ _ _ 3])
    (simp_all add: oracle_inv_def demo_config_def word_le_nat_alt)

end
