(* ===== verification/Runtime_Worker.thy ===== *)
theory Runtime_Worker
  imports Runtime Price_System Ocw_Worker
begin

text \<open>
  The off-chain workers of the runtime. Both worker pallets submit calls of the runtime: their
  \<open>Call\<close> is converted into the runtime's (\<open>SendTransactionTypes\<close> with \<open>OverarchingCall = Call\<close>), so
  a pallet's view of the transaction pool is the pool of the runtime's calls behind that
  conversion. FRAME's \<open>Executive\<close> runs the hooks for a block one after the other; which of them, in
  which order and how often is left open, since blocks can be skipped or seen again.
\<close>

section \<open>A pallet's view of the pool\<close>

definition embed_tx ::
  "('c \<Rightarrow> 'call) \<Rightarrow> ('h, 'acc, 'payload, 'sig, 'call) tx_host \<Rightarrow> ('h, 'acc, 'payload, 'sig, 'c) tx_host" where
  "embed_tx into tx = \<lparr>
     can_sign = can_sign tx,
     all_send_signed = (\<lambda>f. all_send_signed tx (\<lambda>acc. into (f acc))),
     any_send_signed = (\<lambda>f. any_send_signed tx (\<lambda>acc. into (f acc))),
     all_send_unsigned = (\<lambda>f g. all_send_unsigned tx f (\<lambda>payload sig. into (g payload sig))),
     any_send_unsigned = (\<lambda>f g. any_send_unsigned tx f (\<lambda>payload sig. into (g payload sig))),
     submit_unsigned_transaction = (\<lambda>c. submit_unsigned_transaction tx (into c))\<rparr>"

lemma embed_tx_pool_keeps:
  "pool_keeps P good verify tx \<Longrightarrow> pool_keeps P (\<lambda>c. good (into c)) verify (embed_tx into tx)"
  by (simp add: pool_keeps_def embed_tx_def)

section \<open>The hooks of a block\<close>

text \<open>The host of the runtime: the two pallets sign with keys of their own types and keep their own entries.\<close>

record ('h, 't, 'pending, 'response, 'guard, 'id, 'pub, 'sig) runtime_host =
  rh_http :: "('h, 't, 'pending, 'response) http_host"
  rh_info_store :: "('h, hacker_news_info) storage_host"
  rh_send_store :: "('h, u32) storage_host"
  rh_lock :: "('h, 'guard) lock_host"
  rh_number_tx :: "('h, ('id, 'pub) account, 'pub payload, 'sig, ('pub, 'sig) runtime_call) tx_host"
  rh_price_tx :: "('h, ('id, 'pub) account, 'pub price_payload, 'sig, ('pub, 'sig) runtime_call) tx_host"

datatype worker_hook = OcwHook | PriceHook

text \<open>A hook returns nothing to its caller; what it logs is dropped and \<open>None\<close> is a panic.\<close>

fun run_hook ::
  "nat \<Rightarrow> (str \<Rightarrow> 'perr + hacker_news_info) \<Rightarrow> (str \<Rightarrow> 'jerr + 'x json_value)
     \<Rightarrow> ('h, 't, 'pending, 'response, 'guard, 'id, 'pub, 'sig) runtime_host \<Rightarrow> 'a runtime_state
     \<Rightarrow> u32 \<Rightarrow> worker_hook \<Rightarrow> ('h, unit option) state" where
  "run_hook usize_bits from_str parse_json host s b OcwHook =
     map_run (\<lambda>_. Some ())
       (ocw_offchain_worker usize_bits (rh_http host) from_str (rh_info_store host) (rh_lock host)
          (embed_tx OcwDemo (rh_number_tx host)) b)"
| "run_hook usize_bits from_str parse_json host s b PriceHook =
     map_run (map_option (\<lambda>_. ()))
       (price_offchain_worker False runtime_oracle_config (rh_http host) parse_json
          (rh_send_store host) (embed_tx OcwExample (rh_price_tx host)) (example_store s) b)"

fun run_hooks ::
  "nat \<Rightarrow> (str \<Rightarrow> 'perr + hacker_news_info) \<Rightarrow> (str \<Rightarrow> 'jerr + 'x json_value)
     \<Rightarrow> ('h, 't, 'pending, 'response, 'guard, 'id, 'pub, 'sig) runtime_host \<Rightarrow> 'a runtime_state
     \<Rightarrow> u32 \<Rightarrow> worker_hook list \<Rightarrow> ('h, unit option) state" where
  "run_hooks usize_bits from_str parse_json host s b [] = State_Monad.return (Some ())"
| "run_hooks usize_bits from_str parse_json host s b (w # ws) = do {
     r \<leftarrow> run_hook usize_bits from_str parse_json host s b w;
     (case r of
        None \<Rightarrow> State_Monad.return None
      | Some _ \<Rightarrow> run_hooks usize_bits from_str parse_json host s b ws)
   }"

section \<open>What the hooks submit\<close>

fun is_signed_runtime_call :: "('pub, 'sig) runtime_call \<Rightarrow> bool" where
  "is_signed_runtime_call (OcwDemo (Call_submit_number_signed _)) = True"
| "is_signed_runtime_call (OcwExample (Call_submit_price _)) = True"
| "is_signed_runtime_call _ = False"

definition runtime_acceptable ::
  "('pub payload \<Rightarrow> 'sig \<Rightarrow> bool) \<Rightarrow> ('pub price_payload \<Rightarrow> 'sig \<Rightarrow> bool) \<Rightarrow> 'a runtime_state
     \<Rightarrow> ('pub, 'sig) runtime_call \<Rightarrow> bool" where
  "runtime_acceptable verify_ocw verify_price s c \<longleftrightarrow>
     is_signed_runtime_call c \<or>
     (\<exists>vt. runtime_validate_unsigned verify_ocw verify_price c s = Some (Ok vt))"

lemma price_acceptable:
  "runtime_acceptable vo vp s (OcwExample c) =
     acceptable False runtime_oracle_config vp (block_number s) (example_store s) c"
  by (cases c) (auto simp: runtime_acceptable_def acceptable_def split: if_splits sum.splits)

lemma number_acceptable:
  "runtime_acceptable vo vp s (OcwDemo (Call_submit_number_signed n))"
  "runtime_acceptable vo vp s (OcwDemo (Call_submit_number_unsigned n))"
  "vo p sig \<Longrightarrow> runtime_acceptable vo vp s (OcwDemo (Call_submit_number_unsigned_with_signed_payload p sig))"
  by (simp_all add: runtime_acceptable_def ocw_valid_tx_def)

text \<open>A sender of \<open>pallets/ocw\<close> submits one of the three kinds of number.\<close>

lemma number_senders_keep:
  assumes "pool_keeps P good verify tx"
    and "\<And>n. good (Call_submit_number_signed n)" and "\<And>n. good (Call_submit_number_unsigned n)"
    and "\<And>p sig. verify p sig \<Longrightarrow> good (Call_submit_number_unsigned_with_signed_payload p sig)"
  shows "keeps P (offchain_signed_tx tx b)" and "keeps P (offchain_unsigned_tx tx b)"
    and "keeps P (offchain_unsigned_tx_signed_payload tx b)"
  using assms
  by (auto simp: offchain_signed_tx_def offchain_unsigned_tx_def Let_def
        offchain_unsigned_tx_signed_payload_def pool_keeps_def intro!: keeps_intros)

lemma ocw_worker_keeps:
  assumes "pool_keeps P good verify tx"
    and "\<And>n. good (Call_submit_number_signed n)" and "\<And>n. good (Call_submit_number_unsigned n)"
    and "\<And>p sig. verify p sig \<Longrightarrow> good (Call_submit_number_unsigned_with_signed_payload p sig)"
    and "keeps P (fetch_remote_info http from_str store lock)"
  shows "keeps P (ocw_offchain_worker usize_bits http from_str store lock tx b)"
  using number_senders_keep [OF assms(1-4)] assms(5)
  by (simp add: ocw_offchain_worker_def Let_def)

text \<open>A host on which only the pool can take the property away.\<close>

definition host_keeps ::
  "('h \<Rightarrow> bool) \<Rightarrow> ('pub payload \<Rightarrow> 'sig \<Rightarrow> bool) \<Rightarrow> ('pub price_payload \<Rightarrow> 'sig \<Rightarrow> bool)
     \<Rightarrow> (('pub, 'sig) runtime_call \<Rightarrow> bool)
     \<Rightarrow> ('h, 't, 'pending, 'response, 'guard, 'id, 'pub, 'sig) runtime_host \<Rightarrow> bool" where
  "host_keeps P verify_ocw verify_price good host \<longleftrightarrow>
     http_keeps P (rh_http host) \<and> lock_keeps P (rh_lock host) \<and>
     (\<forall>key. keeps P (local_get (rh_info_store host) key)) \<and>
     (\<forall>key v. keeps P (local_set (rh_info_store host) key v)) \<and>
     (\<forall>key f. keeps P (local_mutate (rh_send_store host) key f)) \<and>
     pool_keeps P good verify_ocw (rh_number_tx host) \<and>
     pool_keeps P good verify_price (rh_price_tx host)"

lemma run_hook_keeps:
  assumes "runtime_inv s" and "b \<le> block_number s"
    and "host_keeps P vo vp (runtime_acceptable vo vp s) host"
  shows "keeps P (run_hook usize_bits from_str parse_json host s b w)"
proof (cases w)
  case OcwHook
  have "pool_keeps P (\<lambda>c. runtime_acceptable vo vp s (OcwDemo c)) vo (embed_tx OcwDemo (rh_number_tx host))"
    using assms(3) by (auto simp: host_keeps_def intro: embed_tx_pool_keeps)
  then have "keeps P (ocw_offchain_worker usize_bits (rh_http host) from_str (rh_info_store host)
      (rh_lock host) (embed_tx OcwDemo (rh_number_tx host)) b)"
    by (rule ocw_worker_keeps)
      (use assms(3) in \<open>auto simp: host_keeps_def number_acceptable intro!: fetch_remote_info_keeps\<close>)
  then show ?thesis using OcwHook by (simp add: keeps_map_run)
next
  case PriceHook
  have "pool_keeps P (\<lambda>c. runtime_acceptable vo vp s (OcwExample c)) vp
      (embed_tx OcwExample (rh_price_tx host))"
    using assms(3) by (auto simp: host_keeps_def intro: embed_tx_pool_keeps)
  then have "keeps P (price_offchain_worker False runtime_oracle_config (rh_http host) parse_json
      (rh_send_store host) (embed_tx OcwExample (rh_price_tx host)) (example_store s) b)"
    using assms by (intro price_worker_keeps) (auto simp: price_acceptable runtime_inv_def host_keeps_def)
  then show ?thesis using PriceHook by (simp add: keeps_map_run)
qed

lemma run_hooks_keeps:
  assumes "runtime_inv s" and "b \<le> block_number s"
    and "host_keeps P vo vp (runtime_acceptable vo vp s) host"
  shows "keeps P (run_hooks usize_bits from_str parse_json host s b ws)"
  by (induction ws) (auto intro!: keeps_bind run_hook_keeps [OF assms] split: option.splits)

section \<open>Properties\<close>

text \<open>
  C5. The workers submit only what the runtime accepts. Take any host on which a property survives the
  network, the local storage and the lock, and survives the submission of a call that is signed or that the
  runtime's validator accepts in the state the workers read; payloads carry signatures that verify. Then the
  property survives the hooks of both pallets, run in any order, any number of times and for any
  block up to the current one, whatever the servers answer.
\<close>

theorem workers_submit_only_acceptable:
  assumes "runtime_inv s" and "b \<le> block_number s"
    and "host_keeps P verify_ocw verify_price (runtime_acceptable verify_ocw verify_price s) host"
    and "P h"
  shows "P (snd (run_state (run_hooks usize_bits from_str parse_json host s b ws) h))"
  using run_hooks_keeps [OF assms(1-3)] assms(4) unfolding keeps_def by blast

section \<open>The hooks on the test host\<close>

type_synonym runtime_mock = "((nat, nat) runtime_call, u32) mock"

text \<open>One account, whose signature is its key; the document is never found in the cache.\<close>

definition mock_runtime_host ::
  "(runtime_mock, u64, unit, u16 \<times> u8 list, unit, nat, nat, nat) runtime_host" where
  "mock_runtime_host = \<lparr>
     rh_http = mock_http,
     rh_info_store = \<lparr>local_get = (\<lambda>_. State_Monad.return (Ok None)),
        local_set = (\<lambda>_ _. State_Monad.return ()), local_mutate = (\<lambda>_ _. State_Monad.return None)\<rparr>,
     rh_send_store = mock_store,
     rh_lock = mock_lock,
     rh_number_tx = mock_tx [\<lparr>acc_id = 0, acc_public = 5\<rparr>] pl_public,
     rh_price_tx = mock_tx [\<lparr>acc_id = 0, acc_public = 5\<rparr>] pp_public\<rparr>"

abbreviation key_is_signature :: "('p \<Rightarrow> nat) \<Rightarrow> 'p \<Rightarrow> nat \<Rightarrow> bool" where
  "key_is_signature public \<equiv> \<lambda>p sig. sig = public p"

lemma mock_runtime_host_keeps:
  "host_keeps (\<lambda>h. list_all good (pool h)) (key_is_signature pl_public) (key_is_signature pp_public)
     good mock_runtime_host"
  by (auto simp: host_keeps_def mock_runtime_host_def mock_http_keeps [where Q = "list_all good"]
        lock_keeps_def mock_lock_def mock_store_def keeps_def split: option.split sum.split
        intro!: mock_pool_keeps)

theorem workers_submit_only_acceptable_witness:
  "list_all (runtime_acceptable (key_is_signature pl_public) (key_is_signature pp_public) demo_runtime)
     (pool (snd (run_state (run_hooks 64 demo_from_str (\<lambda>_. usd_json 6536 92 2) mock_runtime_host
       demo_runtime 7 [PriceHook, OcwHook, PriceHook]) (mock_init [(200, []), (200, [98])]))))"
  by (rule workers_submit_only_acceptable [OF demo_runtime_inv _ mock_runtime_host_keeps])
    (simp_all add: demo_runtime_def mock_init_def word_le_nat_alt)

end
