(* ===== verification/Node_System.thy ===== *)
theory Node_System
  imports Runtime_Worker
begin

text \<open>
  The node as a whole: the chain with the composed runtime, and the off-chain workers with their host.
  A step is the start of a block, one extrinsic of any pallet, or a run of the workers' hooks.
  An unsigned extrinsic runs only after the runtime's validator accepted it in the current state; one
  with any other origin runs as it is. Which extrinsics are tried, in which order, and what the host
  does is left open, so the transaction pool, the network and other nodes are covered: whatever they
  hand to the chain is an extrinsic step.

  The price chain of \<open>Price_Chain\<close> abstracts this machine, so what is proved there holds for the node.
\<close>

section \<open>The machine\<close>

record ('a, 'h) node =
  node_chain :: "'a runtime_state"
  node_host :: 'h

text \<open>An accepted unsigned price is observed with its block.\<close>

fun observation :: "('pub, 'sig) runtime_call \<Rightarrow> u32 \<Rightarrow> u32 option" where
  "observation (OcwExample _) b = Some b"
| "observation _ b = None"

inductive node_step ::
  "('o, 'a) frame_api \<Rightarrow> ('pub payload \<Rightarrow> 'sig \<Rightarrow> bool) \<Rightarrow> ('pub price_payload \<Rightarrow> 'sig \<Rightarrow> bool)
     \<Rightarrow> nat \<Rightarrow> (str \<Rightarrow> 'perr + hacker_news_info) \<Rightarrow> (str \<Rightarrow> 'jerr + 'x json_value)
     \<Rightarrow> ('h, 't, 'pending, 'response, 'guard, 'id, 'pub, 'sig) runtime_host
     \<Rightarrow> ('a, 'h) node \<Rightarrow> u32 option \<Rightarrow> ('a, 'h) node \<Rightarrow> bool"
  for api verify_ocw verify_price usize_bits from_str parse_json host where
  next_block: "unat (block_number (node_chain n)) + 1 < 2 ^ 32 \<Longrightarrow>
     node_step api verify_ocw verify_price usize_bits from_str parse_json host n None
       (n\<lparr>node_chain := (node_chain n)\<lparr>block_number := block_number (node_chain n) + 1\<rparr>\<rparr>)"
| unsigned_call: "ensure_none api org = Ok () \<Longrightarrow>
     runtime_validate_unsigned verify_ocw verify_price c (node_chain n) = Some (Ok vt) \<Longrightarrow>
     runtime_dispatch api c org (node_chain n) = Some (r, s') \<Longrightarrow>
     node_step api verify_ocw verify_price usize_bits from_str parse_json host n
       (observation c (block_number (node_chain n))) (n\<lparr>node_chain := s'\<rparr>)"
| other_call: "ensure_none api org = Err e \<Longrightarrow>
     runtime_dispatch api (c :: ('pub, 'sig) runtime_call) org (node_chain n) = Some (r, s') \<Longrightarrow>
     node_step api verify_ocw verify_price usize_bits from_str parse_json host n None (n\<lparr>node_chain := s'\<rparr>)"
| workers: "b \<le> block_number (node_chain n) \<Longrightarrow>
     run_state (run_hooks usize_bits from_str parse_json host (node_chain n) b ws) (node_host n) = (out, h') \<Longrightarrow>
     node_step api verify_ocw verify_price usize_bits from_str parse_json host n None (n\<lparr>node_host := h'\<rparr>)"

definition genesis_runtime :: "'a runtime_state" where
  "genesis_runtime = \<lparr>
     block_number = 0,
     template_store = \<lparr>something = None, template_events = []\<rparr>,
     ocw_store = \<lparr>numbers = [], ocw_events = []\<rparr>,
     example_store = \<lparr>prices = [], next_unsigned_at = 0, oracle_events = []\<rparr>\<rparr>"

definition genesis_node :: "'h \<Rightarrow> ('a, 'h) node" where
  "genesis_node h = \<lparr>node_chain = genesis_runtime, node_host = h\<rparr>"

section \<open>The price chain abstracts the node\<close>

definition price_view :: "('a, 'h) node \<Rightarrow> 'a chain" where
  "price_view n = \<lparr>current_block = block_number (node_chain n), oracle_store = example_store (node_chain n)\<rparr>"

lemma price_view_simps [simp]:
  "current_block (price_view n) = block_number (node_chain n)"
  "oracle_store (price_view n) = example_store (node_chain n)"
  "price_view (n\<lparr>node_host := h\<rparr>) = price_view n"
  "price_view (genesis_node h) = genesis_chain"
  by (simp_all add: price_view_def genesis_node_def genesis_runtime_def genesis_chain_def)

text \<open>A call of another pallet leaves the price pallet and the block number alone.\<close>

lemma other_pallets_not_seen:
  assumes "runtime_dispatch api c org s = Some (r, s')" and "observation c b = None"
  shows "block_number s' = block_number s" and "example_store s' = example_store s"
  using assms by (cases c; auto)+

lemma price_call_seen:
  assumes "runtime_dispatch api (OcwExample c) org s = Some (r, s')"
  shows "\<exists>r'. oracle_dispatch False runtime_oracle_config api (block_number s) c org (example_store s) =
      Some (r', example_store s')" and "block_number s' = block_number s"
  using assms by auto

lemma price_view_eqI:
  "block_number s' = block_number (node_chain n) \<Longrightarrow> example_store s' = t \<Longrightarrow>
   price_view (n\<lparr>node_chain := s'\<rparr>) = (price_view n)\<lparr>oracle_store := t\<rparr>"
  by (simp add: price_view_def)

lemma node_step_abstracted:
  assumes "node_step api vo vp u fs pj host n obs n'"
  shows "price_view n' = price_view n \<and> obs = None \<or>
    chain_step False runtime_oracle_config api vp (price_view n) obs (price_view n')"
  using assms
proof cases
  case next_block
  then show ?thesis
    using chain_step.new_block [of "price_view n" False runtime_oracle_config api vp]
    by (simp add: price_view_def)
next
  case (unsigned_call org c vt r s')
  show ?thesis
  proof (cases "observation c (block_number (node_chain n))")
    case None
    with unsigned_call other_pallets_not_seen [OF unsigned_call(5) None] show ?thesis
      by (simp add: price_view_def)
  next
    case (Some b)
    then obtain d where c: "c = OcwExample d" by (cases c) auto
    from price_call_seen [of api d org "node_chain n" r s'] unsigned_call(5) c obtain r' where d:
      "oracle_dispatch False runtime_oracle_config api (block_number (node_chain n)) d org
         (example_store (node_chain n)) = Some (r', example_store s')"
      "block_number s' = block_number (node_chain n)" by blast
    obtain vt' where "oracle_validate_unsigned False runtime_oracle_config vp (block_number (node_chain n)) d
        (example_store (node_chain n)) = Some (Ok vt')"
      using unsigned_call(4) c by auto
    with d unsigned_call c show ?thesis
      using chain_step.unsigned_extrinsic [of api org False runtime_oracle_config vp "price_view n" d vt' r'
          "example_store s'"]
      by (simp add: price_view_eqI)
  qed
next
  case (other_call org e c r s')
  show ?thesis
  proof (cases "observation c (block_number (node_chain n))")
    case None
    with other_call other_pallets_not_seen [OF other_call(4) None] show ?thesis
      by (simp add: price_view_def)
  next
    case (Some b)
    then obtain d where c: "c = OcwExample d" by (cases c) auto
    from price_call_seen [of api d org "node_chain n" r s'] other_call(4) c obtain r' where
      "oracle_dispatch False runtime_oracle_config api (block_number (node_chain n)) d org
         (example_store (node_chain n)) = Some (r', example_store s')"
      "block_number s' = block_number (node_chain n)" by blast
    with other_call show ?thesis
      using chain_step.other_extrinsic [of api org e False runtime_oracle_config "price_view n" d r'
          "example_store s'" vp]
      by (simp add: price_view_eqI)
  qed
next
  case (workers b ws out h')
  then show ?thesis by simp
qed

interpretation node_prices: limited_abstraction "node_step api vo vp u fs pj host"
    "chain_step False runtime_oracle_config api vp" price_view
    "\<lambda>c. oracle_inv (oracle_store c)" "\<lambda>c. unat (next_unsigned_at (oracle_store c))"
    "unat (unsigned_interval runtime_oracle_config)"
  for api vo vp u fs pj host
  by unfold_locales (auto dest: node_step_abstracted)

section \<open>The storage of the pallets follows the events\<close>

definition follows_events :: "'a runtime_state \<Rightarrow> bool" where
  "follows_events s \<longleftrightarrow> replayed (example_store s) \<and>
     numbers (ocw_store s) = last_n NUM_VEC_LEN (map event_number (ocw_events (ocw_store s)))"

lemma ocw_dispatch_window:
  assumes "ocw_dispatch api c org s = Some (r, s')"
    and "numbers s = last_n NUM_VEC_LEN (map event_number (ocw_events s))"
  shows "numbers s' = last_n NUM_VEC_LEN (map event_number (ocw_events s'))"
  using ocw_run [OF assms(2), of api "[(c, org)]"] assms(1) by auto

lemma dispatch_follows_events:
  assumes "runtime_dispatch api c org s = Some (r, s')" and "follows_events s"
  shows "follows_events s'"
  using assms
  by (cases c) (auto simp: follows_events_def intro: ocw_dispatch_window oracle_dispatch_replayed)

lemma follows_events_block [simp]: "follows_events (s\<lparr>block_number := b\<rparr>) = follows_events s"
  by (simp add: follows_events_def)

lemma node_step_follows_events:
  "node_step api vo vp u fs pj host n obs n' \<Longrightarrow> follows_events (node_chain n) \<Longrightarrow> follows_events (node_chain n')"
  by (induction rule: node_step.induct) (auto intro: dispatch_follows_events)

lemma follows_events_inv: "follows_events s \<Longrightarrow> runtime_inv s"
  by (simp add: follows_events_def runtime_inv_def replayed_inv ocw_inv_def)

lemma genesis_follows_events [simp]: "follows_events (node_chain (genesis_node h))"
  by (simp add: follows_events_def genesis_node_def genesis_runtime_def replayed_def replay_def last_n_def)

abbreviation node_run ::
  "('o, 'a) frame_api \<Rightarrow> ('pub payload \<Rightarrow> 'sig \<Rightarrow> bool) \<Rightarrow> ('pub price_payload \<Rightarrow> 'sig \<Rightarrow> bool)
     \<Rightarrow> nat \<Rightarrow> (str \<Rightarrow> 'perr + hacker_news_info) \<Rightarrow> (str \<Rightarrow> 'jerr + 'x json_value)
     \<Rightarrow> ('h, 't, 'pending, 'response, 'guard, 'id, 'pub, 'sig) runtime_host
     \<Rightarrow> ('a, 'h) node \<Rightarrow> u32 list \<Rightarrow> ('a, 'h) node \<Rightarrow> bool" where
  "node_run api vo vp u fs pj host \<equiv> run_of (node_step api vo vp u fs pj host)"

lemma node_run_follows_events:
  "node_run api vo vp u fs pj host (genesis_node h) bs n \<Longrightarrow> follows_events (node_chain n)"
  by (erule run_of_invariant [where I = "\<lambda>n. follows_events (node_chain n)"])
    (auto intro: node_step_follows_events)

section \<open>What the workers put into the pool\<close>

text \<open>A call that is signed as a transaction, or carries no payload, or carries one with a good signature.\<close>

fun authentic ::
  "('pub payload \<Rightarrow> 'sig \<Rightarrow> bool) \<Rightarrow> ('pub price_payload \<Rightarrow> 'sig \<Rightarrow> bool) \<Rightarrow> ('pub, 'sig) runtime_call \<Rightarrow> bool" where
  "authentic vo vp (TemplateModule _) = False"
| "authentic vo vp (OcwDemo (Call_submit_number_unsigned_with_signed_payload p sig)) = vo p sig"
| "authentic vo vp (OcwExample (Call_submit_price_unsigned_with_signed_payload p sig)) = vp p sig"
| "authentic vo vp _ = True"

lemma acceptable_authentic: "runtime_acceptable vo vp s c \<Longrightarrow> authentic vo vp c"
  by (cases "(vo, vp, c)" rule: authentic.cases)
    (auto simp: runtime_acceptable_def split: if_splits sum.splits)

lemma pool_keeps_mono:
  assumes "pool_keeps P good verify tx" and "\<And>c. good' c \<Longrightarrow> good c"
  shows "pool_keeps P good' verify tx"
  using assms unfolding pool_keeps_def by (meson assms(2))

lemma host_keeps_mono:
  "host_keeps P vo vp good host \<Longrightarrow> (\<And>c. good' c \<Longrightarrow> good c) \<Longrightarrow> host_keeps P vo vp good' host"
  by (auto simp: host_keeps_def intro: pool_keeps_mono)

lemma node_step_host:
  assumes "node_step api vo vp u fs pj host n obs n'" and "follows_events (node_chain n)"
    and "host_keeps P vo vp (authentic vo vp) host" and "P (node_host n)"
  shows "P (node_host n')"
  using assms(1)
proof cases
  case (workers b ws out h')
  have "host_keeps P vo vp (runtime_acceptable vo vp (node_chain n)) host"
    using assms(3) acceptable_authentic by (rule host_keeps_mono)
  from run_hooks_keeps [OF follows_events_inv [OF assms(2)] workers(3) this, of u fs pj ws] assms(4) workers
  show ?thesis by (auto simp: keeps_def)
qed (use assms(4) in simp_all)

section \<open>A worker's price in a block\<close>

lemma node_empty_blocks:
  assumes "unat (block_number (node_chain n)) + k < 2 ^ 32"
  shows "node_run api vo vp u fs pj host n []
    (n\<lparr>node_chain := (node_chain n)\<lparr>block_number := block_number (node_chain n) + of_nat k\<rparr>\<rparr>)"
  using assms
proof (induction k)
  case 0
  then show ?case by (simp add: run_of.run_start)
next
  case (Suc k)
  let ?b = "block_number (node_chain n) + of_nat k"
  let ?n = "n\<lparr>node_chain := (node_chain n)\<lparr>block_number := ?b\<rparr>\<rparr>"
  have "unat ?b = unat (block_number (node_chain n)) + k"
    using Suc.prems by (simp add: unat_word_ariths unat_of_nat)
  then have "node_step api vo vp u fs pj host ?n None
      (n\<lparr>node_chain := (node_chain n)\<lparr>block_number := ?b + 1\<rparr>\<rparr>)"
    using node_step.next_block [of ?n] Suc.prems by simp
  moreover have "?b + 1 = block_number (node_chain n) + of_nat (Suc k)" by simp
  ultimately show ?case
    using run_of.run_quiet [of "node_step api vo vp u fs pj host" n "[]" ?n] Suc
    by (metis Suc_lessD add_Suc_right)
qed

text \<open>The storage of the price pallet after an accepted unsigned call of the runtime.\<close>

lemma runtime_price_accepted:
  assumes inv: "oracle_inv (example_store s)" and none: "ensure_none api org = Ok ()"
    and "\<not> is_signed_call c"
  shows "runtime_dispatch api (OcwExample c) org s = Some (Ok (), s\<lparr>example_store :=
    (price_recorded (default_account api) (call_price c) (example_store s))
      \<lparr>next_unsigned_at := block_number s + 3\<rparr>\<rparr>)"
  using none assms(3) unfolding runtime_dispatch.simps oracle_dispatch_eq [OF inv]
  by (simp add: price_sender_def rust_add_def runtime_oracle_config_def UnsignedInterval_def
        lift_error_def)

lemma payload_accepted:
  assumes "oracle_inv (example_store s)" and "verify_price pl sig"
    and "next_unsigned_at (example_store s) \<le> pp_block_number pl" and "pp_block_number pl \<le> block_number s"
  shows "\<exists>vt. runtime_validate_unsigned verify_ocw verify_price
    (OcwExample (Call_submit_price_unsigned_with_signed_payload pl sig)) s = Some (Ok vt)"
  using acceptable_parameters [OF assms(1,3,4), of False runtime_oracle_config "pp_price pl"] assms(2)
  by auto

text \<open>The price hook on the test host, in a block in which it sends a signed payload for any account.\<close>

definition demo_payload :: "u32 \<Rightarrow> u32 \<Rightarrow> nat price_payload" where
  "demo_payload p b = price_payload_for p b \<lparr>acc_id = 0 :: nat, acc_public = 5\<rparr>"

definition demo_price_call :: "u32 \<Rightarrow> u32 \<Rightarrow> (nat, nat) oracle_call" where
  "demo_price_call p b =
     Call_submit_price_unsigned_with_signed_payload (demo_payload p b) (pp_public (demo_payload p b))"

lemma mock_price_hook:
  assumes "answers h = [(200, body)]" and "valid_utf8 body"
    and "parse_price False parse_json body = Some (Some p)"
    and "oracle_inv (example_store s)" and "next_unsigned_at (example_store s) \<le> b" and "b mod 3 = 1"
    and "grace_over False runtime_oracle_config b (entry h)"
  shows "run_state (run_hooks u from_str parse_json mock_runtime_host s b [PriceHook]) h =
    (Some (), h\<lparr>answers := [], entry := Some b, pool := pool h @ [OcwExample (demo_price_call p b)]\<rparr>)"
proof -
  obtain a where avg: "average_price (example_store s) = Some a"
    using average_price_total [OF oracle_inv_small [OF assms(4)]] by blast
  have "run_state (fetch_price False mock_http parse_json) (h\<lparr>entry := Some b\<rparr>) =
      (Some (Ok p), h\<lparr>entry := Some b, answers := []\<rparr>)"
    using assms(1-3) by (subst mock_fetch) simp_all
  moreover have "\<not> b < next_unsigned_at (example_store s)" using assms(5) by (simp add: not_less)
  ultimately show ?thesis
    using mock_choose [OF assms(7)] assms(6)
    by (simp add: price_offchain_worker_def avg rust_sub_def Let_def transaction_type_of_def
          fetch_price_and_send_unsigned_for_any_account_def fetched_def run_simps mock_tx_def
          mock_runtime_host_def embed_tx_def mock_submit_def ok_or_def demo_price_call_def demo_payload_def)
qed

lemma grace_is_over:
  assumes "\<And>e. prev = Some e \<Longrightarrow> unat e + 3 \<le> unat b"
  shows "grace_over False runtime_oracle_config b prev"
proof (cases prev)
  case (Some e)
  with assms [of e] have "\<not> b < e + 3"
    using rust_add_fits [of e 3 False] unat_less_pow [of b] by (simp add: word_less_nat_alt)
  with Some show ?thesis
    by (simp add: grace_over_def last_send_closure_def runtime_oracle_config_def GracePeriod_def)
qed (simp add: grace_over_def last_send_closure_def)

text \<open>The node in block \<open>b\<close> after the price hook.\<close>

definition after_worker :: "u32 \<Rightarrow> u32 \<Rightarrow> ('a, runtime_mock) node \<Rightarrow> ('a, runtime_mock) node" where
  "after_worker p b n = n\<lparr>node_chain := (node_chain n)\<lparr>block_number := b\<rparr>,
     node_host := (node_host n)\<lparr>answers := [], entry := Some b,
       pool := pool (node_host n) @ [OcwExample (demo_price_call p b)]\<rparr>\<rparr>"

lemma after_worker_simps [simp]:
  "node_chain (after_worker p b n) = (node_chain n)\<lparr>block_number := b\<rparr>"
  "pool (node_host (after_worker p b n)) = pool (node_host n) @ [OcwExample (demo_price_call p b)]"
  by (simp_all add: after_worker_def)

lemma node_blocks_up_to:
  assumes "unat (block_number (node_chain n)) \<le> unat b"
  shows "node_run api vo vp u fs pj host n [] (n\<lparr>node_chain := (node_chain n)\<lparr>block_number := b\<rparr>\<rparr>)"
proof -
  have "block_number (node_chain n) + of_nat (unat b - unat (block_number (node_chain n))) = b"
    using assms by (simp add: of_nat_diff)
  moreover have "unat (block_number (node_chain n)) + (unat b - unat (block_number (node_chain n))) < 2 ^ 32"
    using assms unat_less_pow [of b] by simp
  ultimately show ?thesis
    using node_empty_blocks [of n "unat b - unat (block_number (node_chain n))"] by metis
qed

lemma mock_worker_step:
  assumes "answers (node_host n) = [(200, body)]" and "valid_utf8 body"
    and "parse_price False parse_json body = Some (Some p)"
    and "oracle_inv (example_store (node_chain n))" and "next_unsigned_at (example_store (node_chain n)) \<le> b"
    and "b mod 3 = 1" and "\<forall>e. entry (node_host n) = Some e \<longrightarrow> unat e + 3 \<le> unat b"
  shows "node_step api vo vp u from_str parse_json mock_runtime_host
    (n\<lparr>node_chain := (node_chain n)\<lparr>block_number := b\<rparr>\<rparr>) None (after_worker p b n)"
proof -
  let ?n = "n\<lparr>node_chain := (node_chain n)\<lparr>block_number := b\<rparr>\<rparr>"
  have "run_state (run_hooks u from_str parse_json mock_runtime_host (node_chain ?n) b [PriceHook]) (node_host ?n) =
    (Some (), node_host (after_worker p b n))"
    using mock_price_hook [OF assms(1-3), of "node_chain ?n" b u from_str] assms(4-7) grace_is_over
    by (simp add: after_worker_def)
  from node_step.workers [OF _ this, of api vo vp] show ?thesis
    by (simp add: after_worker_def)
qed

lemma demo_price_call_accepted:
  assumes "oracle_inv (example_store s)" and "next_unsigned_at (example_store s) \<le> b" and "block_number s = b"
    and "\<forall>pl. vp pl (pp_public pl)" and "ensure_none api org = Ok ()"
  shows "\<exists>vt. runtime_validate_unsigned vo vp (OcwExample (demo_price_call p b)) s = Some (Ok vt)"
    and "runtime_dispatch api (OcwExample (demo_price_call p b)) org s = Some (Ok (), s\<lparr>example_store :=
      (price_recorded (default_account api) p (example_store s))\<lparr>next_unsigned_at := b + 3\<rparr>\<rparr>)"
proof -
  have "vp (demo_payload p b) (pp_public (demo_payload p b))" using assms(4) by blast
  with assms(1-3) show "\<exists>vt. runtime_validate_unsigned vo vp (OcwExample (demo_price_call p b)) s = Some (Ok vt)"
    using payload_accepted [of s vp "demo_payload p b" "pp_public (demo_payload p b)" vo]
    by (simp only: demo_price_call_def) (simp add: demo_payload_def price_payload_for_def)
  show "runtime_dispatch api (OcwExample (demo_price_call p b)) org s = Some (Ok (), s\<lparr>example_store :=
      (price_recorded (default_account api) p (example_store s))\<lparr>next_unsigned_at := b + 3\<rparr>\<rparr>)"
    using runtime_price_accepted [OF assms(1,5), of "demo_price_call p b"] assms(3)
    by (simp only: demo_price_call_def is_signed_call.simps call_price.simps not_False_eq_True)
      (simp add: demo_payload_def price_payload_for_def)
qed

section \<open>Properties\<close>

text \<open>
  C2. The node as a whole is safe. Whatever extrinsics the pool and the network bring, in whatever order, and
  whatever the off-chain workers and their host do in between: in every run of a node from genesis, any two
  accepted unsigned prices are at least the configured three blocks apart; the price vector is the
  replay of the announced prices and has at most 64 entries; and \<open>Numbers\<close> holds the last ten announced numbers.
\<close>

theorem node_storage_is_sound:
  assumes "node_run api verify_ocw verify_price usize_bits from_str parse_json host (genesis_node h) bs n"
    and "list_all (\<lambda>b. unat b + 3 < 2 ^ 32) bs"
  shows "sorted_wrt (\<lambda>a b. unat a + 3 \<le> unat b) bs \<and>
    prices (example_store (node_chain n)) = replay (oracle_events (example_store (node_chain n))) \<and>
    length (prices (example_store (node_chain n))) \<le> 64 \<and>
    numbers (ocw_store (node_chain n)) = last_n 10 (map event_number (ocw_events (ocw_store (node_chain n))))"
proof -
  have gap: "unat (unsigned_interval runtime_oracle_config) = 3"
    by (simp add: runtime_oracle_config_def UnsignedInterval_def)
  have "spaced 3 bs"
    using node_prices.whole.run_spaced [OF assms(1)] assms(2) unfolding gap
    by (simp add: in_range_def [abs_def])
  with node_run_follows_events [OF assms(1)] show ?thesis
    by (simp add: spaced_def follows_events_def replayed_def replay_bounds NUM_VEC_LEN_def MAX_LEN_def)
qed

text \<open>
  Take a host on which a property survives the network, the local storage and the lock, and survives the
  submission of any call of the two worker pallets whose signed payload, if it has one, carries a signature that
  verifies. Then the property survives every run of the node. (That the key store's signatures
  verify is part of what is asked of the host.)
\<close>

lemma node_submits_only_authentic:
  assumes "node_run api verify_ocw verify_price usize_bits from_str parse_json host (genesis_node h) bs n"
    and "host_keeps P verify_ocw verify_price (authentic verify_ocw verify_price) host" and "P h"
  shows "P (node_host n)"
proof -
  have "follows_events (node_chain n) \<and> P (node_host n)"
  proof (rule run_of_invariant [OF assms(1)])
    show "follows_events (node_chain (genesis_node h)) \<and> P (node_host (genesis_node h))"
      using assms(3) by (simp add: genesis_node_def follows_events_def genesis_runtime_def replayed_def
          replay_def last_n_def)
  qed (blast intro: node_step_follows_events node_step_host [OF _ _ assms(2)])
  then show ?thesis ..
qed

text \<open>
  C4. A price of the worker can always get through. From every state that a node on the test host can
  reach, with a good answer of the price server waiting, and for every block at least three blocks later (and three after
  the worker's last send) whose number leaves remainder one: the node can go on through empty blocks to that
  block and run the price worker, which puts one call into the pool; the chain accepts the call as unsigned in
  the same block, and executing it announces the fetched price.
\<close>

theorem worker_price_can_get_through:
  assumes "node_run api verify_ocw verify_price usize_bits from_str parse_json mock_runtime_host (genesis_node h) bs n"
    and "answers (node_host n) = [(200, body)]" and "valid_utf8 body"
    and "parse_price False parse_json body = Some (Some p)"
    and "unat (block_number (node_chain n)) + 3 \<le> unat b" and "unat b + 3 < 2 ^ 32" and "b mod 3 = 1"
    and "\<forall>e. entry (node_host n) = Some e \<longrightarrow> unat e + 3 \<le> unat b"
    and "\<forall>pl. verify_price pl (pp_public pl)" and "ensure_none api org = Ok ()"
  shows "\<exists>c n1 n2.
    node_run api verify_ocw verify_price usize_bits from_str parse_json mock_runtime_host n [] n1 \<and>
    pool (node_host n1) = pool (node_host n) @ [OcwExample c] \<and>
    node_run api verify_ocw verify_price usize_bits from_str parse_json mock_runtime_host n1 [b] n2 \<and>
    runtime_dispatch api (OcwExample c) org (node_chain n1) = Some (Ok (), node_chain n2) \<and>
    oracle_events (example_store (node_chain n2)) =
      oracle_events (example_store (node_chain n)) @ [NewPrice p (default_account api)]"
proof -
  let ?step = "node_step api verify_ocw verify_price usize_bits from_str parse_json mock_runtime_host"
  let ?c = "demo_price_call p b" and ?n1 = "after_worker p b n"
  let ?s = "(node_chain ?n1)\<lparr>example_store := (price_recorded (default_account api) p (example_store (node_chain n)))
      \<lparr>next_unsigned_at := b + 3\<rparr>\<rparr>"
  have "window_near runtime_oracle_config (price_view n)"
    using node_prices.run_abstracted [OF assms(1)] by (simp add: chain_run_window)
  then have inv: "oracle_inv (example_store (node_chain n))"
    and window: "next_unsigned_at (example_store (node_chain n)) \<le> b"
    using assms(5) by (simp_all add: window_near_def word_le_nat_alt runtime_oracle_config_def UnsignedInterval_def)
  have quiet: "run_of ?step n [] ?n1"
    by (rule run_of.run_quiet [OF node_blocks_up_to mock_worker_step [OF assms(2-4) inv window assms(7,8)]])
      (use assms(5) in simp)
  obtain vt where "runtime_validate_unsigned verify_ocw verify_price (OcwExample ?c) (node_chain ?n1) = Some (Ok vt)"
    and run: "runtime_dispatch api (OcwExample ?c) org (node_chain ?n1) = Some (Ok (), ?s)"
    using demo_price_call_accepted(1) [of "node_chain ?n1" b verify_price api org verify_ocw p]
      demo_price_call_accepted(2) [of "node_chain ?n1" b verify_price api org p] inv window assms(9,10)
    by auto
  then have "?step ?n1 (Some b) (?n1\<lparr>node_chain := ?s\<rparr>)"
    using node_step.unsigned_call [OF assms(10), of verify_ocw verify_price "OcwExample ?c" ?n1 vt] by fastforce
  then have "run_of ?step ?n1 ([] @ [b]) (?n1\<lparr>node_chain := ?s\<rparr>)"
    by (rule run_of.run_observed [OF run_of.run_start])
  with quiet run show ?thesis
    by (intro exI [of _ ?c] exI [of _ ?n1] exI [of _ "?n1\<lparr>node_chain := ?s\<rparr>"]) simp
qed

section \<open>A run of the node\<close>

text \<open>On the test host: empty blocks, the price worker in block seven, and its price in the same block.\<close>

abbreviation demo_node_step ::
  "(nat, runtime_mock) node \<Rightarrow> u32 option \<Rightarrow> (nat, runtime_mock) node \<Rightarrow> bool" where
  "demo_node_step \<equiv> node_step (raw_api 0) (key_is_signature pl_public) (key_is_signature pp_public) 64
     demo_from_str (\<lambda>_. usd_json 6536 92 2) mock_runtime_host"

lemma demo_price: "parse_price False (\<lambda>_. usd_json 6536 92 2) [] = Some (Some 653692)"
  by (simp add: parse_price_def usd_json_def usd_number_def number_price_def checked_sub_def rust_mul_def rust_pow_def
        rust_add_def rust_div_def)

lemma demo_node_run:
  obtains n where "run_of demo_node_step (genesis_node (mock_init [(200, [])])) [] n"
    and "pool (node_host n) = [OcwExample (demo_price_call 653692 7)]"
proof
  let ?n = "genesis_node (mock_init [(200, [])]) :: (nat, runtime_mock) node"
  have "run_of demo_node_step ?n [] (?n\<lparr>node_chain := (node_chain ?n)\<lparr>block_number := 7\<rparr>\<rparr>)"
    by (rule node_blocks_up_to) (simp add: genesis_node_def genesis_runtime_def)
  moreover have "demo_node_step (?n\<lparr>node_chain := (node_chain ?n)\<lparr>block_number := 7\<rparr>\<rparr>) None
      (after_worker 653692 7 ?n)"
    by (rule mock_worker_step [OF _ _ demo_price])
      (simp_all add: genesis_node_def genesis_runtime_def mock_init_def oracle_inv_def)
  ultimately show "run_of demo_node_step ?n [] (after_worker 653692 7 ?n)"
    by (rule run_of.run_quiet)
qed (simp add: genesis_node_def mock_init_def)

theorem node_storage_is_sound_witness:
  "\<exists>n. run_of demo_node_step (genesis_node (mock_init [(200, [])])) [] n \<and>
     pool (node_host n) \<noteq> [] \<and> length (prices (example_store (node_chain n))) \<le> 64"
proof -
  obtain n where n: "run_of demo_node_step (genesis_node (mock_init [(200, [])])) [] n"
    "pool (node_host n) = [OcwExample (demo_price_call 653692 7)]"
    by (rule demo_node_run)
  have "list_all (\<lambda>b. unat b + 3 < 2 ^ 32) ([] :: u32 list)" by simp
  from node_storage_is_sound [OF n(1) this] n show ?thesis by (intro exI [of _ n]) auto
qed

lemma node_submits_only_authentic_example:
  "\<exists>n. run_of demo_node_step (genesis_node (mock_init [(200, [])])) [] n \<and> pool (node_host n) \<noteq> [] \<and>
     list_all (authentic (key_is_signature pl_public) (key_is_signature pp_public)) (pool (node_host n))"
proof -
  obtain n where n: "run_of demo_node_step (genesis_node (mock_init [(200, [])])) [] n"
    "pool (node_host n) = [OcwExample (demo_price_call 653692 7)]"
    by (rule demo_node_run)
  from node_submits_only_authentic [OF n(1) mock_runtime_host_keeps] n show ?thesis
    by (intro exI [of _ n]) (simp add: mock_init_def)
qed

theorem worker_price_can_get_through_witness:
  "\<exists>n2. run_of demo_node_step (genesis_node (mock_init [(200, [])])) [7] n2 \<and>
     oracle_events (example_store (node_chain n2)) = [NewPrice 653692 0]"
proof -
  let ?n = "genesis_node (mock_init [(200, [])]) :: (nat, runtime_mock) node"
  have "\<exists>c n1 n2. run_of demo_node_step ?n [] n1 \<and> pool (node_host n1) = pool (node_host ?n) @ [OcwExample c] \<and>
      run_of demo_node_step n1 [7] n2 \<and>
      runtime_dispatch (raw_api 0) (OcwExample c) NoneOrigin (node_chain n1) = Some (Ok (), node_chain n2) \<and>
      oracle_events (example_store (node_chain n2)) =
        oracle_events (example_store (node_chain ?n)) @ [NewPrice 653692 (default_account (raw_api 0))]"
    by (rule worker_price_can_get_through [OF run_of.run_start _ _ demo_price])
      (simp_all add: genesis_node_def genesis_runtime_def mock_init_def)
  then obtain n1 n2 where "run_of demo_node_step ?n [] n1" "run_of demo_node_step n1 [7] n2"
    "oracle_events (example_store (node_chain n2)) = [NewPrice 653692 0]"
    by (auto simp: genesis_node_def genesis_runtime_def)
  then show ?thesis
    using run_of_append [of demo_node_step ?n "[]" n1 "[7]" n2] by auto
qed

end
