(* ===== verification/Service.thy ===== *)
theory Service
  imports Prelude
begin

text \<open>
  \<open>node/src/service.rs\<close>: how a node is put together. The services themselves (client, pool,
  network, consensus) are Substrate's and opaque; what the code decides is which of them it
  builds, in which order, from which other services and settings, and which failures it passes on.

  A computation appends the calls it makes, with their arguments, to a list. A service that a call
  returns is a handle: the position in the list of the call that made it. Cloning an \<open>Arc\<close> is
  sharing the handle. What is built without a call into Substrate's services (a chain selection
  rule, an executor, a proposer factory) is a value made of its arguments. The argument \<open>fails\<close>
  says which of the fallible calls fails with which error. As elsewhere \<open>None\<close> is a panic, which only the
  two \<open>expect\<close>s on key generation can raise.
\<close>

section \<open>Configuration\<close>

datatype role = Full | Light | Authority

definition is_authority :: "role \<Rightarrow> bool" where
  "is_authority r \<longleftrightarrow> r = Authority"

text \<open>\<open>GrandpaPeersSet\<close> is what \<open>grandpa_peers_set_config\<close> returns.\<close>

datatype set_config = GrandpaPeersSet | OtherSet string

record network_config =
  nc_node_name :: string
  nc_extra_sets :: "set_config list"

text \<open>
  The part of \<open>Configuration\<close> that the code reads or passes on by field. Settings that it only hands
  over (the options of the pool, the database, the chain specification, the metrics registry) are
  identified by a number or a string.
\<close>

record config =
  keystore_remote :: "string option"
  telemetry_endpoints :: "string list option"
  wasm_method :: nat
  default_heap_pages :: "u64 option"
  max_runtime_instances :: nat
  offchain_worker_enabled :: bool
  transaction_pool_options :: nat
  prometheus_registry :: "nat option"
  node_role :: role
  force_authoring :: bool
  disable_grandpa :: bool
  config_network :: network_config
  config_chain_spec :: string
  config_database :: string

section \<open>Handles and values\<close>

datatype 'k handle = Handle (handle_id: nat)

typedecl telemetry_worker
typedecl telemetry
typedecl client
typedecl backend
typedecl keystore
typedecl task_manager
typedecl on_demand
typedecl transaction_pool
typedecl block_import
typedecl grandpa_link
typedecl slot_duration
typedecl import_queue
typedecl network
typedecl system_rpc_tx
typedecl network_starter
typedecl task_future

record native_executor =
  ex_wasm_method :: nat
  ex_heap_pages :: "u64 option"
  ex_max_instances :: nat

datatype select_chain = LongestChain "backend handle"

text \<open>A handle to the task manager: when an essential task ends, the node goes down with it.\<close>

datatype spawner = SpawnHandle "task_manager handle" | EssentialHandle "task_manager handle"

datatype can_author_with = CanAuthorWithNativeVersion "client handle" | NeverCanAuthor

text \<open>The closure \<open>create_inherent_data_providers\<close>: the timestamp, and the slot it falls into.\<close>

datatype inherent_providers = TimestampAndSlot "slot_duration handle"

datatype warp_sync = WarpSync "backend handle" "grandpa_link handle"

datatype rpc_extensions = FullRpc "client handle" "transaction_pool handle" | NoRpc

datatype proposer_factory = ProposerFactory spawner "client handle" "transaction_pool handle"
    "nat option" "telemetry handle option"

record grandpa_config =
  gossip_millis :: nat
  justification_period :: nat
  grandpa_name :: "string option"
  observer_enabled :: bool
  grandpa_keystore :: "keystore handle option"
  local_role :: role
  grandpa_telemetry :: "telemetry handle option"

section \<open>Arguments of the calls\<close>

text \<open>
  One record for each structure of arguments that the code fills in. Fields that are always filled with
  Substrate's defaults (the check for equivocations, the voting rule, the voter state) are left out.
\<close>

record import_queue_params =
  iq_block_import :: "block_import handle"
  iq_justification_import :: "block_import handle option"
  iq_client :: "client handle"
  iq_inherents :: inherent_providers
  iq_spawner :: spawner
  iq_can_author_with :: can_author_with
  iq_registry :: "nat option"
  iq_telemetry :: "telemetry handle option"

record build_network_params =
  bn_config :: config
  bn_client :: "client handle"
  bn_transaction_pool :: "transaction_pool handle"
  bn_spawn_handle :: spawner
  bn_import_queue :: "import_queue handle"
  bn_on_demand :: "on_demand handle option"
  bn_block_announce_validator_builder :: "unit option"
  bn_warp_sync :: "warp_sync option"

text \<open>\<open>st_remote_blockchain\<close> is \<open>backend.remote_blockchain()\<close>, if handed over.\<close>

record spawn_tasks_params =
  st_network :: "network handle"
  st_client :: "client handle"
  st_keystore :: "keystore handle"
  st_task_manager :: "task_manager handle"
  st_transaction_pool :: "transaction_pool handle"
  st_rpc_extensions_builder :: rpc_extensions
  st_on_demand :: "on_demand handle option"
  st_remote_blockchain :: "backend handle option"
  st_backend :: "backend handle"
  st_system_rpc_tx :: "system_rpc_tx handle"
  st_config :: config
  st_telemetry :: "telemetry handle option"

text \<open>The proposal may take two thirds of a slot: \<open>SlotProportion\<close> as numerator and denominator.\<close>

record start_aura_params =
  sa_slot_duration :: "slot_duration handle"
  sa_client :: "client handle"
  sa_select_chain :: select_chain
  sa_block_import :: "block_import handle"
  sa_proposer_factory :: proposer_factory
  sa_inherents :: inherent_providers
  sa_force_authoring :: bool
  sa_backoff_authoring_blocks :: "unit option"
  sa_keystore :: "keystore handle"
  sa_can_author_with :: can_author_with
  sa_sync_oracle :: "network handle"
  sa_justification_sync_link :: "network handle"
  sa_slot_portion :: "nat \<times> nat"
  sa_max_slot_portion :: "(nat \<times> nat) option"
  sa_telemetry :: "telemetry handle option"

record grandpa_params =
  gp_config :: grandpa_config
  gp_link :: "grandpa_link handle"
  gp_network :: "network handle"
  gp_registry :: "nat option"
  gp_telemetry :: "telemetry handle option"

datatype subcommand =
    Key | BuildSpec | CheckBlock | ExportBlocks | ExportState | ImportBlocks | PurgeChain
  | Revert | Benchmark

text \<open>What a subcommand is handed.\<close>

datatype command_args =
    CliArgs
  | SpecAndNetwork string network_config
  | ClientAndQueue "client handle" "import_queue handle"
  | ClientAndDatabase "client handle" string
  | ClientAndSpec "client handle" string
  | DatabaseOnly string
  | ClientAndBackend "client handle" "backend handle"
  | WholeConfig config

datatype task_kind = TelemetryWorkerTask "telemetry_worker handle" | FutureTask "task_future handle"

datatype action =
    NewTelemetryWorker nat
  | NewTelemetry "telemetry_worker handle" "string list"
  | NewFullParts config "telemetry handle option" native_executor
  | GenerateKey "keystore handle" string string
  | Spawn spawner bool string task_kind \<comment> \<open>whether the task may block\<close>
  | NewFullPool nat bool "nat option" spawner "client handle"
  | GrandpaBlockImport "client handle" select_chain "telemetry handle option"
  | SlotDuration "client handle"
  | ImportQueue import_queue_params
  | SetRemoteKeystore "keystore handle"
  | BuildNetwork build_network_params
  | BuildOffchainWorkers config spawner "client handle" "network handle"
  | SpawnTasks spawn_tasks_params
  | StartAura start_aura_params
  | RunGrandpaVoter grandpa_params
  | NewLightParts config "telemetry handle option" native_executor
  | NewLightPool nat "nat option" spawner "client handle" "on_demand handle"
  | RunGrandpaObserver grandpa_config "grandpa_link handle" "network handle"
  | StartNetwork "network_starter handle"
  | RunSubcommand subcommand command_args "task_manager handle option"
  | RunNode "task_manager handle"

section \<open>Service computations\<close>

datatype 'e service_error = OtherError string | ExternalError 'e

type_synonym ('e, 'a) service = "(action list, ('e service_error + 'a) option) state"

text \<open>A call with \<open>?\<close>, one with \<open>expect\<close>, and one that cannot fail; each returns the position of the call.\<close>

definition perform :: "(action \<Rightarrow> 'e option) \<Rightarrow> action \<Rightarrow> ('e, nat) service" where
  "perform fails a = State (\<lambda>tr.
     (case fails a of None \<Rightarrow> Some (Ok (length tr)) | Some e \<Rightarrow> Some (Err (ExternalError e)), tr @ [a]))"

definition perform_expect :: "(action \<Rightarrow> 'e option) \<Rightarrow> action \<Rightarrow> ('e, nat) service" where
  "perform_expect fails a = State (\<lambda>tr.
     (case fails a of None \<Rightarrow> Some (Ok (length tr)) | Some e \<Rightarrow> None, tr @ [a]))"

definition note_action :: "action \<Rightarrow> ('e, nat) service" where
  "note_action a = State (\<lambda>tr. (Some (Ok (length tr)), tr @ [a]))"

abbreviation done_with :: "'a \<Rightarrow> ('e, 'a) service" where
  "done_with x \<equiv> State_Monad.return (Some (Ok x))"

abbreviation fail_with :: "string \<Rightarrow> ('e, 'a) service" where
  "fail_with msg \<equiv> State_Monad.return (Some (Err (OtherError msg)))"

text \<open>\<open>if b { ... }\<close>\<close>

definition guarded :: "bool \<Rightarrow> ('e, 'a) service \<Rightarrow> ('e, unit) service" where
  "guarded b m = (if b then bind_panic m (\<lambda>_. done_with ()) else done_with ())"

definition ocw_KEY_TYPE :: string where "ocw_KEY_TYPE = ''demo''"
definition example_KEY_TYPE :: string where "example_KEY_TYPE = ''btc!''"

section \<open>Building the parts\<close>

text \<open>\<open>telemetry_endpoints.clone().filter(|x| !x.is_empty()).map(...).transpose()?\<close>\<close>

definition new_telemetry ::
  "(action \<Rightarrow> 'e option) \<Rightarrow> config \<Rightarrow> ('e, (telemetry_worker handle \<times> telemetry handle) option) service" where
  "new_telemetry fails config =
     (case telemetry_endpoints config of
        None \<Rightarrow> done_with None
      | Some endpoints \<Rightarrow>
          if endpoints = [] then done_with None
          else bind_panic (perform fails (NewTelemetryWorker 16)) (\<lambda>worker.
               bind_panic (note_action (NewTelemetry (Handle worker) endpoints)) (\<lambda>telemetry.
               done_with (Some (Handle worker, Handle telemetry)))))"

text \<open>\<open>telemetry.map(|(worker, telemetry)| { spawn(worker.run()); telemetry })\<close>\<close>

definition spawn_telemetry ::
  "task_manager handle \<Rightarrow> (telemetry_worker handle \<times> telemetry handle) option
     \<Rightarrow> ('e, telemetry handle option) service" where
  "spawn_telemetry task_manager telemetry =
     (case telemetry of
        None \<Rightarrow> done_with None
      | Some (worker, telemetry) \<Rightarrow>
          bind_panic (note_action (Spawn (SpawnHandle task_manager) False ''telemetry'' (TelemetryWorkerTask worker)))
            (\<lambda>_. done_with (Some telemetry)))"

definition new_executor :: "config \<Rightarrow> native_executor" where
  "new_executor config = \<lparr>
     ex_wasm_method = wasm_method config,
     ex_heap_pages = default_heap_pages config,
     ex_max_instances = max_runtime_instances config\<rparr>"

text \<open>\<open>PartialComponents\<close>, with the three components of \<open>other\<close> as fields.\<close>

record partial_components =
  pc_client :: "client handle"
  pc_backend :: "backend handle"
  pc_task_manager :: "task_manager handle"
  pc_import_queue :: "import_queue handle"
  pc_keystore_container :: "keystore handle"
  pc_select_chain :: select_chain
  pc_transaction_pool :: "transaction_pool handle"
  pc_block_import :: "block_import handle"
  pc_grandpa_link :: "grandpa_link handle"
  pc_telemetry :: "telemetry handle option"

definition new_partial :: "(action \<Rightarrow> 'e option) \<Rightarrow> config \<Rightarrow> ('e, partial_components) service" where
  "new_partial fails config =
     (if keystore_remote config \<noteq> None then fail_with ''Remote Keystores are not supported.''
      else
        bind_panic (new_telemetry fails config) (\<lambda>telemetry.
        let executor = new_executor config in
        bind_panic (perform fails (NewFullParts config (map_option snd telemetry) executor)) (\<lambda>parts.
        let client = Handle parts; backend = Handle parts; keystore_container = Handle parts;
            task_manager = Handle parts in
        bind_panic (guarded (offchain_worker_enabled config)
          (bind_panic (perform_expect fails (GenerateKey keystore_container ocw_KEY_TYPE ''//Alice'')) (\<lambda>_.
           perform_expect fails (GenerateKey keystore_container example_KEY_TYPE ''//Alice'')))) (\<lambda>_.
        bind_panic (spawn_telemetry task_manager telemetry) (\<lambda>telemetry.
        let select_chain = LongestChain backend in
        bind_panic (note_action (NewFullPool (transaction_pool_options config)
          (is_authority (node_role config)) (prometheus_registry config)
          (EssentialHandle task_manager) client)) (\<lambda>pool.
        bind_panic (perform fails (GrandpaBlockImport client select_chain telemetry)) (\<lambda>grandpa.
        let grandpa_block_import = Handle grandpa; grandpa_link = Handle grandpa in
        bind_panic (perform fails (SlotDuration client)) (\<lambda>slot_duration.
        bind_panic (perform fails (ImportQueue \<lparr>
            iq_block_import = grandpa_block_import,
            iq_justification_import = Some grandpa_block_import,
            iq_client = client,
            iq_inherents = TimestampAndSlot (Handle slot_duration),
            iq_spawner = EssentialHandle task_manager,
            iq_can_author_with = CanAuthorWithNativeVersion client,
            iq_registry = prometheus_registry config,
            iq_telemetry = telemetry\<rparr>)) (\<lambda>import_queue.
        done_with \<lparr>
          pc_client = client,
          pc_backend = backend,
          pc_task_manager = task_manager,
          pc_import_queue = Handle import_queue,
          pc_keystore_container = keystore_container,
          pc_select_chain = select_chain,
          pc_transaction_pool = Handle pool,
          pc_block_import = grandpa_block_import,
          pc_grandpa_link = grandpa_link,
          pc_telemetry = telemetry\<rparr>)))))))))"

definition remote_keystore :: "string \<Rightarrow> string + keystore handle" where
  "remote_keystore url = Err ''Remote Keystore not supported.''"

definition hook_remote_keystore :: "config \<Rightarrow> ('e, unit) service" where
  "hook_remote_keystore config =
     (case keystore_remote config of
        None \<Rightarrow> done_with ()
      | Some url \<Rightarrow>
          (case remote_keystore url of
             Ok k \<Rightarrow> bind_panic (note_action (SetRemoteKeystore k)) (\<lambda>_. done_with ())
           | Err e \<Rightarrow> fail_with (''Error hooking up remote keystore for '' @ url @ '': '' @ e)))"

text \<open>\<open>config.network.extra_sets.push(grandpa_peers_set_config())\<close>\<close>

definition push_grandpa_peers_set :: "config \<Rightarrow> config" where
  "push_grandpa_peers_set config = config\<lparr>config_network :=
     (config_network config)\<lparr>nc_extra_sets :=
        nc_extra_sets (config_network config) @ [GrandpaPeersSet]\<rparr>\<rparr>"

text \<open>Block authoring, which \<open>new_full\<close> starts for an authority.\<close>

definition start_authoring ::
  "(action \<Rightarrow> 'e option) \<Rightarrow> config \<Rightarrow> partial_components \<Rightarrow> network handle \<Rightarrow> ('e, nat) service" where
  "start_authoring fails config parts network =
     (let client = pc_client parts; task_manager = pc_task_manager parts;
          proposer_factory = ProposerFactory (SpawnHandle task_manager) client
            (pc_transaction_pool parts) (prometheus_registry config) (pc_telemetry parts);
          can_author_with = CanAuthorWithNativeVersion client
      in bind_panic (perform fails (SlotDuration client)) (\<lambda>slot_duration.
         bind_panic (perform fails (StartAura \<lparr>
            sa_slot_duration = Handle slot_duration,
            sa_client = client,
            sa_select_chain = pc_select_chain parts,
            sa_block_import = pc_block_import parts,
            sa_proposer_factory = proposer_factory,
            sa_inherents = TimestampAndSlot (Handle slot_duration),
            sa_force_authoring = force_authoring config,
            sa_backoff_authoring_blocks = None,
            sa_keystore = pc_keystore_container parts,
            sa_can_author_with = can_author_with,
            sa_sync_oracle = network,
            sa_justification_sync_link = network,
            sa_slot_portion = (2, 3),
            sa_max_slot_portion = None,
            sa_telemetry = pc_telemetry parts\<rparr>)) (\<lambda>aura.
         note_action (Spawn (EssentialHandle task_manager) True ''aura'' (FutureTask (Handle aura))))))"

text \<open>
  The Grandpa voter, which \<open>new_full\<close> starts unless it is disabled. A node that does not take
  part in consensus gets no keystore.
\<close>

definition start_voting ::
  "(action \<Rightarrow> 'e option) \<Rightarrow> config \<Rightarrow> partial_components \<Rightarrow> network handle \<Rightarrow> ('e, unit) service" where
  "start_voting fails config parts network =
     (let role = node_role config; task_manager = pc_task_manager parts;
          keystore = (if is_authority role then Some (pc_keystore_container parts) else None);
          grandpa_config = \<lparr>
            gossip_millis = 333,
            justification_period = 512,
            grandpa_name = Some (nc_node_name (config_network config)),
            observer_enabled = False,
            grandpa_keystore = keystore,
            local_role = role,
            grandpa_telemetry = pc_telemetry parts\<rparr>
      in guarded (\<not> disable_grandpa config)
        (bind_panic (perform fails (RunGrandpaVoter \<lparr>
            gp_config = grandpa_config,
            gp_link = pc_grandpa_link parts,
            gp_network = network,
            gp_registry = prometheus_registry config,
            gp_telemetry = pc_telemetry parts\<rparr>)) (\<lambda>voter.
         note_action (Spawn (EssentialHandle task_manager) True ''grandpa-voter'' (FutureTask (Handle voter))))))"

definition new_full :: "(action \<Rightarrow> 'e option) \<Rightarrow> config \<Rightarrow> ('e, task_manager handle) service" where
  "new_full fails config =
     bind_panic (new_partial fails config) (\<lambda>parts.
     let client = pc_client parts; backend = pc_backend parts; task_manager = pc_task_manager parts;
         keystore_container = pc_keystore_container parts; pool = pc_transaction_pool parts;
         grandpa_link = pc_grandpa_link parts; telemetry = pc_telemetry parts in
     bind_panic (hook_remote_keystore config) (\<lambda>_.
     let config = push_grandpa_peers_set config;
         warp_sync = WarpSync backend grandpa_link in
     bind_panic (perform fails (BuildNetwork \<lparr>
         bn_config = config,
         bn_client = client,
         bn_transaction_pool = pool,
         bn_spawn_handle = SpawnHandle task_manager,
         bn_import_queue = pc_import_queue parts,
         bn_on_demand = None,
         bn_block_announce_validator_builder = None,
         bn_warp_sync = Some warp_sync\<rparr>)) (\<lambda>net.
     let network = Handle net; system_rpc_tx = Handle net; network_starter = Handle net in
     bind_panic (guarded (offchain_worker_enabled config)
       (note_action (BuildOffchainWorkers config (SpawnHandle task_manager) client network))) (\<lambda>_.
     let role = node_role config in
     bind_panic (perform fails (SpawnTasks \<lparr>
         st_network = network,
         st_client = client,
         st_keystore = keystore_container,
         st_task_manager = task_manager,
         st_transaction_pool = pool,
         st_rpc_extensions_builder = FullRpc client pool,
         st_on_demand = None,
         st_remote_blockchain = None,
         st_backend = backend,
         st_system_rpc_tx = system_rpc_tx,
         st_config = config,
         st_telemetry = telemetry\<rparr>)) (\<lambda>_.
     bind_panic (guarded (is_authority role) (start_authoring fails config parts network)) (\<lambda>_.
     bind_panic (start_voting fails config parts network) (\<lambda>_.
     bind_panic (note_action (StartNetwork network_starter)) (\<lambda>_.
     done_with task_manager))))))))"

definition new_light :: "(action \<Rightarrow> 'e option) \<Rightarrow> config \<Rightarrow> ('e, task_manager handle) service" where
  "new_light fails config =
     bind_panic (new_telemetry fails config) (\<lambda>telemetry.
     let executor = new_executor config in
     bind_panic (perform fails (NewLightParts config (map_option snd telemetry) executor)) (\<lambda>parts.
     let client = Handle parts; backend = Handle parts; keystore_container = Handle parts;
         task_manager = Handle parts; on_demand = Handle parts in
     bind_panic (spawn_telemetry task_manager telemetry) (\<lambda>telemetry.
     let config = push_grandpa_peers_set config;
         select_chain = LongestChain backend in
     bind_panic (note_action (NewLightPool (transaction_pool_options config) (prometheus_registry config)
       (EssentialHandle task_manager) client on_demand)) (\<lambda>pool.
     bind_panic (perform fails (GrandpaBlockImport client select_chain telemetry)) (\<lambda>grandpa.
     let grandpa_block_import = Handle grandpa; grandpa_link = Handle grandpa in
     bind_panic (perform fails (SlotDuration client)) (\<lambda>slot_duration.
     bind_panic (perform fails (ImportQueue \<lparr>
         iq_block_import = grandpa_block_import,
         iq_justification_import = Some grandpa_block_import,
         iq_client = client,
         iq_inherents = TimestampAndSlot (Handle slot_duration),
         iq_spawner = EssentialHandle task_manager,
         iq_can_author_with = NeverCanAuthor,
         iq_registry = prometheus_registry config,
         iq_telemetry = telemetry\<rparr>)) (\<lambda>import_queue.
     let warp_sync = WarpSync backend grandpa_link in
     bind_panic (perform fails (BuildNetwork \<lparr>
         bn_config = config,
         bn_client = client,
         bn_transaction_pool = Handle pool,
         bn_spawn_handle = SpawnHandle task_manager,
         bn_import_queue = Handle import_queue,
         bn_on_demand = Some on_demand,
         bn_block_announce_validator_builder = None,
         bn_warp_sync = Some warp_sync\<rparr>)) (\<lambda>net.
     let network = Handle net; system_rpc_tx = Handle net; network_starter = Handle net in
     bind_panic (guarded (offchain_worker_enabled config)
       (note_action (BuildOffchainWorkers config (SpawnHandle task_manager) client network))) (\<lambda>_.
     let enable_grandpa = \<not> disable_grandpa config;
         grandpa_config = \<lparr>
           gossip_millis = 333,
           justification_period = 512,
           grandpa_name = Some (nc_node_name (config_network config)),
           observer_enabled = False,
           grandpa_keystore = None,
           local_role = node_role config,
           grandpa_telemetry = telemetry\<rparr> in
     bind_panic (guarded enable_grandpa
       (bind_panic (perform fails (RunGrandpaObserver grandpa_config grandpa_link network)) (\<lambda>observer.
        note_action (Spawn (SpawnHandle task_manager) True ''grandpa-observer'' (FutureTask (Handle observer)))))) (\<lambda>_.
     bind_panic (perform fails (SpawnTasks \<lparr>
         st_network = network,
         st_client = client,
         st_keystore = keystore_container,
         st_task_manager = task_manager,
         st_transaction_pool = Handle pool,
         st_rpc_extensions_builder = NoRpc,
         st_on_demand = Some on_demand,
         st_remote_blockchain = Some backend,
         st_backend = backend,
         st_system_rpc_tx = system_rpc_tx,
         st_config = config,
         st_telemetry = telemetry\<rparr>)) (\<lambda>_.
     bind_panic (note_action (StartNetwork network_starter)) (\<lambda>_.
     done_with task_manager))))))))))))"

end
