(* ===== verification/Service_Plan.thy ===== *)
theory Service_Plan
  imports Service
begin

text \<open>
  Facts about the computations of \<open>Service\<close>. Whatever fails, a computation follows its plan, the calls
  it makes when nothing fails, up to the first call that fails (\<open>tracks\<close>). What the plans are: their
  steps in order, that every service handed to a call was made by an earlier call (\<open>wired\<close>), and
  that there is only one of each.
\<close>

section \<open>Following a plan\<close>

text \<open>The calls whose result the code checks; the others cannot fail.\<close>

fun fallible :: "action \<Rightarrow> bool" where
  "fallible (NewTelemetry _ _) = False"
| "fallible (Spawn _ _ _ _) = False"
| "fallible (NewFullPool _ _ _ _ _) = False"
| "fallible (NewLightPool _ _ _ _ _) = False"
| "fallible (SetRemoteKeystore _) = False"
| "fallible (BuildOffchainWorkers _ _ _ _) = False"
| "fallible (StartNetwork _) = False"
| "fallible _ = True"

fun generates_key :: "action \<Rightarrow> bool" where
  "generates_key (GenerateKey _ _ _) = True"
| "generates_key _ = False"

definition none_fails :: "(action \<Rightarrow> 'e option) \<Rightarrow> action list \<Rightarrow> bool" where
  "none_fails fails as \<longleftrightarrow> list_all (\<lambda>a. fallible a \<longrightarrow> fails a = None) as"

lemma none_fails_simps [simp]:
  "none_fails fails []"
  "none_fails fails (a # as) \<longleftrightarrow> (fallible a \<longrightarrow> fails a = None) \<and> none_fails fails as"
  "none_fails fails (as @ bs) \<longleftrightarrow> none_fails fails as \<and> none_fails fails bs"
  by (simp_all add: none_fails_def)

text \<open>
  How the failure of a call shows in the result: the generation of a key panics, any other failure
  is passed on in an error that carries it.
\<close>

definition shows_failure :: "('x \<Rightarrow> 'e option) \<Rightarrow> action \<Rightarrow> 'e \<Rightarrow> ('x + 'a) option \<Rightarrow> bool" where
  "shows_failure carries a e r \<longleftrightarrow>
     (if generates_key a then r = None else (\<exists>x. r = Some (Err x) \<and> carries x = Some e))"

text \<open>
  A result \<open>r\<close> with calls \<open>as\<close> against the plan: all planned calls were made, none failed and the result is
  the planned one, or the calls end with the first that failed.
\<close>

definition follows ::
  "('x \<Rightarrow> 'e option) \<Rightarrow> (action \<Rightarrow> 'e option) \<Rightarrow> ('x + 'a) option \<Rightarrow> action list
     \<Rightarrow> ('x + 'a) option \<Rightarrow> action list \<Rightarrow> bool" where
  "follows carries fails r0 plan r as \<longleftrightarrow>
     r = r0 \<and> as = plan \<and> none_fails fails plan \<or>
     (\<exists>bs a cs e. plan = bs @ a # cs \<and> as = bs @ [a] \<and> none_fails fails bs \<and> fallible a \<and>
        fails a = Some e \<and> shows_failure carries a e r)"

lemma follows_plan [intro]: "none_fails fails plan \<Longrightarrow> follows carries fails r plan r plan"
  by (simp add: follows_def)

lemma follows_cut:
  "none_fails fails bs \<Longrightarrow> fallible a \<Longrightarrow> fails a = Some e \<Longrightarrow> shows_failure carries a e r \<Longrightarrow>
   follows carries fails r0 (bs @ a # cs) r (bs @ [a])"
  unfolding follows_def by blast

lemma follows_prepend:
  assumes "follows carries fails r0 plan r as" and "none_fails fails bs"
  shows "follows carries fails r0 (bs @ plan) r (bs @ as)"
  using assms(1) unfolding follows_def [of _ _ _ plan]
proof (elim disjE exE conjE)
  fix bs' a cs e
  assume "plan = bs' @ a # cs" "as = bs' @ [a]" "none_fails fails bs'" "fallible a" "fails a = Some e"
    "shows_failure carries a e r"
  then show ?thesis
    using follows_cut [of fails "bs @ bs'" a e carries r r0 cs] assms(2) by simp
qed (use assms(2) in \<open>simp add: follows_plan\<close>)

lemma shows_failure_not_ok: "shows_failure carries a e r \<Longrightarrow> r \<noteq> Some (Ok x)"
  by (auto simp: shows_failure_def split: if_splits)

lemma follows_ok: "follows carries fails r0 plan (Some (Ok x)) as \<Longrightarrow> r0 = Some (Ok x) \<and> as = plan \<and> none_fails fails plan"
  by (auto simp: follows_def dest: shows_failure_not_ok)

text \<open>A result without a value is handed on by \<open>bind_panic\<close>.\<close>

definition handed_on :: "('x + 'a) option \<Rightarrow> ('x + 'b) option" where
  "handed_on r = (case r of None \<Rightarrow> None | Some (Err x) \<Rightarrow> Some (Err x) | Some (Ok _) \<Rightarrow> None)"

lemma run_bind_stops:
  "run_state m tr = (r, tr') \<Longrightarrow> (\<And>x. r \<noteq> Some (Ok x)) \<Longrightarrow> run_state (bind_panic m k) tr = (handed_on r, tr')"
  by (auto simp: run_simps handed_on_def split: option.splits sum.splits)

lemma run_bind_goes_on:
  "run_state m tr = (Some (Ok x), tr') \<Longrightarrow> run_state (bind_panic m k) tr = run_state (k x) tr'"
  by (simp add: run_simps)

lemma shows_failure_handed_on:
  "shows_failure carries a e r \<Longrightarrow> shows_failure carries a e (handed_on r)"
  by (auto simp: shows_failure_def handed_on_def split: if_splits)

lemma follows_handed_on:
  assumes "follows carries fails r0 plan r as" and "\<And>x. r \<noteq> Some (Ok x)"
    and "\<nexists>x. r0 = Some (Ok x) \<Longrightarrow> r1 = handed_on r0 \<and> rest = []"
  shows "follows carries fails r1 (plan @ rest) (handed_on r) as"
  using assms(1) unfolding follows_def [of _ _ r0]
proof (elim disjE exE conjE)
  assume "r = r0" "as = plan" "none_fails fails plan"
  then show ?thesis using assms(2,3) by (metis append_Nil2 follows_plan)
next
  fix bs a cs e
  assume "plan = bs @ a # cs" "as = bs @ [a]" "none_fails fails bs" "fallible a" "fails a = Some e"
    "shows_failure carries a e r"
  then show ?thesis
    using follows_cut [of fails bs a e carries "handed_on r" r1 "cs @ rest"]
    by (simp add: shows_failure_handed_on)
qed

definition tracks ::
  "('x \<Rightarrow> 'e option) \<Rightarrow> (action \<Rightarrow> 'e option) \<Rightarrow> (action list, ('x + 'a) option) state
     \<Rightarrow> (action list, ('x + 'a) option) state \<Rightarrow> bool" where
  "tracks carries fails m m0 \<longleftrightarrow>
     (\<forall>tr. \<exists>r0 plan r as. run_state m0 tr = (r0, tr @ plan) \<and> run_state m tr = (r, tr @ as) \<and>
        follows carries fails r0 plan r as)"

lemma tracksE:
  assumes "tracks carries fails m m0"
  obtains r0 plan r as where "run_state m0 tr = (r0, tr @ plan)" "run_state m tr = (r, tr @ as)"
    "follows carries fails r0 plan r as"
  using assms unfolding tracks_def by metis

lemma tracks_return: "tracks carries fails (State_Monad.return r) (State_Monad.return r)"
  by (auto simp: tracks_def)

text \<open>The error that a service computation passes on.\<close>

fun external :: "'e service_error \<Rightarrow> 'e option" where
  "external (ExternalError e) = Some e"
| "external (OtherError _) = None"

lemma follows_call:
  "(fallible a \<Longrightarrow> fails a = None \<Longrightarrow> r = r0) \<Longrightarrow> (\<not> fallible a \<Longrightarrow> r = r0) \<Longrightarrow>
   (\<And>e. fallible a \<Longrightarrow> fails a = Some e \<Longrightarrow> shows_failure carries a e r) \<Longrightarrow>
   follows carries fails r0 [a] r [a]"
  using follows_cut [of fails "[]" a _ carries r r0 "[]"] follows_plan [of fails "[a]" carries r0]
  by (cases "fallible a"; cases "fails a") auto

lemma tracks_call:
  "fallible a \<Longrightarrow> \<not> generates_key a \<Longrightarrow> tracks external fails (perform fails a) (perform (\<lambda>_. None) a)"
  "tracks carries fails (perform_expect fails (GenerateKey k t s)) (perform_expect (\<lambda>_. None) (GenerateKey k t s))"
  "\<not> fallible a \<Longrightarrow> tracks carries fails (note_action a) (note_action a)"
  by (auto simp: tracks_def perform_def perform_expect_def note_action_def shows_failure_def
        intro!: follows_call split: option.splits)

text \<open>A failure in the first of two computations cuts the plan of both; else the second one follows.\<close>

lemma tracks_bind:
  assumes "tracks carries fails m m0" and k: "\<And>x. tracks carries fails (k x) (k0 x)"
  shows "tracks carries fails (bind_panic m k) (bind_panic m0 k0)"
  unfolding tracks_def
proof
  fix tr
  let ?goal = "\<exists>r0 plan r as. run_state (bind_panic m0 k0) tr = (r0, tr @ plan) \<and>
     run_state (bind_panic m k) tr = (r, tr @ as) \<and> follows carries fails r0 plan r as"
  obtain r0 plan r as where m: "run_state m0 tr = (r0, tr @ plan)" "run_state m tr = (r, tr @ as)"
    "follows carries fails r0 plan r as"
    using assms(1) by (rule tracksE)
  obtain r1 rest where m0: "run_state (bind_panic m0 k0) tr = (r1, tr @ plan @ rest)"
    "\<nexists>x. r0 = Some (Ok x) \<Longrightarrow> r1 = handed_on r0 \<and> rest = []"
  proof (cases "\<exists>x. r0 = Some (Ok x)")
    case True
    then obtain x where x: "r0 = Some (Ok x)" by blast
    obtain r1 rest where "run_state (k0 x) (tr @ plan) = (r1, (tr @ plan) @ rest)"
      using k [of x] by (rule tracksE)
    with that [of r1 rest] show ?thesis using m(1) x by (simp add: run_bind_goes_on)
  qed (use that [of "handed_on r0" "[]"] m(1) run_bind_stops in fastforce)
  show ?goal
  proof (cases "\<exists>x. r = Some (Ok x)")
    case True
    then obtain x where x: "r = Some (Ok x)" by blast
    with m(3) have same: "r0 = Some (Ok x)" "as = plan" "none_fails fails plan"
      by (auto dest: follows_ok)
    obtain q0 plan2 q bs where "run_state (k0 x) (tr @ plan) = (q0, (tr @ plan) @ plan2)"
      "run_state (k x) (tr @ plan) = (q, (tr @ plan) @ bs)" "follows carries fails q0 plan2 q bs"
      using k [of x] by (rule tracksE)
    then show ?thesis
      using m(1,2) x same follows_prepend [of carries fails q0 plan2 q bs plan]
      by (simp add: run_bind_goes_on)
  next
    case False
    with m0 m run_bind_stops [OF m(2), of k] follows_handed_on [OF m(3), of r1 rest] show ?thesis by auto
  qed
qed

lemma tracks_guarded:
  "tracks carries fails m m0 \<Longrightarrow> tracks carries fails (guarded b m) (guarded b m0)"
  by (auto simp: guarded_def intro: tracks_bind tracks_return)

lemmas tracks_intros = tracks_return tracks_call tracks_bind tracks_guarded

section \<open>The functions of the service follow their plans\<close>

lemma new_telemetry_tracks: "tracks external fails (new_telemetry fails config) (new_telemetry (\<lambda>_. None) config)"
  unfolding new_telemetry_def by (auto intro!: tracks_intros split: option.split)

lemma spawn_telemetry_tracks: "tracks external fails (spawn_telemetry tm tel) (spawn_telemetry tm tel)"
  unfolding spawn_telemetry_def by (auto intro!: tracks_intros split: option.split)

lemma hook_tracks: "tracks external fails (hook_remote_keystore config) (hook_remote_keystore config)"
  unfolding hook_remote_keystore_def by (auto intro!: tracks_intros split: option.split sum.split)

lemma new_partial_tracks: "tracks external fails (new_partial fails config) (new_partial (\<lambda>_. None) config)"
  unfolding new_partial_def Let_def
  by (auto intro!: tracks_intros new_telemetry_tracks spawn_telemetry_tracks)

lemma start_authoring_tracks:
  "tracks external fails (start_authoring fails config parts net) (start_authoring (\<lambda>_. None) config parts net)"
  unfolding start_authoring_def Let_def by (auto intro!: tracks_intros)

lemma start_voting_tracks:
  "tracks external fails (start_voting fails config parts net) (start_voting (\<lambda>_. None) config parts net)"
  unfolding start_voting_def Let_def by (auto intro!: tracks_intros)

lemma new_full_tracks: "tracks external fails (new_full fails config) (new_full (\<lambda>_. None) config)"
  unfolding new_full_def Let_def
  by (auto intro!: tracks_intros new_partial_tracks hook_tracks start_authoring_tracks start_voting_tracks)

lemma new_light_tracks: "tracks external fails (new_light fails config) (new_light (\<lambda>_. None) config)"
  unfolding new_light_def Let_def
  by (auto intro!: tracks_intros new_telemetry_tracks spawn_telemetry_tracks)

section \<open>Running a plan\<close>

lemma run_planned_call [run_simps]:
  "run_state (perform (\<lambda>_. None) a) tr = (Some (Ok (length tr)), tr @ [a])"
  "run_state (perform_expect (\<lambda>_. None) a) tr = (Some (Ok (length tr)), tr @ [a])"
  "run_state (note_action a) tr = (Some (Ok (length tr)), tr @ [a])"
  by (simp_all add: perform_def perform_expect_def note_action_def)

section \<open>Which services a call makes and which it uses\<close>

datatype kind =
    TelemetryWorkerKind | TelemetryKind | ClientKind | BackendKind | KeystoreKind | TaskManagerKind
  | OnDemandKind | PoolKind | BlockImportKind | GrandpaLinkKind | SlotDurationKind | ImportQueueKind
  | NetworkKind | SystemRpcTxKind | NetworkStarterKind | FutureKind

fun makes :: "action \<Rightarrow> kind list" where
  "makes (NewTelemetryWorker _) = [TelemetryWorkerKind]"
| "makes (NewTelemetry _ _) = [TelemetryKind]"
| "makes (NewFullParts _ _ _) = [ClientKind, BackendKind, KeystoreKind, TaskManagerKind]"
| "makes (NewLightParts _ _ _) = [ClientKind, BackendKind, KeystoreKind, TaskManagerKind, OnDemandKind]"
| "makes (NewFullPool _ _ _ _ _) = [PoolKind]"
| "makes (NewLightPool _ _ _ _ _) = [PoolKind]"
| "makes (GrandpaBlockImport _ _ _) = [BlockImportKind, GrandpaLinkKind]"
| "makes (SlotDuration _) = [SlotDurationKind]"
| "makes (ImportQueue _) = [ImportQueueKind]"
| "makes (BuildNetwork _) = [NetworkKind, SystemRpcTxKind, NetworkStarterKind]"
| "makes (StartAura _) = [FutureKind]"
| "makes (RunGrandpaVoter _) = [FutureKind]"
| "makes (RunGrandpaObserver _ _ _) = [FutureKind]"
| "makes _ = []"

abbreviation used :: "kind \<Rightarrow> 'k handle \<Rightarrow> (kind \<times> nat) list" where
  "used k h \<equiv> [(k, handle_id h)]"

definition used_option :: "kind \<Rightarrow> 'k handle option \<Rightarrow> (kind \<times> nat) list" where
  "used_option k h = (case h of None \<Rightarrow> [] | Some h \<Rightarrow> used k h)"

fun used_by_chain :: "select_chain \<Rightarrow> (kind \<times> nat) list" where
  "used_by_chain (LongestChain b) = used BackendKind b"

fun used_by_spawner :: "spawner \<Rightarrow> (kind \<times> nat) list" where
  "used_by_spawner (SpawnHandle tm) = used TaskManagerKind tm"
| "used_by_spawner (EssentialHandle tm) = used TaskManagerKind tm"

fun used_by_author :: "can_author_with \<Rightarrow> (kind \<times> nat) list" where
  "used_by_author (CanAuthorWithNativeVersion c) = used ClientKind c"
| "used_by_author NeverCanAuthor = []"

fun used_by_inherents :: "inherent_providers \<Rightarrow> (kind \<times> nat) list" where
  "used_by_inherents (TimestampAndSlot d) = used SlotDurationKind d"

fun used_by_warp_sync :: "warp_sync option \<Rightarrow> (kind \<times> nat) list" where
  "used_by_warp_sync None = []"
| "used_by_warp_sync (Some (WarpSync b l)) = used BackendKind b @ used GrandpaLinkKind l"

fun used_by_rpc :: "rpc_extensions \<Rightarrow> (kind \<times> nat) list" where
  "used_by_rpc (FullRpc c p) = used ClientKind c @ used PoolKind p"
| "used_by_rpc NoRpc = []"

fun used_by_proposer :: "proposer_factory \<Rightarrow> (kind \<times> nat) list" where
  "used_by_proposer (ProposerFactory sp c p _ t) =
     used_by_spawner sp @ used ClientKind c @ used PoolKind p @ used_option TelemetryKind t"

definition used_by_grandpa :: "grandpa_config \<Rightarrow> (kind \<times> nat) list" where
  "used_by_grandpa g = used_option KeystoreKind (grandpa_keystore g) @ used_option TelemetryKind (grandpa_telemetry g)"

fun used_by_args :: "command_args \<Rightarrow> (kind \<times> nat) list" where
  "used_by_args (ClientAndQueue c q) = used ClientKind c @ used ImportQueueKind q"
| "used_by_args (ClientAndDatabase c _) = used ClientKind c"
| "used_by_args (ClientAndSpec c _) = used ClientKind c"
| "used_by_args (ClientAndBackend c b) = used ClientKind c @ used BackendKind b"
| "used_by_args _ = []"

fun used_by_task :: "task_kind \<Rightarrow> (kind \<times> nat) list" where
  "used_by_task (TelemetryWorkerTask w) = used TelemetryWorkerKind w"
| "used_by_task (FutureTask f) = used FutureKind f"

fun uses :: "action \<Rightarrow> (kind \<times> nat) list" where
  "uses (NewTelemetryWorker _) = []"
| "uses (NewTelemetry w _) = used TelemetryWorkerKind w"
| "uses (NewFullParts _ t _) = used_option TelemetryKind t"
| "uses (GenerateKey k _ _) = used KeystoreKind k"
| "uses (Spawn sp _ _ task) = used_by_spawner sp @ used_by_task task"
| "uses (NewFullPool _ _ _ sp c) = used_by_spawner sp @ used ClientKind c"
| "uses (GrandpaBlockImport c ch t) = used ClientKind c @ used_by_chain ch @ used_option TelemetryKind t"
| "uses (SlotDuration c) = used ClientKind c"
| "uses (ImportQueue p) = used BlockImportKind (iq_block_import p) @
     used_option BlockImportKind (iq_justification_import p) @ used ClientKind (iq_client p) @
     used_by_inherents (iq_inherents p) @ used_by_spawner (iq_spawner p) @
     used_by_author (iq_can_author_with p) @ used_option TelemetryKind (iq_telemetry p)"
| "uses (SetRemoteKeystore k) = used KeystoreKind k"
| "uses (BuildNetwork p) = used ClientKind (bn_client p) @ used PoolKind (bn_transaction_pool p) @
     used_by_spawner (bn_spawn_handle p) @ used ImportQueueKind (bn_import_queue p) @
     used_option OnDemandKind (bn_on_demand p) @ used_by_warp_sync (bn_warp_sync p)"
| "uses (BuildOffchainWorkers _ sp c n) = used_by_spawner sp @ used ClientKind c @ used NetworkKind n"
| "uses (SpawnTasks p) = used NetworkKind (st_network p) @ used ClientKind (st_client p) @
     used KeystoreKind (st_keystore p) @ used TaskManagerKind (st_task_manager p) @
     used PoolKind (st_transaction_pool p) @ used_by_rpc (st_rpc_extensions_builder p) @
     used_option OnDemandKind (st_on_demand p) @ used_option BackendKind (st_remote_blockchain p) @
     used BackendKind (st_backend p) @ used SystemRpcTxKind (st_system_rpc_tx p) @
     used_option TelemetryKind (st_telemetry p)"
| "uses (StartAura p) = used SlotDurationKind (sa_slot_duration p) @ used ClientKind (sa_client p) @
     used_by_chain (sa_select_chain p) @ used BlockImportKind (sa_block_import p) @
     used_by_proposer (sa_proposer_factory p) @ used_by_inherents (sa_inherents p) @
     used KeystoreKind (sa_keystore p) @ used_by_author (sa_can_author_with p) @
     used NetworkKind (sa_sync_oracle p) @ used NetworkKind (sa_justification_sync_link p) @
     used_option TelemetryKind (sa_telemetry p)"
| "uses (RunGrandpaVoter p) = used_by_grandpa (gp_config p) @ used GrandpaLinkKind (gp_link p) @
     used NetworkKind (gp_network p) @ used_option TelemetryKind (gp_telemetry p)"
| "uses (NewLightParts _ t _) = used_option TelemetryKind t"
| "uses (NewLightPool _ _ sp c d) = used_by_spawner sp @ used ClientKind c @ used OnDemandKind d"
| "uses (RunGrandpaObserver g l n) = used_by_grandpa g @ used GrandpaLinkKind l @ used NetworkKind n"
| "uses (StartNetwork s) = used NetworkStarterKind s"
| "uses (RunSubcommand _ args tm) = used_by_args args @ used_option TaskManagerKind tm"
| "uses (RunNode tm) = used TaskManagerKind tm"

text \<open>Every service used is among those that earlier calls, or \<open>got\<close>, provide.\<close>

fun wired_from :: "(kind \<times> nat) list \<Rightarrow> nat \<Rightarrow> action list \<Rightarrow> bool" where
  "wired_from got n [] = True"
| "wired_from got n (a # as) =
     (set (uses a) \<subseteq> set got \<and> wired_from (got @ map (\<lambda>k. (k, n)) (makes a)) (Suc n) as)"

definition wired :: "action list \<Rightarrow> bool" where
  "wired as = wired_from [] 0 as"

text \<open>At most one of each, except futures and slot durations, of which a node has several.\<close>

definition one_of_each :: "action list \<Rightarrow> bool" where
  "one_of_each as = distinct (filter (\<lambda>k. k \<noteq> FutureKind \<and> k \<noteq> SlotDurationKind) (concat (map makes as)))"

lemma wired_provider:
  "wired_from got n as \<Longrightarrow> a \<in> set as \<Longrightarrow> (k, i) \<in> set (uses a) \<Longrightarrow>
   (k, i) \<in> set got \<or> n \<le> i \<and> i < n + length as \<and> k \<in> set (makes (as ! (i - n)))"
proof (induction as arbitrary: got n)
  case Nil
  then show ?case by simp
next
  case (Cons b as)
  show ?case
  proof (cases "a = b")
    case True
    with Cons.prems show ?thesis by auto
  next
    case False
    with Cons.prems have "a \<in> set as" "wired_from (got @ map (\<lambda>k. (k, n)) (makes b)) (Suc n) as" by auto
    from Cons.IH [OF this(2,1) Cons.prems(3)] show ?thesis
      by (auto simp: nth_Cons' Suc_diff_le)
  qed
qed

lemma one_provider:
  "distinct (filter P (concat (map makes as))) \<Longrightarrow> P k \<Longrightarrow> i < length as \<Longrightarrow> j < length as \<Longrightarrow>
   k \<in> set (makes (as ! i)) \<Longrightarrow> k \<in> set (makes (as ! j)) \<Longrightarrow> i = j"
proof (induction as arbitrary: i j)
  case Nil
  then show ?case by simp
next
  case (Cons b as)
  have "\<not> (k \<in> set (makes b) \<and> k \<in> set (makes (as ! l)))" if "l < length as" for l
    using Cons.prems(1,2) that by (auto simp: disjoint_iff)
  with Cons show ?case by (auto simp: nth_Cons split: nat.splits)
qed

text \<open>Hence all calls of a well-wired sequence that use a client use the same one, and so on.\<close>

lemma wired_shared:
  assumes "wired as" and "one_of_each as" and "a \<in> set as" and "b \<in> set as"
    and "(k, i) \<in> set (uses a)" and "(k, j) \<in> set (uses b)" and "k \<noteq> FutureKind" and "k \<noteq> SlotDurationKind"
  shows "i = j"
  using wired_provider [of "[]" 0 as a k i] wired_provider [of "[]" 0 as b k j]
    one_provider [of "\<lambda>k. k \<noteq> FutureKind \<and> k \<noteq> SlotDurationKind" as k i j] assms
  by (simp add: wired_def one_of_each_def)

lemma wired_prefix: "wired_from got n (as @ bs) \<Longrightarrow> wired_from got n as"
  by (induction as arbitrary: got n) auto

lemma one_of_each_prefix: "one_of_each (as @ bs) \<Longrightarrow> one_of_each as"
  by (simp add: one_of_each_def)

section \<open>The steps of a plan\<close>

text \<open>
  A call without the services it is given: every setting among its arguments, and of an optional service
  whether it is given. A spawner counts as the setting whether tasks are essential.
\<close>

record grandpa_settings =
  gs_gossip_millis :: nat
  gs_justification_period :: nat
  gs_name :: "string option"
  gs_observer_enabled :: bool
  gs_keystore :: bool
  gs_role :: role
  gs_telemetry :: bool

record aura_settings =
  as_force_authoring :: bool
  as_backoff :: "unit option"
  as_slot_portion :: "nat \<times> nat"
  as_max_slot_portion :: "(nat \<times> nat) option"
  as_native_author :: bool
  as_telemetry :: bool
  as_proposer_essential :: bool
  as_proposer_registry :: "nat option"
  as_proposer_telemetry :: bool

record queue_settings =
  qs_justification_import :: bool
  qs_native_author :: bool
  qs_essential :: bool
  qs_registry :: "nat option"
  qs_telemetry :: bool

record network_settings =
  ns_config :: config
  ns_essential :: bool
  ns_on_demand :: bool
  ns_announce_validator :: "unit option"
  ns_warp_sync :: bool

record tasks_settings =
  ts_config :: config
  ts_rpc :: bool
  ts_on_demand :: bool
  ts_remote_blockchain :: bool
  ts_telemetry :: bool

datatype args_settings =
    CliOnly
  | SpecNetwork string network_config
  | WithQueue
  | WithDatabase string
  | WithSpec string
  | JustDatabase string
  | WithBackend
  | FullConfig config

datatype step =
    TelemetryWorkerStep nat
  | TelemetryStep "string list"
  | FullPartsStep config bool native_executor \<comment> \<open>whether there is telemetry\<close>
  | LightPartsStep config bool native_executor
  | KeyStep string string
  | SpawnStep bool bool string \<comment> \<open>whether the task is essential, and whether it may block\<close>
  | PoolStep nat bool "nat option" bool \<comment> \<open>the options, for an authority, the registry, essential tasks\<close>
  | LightPoolStep nat "nat option" bool
  | BlockImportStep bool \<comment> \<open>whether there is telemetry\<close>
  | SlotDurationStep
  | ImportQueueStep queue_settings
  | RemoteKeystoreStep
  | NetworkStep network_settings
  | OffchainWorkersStep config bool \<comment> \<open>essential tasks\<close>
  | TasksStep tasks_settings
  | AuraStep aura_settings
  | VoterStep grandpa_settings "nat option" bool \<comment> \<open>the registry, and whether there is telemetry\<close>
  | ObserverStep grandpa_settings
  | StartNetworkStep
  | SubcommandStep subcommand args_settings bool \<comment> \<open>whether with a task manager\<close>
  | NodeStep

fun is_essential :: "spawner \<Rightarrow> bool" where
  "is_essential (EssentialHandle _) = True"
| "is_essential (SpawnHandle _) = False"

fun proposer_parts :: "proposer_factory \<Rightarrow> bool \<times> nat option \<times> bool" where
  "proposer_parts (ProposerFactory sp _ _ registry telemetry) = (is_essential sp, registry, telemetry \<noteq> None)"

definition grandpa_settings_of :: "grandpa_config \<Rightarrow> grandpa_settings" where
  "grandpa_settings_of g = \<lparr>gs_gossip_millis = gossip_millis g,
     gs_justification_period = justification_period g, gs_name = grandpa_name g,
     gs_observer_enabled = observer_enabled g, gs_keystore = (grandpa_keystore g \<noteq> None),
     gs_role = local_role g, gs_telemetry = (grandpa_telemetry g \<noteq> None)\<rparr>"

definition aura_settings_of :: "start_aura_params \<Rightarrow> aura_settings" where
  "aura_settings_of p = (case proposer_parts (sa_proposer_factory p) of (essential, registry, telemetry) \<Rightarrow>
     \<lparr>as_force_authoring = sa_force_authoring p, as_backoff = sa_backoff_authoring_blocks p,
      as_slot_portion = sa_slot_portion p, as_max_slot_portion = sa_max_slot_portion p,
      as_native_author = (sa_can_author_with p \<noteq> NeverCanAuthor), as_telemetry = (sa_telemetry p \<noteq> None),
      as_proposer_essential = essential, as_proposer_registry = registry, as_proposer_telemetry = telemetry\<rparr>)"

definition queue_settings_of :: "import_queue_params \<Rightarrow> queue_settings" where
  "queue_settings_of p = \<lparr>qs_justification_import = (iq_justification_import p \<noteq> None),
     qs_native_author = (iq_can_author_with p \<noteq> NeverCanAuthor), qs_essential = is_essential (iq_spawner p),
     qs_registry = iq_registry p, qs_telemetry = (iq_telemetry p \<noteq> None)\<rparr>"

definition network_settings_of :: "build_network_params \<Rightarrow> network_settings" where
  "network_settings_of p = \<lparr>ns_config = bn_config p, ns_essential = is_essential (bn_spawn_handle p),
     ns_on_demand = (bn_on_demand p \<noteq> None), ns_announce_validator = bn_block_announce_validator_builder p,
     ns_warp_sync = (bn_warp_sync p \<noteq> None)\<rparr>"

definition tasks_settings_of :: "spawn_tasks_params \<Rightarrow> tasks_settings" where
  "tasks_settings_of p = \<lparr>ts_config = st_config p, ts_rpc = (st_rpc_extensions_builder p \<noteq> NoRpc),
     ts_on_demand = (st_on_demand p \<noteq> None), ts_remote_blockchain = (st_remote_blockchain p \<noteq> None),
     ts_telemetry = (st_telemetry p \<noteq> None)\<rparr>"

fun args_settings_of :: "command_args \<Rightarrow> args_settings" where
  "args_settings_of CliArgs = CliOnly"
| "args_settings_of (SpecAndNetwork spec net) = SpecNetwork spec net"
| "args_settings_of (ClientAndQueue _ _) = WithQueue"
| "args_settings_of (ClientAndDatabase _ db) = WithDatabase db"
| "args_settings_of (ClientAndSpec _ spec) = WithSpec spec"
| "args_settings_of (DatabaseOnly db) = JustDatabase db"
| "args_settings_of (ClientAndBackend _ _) = WithBackend"
| "args_settings_of (WholeConfig config) = FullConfig config"

fun step_of :: "action \<Rightarrow> step" where
  "step_of (NewTelemetryWorker buffer) = TelemetryWorkerStep buffer"
| "step_of (NewTelemetry _ endpoints) = TelemetryStep endpoints"
| "step_of (NewFullParts config telemetry ex) = FullPartsStep config (telemetry \<noteq> None) ex"
| "step_of (GenerateKey _ key_type seed) = KeyStep key_type seed"
| "step_of (Spawn sp blocking name _) = SpawnStep (is_essential sp) blocking name"
| "step_of (NewFullPool options authority registry sp _) = PoolStep options authority registry (is_essential sp)"
| "step_of (GrandpaBlockImport _ _ telemetry) = BlockImportStep (telemetry \<noteq> None)"
| "step_of (SlotDuration _) = SlotDurationStep"
| "step_of (ImportQueue p) = ImportQueueStep (queue_settings_of p)"
| "step_of (SetRemoteKeystore _) = RemoteKeystoreStep"
| "step_of (BuildNetwork p) = NetworkStep (network_settings_of p)"
| "step_of (BuildOffchainWorkers config sp _ _) = OffchainWorkersStep config (is_essential sp)"
| "step_of (SpawnTasks p) = TasksStep (tasks_settings_of p)"
| "step_of (StartAura p) = AuraStep (aura_settings_of p)"
| "step_of (RunGrandpaVoter p) =
     VoterStep (grandpa_settings_of (gp_config p)) (gp_registry p) (gp_telemetry p \<noteq> None)"
| "step_of (NewLightParts config telemetry ex) = LightPartsStep config (telemetry \<noteq> None) ex"
| "step_of (NewLightPool options registry sp _ _) = LightPoolStep options registry (is_essential sp)"
| "step_of (RunGrandpaObserver g _ _) = ObserverStep (grandpa_settings_of g)"
| "step_of (StartNetwork _) = StartNetworkStep"
| "step_of (RunSubcommand c args tm) = SubcommandStep c (args_settings_of args) (tm \<noteq> None)"
| "step_of (RunNode _) = NodeStep"

text \<open>What is to be done for a configuration, step by step and with all settings spelled out.\<close>

definition has_telemetry :: "config \<Rightarrow> bool" where
  "has_telemetry config \<longleftrightarrow> telemetry_endpoints config \<noteq> None \<and> telemetry_endpoints config \<noteq> Some []"

definition telemetry_steps :: "config \<Rightarrow> step list" where
  "telemetry_steps config = (if has_telemetry config
     then [TelemetryWorkerStep 16, TelemetryStep (the (telemetry_endpoints config))] else [])"

definition telemetry_spawn_steps :: "config \<Rightarrow> step list" where
  "telemetry_spawn_steps config = (if has_telemetry config then [SpawnStep False False ''telemetry''] else [])"

definition executor_settings :: "config \<Rightarrow> native_executor" where
  "executor_settings config = \<lparr>ex_wasm_method = wasm_method config, ex_heap_pages = default_heap_pages config,
     ex_max_instances = max_runtime_instances config\<rparr>"

definition import_queue_step :: "bool \<Rightarrow> config \<Rightarrow> step" where
  "import_queue_step native config = ImportQueueStep \<lparr>qs_justification_import = True,
     qs_native_author = native, qs_essential = True, qs_registry = prometheus_registry config,
     qs_telemetry = has_telemetry config\<rparr>"

text \<open>The configuration with the peer set of Grandpa among the extra sets of the network.\<close>

definition grandpa_network :: "config \<Rightarrow> config" where
  "grandpa_network config = config\<lparr>config_network := \<lparr>nc_node_name = nc_node_name (config_network config),
     nc_extra_sets = nc_extra_sets (config_network config) @ [GrandpaPeersSet]\<rparr>\<rparr>"

definition network_step :: "bool \<Rightarrow> config \<Rightarrow> step" where
  "network_step on_demand config = NetworkStep \<lparr>ns_config = grandpa_network config, ns_essential = False,
     ns_on_demand = on_demand, ns_announce_validator = None, ns_warp_sync = True\<rparr>"

definition tasks_step :: "bool \<Rightarrow> config \<Rightarrow> step" where
  "tasks_step light config = TasksStep \<lparr>ts_config = grandpa_network config, ts_rpc = (\<not> light),
     ts_on_demand = light, ts_remote_blockchain = light, ts_telemetry = has_telemetry config\<rparr>"

definition worker_steps :: "config \<Rightarrow> step list" where
  "worker_steps config =
     (if offchain_worker_enabled config then [OffchainWorkersStep (grandpa_network config) False] else [])"

text \<open>A round of gossip every 333 milliseconds, a justification every 512 blocks, no observer.\<close>

definition grandpa_step_settings :: "config \<Rightarrow> grandpa_settings" where
  "grandpa_step_settings config = \<lparr>gs_gossip_millis = 333, gs_justification_period = 512,
     gs_name = Some (nc_node_name (config_network config)), gs_observer_enabled = False,
     gs_keystore = (node_role config = Authority), gs_role = node_role config,
     gs_telemetry = has_telemetry config\<rparr>"

text \<open>Two thirds of a slot for a proposal, and no longer.\<close>

definition aura_step :: "config \<Rightarrow> step" where
  "aura_step config = AuraStep \<lparr>as_force_authoring = force_authoring config, as_backoff = None,
     as_slot_portion = (2, 3), as_max_slot_portion = None, as_native_author = True,
     as_telemetry = has_telemetry config, as_proposer_essential = False,
     as_proposer_registry = prometheus_registry config, as_proposer_telemetry = has_telemetry config\<rparr>"

definition partial_steps :: "config \<Rightarrow> step list" where
  "partial_steps config =
     telemetry_steps config @ [FullPartsStep config (has_telemetry config) (executor_settings config)] @
     (if offchain_worker_enabled config then [KeyStep ''demo'' ''//Alice'', KeyStep ''btc!'' ''//Alice''] else []) @
     telemetry_spawn_steps config @
     [PoolStep (transaction_pool_options config) (node_role config = Authority) (prometheus_registry config) True,
      BlockImportStep (has_telemetry config), SlotDurationStep, import_queue_step True config]"

definition full_steps :: "config \<Rightarrow> step list" where
  "full_steps config =
     partial_steps config @ [network_step False config] @ worker_steps config @ [tasks_step False config] @
     (if node_role config = Authority
      then [SlotDurationStep, aura_step config, SpawnStep True True ''aura''] else []) @
     (if disable_grandpa config then []
      else [VoterStep (grandpa_step_settings config) (prometheus_registry config) (has_telemetry config),
        SpawnStep True True ''grandpa-voter'']) @
     [StartNetworkStep]"

definition light_steps :: "config \<Rightarrow> step list" where
  "light_steps config =
     telemetry_steps config @ [LightPartsStep config (has_telemetry config) (executor_settings config)] @
     telemetry_spawn_steps config @
     [LightPoolStep (transaction_pool_options config) (prometheus_registry config) True,
      BlockImportStep (has_telemetry config), SlotDurationStep, import_queue_step False config,
      network_step True config] @
     worker_steps config @
     (if disable_grandpa config then []
      else [ObserverStep (grandpa_step_settings config), SpawnStep False True ''grandpa-observer'']) @
     [tasks_step True config, StartNetworkStep]"

section \<open>What the plans are\<close>

text \<open>The network is built with the peer set of Grandpa in its configuration.\<close>

fun network_has_grandpa :: "action \<Rightarrow> bool" where
  "network_has_grandpa (BuildNetwork p) = (GrandpaPeersSet \<in> set (nc_extra_sets (config_network (bn_config p))))"
| "network_has_grandpa _ = True"

definition sound_plan :: "action list \<Rightarrow> bool" where
  "sound_plan as \<longleftrightarrow> wired as \<and> one_of_each as \<and> list_all network_has_grandpa as"

lemma sound_plan_prefix: "sound_plan (as @ bs) \<Longrightarrow> sound_plan as"
  by (auto simp: sound_plan_def wired_def dest: wired_prefix one_of_each_prefix)

lemmas step_list_defs = telemetry_steps_def telemetry_spawn_steps_def partial_steps_def full_steps_def light_steps_def
  has_telemetry_def import_queue_step_def network_step_def tasks_step_def worker_steps_def aura_step_def
  grandpa_step_settings_def grandpa_network_def executor_settings_def
lemmas settings_of_defs = grandpa_settings_of_def aura_settings_of_def queue_settings_of_def
  network_settings_of_def tasks_settings_of_def new_executor_def
lemmas service_defs = new_partial_def new_full_def new_light_def new_telemetry_def spawn_telemetry_def
  hook_remote_keystore_def start_authoring_def start_voting_def guarded_def Let_def run_simps
lemmas sound_defs = sound_plan_def wired_def one_of_each_def used_option_def used_by_grandpa_def
  push_grandpa_peers_set_def

end
