(* ===== verification/Command.thy ===== *)
theory Command
  imports Service_Plan
begin

text \<open>
  \<open>node/src/cli.rs\<close> and \<open>run\<close> of \<open>node/src/command.rs\<close>: what each command does, as the calls that
  reach the services, and the properties of whole runs of the node's binary. Parsing the command
  line is not part of the repository: \<open>Cli\<close> is an argument, and \<open>create_runner\<close> stands for
  \<open>Cli::create_runner\<close>, which yields the configuration of a command or an error.
\<close>

section \<open>The command line\<close>

record 'run cli =
  cli_subcommand :: "subcommand option"
  cli_run :: 'run

text \<open>\<open>sc_cli::Error\<close>: a message, an error of the service, or an error of Substrate's command line code.\<close>

datatype 'e cli_error = CliInput string | CliService "'e service_error" | CliExternal 'e

type_synonym ('e, 'a) command = "(action list, ('e cli_error + 'a) option) state"

text \<open>\<open>cmd.run\<close>, reached directly or inside the runner, and the node running until it exits.\<close>

definition perform_command :: "(action \<Rightarrow> 'e option) \<Rightarrow> action \<Rightarrow> ('e, unit) command" where
  "perform_command fails a = State (\<lambda>tr.
     (case fails a of None \<Rightarrow> Some (Ok ()) | Some e \<Rightarrow> Some (Err (CliExternal e)), tr @ [a]))"

definition in_service :: "('e, 'a) service \<Rightarrow> ('e, 'a) command" where
  "in_service m = map_run (map_option (map_err CliService)) m"

definition run ::
  "bool \<Rightarrow> (subcommand + 'run \<Rightarrow> 'e + config) \<Rightarrow> (action \<Rightarrow> 'e option) \<Rightarrow> 'run cli \<Rightarrow> ('e, unit) command" where
  "run runtime_benchmarks create_runner fails cli =
     (let runner = (\<lambda>cmd. State_Monad.return (Some (map_err CliExternal (create_runner cmd))));
          sync_run = (\<lambda>cmd args. bind_panic (runner (Inl cmd)) (\<lambda>config.
            perform_command fails (RunSubcommand cmd (args config) None)));
          async_run = (\<lambda>cmd args. bind_panic (runner (Inl cmd)) (\<lambda>config.
            bind_panic (in_service (new_partial fails config)) (\<lambda>parts.
            perform_command fails (RunSubcommand cmd (args config parts) (Some (pc_task_manager parts))))))
      in case cli_subcommand cli of
           Some Key \<Rightarrow> perform_command fails (RunSubcommand Key CliArgs None)
         | Some BuildSpec \<Rightarrow> sync_run BuildSpec (\<lambda>config.
             SpecAndNetwork (config_chain_spec config) (config_network config))
         | Some CheckBlock \<Rightarrow> async_run CheckBlock (\<lambda>config parts.
             ClientAndQueue (pc_client parts) (pc_import_queue parts))
         | Some ExportBlocks \<Rightarrow> async_run ExportBlocks (\<lambda>config parts.
             ClientAndDatabase (pc_client parts) (config_database config))
         | Some ExportState \<Rightarrow> async_run ExportState (\<lambda>config parts.
             ClientAndSpec (pc_client parts) (config_chain_spec config))
         | Some ImportBlocks \<Rightarrow> async_run ImportBlocks (\<lambda>config parts.
             ClientAndQueue (pc_client parts) (pc_import_queue parts))
         | Some PurgeChain \<Rightarrow> sync_run PurgeChain (\<lambda>config. DatabaseOnly (config_database config))
         | Some Revert \<Rightarrow> async_run Revert (\<lambda>config parts.
             ClientAndBackend (pc_client parts) (pc_backend parts))
         | Some Benchmark \<Rightarrow>
             if runtime_benchmarks then sync_run Benchmark (\<lambda>config. WholeConfig config)
             else State_Monad.return (Some (Err (CliInput
               (''Benchmarking wasn't enabled when building the node. You can enable it with '' @
                ''`--features runtime-benchmarks`.''))))
         | None \<Rightarrow> bind_panic (runner (Inr (cli_run cli))) (\<lambda>config.
             bind_panic (in_service
               (case node_role config of
                  Light \<Rightarrow> new_light fails config
                | _ \<Rightarrow> new_full fails config)) (\<lambda>task_manager.
             perform_command fails (RunNode task_manager))))"

section \<open>A command follows its plan\<close>

fun carried :: "'e cli_error \<Rightarrow> 'e option" where
  "carried (CliService e) = external e"
| "carried (CliExternal e) = Some e"
| "carried (CliInput _) = None"

lemma in_service_tracks:
  assumes "tracks external fails m m0"
  shows "tracks carried fails (in_service m) (in_service m0)"
  unfolding tracks_def
proof
  fix tr
  let ?f = "map_option (map_err CliService)"
  obtain r0 plan r as where m: "run_state m0 tr = (r0, tr @ plan)" "run_state m tr = (r, tr @ as)"
    "follows external fails r0 plan r as"
    using assms by (rule tracksE)
  have "shows_failure external a e r \<Longrightarrow> shows_failure carried a e (?f r)" for a e
    by (auto simp: shows_failure_def split: if_splits)
  then have "follows carried fails (?f r0) plan (?f r) as"
    using m(3) unfolding follows_def by blast
  then show "\<exists>r0 plan r as. run_state (in_service m0) tr = (r0, tr @ plan) \<and>
      run_state (in_service m) tr = (r, tr @ as) \<and> follows carried fails r0 plan r as"
    using m(1,2) by (auto simp: in_service_def run_simps)
qed

lemma perform_command_tracks:
  "fallible a \<Longrightarrow> \<not> generates_key a \<Longrightarrow>
   tracks carried fails (perform_command fails a) (perform_command (\<lambda>_. None) a)"
  by (auto simp: tracks_def perform_command_def shows_failure_def intro!: follows_call split: option.splits)

lemma run_tracks:
  "tracks carried fails (run benchmarks create_runner fails cli) (run benchmarks create_runner (\<lambda>_. None) cli)"
  unfolding run_def Let_def
  by (auto intro!: tracks_bind tracks_return in_service_tracks perform_command_tracks new_partial_tracks
        new_full_tracks new_light_tracks split: option.split subcommand.split role.split)

section \<open>The plan of a command\<close>

lemma run_planned_command [run_simps]:
  "run_state (perform_command (\<lambda>_. None) a) tr = (Some (Ok ()), tr @ [a])"
  "run_state (in_service m) tr = (case run_state m tr of (r, tr') \<Rightarrow> (map_option (map_err CliService) r, tr'))"
  by (simp_all add: perform_command_def in_service_def run_simps)

text \<open>Whether a command builds the parts of a full node.\<close>

definition builds_full_parts :: "subcommand option \<Rightarrow> config \<Rightarrow> bool" where
  "builds_full_parts cmd config =
     (case cmd of
        None \<Rightarrow> node_role config \<noteq> Light
      | Some c \<Rightarrow> c \<in> {CheckBlock, ExportBlocks, ExportState, ImportBlocks, Revert})"

text \<open>What a subcommand is given besides services.\<close>

fun subcommand_settings :: "subcommand \<Rightarrow> config \<Rightarrow> args_settings" where
  "subcommand_settings Key config = CliOnly"
| "subcommand_settings BuildSpec config = SpecNetwork (config_chain_spec config) (config_network config)"
| "subcommand_settings CheckBlock config = WithQueue"
| "subcommand_settings ExportBlocks config = WithDatabase (config_database config)"
| "subcommand_settings ExportState config = WithSpec (config_chain_spec config)"
| "subcommand_settings ImportBlocks config = WithQueue"
| "subcommand_settings PurgeChain config = JustDatabase (config_database config)"
| "subcommand_settings Revert config = WithBackend"
| "subcommand_settings Benchmark config = FullConfig config"

definition command_steps :: "subcommand option \<Rightarrow> config \<Rightarrow> step list" where
  "command_steps cmd config =
     (case cmd of
        None \<Rightarrow> (if node_role config = Light then light_steps config else full_steps config) @ [NodeStep]
      | Some c \<Rightarrow> (if builds_full_parts cmd config then partial_steps config else []) @
          [SubcommandStep c (subcommand_settings c config) (builds_full_parts cmd config)])"

text \<open>The settings for which a command is carried out at all.\<close>

definition supported :: "bool \<Rightarrow> subcommand option \<Rightarrow> config \<Rightarrow> bool" where
  "supported benchmarks cmd config \<longleftrightarrow>
     (cmd = Some Benchmark \<longrightarrow> benchmarks) \<and> (builds_full_parts cmd config \<longrightarrow> keystore_remote config = None)"

abbreviation runner_of :: "'run cli \<Rightarrow> subcommand + 'run" where
  "runner_of cli \<equiv> (case cli_subcommand cli of None \<Rightarrow> Inr (cli_run cli) | Some c \<Rightarrow> Inl c)"

lemmas plan_simps = run_def service_defs run_planned_command step_list_defs sound_defs settings_of_defs
  ocw_KEY_TYPE_def example_KEY_TYPE_def is_authority_def

lemma light_plan:
  assumes "node_role config = Light" and "cli_subcommand cli = None" and "create_runner (Inr (cli_run cli)) = Ok config"
  shows "\<exists>plan. run_state (run b create_runner (\<lambda>_. None) cli) [] = (Some (Ok ()), plan) \<and>
    map step_of plan = light_steps config @ [NodeStep] \<and> sound_plan plan"
  using assms
  by (cases "telemetry_endpoints config"; cases "offchain_worker_enabled config"; cases "disable_grandpa config")
    (simp_all add: plan_simps)

lemma full_plan:
  assumes "node_role config \<noteq> Light" and "cli_subcommand cli = None"
    and "create_runner (Inr (cli_run cli)) = Ok config" and "keystore_remote config = None"
  shows "\<exists>plan. run_state (run b create_runner (\<lambda>_. None) cli) [] = (Some (Ok ()), plan) \<and>
    map step_of plan = full_steps config @ [NodeStep] \<and> sound_plan plan"
  using assms
  by (cases "telemetry_endpoints config"; cases "offchain_worker_enabled config";
      cases "disable_grandpa config"; cases "node_role config")
    (simp_all add: plan_simps)

lemma subcommand_plan:
  assumes "cli_subcommand cli = Some c" and "c = Key \<or> create_runner (Inl c) = Ok config"
    and "supported b (Some c) config"
  shows "\<exists>plan. run_state (run b create_runner (\<lambda>_. None) cli) [] = (Some (Ok ()), plan) \<and>
    map step_of plan = command_steps (Some c) config \<and> sound_plan plan"
  using assms
  by (cases c; cases "telemetry_endpoints config"; cases "offchain_worker_enabled config")
    (simp_all add: plan_simps command_steps_def builds_full_parts_def supported_def)

lemma refused_plan:
  assumes "cli_subcommand cli \<noteq> Some Key"
    and "create_runner (runner_of cli) = Err e \<or>
      create_runner (runner_of cli) = Ok config \<and> \<not> supported b (cli_subcommand cli) config"
  shows "\<exists>x. run_state (run b create_runner (\<lambda>_. None) cli) [] = (Some (Err x), []) \<and>
    (\<forall>e. carried x = Some e \<longrightarrow> create_runner (runner_of cli) = Err e)"
proof (cases "cli_subcommand cli")
  case None
  with assms(2) show ?thesis
    by (cases "node_role config") (auto simp: plan_simps supported_def builds_full_parts_def)
next
  case (Some c)
  with assms show ?thesis
    by (cases c) (auto simp: plan_simps supported_def builds_full_parts_def)
qed

definition plan_of :: "bool \<Rightarrow> (subcommand + 'run \<Rightarrow> 'e + config) \<Rightarrow> 'run cli \<Rightarrow> action list" where
  "plan_of b create_runner cli = snd (run_state (run b create_runner (\<lambda>_. None) cli) [])"

text \<open>The configuration with which a command is carried out; \<open>Key\<close> needs none.\<close>

definition carried_out ::
  "bool \<Rightarrow> (subcommand + 'run \<Rightarrow> 'e + config) \<Rightarrow> 'run cli \<Rightarrow> config \<Rightarrow> bool" where
  "carried_out b create_runner cli config \<longleftrightarrow>
     (cli_subcommand cli = Some Key \<or> create_runner (runner_of cli) = Ok config) \<and>
     supported b (cli_subcommand cli) config"

lemma plan_carried_out:
  assumes "carried_out b create_runner cli config"
  shows "run_state (run b create_runner (\<lambda>_. None) cli) [] = (Some (Ok ()), plan_of b create_runner cli)"
    and "map step_of (plan_of b create_runner cli) = command_steps (cli_subcommand cli) config"
    and "sound_plan (plan_of b create_runner cli)"
proof -
  have "\<exists>plan. run_state (run b create_runner (\<lambda>_. None) cli) [] = (Some (Ok ()), plan) \<and>
    map step_of plan = command_steps (cli_subcommand cli) config \<and> sound_plan plan"
  proof (cases "cli_subcommand cli")
    case None
    with assms light_plan [of config cli create_runner b] full_plan [of config cli create_runner b]
    show ?thesis
      by (cases "node_role config = Light")
        (auto simp: carried_out_def command_steps_def supported_def builds_full_parts_def)
  next
    case (Some c)
    with assms subcommand_plan [of cli c create_runner config b] show ?thesis
      by (auto simp: carried_out_def)
  qed
  then show "run_state (run b create_runner (\<lambda>_. None) cli) [] = (Some (Ok ()), plan_of b create_runner cli)"
    "map step_of (plan_of b create_runner cli) = command_steps (cli_subcommand cli) config"
    "sound_plan (plan_of b create_runner cli)"
    by (auto simp: plan_of_def)
qed

lemma plan_refused:
  assumes "\<nexists>config. carried_out b create_runner cli config"
  shows "\<exists>x. run_state (run b create_runner (\<lambda>_. None) cli) [] = (Some (Err x), []) \<and>
    (\<forall>e. carried x = Some e \<longrightarrow> create_runner (runner_of cli) = Err e)"
proof (cases "create_runner (runner_of cli)")
  case (Inl e)
  moreover have "cli_subcommand cli \<noteq> Some Key"
    using assms by (auto simp: carried_out_def supported_def builds_full_parts_def)
  ultimately show ?thesis using refused_plan [of cli create_runner e] by blast
next
  case (Inr config)
  moreover have "cli_subcommand cli \<noteq> Some Key" "\<not> supported b (cli_subcommand cli) config"
    using assms Inr by (auto simp: carried_out_def supported_def builds_full_parts_def)
  ultimately show ?thesis using refused_plan [of cli create_runner _ config b] by blast
qed

lemma plan_sound: "sound_plan (plan_of b create_runner cli)"
proof (cases "\<exists>config. carried_out b create_runner cli config")
  case True
  then show ?thesis using plan_carried_out(3) by blast
next
  case False
  then have "plan_of b create_runner cli = []" using plan_refused by (fastforce simp: plan_of_def)
  then show ?thesis by (simp add: sound_defs)
qed

text \<open>Any run against its plan.\<close>

lemma run_follows:
  "\<exists>r as. run_state (run b create_runner fails cli) [] = (r, as) \<and>
     follows carried fails (fst (run_state (run b create_runner (\<lambda>_. None) cli) []))
       (plan_of b create_runner cli) r as"
proof -
  obtain r0 plan r as where "run_state (run b create_runner (\<lambda>_. None) cli) [] = (r0, [] @ plan)"
    "run_state (run b create_runner fails cli) [] = (r, [] @ as)" "follows carried fails r0 plan r as"
    using run_tracks by (rule tracksE)
  then show ?thesis by (simp add: plan_of_def)
qed

lemma run_is_prefix:
  assumes "run_state (run b create_runner fails cli) [] = (r, tr)"
  shows "tr = take (length tr) (plan_of b create_runner cli)"
  using run_follows [of b create_runner fails cli] assms by (auto simp: follows_def)

lemma run_success:
  assumes "run_state (run b create_runner fails cli) [] = (Some (Ok ()), tr)"
  shows "\<exists>config. carried_out b create_runner cli config \<and>
      map step_of tr = command_steps (cli_subcommand cli) config"
    and "tr = plan_of b create_runner cli" and "none_fails fails tr"
proof -
  have follows: "follows carried fails (fst (run_state (run b create_runner (\<lambda>_. None) cli) []))
      (plan_of b create_runner cli) (Some (Ok ())) tr"
    using run_follows [of b create_runner fails cli] assms by auto
  from follows_ok [OF follows] show plan: "tr = plan_of b create_runner cli" "none_fails fails tr"
    by auto
  have "\<exists>config. carried_out b create_runner cli config"
    using follows_ok [OF follows] plan_refused [of b create_runner cli] by fastforce
  then show "\<exists>config. carried_out b create_runner cli config \<and>
      map step_of tr = command_steps (cli_subcommand cli) config"
    using plan_carried_out(2) plan(1) by blast
qed

section \<open>Properties\<close>

text \<open>
  C33. When the command line succeeds, and what it has then done. For every command \<open>run\<close> succeeds
  exactly if the configuration can be built (\<open>Key\<close> needs none), no remote keystore is configured where the
  parts of a full node are built, \<open>Benchmark\<close> is compiled in, and no call that it makes on the way fails. The
  calls are then those of \<open>command_steps\<close>, in that order and with those settings, which leave out
  nothing but the services handed from call to call: without a subcommand the calls of a light
  node for the role \<open>Light\<close> and else those of a full node. There the two off-chain worker keys are
  generated, and the workers built, only if off-chain workers are enabled; block authoring starts only for
  an authority, with two thirds of a slot for a proposal; the voter or observer runs unless Grandpa is disabled,
  with a gossip round of 333 milliseconds and a justification every 512 blocks, and only an authority's voter has the
  keystore; authoring and voting are essential tasks; the network has the peer set of Grandpa and starts last, before
  the node runs. A subcommand is given the database, the chain specification or the whole
  configuration as it needs.
\<close>

theorem run_succeeds_iff:
  "run_state (run benchmarks create_runner fails cli) [] = (Some (Ok ()), tr) \<longleftrightarrow>
   (\<exists>config. carried_out benchmarks create_runner cli config \<and>
      tr = plan_of benchmarks create_runner cli \<and> none_fails fails tr \<and>
      map step_of tr = command_steps (cli_subcommand cli) config)"
proof
  assume "run_state (run benchmarks create_runner fails cli) [] = (Some (Ok ()), tr)"
  from run_success [OF this] show "\<exists>config. carried_out benchmarks create_runner cli config \<and>
      tr = plan_of benchmarks create_runner cli \<and> none_fails fails tr \<and>
      map step_of tr = command_steps (cli_subcommand cli) config" by blast
next
  assume "\<exists>config. carried_out benchmarks create_runner cli config \<and>
      tr = plan_of benchmarks create_runner cli \<and> none_fails fails tr \<and>
      map step_of tr = command_steps (cli_subcommand cli) config"
  then obtain config where "carried_out benchmarks create_runner cli config"
    and tr: "tr = plan_of benchmarks create_runner cli" "none_fails fails tr" by blast
  from plan_carried_out(1) [OF this(1)] run_follows [of benchmarks create_runner fails cli] tr
  show "run_state (run benchmarks create_runner fails cli) [] = (Some (Ok ()), tr)"
    by (auto simp: follows_def)
qed

text \<open>
  C34. Nothing runs after a failure. Whatever fails, the calls made are a prefix of the plan, and no call
  but the last one failed. If \<open>run\<close> passes on an error of Substrate's, it is the one of \<open>create_runner\<close> and
  no call was made, or that of the last call; an error of its own comes before any call;
  it panics only when the generation of an off-chain worker key fails, right then.
\<close>

theorem run_stops_at_first_failure:
  "\<exists>r tr. run_state (run benchmarks create_runner fails cli) [] = (r, tr) \<and>
     tr = take (length tr) (plan_of benchmarks create_runner cli) \<and>
     (case r of
        None \<Rightarrow> \<exists>bs k t s. tr = bs @ [GenerateKey k t s] \<and> fails (GenerateKey k t s) \<noteq> None \<and> none_fails fails bs
      | Some (Ok _) \<Rightarrow> none_fails fails tr
      | Some (Err x) \<Rightarrow> (case carried x of
            None \<Rightarrow> tr = []
          | Some e \<Rightarrow> create_runner (runner_of cli) = Err e \<and> tr = [] \<or>
              (\<exists>bs a. tr = bs @ [a] \<and> fails a = Some e \<and> none_fails fails bs)))"
    (is "\<exists>r tr. _ \<and> _ \<and> ?stops r tr")
proof -
  let ?plan = "plan_of benchmarks create_runner cli"
  let ?r0 = "fst (run_state (run benchmarks create_runner (\<lambda>_. None) cli) [])"
  obtain r as where r: "run_state (run benchmarks create_runner fails cli) [] = (r, as)"
    "follows carried fails ?r0 ?plan r as"
    using run_follows by blast
  have planned: "?stops ?r0 ?plan" if "none_fails fails ?plan"
  proof (cases "\<exists>config. carried_out benchmarks create_runner cli config")
    case True
    with that show ?thesis using plan_carried_out(1) by fastforce
  next
    case False
    from plan_refused [OF this] obtain x where
      "run_state (run benchmarks create_runner (\<lambda>_. None) cli) [] = (Some (Err x), [])"
      "\<forall>e. carried x = Some e \<longrightarrow> create_runner (runner_of cli) = Err e" by blast
    then show ?thesis by (simp add: plan_of_def split: option.split)
  qed
  have "?stops r as \<and> as = take (length as) ?plan"
    using r(2) unfolding follows_def
  proof (elim disjE exE conjE)
    fix bs a cs e
    assume cut: "?plan = bs @ a # cs" "as = bs @ [a]" "none_fails fails bs" "fails a = Some e"
      and "shows_failure carried a e r"
    then show ?thesis
      by (cases a) (auto simp: shows_failure_def)
  next
    assume eq: "r = ?r0" "as = ?plan" and "none_fails fails ?plan"
    from planned [OF this(3)] show ?thesis unfolding eq by (intro conjI) simp_all
  qed
  with r(1) show ?thesis by blast
qed

text \<open>
  C35. The services of a node are wired up correctly. In every run, whatever fails: each call is handed
  services that calls before it have made, of the kinds it takes; there is only one client, backend,
  keystore, task manager, pool, block import, Grandpa link, import queue, network and telemetry, so that
  whatever uses one of these, the network, the RPC extensions, block authoring, voting and the off-chain
  workers among them, shares it; and the network is built with the peer set of Grandpa.
\<close>

theorem services_are_wired:
  assumes "run_state (run benchmarks create_runner fails cli) [] = (r, tr)"
  shows "wired tr \<and> one_of_each tr \<and> list_all network_has_grandpa tr \<and>
    (\<forall>a b k i j. a \<in> set tr \<and> b \<in> set tr \<and> (k, i) \<in> set (uses a) \<and> (k, j) \<in> set (uses b) \<and>
       k \<noteq> FutureKind \<and> k \<noteq> SlotDurationKind \<longrightarrow> i = j)"
proof -
  have sound: "sound_plan tr"
    using run_is_prefix [OF assms] plan_sound [of benchmarks create_runner cli]
    by (metis append_take_drop_id sound_plan_prefix)
  then have "wired tr" "one_of_each tr" by (simp_all add: sound_plan_def)
  from wired_shared [OF this] sound show ?thesis
    unfolding sound_plan_def by blast
qed

section \<open>A concrete node\<close>

text \<open>An authority with telemetry and off-chain workers.\<close>

definition demo_node :: config where
  "demo_node = \<lparr>keystore_remote = None, telemetry_endpoints = Some [''wss://telemetry''], wasm_method = 0,
     default_heap_pages = None, max_runtime_instances = 8, offchain_worker_enabled = True,
     transaction_pool_options = 0, prometheus_registry = None, node_role = Authority, force_authoring = False,
     disable_grandpa = False, config_network = \<lparr>nc_node_name = ''alice'', nc_extra_sets = []\<rparr>,
     config_chain_spec = ''dev'', config_database = ''db''\<rparr>"

definition demo_cli :: "unit cli" where
  "demo_cli = \<lparr>cli_subcommand = None, cli_run = ()\<rparr>"

abbreviation demo_runner :: "subcommand + unit \<Rightarrow> unit + config" where
  "demo_runner \<equiv> \<lambda>_. Ok demo_node"

lemma demo_node_carried_out: "carried_out False demo_runner demo_cli demo_node"
  by (simp add: carried_out_def supported_def demo_cli_def demo_node_def)

text \<open>With the network refusing to start up, nothing after it is built.\<close>

theorem services_are_wired_witness:
  "\<exists>r tr. run_state (run False demo_runner (\<lambda>a. case a of BuildNetwork _ \<Rightarrow> Some () | _ \<Rightarrow> None) demo_cli) [] =
     (r, tr) \<and> wired tr \<and> one_of_each tr"
proof -
  obtain r tr where run: "run_state (run False demo_runner
      (\<lambda>a. case a of BuildNetwork _ \<Rightarrow> Some () | _ \<Rightarrow> None) demo_cli) [] = (r, tr)"
    by (rule prod.exhaust)
  from services_are_wired [OF this] run show ?thesis by blast
qed

text \<open>
  A remote keystore is refused before anything is built: the code in \<open>new_full\<close> that hooks one up
  never runs. A light node ignores the setting.
\<close>

lemma remote_keystore_is_refused:
  assumes "keystore_remote config \<noteq> None"
  shows "run_state (new_full fails config) tr =
      (Some (Err (OtherError ''Remote Keystores are not supported.'')), tr)"
    and "run_state (new_partial fails config) tr =
      (Some (Err (OtherError ''Remote Keystores are not supported.'')), tr)"
  using assms by (simp_all add: new_full_def new_partial_def run_simps)

lemma demo_node_steps:
  "map step_of (plan_of False demo_runner demo_cli) =
    [TelemetryWorkerStep 16, TelemetryStep [''wss://telemetry''],
     FullPartsStep demo_node True \<lparr>ex_wasm_method = 0, ex_heap_pages = None, ex_max_instances = 8\<rparr>,
     KeyStep ''demo'' ''//Alice'', KeyStep ''btc!'' ''//Alice'', SpawnStep False False ''telemetry'',
     PoolStep 0 True None True, BlockImportStep True, SlotDurationStep, import_queue_step True demo_node,
     network_step False demo_node, OffchainWorkersStep (grandpa_network demo_node) False,
     tasks_step False demo_node, SlotDurationStep, aura_step demo_node, SpawnStep True True ''aura'',
     VoterStep (grandpa_step_settings demo_node) None True, SpawnStep True True ''grandpa-voter'',
     StartNetworkStep, NodeStep]"
  using plan_carried_out(2) [OF demo_node_carried_out]
  by (simp add: command_steps_def full_steps_def partial_steps_def telemetry_steps_def
        telemetry_spawn_steps_def worker_steps_def has_telemetry_def executor_settings_def
        demo_cli_def) (simp add: demo_node_def)

end
