(* ===== verification/Chain_Spec.thy ===== *)
theory Chain_Spec
  imports Runtime
begin

text \<open>
  \<open>node/src/chain_spec.rs\<close> and \<open>load_spec\<close> of \<open>node/src/command.rs\<close>: deriving keys from seeds, the
  genesis configuration, and the two built-in chain specifications. Key derivation is not part of
  the repository: \<open>from_string\<close> stands for \<open>Pair::from_string(_, None)\<close> followed by
  \<open>public()\<close>, with \<open>None\<close> where parsing fails and the \<open>expect\<close> panics.
\<close>

section \<open>Keys\<close>

text \<open>
  The derivations the code uses: an sr25519 public key, which \<open>into_account\<close> makes an account, an
  Aura key and a Grandpa key.
\<close>

record ('pub, 'acc, 'aura, 'grandpa) key_derivation =
  public_from_string :: "string \<Rightarrow> 'pub option"
  into_account :: "'pub \<Rightarrow> 'acc"
  aura_from_string :: "string \<Rightarrow> 'aura option"
  grandpa_from_string :: "string \<Rightarrow> 'grandpa option"

definition get_from_seed :: "(string \<Rightarrow> 'k option) \<Rightarrow> string \<Rightarrow> 'k option" where
  "get_from_seed from_string seed = from_string (''//'' @ seed)"

definition get_account_id_from_seed ::
  "('pub, 'acc, 'aura, 'grandpa) key_derivation \<Rightarrow> string \<Rightarrow> 'acc option" where
  "get_account_id_from_seed kd seed = do {
     public \<leftarrow> get_from_seed (public_from_string kd) seed;
     Some (into_account kd public)
   }"

definition authority_keys_from_seed ::
  "('pub, 'acc, 'aura, 'grandpa) key_derivation \<Rightarrow> string \<Rightarrow> ('aura \<times> 'grandpa) option" where
  "authority_keys_from_seed kd s = do {
     a \<leftarrow> get_from_seed (aura_from_string kd) s;
     g \<leftarrow> get_from_seed (grandpa_from_string kd) s;
     Some (a, g)
   }"

section \<open>Genesis\<close>

record ('acc, 'aura, 'grandpa) genesis_config =
  gc_code :: "u8 list"
  gc_balances :: "('acc \<times> u128) list"
  gc_aura_authorities :: "'aura list"
  gc_grandpa_authorities :: "('grandpa \<times> u64) list"
  gc_sudo_key :: 'acc

definition testnet_genesis ::
  "u8 list \<Rightarrow> ('aura \<times> 'grandpa) list \<Rightarrow> 'acc \<Rightarrow> 'acc list \<Rightarrow> bool
     \<Rightarrow> ('acc, 'aura, 'grandpa) genesis_config" where
  "testnet_genesis wasm_binary initial_authorities root_key endowed_accounts enable_println = \<lparr>
     gc_code = wasm_binary,
     gc_balances = map (\<lambda>k. (k, push_bit 60 1)) endowed_accounts,
     gc_aura_authorities = map (\<lambda>x. fst x) initial_authorities,
     gc_grandpa_authorities = map (\<lambda>x. (snd x, 1)) initial_authorities,
     gc_sudo_key = root_key\<rparr>"

text \<open>Evaluating a \<open>vec!\<close> of keys: in order, and a panic in one of them is a panic.\<close>

fun eval_all :: "'a option list \<Rightarrow> 'a list option" where
  "eval_all [] = Some []"
| "eval_all (x # xs) = do { a \<leftarrow> x; as \<leftarrow> eval_all xs; Some (a # as) }"

section \<open>Chain specifications\<close>

datatype chain_type = Development | Local

text \<open>
  The arguments of \<open>ChainSpec::from_genesis\<close>. The genesis is a closure; its field is what the
  closure yields when it is run, \<open>None\<close> when that panics. The remaining arguments are the same
  in both specifications: no boot nodes, and \<open>None\<close> four times.
\<close>

record 'g chain_spec =
  cs_name :: string
  cs_id :: string
  cs_type :: chain_type
  cs_genesis :: "'g option"
  cs_boot_nodes :: "string list"

definition development_config ::
  "u8 list option \<Rightarrow> ('pub, 'acc, 'aura, 'grandpa) key_derivation
     \<Rightarrow> string + ('acc, 'aura, 'grandpa) genesis_config chain_spec" where
  "development_config WASM_BINARY kd =
     (case ok_or ''Development wasm not available'' WASM_BINARY of
        Err e \<Rightarrow> Err e
      | Ok wasm_binary \<Rightarrow> Ok \<lparr>
          cs_name = ''Development'',
          cs_id = ''dev'',
          cs_type = Development,
          cs_genesis = do {
            auths \<leftarrow> eval_all [authority_keys_from_seed kd ''Alice''];
            root \<leftarrow> get_account_id_from_seed kd ''Alice'';
            endowed \<leftarrow> eval_all [
              get_account_id_from_seed kd ''Alice'',
              get_account_id_from_seed kd ''Bob'',
              get_account_id_from_seed kd ''Alice//stash'',
              get_account_id_from_seed kd ''Bob//stash''];
            Some (testnet_genesis wasm_binary auths root endowed True)
          },
          cs_boot_nodes = []\<rparr>)"

definition local_testnet_config ::
  "u8 list option \<Rightarrow> ('pub, 'acc, 'aura, 'grandpa) key_derivation
     \<Rightarrow> string + ('acc, 'aura, 'grandpa) genesis_config chain_spec" where
  "local_testnet_config WASM_BINARY kd =
     (case ok_or ''Development wasm not available'' WASM_BINARY of
        Err e \<Rightarrow> Err e
      | Ok wasm_binary \<Rightarrow> Ok \<lparr>
          cs_name = ''Local Testnet'',
          cs_id = ''local_testnet'',
          cs_type = Local,
          cs_genesis = do {
            auths \<leftarrow> eval_all [authority_keys_from_seed kd ''Alice'', authority_keys_from_seed kd ''Bob''];
            root \<leftarrow> get_account_id_from_seed kd ''Alice'';
            endowed \<leftarrow> eval_all [
              get_account_id_from_seed kd ''Alice'',
              get_account_id_from_seed kd ''Bob'',
              get_account_id_from_seed kd ''Charlie'',
              get_account_id_from_seed kd ''Dave'',
              get_account_id_from_seed kd ''Eve'',
              get_account_id_from_seed kd ''Ferdie'',
              get_account_id_from_seed kd ''Alice//stash'',
              get_account_id_from_seed kd ''Bob//stash'',
              get_account_id_from_seed kd ''Charlie//stash'',
              get_account_id_from_seed kd ''Dave//stash'',
              get_account_id_from_seed kd ''Eve//stash'',
              get_account_id_from_seed kd ''Ferdie//stash''];
            Some (testnet_genesis wasm_binary auths root endowed True)
          },
          cs_boot_nodes = []\<rparr>)"

text \<open>
  \<open>load_spec\<close>: \<open>from_json_file\<close> stands for \<open>ChainSpec::from_json_file\<close> on the path.
\<close>

definition load_spec ::
  "u8 list option \<Rightarrow> ('pub, 'acc, 'aura, 'grandpa) key_derivation
     \<Rightarrow> (string \<Rightarrow> string + ('acc, 'aura, 'grandpa) genesis_config chain_spec)
     \<Rightarrow> string \<Rightarrow> string + ('acc, 'aura, 'grandpa) genesis_config chain_spec" where
  "load_spec WASM_BINARY kd from_json_file spec_id =
     (if spec_id = ''dev'' then development_config WASM_BINARY kd
      else if spec_id = '''' \<or> spec_id = ''local'' then local_testnet_config WASM_BINARY kd
      else from_json_file spec_id)"

section \<open>Facts about a genesis\<close>

definition total_endowment :: "('acc, 'aura, 'grandpa) genesis_config \<Rightarrow> nat" where
  "total_endowment g = sum_list (map (unat \<circ> snd) (gc_balances g))"

definition genesis_ok :: "('acc, 'aura, 'grandpa) genesis_config \<Rightarrow> bool" where
  "genesis_ok g \<longleftrightarrow>
     distinct (map fst (gc_balances g)) \<and>
     (\<forall>(_, b) \<in> set (gc_balances g). ExistentialDeposit \<le> b) \<and>
     total_endowment g < 2 ^ 128 \<and>
     gc_sudo_key g \<in> fst ` set (gc_balances g) \<and>
     gc_aura_authorities g \<noteq> [] \<and>
     length (gc_aura_authorities g) = length (gc_grandpa_authorities g) \<and>
     length (gc_aura_authorities g) \<le> unat MaxAuthorities \<and>
     distinct (gc_aura_authorities g) \<and> distinct (map fst (gc_grandpa_authorities g)) \<and>
     (\<forall>(_, w) \<in> set (gc_grandpa_authorities g). w = 1)"

lemma unat_endowment: "unat (push_bit 60 1 :: u128) = 2 ^ 60"
  by (simp add: push_bit_eq_mult)

lemma total_endowment_testnet:
  "total_endowment (testnet_genesis w auths root accs b) = length accs * 2 ^ 60"
  unfolding total_endowment_def testnet_genesis_def
  by (induction accs) (simp_all add: unat_endowment)

lemma testnet_genesis_ok:
  assumes "distinct accs" and "root \<in> set accs" and "length accs < 2 ^ 68"
    and "auths \<noteq> []" and "length auths \<le> unat MaxAuthorities"
    and "distinct (map fst auths)" and "distinct (map snd auths)"
  shows "genesis_ok (testnet_genesis w auths root accs b)"
proof -
  have "total_endowment (testnet_genesis w auths root accs b) < 2 ^ 68 * 2 ^ 60"
    using assms(3) by (simp add: total_endowment_testnet)
  moreover have "ExistentialDeposit \<le> push_bit 60 1"
    by (simp add: ExistentialDeposit_def word_le_nat_alt unat_endowment)
  moreover have "map fst (gc_balances (testnet_genesis w auths root accs b)) = accs"
    and "map fst (gc_grandpa_authorities (testnet_genesis w auths root accs b)) = map snd auths"
    by (simp_all add: testnet_genesis_def comp_def)
  ultimately show ?thesis
    using assms by (auto simp: genesis_ok_def testnet_genesis_def image_comp comp_def)
qed

text \<open>
  A key derivation that accepts the seeds of a list and separates them: what the code relies
  on when it says that its static seeds are valid.
\<close>

definition derives :: "(string \<Rightarrow> 'k option) \<Rightarrow> string list \<Rightarrow> bool" where
  "derives from_string seeds \<longleftrightarrow>
     (\<forall>s \<in> set seeds. from_string (''//'' @ s) \<noteq> None) \<and>
     inj_on (\<lambda>s. from_string (''//'' @ s)) (set seeds)"

definition account_from_string :: "('pub, 'acc, 'aura, 'grandpa) key_derivation \<Rightarrow> string \<Rightarrow> 'acc option" where
  "account_from_string kd txt = map_option (into_account kd) (public_from_string kd txt)"

lemma get_account_id_from_seed_eq:
  "get_account_id_from_seed kd = get_from_seed (account_from_string kd)"
  by (rule ext)
    (simp add: get_account_id_from_seed_def get_from_seed_def account_from_string_def
       split: option.split bind_split)

lemma eval_all_Some: "eval_all (map Some xs) = Some xs"
  by (induction xs) simp_all

lemma derives_eval:
  assumes "derives f seeds" and "distinct seeds"
  obtains ks where "eval_all (map (get_from_seed f) seeds) = Some ks"
    and "map (get_from_seed f) seeds = map Some ks" and "distinct ks"
    and "length ks = length seeds"
proof
  let ?ks = "map (the \<circ> get_from_seed f) seeds"
  show eq: "map (get_from_seed f) seeds = map Some ?ks"
    using assms(1) by (auto simp: derives_def get_from_seed_def)
  then show "eval_all (map (get_from_seed f) seeds) = Some ?ks"
    by (simp only: eval_all_Some)
  have "inj_on (get_from_seed f) (set seeds)"
    using assms(1) by (simp add: derives_def get_from_seed_def [abs_def])
  then have "distinct (map (get_from_seed f) seeds)"
    using assms(2) by (simp add: distinct_map)
  then show "distinct ?ks"
    unfolding eq distinct_map [of Some] by (rule conjunct1)
qed simp

lemma authority_keys_from_seed_eq:
  "authority_keys_from_seed kd seed =
     (case (get_from_seed (aura_from_string kd) seed, get_from_seed (grandpa_from_string kd) seed) of
        (Some a, Some g) \<Rightarrow> Some (a, g) | _ \<Rightarrow> None)"
  by (simp add: authority_keys_from_seed_def split: option.split bind_split)

lemma derives_authorities:
  assumes "derives (aura_from_string kd) seeds" and "derives (grandpa_from_string kd) seeds"
    and "distinct seeds"
  obtains auths where "eval_all (map (authority_keys_from_seed kd) seeds) = Some auths"
    and "distinct (map fst auths)" and "distinct (map snd auths)" and "length auths = length seeds"
proof -
  from assms(1,3) obtain as where
    as: "map (get_from_seed (aura_from_string kd)) seeds = map Some as" "distinct as"
      "length as = length seeds"
    by (rule derives_eval)
  from assms(2,3) obtain gs where
    gs: "map (get_from_seed (grandpa_from_string kd)) seeds = map Some gs" "distinct gs"
      "length gs = length seeds"
    by (rule derives_eval)
  have "map (authority_keys_from_seed kd) seeds = map Some (zip as gs)"
  proof (rule nth_equalityI)
    fix i
    assume "i < length (map (authority_keys_from_seed kd) seeds)"
    then show "map (authority_keys_from_seed kd) seeds ! i = map Some (zip as gs) ! i"
      using as(3) gs(3) arg_cong [OF as(1), of "\<lambda>xs. xs ! i"] arg_cong [OF gs(1), of "\<lambda>xs. xs ! i"]
      by (simp add: authority_keys_from_seed_eq)
  qed (simp add: as gs)
  then have "eval_all (map (authority_keys_from_seed kd) seeds) = Some (zip as gs)"
    by (simp only: eval_all_Some)
  then show ?thesis
    by (rule that) (use as gs in simp_all)
qed

text \<open>Evaluating the seeds of a genesis closure, whose first account is the root key.\<close>

lemma seeds_genesis_ok:
  assumes "derives (account_from_string kd) (root_seed # seeds)" and "distinct (root_seed # seeds)"
    and "derives (aura_from_string kd) auth_seeds" and "derives (grandpa_from_string kd) auth_seeds"
    and "distinct auth_seeds" and "auth_seeds \<noteq> []" and "length auth_seeds \<le> 32"
    and "length (root_seed # seeds) < 2 ^ 68"
  obtains g where
    "do { auths \<leftarrow> eval_all (map (authority_keys_from_seed kd) auth_seeds);
          root \<leftarrow> get_account_id_from_seed kd root_seed;
          endowed \<leftarrow> eval_all (map (get_account_id_from_seed kd) (root_seed # seeds));
          Some (testnet_genesis wasm auths root endowed True) } = Some g"
    and "genesis_ok g" and "total_endowment g = length (root_seed # seeds) * 2 ^ 60"
    and "length (gc_aura_authorities g) = length auth_seeds" and "gc_code g = wasm"
proof -
  from assms(3-5) obtain auths where auths:
    "eval_all (map (authority_keys_from_seed kd) auth_seeds) = Some auths"
    "distinct (map fst auths)" "distinct (map snd auths)" "length auths = length auth_seeds"
    by (rule derives_authorities)
  from assms(1,2) obtain ks where ks:
    "eval_all (map (get_account_id_from_seed kd) (root_seed # seeds)) = Some ks"
    "map (get_account_id_from_seed kd) (root_seed # seeds) = map Some ks" "distinct ks"
    "length ks = length (root_seed # seeds)"
    unfolding get_account_id_from_seed_eq by (rule derives_eval)
  then obtain root rest where root: "ks = root # rest" by (cases ks) simp_all
  let ?g = "testnet_genesis wasm auths root ks True"
  have "genesis_ok ?g"
    using auths ks root assms(6-8)
    by (intro testnet_genesis_ok) (auto simp: MaxAuthorities_def)
  moreover have "get_account_id_from_seed kd root_seed = Some root"
    using ks(2) root by simp
  moreover have "total_endowment ?g = length (root_seed # seeds) * 2 ^ 60"
    by (simp only: total_endowment_testnet ks(4))
  ultimately show ?thesis
    using that [of ?g] auths(1,4) ks(1)
    by (simp add: testnet_genesis_def del: eval_all.simps list.map)
qed

section \<open>Properties\<close>

text \<open>
  The development chain has a sound genesis. With the wasm runtime built, and a key derivation
  that accepts the four development seeds and gives them different keys, the closure does not
  panic: four distinct accounts get \<open>2^60\<close> each (above the existential deposit, and the total
  fits 128 bits), the sudo key is one of them, and the one authority has weight 1.
\<close>

lemma development_genesis_is_sound:
  assumes "derives (account_from_string kd) [''Alice'', ''Bob'', ''Alice//stash'', ''Bob//stash'']"
    and "derives (aura_from_string kd) [''Alice'']"
    and "derives (grandpa_from_string kd) [''Alice'']"
  shows "\<exists>spec g. development_config (Some wasm) kd = Ok spec \<and> cs_genesis spec = Some g \<and>
    genesis_ok g \<and> total_endowment g = 4 * 2 ^ 60 \<and> length (gc_aura_authorities g) = 1 \<and>
    gc_code g = wasm"
  by (rule seeds_genesis_ok [OF assms(1) _ assms(2,3), of wasm])
    (auto simp: development_config_def ok_or_def)

text \<open>
  C37. The local testnet has a sound genesis: the same with the twelve accounts of its closure and the
  two authorities Alice and Bob.
\<close>

theorem local_testnet_genesis_is_sound:
  assumes "derives (account_from_string kd) [''Alice'', ''Bob'', ''Charlie'', ''Dave'', ''Eve'',
      ''Ferdie'', ''Alice//stash'', ''Bob//stash'', ''Charlie//stash'', ''Dave//stash'',
      ''Eve//stash'', ''Ferdie//stash'']"
    and "derives (aura_from_string kd) [''Alice'', ''Bob'']"
    and "derives (grandpa_from_string kd) [''Alice'', ''Bob'']"
  shows "\<exists>spec g. local_testnet_config (Some wasm) kd = Ok spec \<and> cs_genesis spec = Some g \<and>
    genesis_ok g \<and> total_endowment g = 12 * 2 ^ 60 \<and> length (gc_aura_authorities g) = 2 \<and>
    gc_code g = wasm"
  by (rule seeds_genesis_ok [OF assms(1) _ assms(2,3), of wasm])
    (auto simp: local_testnet_config_def ok_or_def)

text \<open>
  How \<open>load_spec\<close> resolves an identifier: \<open>dev\<close> is the development chain, the empty identifier
  and \<open>local\<close> are the local testnet, both refused when the wasm runtime is missing, and anything
  else is a file name, the local testnet's own identifier \<open>local_testnet\<close> included.
\<close>

lemma load_spec_outcomes:
  "list_all (\<lambda>i. load_spec None kd from_json i = Err ''Development wasm not available'')
     [''dev'', '''', ''local''] \<and>
   (\<exists>spec. load_spec (Some wasm) kd from_json ''dev'' = Ok spec \<and>
      cs_id spec = ''dev'' \<and> cs_type spec = Development) \<and>
   (\<exists>spec. load_spec (Some wasm) kd from_json ''local'' = Ok spec \<and>
      load_spec (Some wasm) kd from_json '''' = Ok spec \<and>
      cs_id spec = ''local_testnet'' \<and> cs_type spec = Local) \<and>
   load_spec w kd from_json ''local_testnet'' = from_json ''local_testnet''"
  by (simp add: load_spec_def development_config_def local_testnet_config_def ok_or_def)

section \<open>A concrete derivation\<close>

text \<open>The derivation that uses the text itself as the key.\<close>

definition text_keys :: "(string, string, string, string) key_derivation" where
  "text_keys = \<lparr>public_from_string = Some, into_account = id,
     aura_from_string = Some, grandpa_from_string = Some\<rparr>"

lemma text_keys_derive:
  "derives (account_from_string text_keys) seeds" "derives (aura_from_string text_keys) seeds"
  "derives (grandpa_from_string text_keys) seeds"
  by (auto simp: derives_def account_from_string_def text_keys_def inj_on_def)

lemma development_genesis_is_sound_example:
  "\<exists>spec g. development_config (Some [0]) text_keys = Ok spec \<and> cs_genesis spec = Some g \<and>
     genesis_ok g \<and> total_endowment g = 4 * 2 ^ 60"
  using development_genesis_is_sound [OF text_keys_derive, of "[0]"] by blast

theorem local_testnet_genesis_is_sound_witness:
  "\<exists>spec g. local_testnet_config (Some [0]) text_keys = Ok spec \<and> cs_genesis spec = Some g \<and>
     genesis_ok g \<and> total_endowment g = 12 * 2 ^ 60"
  using local_testnet_genesis_is_sound [OF text_keys_derive, of "[0]"] by blast

end
