(* ===== verification/Worker_Keys.thy ===== *)
theory Worker_Keys
  imports Command Chain_Spec Runtime_Worker
begin

text \<open>
  With which keys the off-chain workers sign. Each worker pallet has a key type of its own and a
  \<open>crypto\<close> module that ties it to sr25519; the runtime names that module as the pallet's
  \<open>AuthorityId\<close>, and a signer of the pallet uses the keys of that type that the node's keystore
  holds. \<open>new_partial\<close> puts the key of the seed \<open>//Alice\<close> there for both types. The theory connects the
  service, the pallets and the chain specification: the workers of a node find an account, and the
  chain has endowed it.
\<close>

section \<open>The crypto modules\<close>

datatype key_scheme = Sr25519

text \<open>
  An implementation of \<open>AppCrypto\<close>: the key type and scheme of \<open>RuntimeAppPublic\<close>, which
  \<open>app_crypto!\<close> defines, and the scheme of \<open>GenericPublic\<close> and \<open>GenericSignature\<close>.
\<close>

record app_crypto =
  app_key_type :: string
  app_scheme :: key_scheme
  generic_scheme :: key_scheme

definition ocw_TestAuthId :: app_crypto where
  "ocw_TestAuthId = \<lparr>app_key_type = ocw_KEY_TYPE, app_scheme = Sr25519, generic_scheme = Sr25519\<rparr>"

definition example_TestAuthId :: app_crypto where
  "example_TestAuthId = \<lparr>app_key_type = example_KEY_TYPE, app_scheme = Sr25519, generic_scheme = Sr25519\<rparr>"

text \<open>\<open>type AuthorityId\<close> in the runtime's configuration of the pallet whose hook is given.\<close>

fun runtime_AuthorityId :: "worker_hook \<Rightarrow> app_crypto" where
  "runtime_AuthorityId OcwHook = ocw_TestAuthId"
| "runtime_AuthorityId PriceHook = example_TestAuthId"

section \<open>The keystore of a node\<close>

text \<open>
  The keystore is Substrate's. \<open>ks_generate\<close> stands for \<open>sr25519_generate_new\<close> with a key type and a seed,
  \<open>ks_accounts\<close> for the accounts that \<open>Signer::all_accounts\<close> finds for a key type.
\<close>

record ('st, 'acc, 'pub) keystore_api =
  ks_generate :: "string \<Rightarrow> string \<Rightarrow> 'st \<Rightarrow> 'st"
  ks_accounts :: "string \<Rightarrow> 'st \<Rightarrow> ('acc, 'pub) account list"

text \<open>
  What the code relies on: a generated key is found under its type, with its account, and generating a key
  removes none.
\<close>

definition keystore_law ::
  "('pub, 'acc, 'aura, 'grandpa) key_derivation \<Rightarrow> ('st, 'acc, 'pub) keystore_api \<Rightarrow> bool" where
  "keystore_law kd ks \<longleftrightarrow>
     (\<forall>t s st pub. public_from_string kd s = Some pub \<longrightarrow>
        \<lparr>acc_id = into_account kd pub, acc_public = pub\<rparr> \<in> set (ks_accounts ks t (ks_generate ks t s st))) \<and>
     (\<forall>t t' s st. set (ks_accounts ks t st) \<subseteq> set (ks_accounts ks t (ks_generate ks t' s st)))"

text \<open>The keystore after the calls of a run.\<close>

fun key_effect :: "('st, 'acc, 'pub) keystore_api \<Rightarrow> action \<Rightarrow> 'st \<Rightarrow> 'st" where
  "key_effect ks (GenerateKey _ key_type seed) st = ks_generate ks key_type seed st"
| "key_effect ks _ st = st"

definition keystore_after :: "('st, 'acc, 'pub) keystore_api \<Rightarrow> action list \<Rightarrow> 'st \<Rightarrow> 'st" where
  "keystore_after ks tr st = fold (key_effect ks) tr st"

section \<open>A generated key stays\<close>

lemma key_effect_keeps:
  "keystore_law kd ks \<Longrightarrow> acc \<in> set (ks_accounts ks t st) \<Longrightarrow> acc \<in> set (ks_accounts ks t (key_effect ks a st))"
  by (cases a) (simp_all add: keystore_law_def subset_iff)

lemma keystore_after_keeps:
  "keystore_law kd ks \<Longrightarrow> acc \<in> set (ks_accounts ks t st) \<Longrightarrow>
   acc \<in> set (ks_accounts ks t (keystore_after ks tr st))"
  unfolding keystore_after_def by (induction tr arbitrary: st) (auto intro: key_effect_keeps)

lemma generated_key_found:
  assumes "keystore_law kd ks" and "GenerateKey k t s \<in> set tr" and "public_from_string kd s = Some pub"
  shows "\<lparr>acc_id = into_account kd pub, acc_public = pub\<rparr> \<in> set (ks_accounts ks t (keystore_after ks tr st))"
proof -
  from assms(2) obtain as bs where tr: "tr = as @ GenerateKey k t s # bs" by (meson split_list)
  let ?st = "ks_generate ks t s (keystore_after ks as st)"
  have "\<lparr>acc_id = into_account kd pub, acc_public = pub\<rparr> \<in> set (ks_accounts ks t ?st)"
    using assms(1,3) by (simp add: keystore_law_def)
  from keystore_after_keeps [OF assms(1) this, of bs] tr show ?thesis
    by (simp add: keystore_after_def)
qed

lemma step_of_key: "step_of a = KeyStep t s \<Longrightarrow> \<exists>k. a = GenerateKey k t s"
  by (cases a) simp_all

lemma key_step_generates: "KeyStep t s \<in> set (map step_of tr) \<Longrightarrow> \<exists>k. GenerateKey k t s \<in> set tr"
  by (auto dest: step_of_key [OF sym])

section \<open>The first account of a genesis\<close>

lemma testnet_genesis_endows:
  "a \<in> set accs \<Longrightarrow> (a, push_bit 60 1) \<in> set (gc_balances (testnet_genesis w auths root accs b))"
  by (simp add: testnet_genesis_def)

lemma eval_all_head: "eval_all (x # xs) = Some as \<Longrightarrow> \<exists>a. x = Some a \<and> a \<in> set as"
  by (auto split: bind_splits)

text \<open>Both built-in chains endow the account of \<open>//Alice\<close> and make it the sudo key.\<close>

lemma builtin_genesis_endows_alice:
  assumes "load_spec w kd from_json i = Ok spec" and "i \<in> {''dev'', '''', ''local''}" and "cs_genesis spec = Some g"
  shows "\<exists>a. get_account_id_from_seed kd ''Alice'' = Some a \<and> (a, push_bit 60 1) \<in> set (gc_balances g) \<and>
    gc_sudo_key g = a"
proof -
  have gen: "\<exists>a. get_account_id_from_seed kd ''Alice'' = Some a \<and> (a, push_bit 60 1) \<in> set (gc_balances g) \<and>
      gc_sudo_key g = a"
    if "do { auths \<leftarrow> A; root \<leftarrow> get_account_id_from_seed kd ''Alice'';
             endowed \<leftarrow> eval_all (get_account_id_from_seed kd ''Alice'' # rest);
             Some (testnet_genesis wasm auths root endowed True) } = Some g" for A rest wasm
    using that eval_all_head [of "get_account_id_from_seed kd ''Alice''" rest]
    by (auto simp: testnet_genesis_endows testnet_genesis_def simp del: eval_all.simps split: bind_splits)
  from assms(1,2) consider "development_config w kd = Ok spec" | "local_testnet_config w kd = Ok spec"
    by (auto simp: load_spec_def split: if_splits)
  then show ?thesis
    using assms(3) gen
    by cases (auto simp: development_config_def local_testnet_config_def ok_or_def simp del: eval_all.simps
        split: sum.splits option.splits)
qed

section \<open>Properties\<close>

text \<open>
  C36. The workers of a node can sign, and their account can pay. When a node that is not a light client has started
  with off-chain workers enabled, on a chain that the node knows by name, then a signer of either worker
  pallet finds an account in the keystore; the genesis of that chain endows the account with at least
  the existential deposit; and it is the account of the sudo key.
\<close>

theorem worker_accounts_are_endowed:
  assumes "run_state (run benchmarks create_runner fails cli) [] = (Some (Ok ()), tr)"
    and "cli_subcommand cli = None" and "create_runner (Inr (cli_run cli)) = Ok config"
    and "node_role config \<noteq> Light" and "offchain_worker_enabled config"
    and "config_chain_spec config \<in> {''dev'', '''', ''local''}"
    and "load_spec wasm kd from_json (config_chain_spec config) = Ok spec" and "cs_genesis spec = Some g"
    and "keystore_law kd ks"
  shows "\<exists>acc \<in> set (ks_accounts ks (app_key_type (runtime_AuthorityId hook)) (keystore_after ks tr st)).
    \<exists>balance. (acc_id acc, balance) \<in> set (gc_balances g) \<and> ExistentialDeposit \<le> balance \<and>
      gc_sudo_key g = acc_id acc"
proof -
  let ?t = "app_key_type (runtime_AuthorityId hook)"
  have "map step_of tr = full_steps config @ [NodeStep]"
    using run_success(1) [OF assms(1)] assms(2-4) by (auto simp: carried_out_def command_steps_def)
  moreover have "KeyStep ?t ''//Alice'' \<in> set (full_steps config)"
    using assms(5)
    by (cases hook) (simp_all add: full_steps_def partial_steps_def ocw_TestAuthId_def example_TestAuthId_def
        ocw_KEY_TYPE_def example_KEY_TYPE_def)
  ultimately obtain k where k: "GenerateKey k ?t ''//Alice'' \<in> set tr"
    using key_step_generates [of ?t "''//Alice''" tr] by auto
  from builtin_genesis_endows_alice [OF assms(7,6,8)] obtain a where
    a: "get_account_id_from_seed kd ''Alice'' = Some a" "(a, push_bit 60 1) \<in> set (gc_balances g)" "gc_sudo_key g = a"
    by blast
  then obtain pub where pub: "public_from_string kd ''//Alice'' = Some pub" "a = into_account kd pub"
    by (auto simp: get_account_id_from_seed_def get_from_seed_def split: bind_splits)
  moreover have "ExistentialDeposit \<le> push_bit 60 1"
    by (simp add: ExistentialDeposit_def word_le_nat_alt unat_endowment)
  ultimately show ?thesis
    using generated_key_found [OF assms(9) k pub(1), of st] a by force
qed

section \<open>A concrete keystore\<close>

text \<open>Keys as pairs of a type and a seed, with the derivation that uses the text itself as the key.\<close>

definition list_keystore :: "((string \<times> string) list, string, string) keystore_api" where
  "list_keystore = \<lparr>
     ks_generate = (\<lambda>t s st. (t, s) # st),
     ks_accounts = (\<lambda>t st. map (\<lambda>(_, s). \<lparr>acc_id = s, acc_public = s\<rparr>) (filter (\<lambda>(t', _). t' = t) st))\<rparr>"

lemma list_keystore_law: "keystore_law text_keys list_keystore"
  by (auto simp: keystore_law_def list_keystore_def text_keys_def)

theorem worker_accounts_are_endowed_witness:
  "\<exists>spec g tr. development_config (Some [0]) text_keys = Ok spec \<and> cs_genesis spec = Some g \<and>
     run_state (run False demo_runner (\<lambda>_. None) demo_cli) [] = (Some (Ok ()), tr) \<and>
     (\<exists>acc \<in> set (ks_accounts list_keystore ''btc!'' (keystore_after list_keystore tr [])).
        gc_sudo_key g = acc_id acc)"
proof -
  have run: "run_state (run False demo_runner (\<lambda>_. None) demo_cli) [] = (Some (Ok ()), plan_of False demo_runner demo_cli)"
    by (rule plan_carried_out(1) [OF demo_node_carried_out])
  have node: "cli_subcommand demo_cli = None" "node_role demo_node \<noteq> Light" "offchain_worker_enabled demo_node"
    "config_chain_spec demo_node \<in> {''dev'', '''', ''local''}"
    "app_key_type (runtime_AuthorityId PriceHook) = ''btc!''"
    by (simp_all add: demo_cli_def demo_node_def example_TestAuthId_def example_KEY_TYPE_def)
  obtain spec g where spec: "development_config (Some [0]) text_keys = Ok spec" "cs_genesis spec = Some g"
    using development_genesis_is_sound_example by blast
  then have "load_spec (Some [0]) text_keys (\<lambda>_. Err '''') (config_chain_spec demo_node) = Ok spec"
    by (simp add: load_spec_def demo_node_def)
  from worker_accounts_are_endowed [OF run node(1) refl node(2-4) this spec(2) list_keystore_law, of PriceHook "[]"]
  show ?thesis using run spec unfolding node(5) by blast
qed

end
