(* ===== verification/Runtime_Api.thy ===== *)
theory Runtime_Api
  imports Runtime
begin

text \<open>
  The rest of \<open>runtime/src/lib.rs\<close>: the configuration values that the runtime gives to the FRAME pallets,
  and the runtime API of \<open>impl_runtime_apis!\<close>, through which the node calls the runtime.

  Almost every API function hands its arguments to a function of FRAME. Those functions are the
  fields of \<open>frame_runtime\<close>, computations over the chain state \<open>'s\<close>; the values that the
  runtime only passes through (blocks, headers, extrinsics, inherent data, validity, fee details, keys)
  have the type \<open>'v\<close>. What the runtime decides by itself is spelled out: the version, the slot duration,
  the answers to equivocation reports, and the two benchmarking functions.
\<close>

section \<open>Configuration of the FRAME pallets\<close>

text \<open>
  \<open>Perbill::from_percent\<close>, \<open>BlockWeights::with_sensible_defaults\<close>, \<open>BlockLength::max_with_normal_ratio\<close>
  and \<open>WEIGHT_PER_SECOND\<close> come from FRAME.
\<close>

definition NORMAL_DISPATCH_RATIO :: "(u32 \<Rightarrow> 'perbill) \<Rightarrow> 'perbill" where
  "NORMAL_DISPATCH_RATIO from_percent = from_percent 75"

definition BlockWeights :: "(u32 \<Rightarrow> 'perbill) \<Rightarrow> (u64 \<Rightarrow> 'perbill \<Rightarrow> 'weights) \<Rightarrow> u64 \<Rightarrow> 'weights" where
  "BlockWeights from_percent with_sensible_defaults weight_per_second =
     with_sensible_defaults (2 * weight_per_second) (NORMAL_DISPATCH_RATIO from_percent)"

definition BlockLength :: "(u32 \<Rightarrow> 'perbill) \<Rightarrow> (u32 \<Rightarrow> 'perbill \<Rightarrow> 'blen) \<Rightarrow> 'blen" where
  "BlockLength from_percent max_with_normal_ratio =
     max_with_normal_ratio (5 * 1024 * 1024) (NORMAL_DISPATCH_RATIO from_percent)"

text \<open>
  The values that the \<open>Config\<close> implementations hand over; \<open>()\<close> as a hook does nothing and as a number
  is zero. \<open>Everything\<close> lets every call through, \<open>IdentityFee\<close> makes the fee for weight the weight.
\<close>

record 'call system_config =
  sys_base_call_filter :: "'call \<Rightarrow> bool"
  sys_block_hash_count :: u32
  sys_version :: runtime_version
  sys_ss58_prefix :: u8

definition runtime_system_config :: "'call system_config" where
  "runtime_system_config = \<lparr>
     sys_base_call_filter = (\<lambda>_. True),
     sys_block_hash_count = BlockHashCount,
     sys_version = VERSION,
     sys_ss58_prefix = SS58Prefix\<rparr>"

record balances_config =
  bal_max_locks :: u32
  bal_max_reserves :: u32
  bal_existential_deposit :: u128

definition runtime_balances_config :: balances_config where
  "runtime_balances_config = \<lparr>
     bal_max_locks = MaxLocks,
     bal_max_reserves = 0,
     bal_existential_deposit = ExistentialDeposit\<rparr>"

record payment_config =
  pay_byte_fee :: u128
  pay_weight_to_fee :: "u64 \<Rightarrow> u128"

definition runtime_payment_config :: payment_config where
  "runtime_payment_config = \<lparr>pay_byte_fee = TransactionByteFee, pay_weight_to_fee = (\<lambda>w. ucast w)\<rparr>"

text \<open>Aura treats no validator as disabled; Grandpa neither proves key ownership nor handles equivocations.\<close>

record 'id aura_config =
  aura_disabled_validators :: "'id \<Rightarrow> bool"
  aura_max_authorities :: u32

definition runtime_aura_config :: "'id aura_config" where
  "runtime_aura_config = \<lparr>aura_disabled_validators = (\<lambda>_. False), aura_max_authorities = MaxAuthorities\<rparr>"

record ('id, 'proof) grandpa_pallet_config =
  gpc_prove_key_owner :: "'id \<Rightarrow> 'proof option"
  gpc_handle_equivocation :: "'proof \<Rightarrow> unit"
  gpc_max_authorities :: u32

definition runtime_grandpa_config :: "('id, 'proof) grandpa_pallet_config" where
  "runtime_grandpa_config = \<lparr>
     gpc_prove_key_owner = (\<lambda>_. None),
     gpc_handle_equivocation = (\<lambda>_. ()),
     gpc_max_authorities = MaxAuthorities\<rparr>"

datatype timestamp_hook = AuraHook

record timestamp_config =
  ts_on_timestamp_set :: timestamp_hook
  ts_minimum_period :: u64

definition runtime_timestamp_config :: timestamp_config where
  "runtime_timestamp_config = \<lparr>ts_on_timestamp_set = AuraHook, ts_minimum_period = MinimumPeriod\<rparr>"

record native_version =
  nv_runtime_version :: runtime_version
  nv_can_author_with :: "u32 list"

definition native_version :: native_version where
  "native_version = \<lparr>nv_runtime_version = VERSION, nv_can_author_with = []\<rparr>"

section \<open>The runtime API\<close>

record ('s, 'v) frame_runtime =
  fr_execute_block :: "'v \<Rightarrow> ('s, unit) state"
  fr_initialize_block :: "'v \<Rightarrow> ('s, unit) state"
  fr_metadata :: 'v
  fr_opaque :: "'v \<Rightarrow> 'v"
  fr_apply_extrinsic :: "'v \<Rightarrow> ('s, 'v) state"
  fr_finalize_block :: "('s, 'v) state"
  fr_create_extrinsics :: "'v \<Rightarrow> ('s, 'v) state"
  fr_check_extrinsics :: "'v \<Rightarrow> 'v \<Rightarrow> ('s, 'v) state"
  fr_validate_transaction :: "'v \<Rightarrow> 'v \<Rightarrow> 'v \<Rightarrow> ('s, 'v) state"
  fr_offchain_worker :: "'v \<Rightarrow> ('s, unit) state"
  fr_slot_duration :: "('s, u64) state"
  fr_aura_authorities :: "('s, 'v) state"
  fr_generate_keys :: "u8 list option \<Rightarrow> ('s, u8 list) state"
  fr_decode_keys :: "u8 list \<Rightarrow> (u8 list \<times> string) list option"
  fr_grandpa_authorities :: "('s, 'v) state"
  fr_current_set_id :: "('s, u64) state"
  fr_account_nonce :: "'v \<Rightarrow> ('s, u32) state"
  fr_query_info :: "'v \<Rightarrow> u32 \<Rightarrow> ('s, 'v) state"
  fr_query_fee_details :: "'v \<Rightarrow> u32 \<Rightarrow> ('s, 'v) state"

datatype 'v api_call =
    Core_version
  | Core_execute_block 'v
  | Core_initialize_block 'v
  | Metadata_metadata
  | BlockBuilder_apply_extrinsic 'v
  | BlockBuilder_finalize_block
  | BlockBuilder_inherent_extrinsics 'v
  | BlockBuilder_check_inherents 'v 'v
  | TaggedTransactionQueue_validate_transaction 'v 'v 'v
  | OffchainWorkerApi_offchain_worker 'v
  | AuraApi_slot_duration
  | AuraApi_authorities
  | SessionKeys_generate_session_keys "u8 list option"
  | SessionKeys_decode_session_keys "u8 list"
  | GrandpaApi_grandpa_authorities
  | GrandpaApi_current_set_id
  | GrandpaApi_submit_report_equivocation_unsigned_extrinsic 'v 'v
  | GrandpaApi_generate_key_ownership_proof u64 'v
  | AccountNonceApi_account_nonce 'v
  | TransactionPaymentApi_query_info 'v u32
  | TransactionPaymentApi_query_fee_details 'v u32

datatype 'v api_result =
    RVersion runtime_version
  | RUnit
  | RValue 'v
  | RMillis u64
  | RBytes "u8 list"
  | RKeys "(u8 list \<times> string) list option"
  | RSetId u64
  | RReport "unit option"
  | RProof "'v option"
  | RNonce u32

fun runtime_api :: "('s, 'v) frame_runtime \<Rightarrow> 'v api_call \<Rightarrow> ('s, 'v api_result) state" where
  "runtime_api fr Core_version = State_Monad.return (RVersion VERSION)"
| "runtime_api fr (Core_execute_block block) = map_run (\<lambda>_. RUnit) (fr_execute_block fr block)"
| "runtime_api fr (Core_initialize_block header) = map_run (\<lambda>_. RUnit) (fr_initialize_block fr header)"
| "runtime_api fr Metadata_metadata = State_Monad.return (RValue (fr_opaque fr (fr_metadata fr)))"
| "runtime_api fr (BlockBuilder_apply_extrinsic extrinsic) = map_run RValue (fr_apply_extrinsic fr extrinsic)"
| "runtime_api fr BlockBuilder_finalize_block = map_run RValue (fr_finalize_block fr)"
| "runtime_api fr (BlockBuilder_inherent_extrinsics data) = map_run RValue (fr_create_extrinsics fr data)"
| "runtime_api fr (BlockBuilder_check_inherents block data) = map_run RValue (fr_check_extrinsics fr data block)"
| "runtime_api fr (TaggedTransactionQueue_validate_transaction source tx block_hash) =
     map_run RValue (fr_validate_transaction fr source tx block_hash)"
| "runtime_api fr (OffchainWorkerApi_offchain_worker header) = map_run (\<lambda>_. RUnit) (fr_offchain_worker fr header)"
| "runtime_api fr AuraApi_slot_duration = map_run RMillis (fr_slot_duration fr)"
| "runtime_api fr AuraApi_authorities = map_run RValue (fr_aura_authorities fr)"
| "runtime_api fr (SessionKeys_generate_session_keys seed) = map_run RBytes (fr_generate_keys fr seed)"
| "runtime_api fr (SessionKeys_decode_session_keys encoded) = State_Monad.return (RKeys (fr_decode_keys fr encoded))"
| "runtime_api fr GrandpaApi_grandpa_authorities = map_run RValue (fr_grandpa_authorities fr)"
| "runtime_api fr GrandpaApi_current_set_id = map_run RSetId (fr_current_set_id fr)"
| "runtime_api fr (GrandpaApi_submit_report_equivocation_unsigned_extrinsic proof owner) =
     State_Monad.return (RReport (submit_report_equivocation_unsigned_extrinsic proof owner))"
| "runtime_api fr (GrandpaApi_generate_key_ownership_proof set_id authority_id) =
     State_Monad.return (RProof (generate_key_ownership_proof set_id authority_id))"
| "runtime_api fr (AccountNonceApi_account_nonce account) = map_run RNonce (fr_account_nonce fr account)"
| "runtime_api fr (TransactionPaymentApi_query_info uxt len) = map_run RValue (fr_query_info fr uxt len)"
| "runtime_api fr (TransactionPaymentApi_query_fee_details uxt len) =
     map_run RValue (fr_query_fee_details fr uxt len)"

section \<open>Benchmarks\<close>

text \<open>The pallets with benchmarks, by the path that names them and the type that runs them, in order.\<close>

definition benchmark_pallets :: "(string \<times> string) list" where
  "benchmark_pallets = [
     (''frame_system'', ''SystemBench::<Runtime>''),
     (''pallet_balances'', ''Balances''),
     (''pallet_timestamp'', ''Timestamp''),
     (''pallet_template'', ''TemplateModule'')]"

text \<open>\<open>list_benchmark\<close> stands for the macro, which extends the list, and \<open>info\<close> for \<open>storage_info()\<close>.\<close>

definition benchmark_metadata ::
  "(bool \<Rightarrow> string \<times> string \<Rightarrow> 'list list \<Rightarrow> 'list list) \<Rightarrow> 'info \<Rightarrow> bool \<Rightarrow> 'list list \<times> 'info" where
  "benchmark_metadata list_benchmark info extra =
     (foldl (\<lambda>list pallet. list_benchmark extra pallet list) [] benchmark_pallets, info)"

text \<open>
  The storage keys that are not counted: block number, total issuance, execution phase, event count
  and events. A key is the pallet's prefix (the first sixteen bytes) and the item's.
\<close>

fun hex_digit :: "char \<Rightarrow> nat" where
  "hex_digit c = (let n = of_char c in if n < 58 then n - 48 else n - 87)"

fun hex :: "string \<Rightarrow> u8 list" where
  "hex (a # b # s) = of_nat (16 * hex_digit a + hex_digit b) # hex s"
| "hex _ = []"

definition benchmark_whitelist :: "u8 list list" where
  "benchmark_whitelist = [
     hex ''26aa394eea5630e07c48ae0c9558cef702a5c1b19ab7a04f536c519aca4983ac'',
     hex ''c2261276cc9d1f8598ea4b6a74b15c2f57c875e4cff74148e4628f264b974c80'',
     hex ''26aa394eea5630e07c48ae0c9558cef7ff553b5a9862a516939d82b3d3d8661a'',
     hex ''26aa394eea5630e07c48ae0c9558cef70a98fdbe9ce6c55837576c60c7af3850'',
     hex ''26aa394eea5630e07c48ae0c9558cef780d41e5e16056765bc8461851072c9d7'']"

text \<open>
  \<open>add_benchmark\<close> stands for the macro: it may push a batch, leave the batches alone, or return from
  the function with an error.
\<close>

fun add_benchmarks ::
  "(string \<times> string \<Rightarrow> 'batch list \<Rightarrow> string + 'batch list) \<Rightarrow> (string \<times> string) list \<Rightarrow> 'batch list
     \<Rightarrow> string + 'batch list" where
  "add_benchmarks add [] batches = Ok batches"
| "add_benchmarks add (p # ps) batches = and_then (add p batches) (add_benchmarks add ps)"

definition dispatch_benchmark ::
  "('config \<times> u8 list list \<Rightarrow> string \<times> string \<Rightarrow> 'batch list \<Rightarrow> string + 'batch list) \<Rightarrow> 'config
     \<Rightarrow> string + 'batch list" where
  "dispatch_benchmark add_benchmark config =
     (let params = (config, benchmark_whitelist)
      in and_then (add_benchmarks (add_benchmark params) benchmark_pallets [])
           (\<lambda>batches. if batches = [] then Err ''Benchmark not found for this pallet.'' else Ok batches))"

section \<open>Properties\<close>

text \<open>The version that the runtime reports is the one that System stores and the native runtime claims.\<close>

lemma versions_agree:
  "run_state (runtime_api fr Core_version) s = (RVersion (nv_runtime_version native_version), s)"
  "sys_version runtime_system_config = nv_runtime_version native_version"
  by (simp_all add: native_version_def runtime_system_config_def)

text \<open>
  The node authors blocks at the pace the runtime is configured for. Aura's slot duration is
  twice the minimum period of the timestamp pallet; with the runtime's configuration the API
  answers 6000 milliseconds, the block time from which minutes, hours and days are counted.
\<close>

lemma slot_duration_is_block_time:
  assumes "\<forall>s. run_state (fr_slot_duration fr) s = (2 * ts_minimum_period runtime_timestamp_config, s)"
  shows "run_state (runtime_api fr AuraApi_slot_duration) s = (RMillis 6000, s) \<and>
    unat MILLISECS_PER_BLOCK = 6000 \<and> unat MINUTES * 6000 = 60 * 1000 \<and>
    unat HOURS * 6000 = 60 * 60 * 1000 \<and> unat DAYS * 6000 = 24 * 60 * 60 * 1000"
  using assms
  by (simp add: run_simps runtime_timestamp_config_def MinimumPeriod_def SLOT_DURATION_def MILLISECS_PER_BLOCK_def MINUTES_def
        HOURS_def DAYS_def)

text \<open>What the API answers about key ownership is what Grandpa is configured with.\<close>

lemma ownership_proofs_agree:
  "generate_key_ownership_proof set_id authority = gpc_prove_key_owner runtime_grandpa_config authority"
  "aura_max_authorities runtime_aura_config = gpc_max_authorities runtime_grandpa_config"
  by (simp_all add: generate_key_ownership_proof_def runtime_grandpa_config_def runtime_aura_config_def)

lemma add_benchmarks_matching:
  assumes "\<And>p bs. add p bs = (if fst p = name then map_sum id (\<lambda>b. bs @ [b]) (run_one p) else Ok bs)"
    and "distinct (map fst ps)"
  shows "add_benchmarks add ps bs =
    (case map_of ps name of None \<Rightarrow> Ok bs | Some inst \<Rightarrow> map_sum id (\<lambda>b. bs @ [b]) (run_one (name, inst)))"
  using assms(2)
proof (induction ps arbitrary: bs)
  case Nil
  then show ?case by simp
next
  case (Cons p ps)
  have skip: "map_of ps (fst p) = None"
    using Cons.prems by (simp add: map_of_eq_None_iff)
  show ?case
  proof (cases "fst p = name")
    case True
    then have "p = (name, snd p)" by (cases p) simp
    with True skip Cons show ?thesis
      by (cases "run_one p") (auto simp: assms(1))
  next
    case False
    then show ?thesis using Cons by (cases p) (simp add: assms(1))
  qed
qed

text \<open>
  Which benchmarks can be run. The macro runs a pallet whose path is the one asked for and leaves the
  batches alone otherwise. Then \<open>dispatch_benchmark\<close> returns the error \<open>Benchmark not found for this pallet.\<close>
  for every name but the four, and for each of the four exactly the batch of the type listed with it, or the
  error of its run.
\<close>

lemma dispatch_benchmark_outcomes:
  assumes "\<And>p bs. add_benchmark (config, benchmark_whitelist) p bs =
    (if fst p = name then map_sum id (\<lambda>b. bs @ [b]) (run_one p) else Ok bs)"
  shows "dispatch_benchmark add_benchmark config =
    (case map_of benchmark_pallets name of
       None \<Rightarrow> Err ''Benchmark not found for this pallet.''
     | Some inst \<Rightarrow> map_sum id (\<lambda>b. [b]) (run_one (name, inst)))"
proof -
  have "distinct (map fst benchmark_pallets)"
    by (simp add: benchmark_pallets_def)
  from add_benchmarks_matching [where add = "add_benchmark (config, benchmark_whitelist)"
      and name = name and run_one = run_one, OF assms this, of "[]"]
  have add: "add_benchmarks (add_benchmark (config, benchmark_whitelist)) benchmark_pallets [] =
    (case map_of benchmark_pallets name of
       None \<Rightarrow> Ok [] | Some inst \<Rightarrow> map_sum id (\<lambda>b. [] @ [b]) (run_one (name, inst)))" .
  show ?thesis
  proof (cases "map_of benchmark_pallets name")
    case None
    then show ?thesis by (simp add: dispatch_benchmark_def Let_def add)
  next
    case (Some inst)
    then show ?thesis
      by (cases "run_one (name, inst)") (simp_all add: dispatch_benchmark_def Let_def add)
  qed
qed

text \<open>The whitelist holds five keys of 32 bytes.\<close>

lemma length_hex: "length (hex s) = length s div 2"
  by (induction s rule: hex.induct) simp_all

lemma benchmark_whitelist_keys: "map length benchmark_whitelist = [32, 32, 32, 32, 32]"
  by (simp add: benchmark_whitelist_def length_hex del: hex.simps)

lemma slot_duration_is_block_time_example:
  "run_state (runtime_api (\<lparr>fr_execute_block = \<lambda>_. State_Monad.return (),
      fr_initialize_block = \<lambda>_. State_Monad.return (), fr_metadata = (), fr_opaque = id,
      fr_apply_extrinsic = State_Monad.return, fr_finalize_block = State_Monad.return (),
      fr_create_extrinsics = State_Monad.return, fr_check_extrinsics = (\<lambda>_. State_Monad.return),
      fr_validate_transaction = (\<lambda>_ _. State_Monad.return), fr_offchain_worker = State_Monad.return,
      fr_slot_duration = State_Monad.return (2 * ts_minimum_period runtime_timestamp_config), fr_aura_authorities = State_Monad.return (),
      fr_generate_keys = (\<lambda>_. State_Monad.return []), fr_decode_keys = (\<lambda>_. None),
      fr_grandpa_authorities = State_Monad.return (), fr_current_set_id = State_Monad.return 0,
      fr_account_nonce = (\<lambda>_. State_Monad.return 0), fr_query_info = (\<lambda>_ _. State_Monad.return ()),
      fr_query_fee_details = (\<lambda>_ _. State_Monad.return ())\<rparr> :: (nat, unit) frame_runtime)
    AuraApi_slot_duration) (7 :: nat) = (RMillis 6000, 7)"
  by (rule slot_duration_is_block_time [THEN conjunct1]) simp

end
