(* ===== verification/Node_Cli.thy ===== *)
theory Node_Cli
  imports Runtime_Api Command
begin

text \<open>
  The small parts of the node around the service: the RPC extensions of \<open>node/src/rpc.rs\<close>, the
  constants of \<open>SubstrateCli for Cli\<close> in \<open>node/src/command.rs\<close>, the native executor of
  \<open>node/src/service.rs\<close> and \<open>main\<close>. The RPC modules are Substrate's: a module is the map from method
  names to handlers that \<open>to_delegate\<close> makes of it.
\<close>

section \<open>RPC extensions\<close>

type_synonym 'handler io_handler = "string \<rightharpoonup> 'handler"

record ('client, 'pool, 'deny) full_deps =
  deps_client :: 'client
  deps_pool :: 'pool
  deps_deny_unsafe :: 'deny

definition extend_with :: "'handler io_handler \<Rightarrow> 'handler io_handler \<Rightarrow> 'handler io_handler" where
  "extend_with delegate io = io ++ delegate"

definition create_full ::
  "('client \<Rightarrow> 'pool \<Rightarrow> 'deny \<Rightarrow> 'handler io_handler) \<Rightarrow> ('client \<Rightarrow> 'handler io_handler)
     \<Rightarrow> ('client, 'pool, 'deny) full_deps \<Rightarrow> 'handler io_handler" where
  "create_full full_system transaction_payment deps =
     (let io = Map.empty;
          client = deps_client deps; pool = deps_pool deps; deny_unsafe = deps_deny_unsafe deps;
          io = extend_with (full_system client pool deny_unsafe) io
      in extend_with (transaction_payment client) io)"

text \<open>The extensions that \<open>spawn_tasks\<close> is handed: those of a full node, or none (a light node's builder).\<close>

fun rpc_extensions_builder ::
  "(client handle \<Rightarrow> transaction_pool handle \<Rightarrow> 'deny \<Rightarrow> 'handler io_handler) \<Rightarrow> (client handle \<Rightarrow> 'handler io_handler)
     \<Rightarrow> rpc_extensions \<Rightarrow> 'deny \<Rightarrow> 'handler io_handler" where
  "rpc_extensions_builder full_system transaction_payment (FullRpc client pool) deny_unsafe =
     create_full full_system transaction_payment
       \<lparr>deps_client = client, deps_pool = pool, deps_deny_unsafe = deny_unsafe\<rparr>"
| "rpc_extensions_builder full_system transaction_payment NoRpc deny_unsafe = Map.empty"

section \<open>Executor, command line and entry point\<close>

text \<open>\<open>api_dispatch\<close> stands for \<open>node_template_runtime::api::dispatch\<close>, which the API macro generates.\<close>

definition executor_dispatch :: "(string \<Rightarrow> u8 list \<Rightarrow> u8 list option) \<Rightarrow> string \<Rightarrow> u8 list \<Rightarrow> u8 list option" where
  "executor_dispatch api_dispatch = (\<lambda>method data. api_dispatch method data)"

definition executor_native_version :: native_version where
  "executor_native_version = native_version"

record cli_info =
  ci_impl_name :: string
  ci_impl_version :: string
  ci_description :: string
  ci_author :: string
  ci_support_url :: string
  ci_copyright_start_year :: int

text \<open>\<open>env\<close> stands for the variables that are read when the node is compiled.\<close>

definition cli_info :: "(string \<Rightarrow> string) \<Rightarrow> cli_info" where
  "cli_info env = \<lparr>
     ci_impl_name = ''Substrate Node'',
     ci_impl_version = env ''SUBSTRATE_CLI_IMPL_VERSION'',
     ci_description = env ''CARGO_PKG_DESCRIPTION'',
     ci_author = env ''CARGO_PKG_AUTHORS'',
     ci_support_url = ''support.anonymous.an'',
     ci_copyright_start_year = 2017\<rparr>"

definition native_runtime_version :: "'spec \<Rightarrow> runtime_version" where
  "native_runtime_version spec = VERSION"

definition main ::
  "bool \<Rightarrow> (subcommand + 'run \<Rightarrow> 'e + config) \<Rightarrow> (action \<Rightarrow> 'e option) \<Rightarrow> 'run cli \<Rightarrow> ('e, unit) command" where
  "main runtime_benchmarks create_runner fails from_args = run runtime_benchmarks create_runner fails from_args"

section \<open>Properties\<close>

text \<open>
  The native runtime is the on-chain one as far as the node can tell: the versions compared by the
  executor (\<open>spec_name\<close>, \<open>spec_version\<close>, \<open>authoring_version\<close>) are the same wherever the node asks.
\<close>

lemma native_version_is_runtime_version:
  "nv_runtime_version executor_native_version = native_runtime_version spec"
  "run_state (runtime_api fr Core_version) s = (RVersion (native_runtime_version spec), s)"
  by (simp_all add: executor_native_version_def native_version_def native_runtime_version_def)

text \<open>
  A full node serves the methods of both RPC modules and no others: a method of the system module
  goes to the one built over the client, the pool and the flag that denies unsafe calls, a method of the
  payment module to the one built over the client, whatever order they are added in, provided that the
  modules have no method in common. A light node's extensions serve nothing.
\<close>

lemma full_node_serves_both_modules:
  assumes "dom (full_system client pool deny) \<inter> dom (transaction_payment client) = {}"
  shows "rpc_extensions_builder full_system transaction_payment (FullRpc client pool) deny =
      transaction_payment client ++ full_system client pool deny \<and>
    dom (rpc_extensions_builder full_system transaction_payment (FullRpc client pool) deny) =
      dom (full_system client pool deny) \<union> dom (transaction_payment client) \<and>
    dom (rpc_extensions_builder full_system transaction_payment NoRpc deny) = {}"
proof -
  have "rpc_extensions_builder full_system transaction_payment (FullRpc client pool) deny =
      full_system client pool deny ++ transaction_payment client"
    by (simp add: create_full_def extend_with_def Let_def)
  moreover have "full_system client pool deny ++ transaction_payment client =
      transaction_payment client ++ full_system client pool deny"
    using assms by (rule map_add_comm)
  ultimately show ?thesis by (auto simp: dom_map_add)
qed

lemma full_node_serves_both_modules_example:
  "rpc_extensions_builder (\<lambda>client pool deny. [''system_accountNextIndex'' \<mapsto> handle_id client + handle_id pool])
     (\<lambda>client. [''payment_queryInfo'' \<mapsto> handle_id client]) (FullRpc (Handle 1) (Handle 2)) True
     ''system_accountNextIndex'' = Some 3"
  using full_node_serves_both_modules [of
      "\<lambda>client pool deny. [''system_accountNextIndex'' \<mapsto> handle_id client + handle_id pool]" "Handle 1" "Handle 2" True
      "\<lambda>client. [''payment_queryInfo'' \<mapsto> handle_id client]"]
  by simp

end
