(* ===== verification/Unit_Tests.thy ===== *)
theory Unit_Tests
  imports Pallet_Template Price_Oracle Price_Json
begin

text \<open>
  Test code of the repository over the model: the mock runtime, the unit tests and the benchmark of
  \<open>pallets/template\<close>, and the two unit tests of \<open>pallets/example-offchain-worker\<close> that need no mocked
  network or pool. Each test is a predicate whose body makes the calls of the test and compares what the test
  compares; the lemmas show that they hold, in the checked build the tests run in and in the
  release build. The tests that inspect a mocked HTTP request or a submitted extrinsic are not modelled.

  The JSON parser stays a parameter, whose results on the texts of the tests are hypotheses. The mock
  runtimes use 64-bit block numbers where the runtime and the model have 32; the tests use block 1.
\<close>

section \<open>pallets/template\<close>

text \<open>The mock runtime: accounts are 64-bit numbers, origins FRAME's, and the genesis storage is empty.\<close>

definition test_BlockHashCount :: u64 where "test_BlockHashCount = 250"
definition test_SS58Prefix :: u8 where "test_SS58Prefix = 42"

record test_system_config =
  tc_base_call_filter :: "template_call \<Rightarrow> bool"
  tc_block_hash_count :: u64
  tc_ss58_prefix :: u8

definition test_system_config :: test_system_config where
  "test_system_config = \<lparr>
     tc_base_call_filter = (\<lambda>_. True),
     tc_block_hash_count = test_BlockHashCount,
     tc_ss58_prefix = test_SS58Prefix\<rparr>"

datatype test_call = Test_TemplateModule template_call

record test_state =
  test_block_number :: u64
  test_template :: "u64 template_state"

definition new_test_ext :: test_state where
  "new_test_ext = \<lparr>test_block_number = 0, test_template = \<lparr>something = None, template_events = []\<rparr>\<rparr>"

fun test_dispatch :: "test_call \<Rightarrow> u64 raw_origin \<Rightarrow> test_state \<Rightarrow> (template_error, test_state) dispatched" where
  "test_dispatch (Test_TemplateModule c) origin s =
     map_option (\<lambda>(r, t). (r, s\<lparr>test_template := t\<rparr>))
       (template_dispatch (raw_api 0) c origin (test_template s))"

text \<open>\<open>assert_ok!\<close> and \<open>assert_noop!\<close>: the call succeeds, or fails with the error and changes nothing.\<close>

definition assert_ok :: "(test_state \<Rightarrow> bool) \<Rightarrow> (template_error, test_state) dispatched \<Rightarrow> bool" where
  "assert_ok rest r = (case r of Some (Ok _, s) \<Rightarrow> rest s | _ \<Rightarrow> False)"

definition assert_noop :: "test_state \<Rightarrow> template_error \<Rightarrow> (template_error, test_state) dispatched \<Rightarrow> bool" where
  "assert_noop before e r = (case r of Some (Err (Module e'), s) \<Rightarrow> e' = e \<and> s = before | _ \<Rightarrow> False)"

definition it_works_for_default_value :: bool where
  "it_works_for_default_value =
     assert_ok (\<lambda>s. something (test_template s) = Some 42)
       (test_dispatch (Test_TemplateModule (Call_do_something 42)) (SignedOrigin 1) new_test_ext)"

definition correct_error_for_none_value :: bool where
  "correct_error_for_none_value =
     assert_noop new_test_ext NoneValue
       (test_dispatch (Test_TemplateModule Call_cause_error) (SignedOrigin 1) new_test_ext)"

text \<open>The benchmark: the call with its component \<open>s\<close>, from any storage, and what it verifies.\<close>

definition bench_do_something :: "u64 \<Rightarrow> u32 \<Rightarrow> test_state \<Rightarrow> bool" where
  "bench_do_something caller s st =
     assert_ok (\<lambda>st'. something (test_template st') = Some s)
       (test_dispatch (Test_TemplateModule (Call_do_something s)) (SignedOrigin caller) st)"

section \<open>pallets/example-offchain-worker\<close>

definition example_test_config :: oracle_config where
  "example_test_config = \<lparr>grace_period = 5, unsigned_interval = 128, unsigned_priority = push_bit 20 1\<rparr>"

definition example_test_ext :: "u64 oracle_state" where
  "example_test_ext = \<lparr>prices = [], next_unsigned_at = 0, oracle_events = []\<rparr>"

definition bytes :: "string \<Rightarrow> u8 list" where
  "bytes s = map of_char s"

definition it_aggregates_the_price :: bool where
  "it_aggregates_the_price =
     (average_price example_test_ext = Some None \<and>
      (case submit_price (raw_api 0) (SignedOrigin 0) 27 example_test_ext of
         Some (Ok _, s1) \<Rightarrow>
           average_price s1 = Some (Some 27) \<and>
           (case submit_price (raw_api 0) (SignedOrigin 0) 43 s1 of
              Some (Ok _, s2) \<Rightarrow> average_price s2 = Some (Some 35)
            | _ \<Rightarrow> False)
       | _ \<Rightarrow> False))"

type_synonym test_parser = "str \<Rightarrow> unit + unit json_value"

definition parse_price_works :: "bool \<Rightarrow> test_parser \<Rightarrow> bool" where
  "parse_price_works chk parse_json \<longleftrightarrow>
     list_all (\<lambda>(json, expected). parse_price chk parse_json (bytes json) = Some expected) [
       (''{\"USD\":6536.92}'', Some 653692),
       (''{\"USD\":65.92}'', Some 6592),
       (''{\"USD\":6536.924565}'', Some 653692),
       (''{\"USD\":6536}'', Some 653600),
       (''{\"USD2\":6536}'', None),
       (''{\"USD\":\"6432\"}'', None)]"

section \<open>The parser on the texts of the tests\<close>

definition other_json :: "string \<Rightarrow> unit json_value \<Rightarrow> unit + unit json_value" where
  "other_json key v = Ok (JsonObject [(chars key, v)])"

definition parses_test_texts :: "test_parser \<Rightarrow> bool" where
  "parses_test_texts parse_json \<longleftrightarrow>
     parse_json (bytes ''{\"USD\":6536.92}'') = usd_json 6536 92 2 \<and>
     parse_json (bytes ''{\"USD\":65.92}'') = usd_json 65 92 2 \<and>
     parse_json (bytes ''{\"USD\":6536.924565}'') = usd_json 6536 924565 6 \<and>
     parse_json (bytes ''{\"USD\":6536}'') = usd_json 6536 0 0 \<and>
     parse_json (bytes ''{\"USD2\":6536}'') =
       other_json ''USD2'' (JsonNumber \<lparr>nv_integer = 6536, nv_fraction = 0, nv_fraction_length = 0, nv_exponent = 0\<rparr>) \<and>
     parse_json (bytes ''{\"USD\":\"6432\"}'') = other_json ''USD'' (JsonOther ())"

lemma usd_json_price:
  assumes "parse_json txt = usd_json i f l"
    and "number_price chk \<lparr>nv_integer = i, nv_fraction = f, nv_fraction_length = l, nv_exponent = 0\<rparr> = Some p"
  shows "parse_price chk parse_json txt = Some (Some p)"
  using assms by (simp add: parse_price_def usd_json_def usd_number_def)

lemma number_price_examples:
  "number_price chk \<lparr>nv_integer = 6536, nv_fraction = 92, nv_fraction_length = 2, nv_exponent = 0\<rparr> = Some 653692"
  "number_price chk \<lparr>nv_integer = 65, nv_fraction = 92, nv_fraction_length = 2, nv_exponent = 0\<rparr> = Some 6592"
  "number_price chk \<lparr>nv_integer = 6536, nv_fraction = 924565, nv_fraction_length = 6, nv_exponent = 0\<rparr> = Some 653692"
  "number_price chk \<lparr>nv_integer = 6536, nv_fraction = 0, nv_fraction_length = 0, nv_exponent = 0\<rparr> = Some 653600"
  by (simp_all add: number_price_def checked_sub_def rust_mul_def rust_pow_def rust_add_def rust_div_def)

section \<open>The tests hold\<close>

lemma template_tests_hold:
  "it_works_for_default_value" "correct_error_for_none_value" "bench_do_something caller s st"
  by (simp_all add: it_works_for_default_value_def correct_error_for_none_value_def
        bench_do_something_def assert_ok_def assert_noop_def new_test_ext_def dispatch_defs Let_def)

lemma aggregation_test_holds: "it_aggregates_the_price"
proof -
  have inv: "oracle_inv example_test_ext"
    by (simp add: example_test_ext_def oracle_inv_def)
  let ?s = "price_recorded 0 27 example_test_ext"
  have "add_price 0 27 example_test_ext = Some ?s"
    using add_price_eq [OF inv] by (simp add: price_recorded_def)
  moreover have "add_price 0 43 ?s = Some (price_recorded 0 43 ?s)"
    using add_price_eq [OF oracle_inv_price_recorded(1) [OF inv]] by (simp add: price_recorded_def)
  ultimately show ?thesis
    by (simp add: it_aggregates_the_price_def submit_price_def average_price_def example_test_ext_def
          store_price_def MAX_LEN_def saturating_add_def rust_div_def)
qed

lemma parse_test_holds:
  assumes "parses_test_texts parse_json"
  shows "parse_price_works chk parse_json"
proof -
  have "parse_price chk parse_json (bytes ''{\"USD2\":6536}'') = Some None"
    "parse_price chk parse_json (bytes ''{\"USD\":\"6432\"}'') = Some None"
    using assms by (simp_all add: parses_test_texts_def parse_price_def other_json_def chars_def)
  moreover have "parse_price chk parse_json (bytes ''{\"USD\":6536.92}'') = Some (Some 653692)"
    "parse_price chk parse_json (bytes ''{\"USD\":65.92}'') = Some (Some 6592)"
    "parse_price chk parse_json (bytes ''{\"USD\":6536.924565}'') = Some (Some 653692)"
    "parse_price chk parse_json (bytes ''{\"USD\":6536}'') = Some (Some 653600)"
    using assms unfolding parses_test_texts_def
    by (auto intro!: usd_json_price number_price_examples)
  ultimately show ?thesis
    by (simp add: parse_price_works_def)
qed

text \<open>A parser that knows the texts of the tests.\<close>

definition test_parse_json :: test_parser where
  "test_parse_json txt =
     (case map_of [
         (bytes ''{\"USD\":6536.92}'', usd_json 6536 92 2),
         (bytes ''{\"USD\":65.92}'', usd_json 65 92 2),
         (bytes ''{\"USD\":6536.924565}'', usd_json 6536 924565 6),
         (bytes ''{\"USD\":6536}'', usd_json 6536 0 0),
         (bytes ''{\"USD2\":6536}'', other_json ''USD2''
            (JsonNumber \<lparr>nv_integer = 6536, nv_fraction = 0, nv_fraction_length = 0, nv_exponent = 0\<rparr>)),
         (bytes ''{\"USD\":\"6432\"}'', other_json ''USD'' (JsonOther ()))] txt of
        None \<Rightarrow> Err () | Some r \<Rightarrow> r)"

lemma parse_test_example: "parse_price_works True test_parse_json \<and> parse_price_works False test_parse_json"
proof -
  have "parses_test_texts test_parse_json"
    by (simp add: parses_test_texts_def test_parse_json_def bytes_def)
  then show ?thesis by (simp add: parse_test_holds)
qed

end
