(* ===== verification/Spec2Isabelle.thy ===== *)
theory Spec2Isabelle
  imports Payloads Info_Cache Fetch_Progress Node_System Worker_Keys Node_Cli Unit_Tests
begin

text \<open>
  A verification of the substrate node template with its two off-chain worker pallets.

  \<^bold>\<open>The program.\<close> A Substrate node is a native client that runs a runtime compiled to
  wasm. The runtime (\<open>runtime/src/lib.rs\<close>) composes pallets: some of FRAME, and the three of this
  repository, \<open>pallets/template\<close>, \<open>pallets/ocw\<close> and \<open>pallets/example-offchain-worker\<close>. A pallet has
  storage, calls (dispatchables) and, for the latter two, a validator of unsigned calls and an
  off-chain worker that the client runs after every imported block. The worker reads
  chain storage, talks to web servers through the host, and submits calls, signed or unsigned,
  which come back through the transaction pool. The client (\<open>node/src\<close>) parses a command line,
  builds a chain specification and assembles the services of a full or a light node.

  \<^bold>\<open>The theories\<close>, in the order of their imports:

  \<^item> \<open>Prelude\<close>: machine integers with the arithmetic that Rust offers (checked, saturating, and
    plain operators, which panic or wrap depending on the build: the argument \<open>chk\<close> says which),
    results as sums, and state computations that may panic.
  \<^item> \<open>Frame\<close>: what the pallets use of FRAME, as the record \<open>frame_api\<close>; blocks of calls
    (\<open>apply_calls\<close>); the locales \<open>pallet\<close>, \<open>total_pallet\<close>, \<open>unsigned_pallet\<close> and
    \<open>bounded_store\<close>, the contracts that the pallets, and the runtime composed of them, are proved to
    meet.
  \<^item> \<open>Pallet_Template\<close>: \<open>do_something\<close> and \<open>cause_error\<close>; the counter saturates.
  \<^item> \<open>Pallet_Ocw\<close>: \<open>submit_number_signed\<close>, \<open>submit_number_unsigned\<close>,
    \<open>submit_number_unsigned_with_signed_payload\<close>, \<open>append_or_replace_number\<close> and
    \<open>validate_unsigned\<close>; \<open>Numbers\<close> is a sliding window of ten.
  \<^item> \<open>Price_Oracle\<close>: the on-chain half of the price pallet: \<open>add_price\<close>, \<open>average_price\<close>, the
    three \<open>submit_price\<close> calls, \<open>validate_transaction_parameters\<close> and \<open>validate_unsigned\<close>; what the
    average is, when it is wrong, what the validator accepts and how it ranks it.
  \<^item> \<open>Pacing\<close>: runs of a step relation with observed block numbers, and the locale \<open>rate_limiter\<close>: a
    gate that an observed block has to reach and then moves; and what it takes for a machine to be
    abstracted by a smaller one that is a rate limiter.
  \<^item> \<open>Price_Chain\<close>: blocks executing those calls, as a step relation; the chain is a rate limiter
    for unsigned prices that always opens again, and the price vector is a function of the event log.
  \<^item> \<open>Offchain\<close>, \<open>Host_Laws\<close>, \<open>Mock_Host\<close>: the host functions as records, what it means that
    they keep a property of the host, and a concrete host in the role of the one the pallets' unit tests use.
  \<^item> \<open>Price_Json\<close>: \<open>parse_price\<close> against the decimal number it reads, a rational number with its
    exponent; where it is exact, and where it is wrong (fractions of one digit, exponents).
  \<^item> \<open>Price_Worker\<close>: \<open>offchain_worker\<close>, \<open>choose_transaction_type\<close>, \<open>fetch_price\<close> and the four
    senders of the price pallet; the one answer on which they panic.
  \<^item> \<open>Price_Race\<close>: concurrent worker runs that share \<open>example_ocw::last_send\<close>, as a machine whose
    steps are the read and the compare-and-set of \<open>StorageValueRef::mutate\<close>; the machine is a rate
    limiter for sends, and \<open>choose_transaction_type\<close> refines a step of the machine.
  \<^item> \<open>Price_System\<close>: the worker together with its pallet: what it submits, and that the
    validator accepts it.
  \<^item> \<open>Ocw_Worker\<close>: \<open>offchain_worker\<close> of \<open>pallets/ocw\<close>: the rotation by block number, the three
    senders, and the cached, locked fetch.
  \<^item> \<open>Scale\<close>: the contract of a SCALE codec (the locale \<open>scale_codec\<close>), codecs of several fields as
    sublocales, and little-endian integers.
  \<^item> \<open>Info_Cache\<close>: the cached document of \<open>fetch_remote_info\<close> from JSON text to the bytes stored under
    its key; what is stored is UTF-8 and is found again.
  \<^item> \<open>Fetch_Lock\<close>: concurrent runs of \<open>fetch_remote_info\<close>, each for its own block, with the lock and its
    two limits, as a timed step relation; mutual exclusion, a lock that cannot get stuck, a document
    that can be fetched twice, and the refinement by the function.
  \<^item> \<open>Fetch_Progress\<close>: runs of that machine end after at most four steps each.
  \<^item> \<open>Runtime\<close>: constants, configuration, the composed call, dispatcher and validator of unsigned
    calls, and \<open>create_transaction\<close>; totality and harmless errors. The storage of a pallet is a field of
    its own, so that pallets do not touch each other's storage is built in.
  \<^item> \<open>Payloads\<close>: the two signed payloads with their codecs and their verification; that the payloads of the
    two pallets can be taken for each other, and that this is the only confusion.
  \<^item> \<open>Runtime_Worker\<close>: the workers of both pallets in the runtime; whatever the host does, they submit
    only what the runtime accepts.
  \<^item> \<open>Node_System\<close>: the chain with the composed runtime and the workers with their host, as one step
    relation. The price chain abstracts it (the locales \<open>abstraction\<close> and \<open>limited_abstraction\<close> of
    \<open>Pacing\<close>), so that the rate limit holds for the node; and the prices of the workers
    can get through.
  \<^item> \<open>Runtime_Api\<close>: the configuration values of the FRAME pallets, the runtime API of
    \<open>impl_runtime_apis!\<close> over a record of FRAME's functions, and the benchmark functions.
  \<^item> \<open>Chain_Spec\<close>: key derivation, \<open>testnet_genesis\<close>, the two specifications and \<open>load_spec\<close>; both
    genesis states are sound.
  \<^item> \<open>Service\<close>: \<open>new_partial\<close>, \<open>new_full\<close>, \<open>new_light\<close> of \<open>node/src/service.rs\<close> as the sequence of calls
    they make into the services of Substrate, with all arguments; a service is a typed handle, the position of
    the call that made it.
  \<^item> \<open>Service_Plan\<close>: whatever fails, such a computation follows its plan (the calls it makes when nothing
    fails) up to the first failing call; the steps of the plans with all settings, and what it means that they are
    wired up correctly.
  \<^item> \<open>Command\<close>: \<open>run\<close> of \<open>node/src/command.rs\<close>, for every subcommand: when it succeeds, that it
    stops at its first failure, and that the services are wired up correctly in every run.
  \<^item> \<open>Worker_Keys\<close>: the key types and \<open>crypto\<close> modules of the worker pallets, the keys that the node
    generates for them, and the genesis account they belong to.
  \<^item> \<open>Node_Cli\<close>: the RPC extensions of \<open>node/src/rpc.rs\<close>, the native executor, the constants of the command
    line and \<open>main\<close>.
  \<^item> \<open>Unit_Tests\<close>: the mock runtime, unit tests and the benchmark of \<open>pallets/template\<close>, and the tests of
    \<open>pallets/example-offchain-worker\<close> that need no mocked network or pool; they hold of the model.

  This theory adds the properties that need the workers and the runtime together.

  \<^bold>\<open>How code corresponds to definitions.\<close> Storage items are fields of a record per pallet and
  \<open>deposit_event\<close> appends to a list in it. A dispatchable maps a storage record to \<open>None\<close> (it
  panicked) or to its result and the new storage. A worker is a computation over an unspecified host
  state. Functions of code outside the repository are arguments: FRAME's origin checks, signature
  verification, the codecs of integers and keys, the JSON parsers, the host, the expiry of a lock, key
  derivation, the keystore, which call into a service fails, payload construction and signing, and what the runtime API delegates to.
  Generic types are those of the runtime: block numbers are 32-bit words. A run of a worker sees the block
  number of the block it was started for.

  \<^bold>\<open>Bounds.\<close> No definition needs fuel: every loop of the source is a fold or runs over a
  list. Statements about block numbers assume that a block number plus the configured interval fits in 32
  bits, where they need it; at one block in six seconds that is some 800 years.

  \<^bold>\<open>Not modelled.\<close> Weights and the metadata that the FRAME macros generate; the encoding of calls and of
  on-chain storage; log output; the FRAME pallets themselves, and of their configuration what is a type and
  not a value; the unit tests that inspect mocked HTTP requests or submitted extrinsics; the parsing of the command line, \<open>node/src/lib.rs\<close> (module declarations) and the build
  scripts. Of \<open>node/src/service.rs\<close> the services themselves are Substrate's: what they do once they are built and
  handed on is not modelled.
\<close>

section \<open>From the worker to the chain\<close>

lemma payload_stale:
  assumes "pp_block_number pl < next_unsigned_at (example_store s)" and "verify_price pl sig"
  shows "runtime_validate_unsigned verify_ocw verify_price
    (OcwExample (Call_submit_price_unsigned_with_signed_payload pl sig)) s =
    Some (Err (Invalid InvalidStale))"
  using assms by (simp add: validate_transaction_parameters_def)

text \<open>
  C3. A fetched price reaches the chain, once. In a block whose number leaves remainder one, with an
  account and a good answer of the price server, the worker puts one call into the pool; the
  runtime's validator accepts it, and executing it stores the price, announces it for the default
  account and moves the next acceptance block to three blocks later. Replaying the same call is
  then refused as stale.
\<close>

theorem worker_price_reaches_the_chain_once:
  assumes "accs \<noteq> []" and "answers h = [(200, body)]" and "valid_utf8 body"
    and "parse_price False parse_json body = Some (Some p)"
    and "entry h = None" and "pool h = []"
    and "runtime_inv s" and "next_unsigned_at (example_store s) \<le> block_number s"
    and "block_number s mod 3 = 1" and "unat (block_number s) + 3 < 2 ^ 32"
    and "\<forall>pl. verify_price pl (sign pl)" and "ensure_none api org = Ok ()"
  shows "\<exists>c vt s'.
    pool (snd (run_state (price_offchain_worker False runtime_oracle_config mock_http parse_json
      mock_store (mock_tx accs sign) (example_store s) (block_number s)) h)) = [c] \<and>
    runtime_validate_unsigned verify_ocw verify_price (OcwExample c) s = Some (Ok vt) \<and>
    runtime_dispatch api (OcwExample c) org s = Some (Ok (), s') \<and>
    prices (example_store s') = store_price p (prices (example_store s)) \<and>
    oracle_events (example_store s') =
      oracle_events (example_store s) @ [NewPrice p (default_account api)] \<and>
    next_unsigned_at (example_store s') = block_number s + 3 \<and>
    runtime_validate_unsigned verify_ocw verify_price (OcwExample c) s' =
      Some (Err (Invalid InvalidStale))"
proof -
  let ?b = "block_number s"
  let ?pl = "price_payload_for p ?b (hd accs)"
  let ?c = "Call_submit_price_unsigned_with_signed_payload ?pl (sign ?pl)"
  let ?s = "s\<lparr>example_store := (price_recorded (default_account api) p (example_store s))
      \<lparr>next_unsigned_at := ?b + 3\<rparr>\<rparr>"
  have inv: "oracle_inv (example_store s)"
    using assms(7) by (simp add: runtime_inv_def)
  have pl: "pp_block_number ?pl = ?b" "pp_price ?pl = p"
    by (simp_all add: price_payload_for_def)
  have b: "1 \<le> ?b"
    using assms(9) by (cases "?b = 0") (auto simp: word_le_nat_alt unat_gt_0 Suc_le_eq)
  have "grace_over False runtime_oracle_config ?b (entry h)"
    by (simp add: grace_over_def last_send_closure_def assms(5))
  from price_worker_run [OF assms(1-4) inv assms(8) b this, of sign]
  have "pool (snd (run_state (price_offchain_worker False runtime_oracle_config mock_http parse_json
      mock_store (mock_tx accs sign) (example_store s) ?b) h)) = [?c]"
    by (simp add: assms(6,9) chosen_calls_def)
  moreover have "runtime_dispatch api (OcwExample ?c) org s = Some (Ok (), ?s)"
    using runtime_price_accepted [OF inv assms(12), of ?c] by (simp only: call_price.simps is_signed_call.simps pl not_False_eq_True)
  moreover obtain vt where
    "runtime_validate_unsigned verify_ocw verify_price (OcwExample ?c) s = Some (Ok vt)"
    using payload_accepted [OF inv, of verify_price ?pl "sign ?pl" verify_ocw] assms(8,11) pl by auto
  moreover have "?b < ?b + 3"
    using assms(10) rust_add_fits [of ?b 3 False] by (simp add: word_less_nat_alt)
  then have "runtime_validate_unsigned verify_ocw verify_price (OcwExample ?c) ?s =
      Some (Err (Invalid InvalidStale))"
    using assms(11) by (intro payload_stale) (simp_all add: pl)
  moreover have "prices (example_store ?s) = store_price p (prices (example_store s))"
    "oracle_events (example_store ?s) = oracle_events (example_store s) @ [NewPrice p (default_account api)]"
    "next_unsigned_at (example_store ?s) = ?b + 3"
    by simp_all
  ultimately show ?thesis by blast
qed

theorem worker_price_reaches_the_chain_once_witness:
  "\<exists>c s'.
    pool (snd (run_state (price_offchain_worker False runtime_oracle_config mock_http
      (\<lambda>_. usd_json 6536 92 2) mock_store demo_tx (example_store (demo_runtime\<lparr>block_number := 7\<rparr>)) 7)
      (mock_init [(200, [])]))) = [c] \<and>
    runtime_dispatch (raw_api 0) (OcwExample c) NoneOrigin (demo_runtime\<lparr>block_number := 7\<rparr>) =
      Some (Ok (), s') \<and>
    prices (example_store s') = [27, 43, 653692]"
proof -
  let ?s = "demo_runtime\<lparr>block_number := 7\<rparr>"
  have "parse_price False (\<lambda>_. usd_json 6536 92 2) [] = Some (Some 653692)"
    by (simp add: parse_price_def usd_json_def usd_number_def number_price_def checked_sub_def rust_mul_def
          rust_pow_def rust_add_def rust_div_def)
  moreover have "runtime_inv ?s"
    using demo_runtime_inv by (simp add: runtime_inv_def)
  moreover have "next_unsigned_at (example_store ?s) \<le> block_number ?s"
    by (simp add: demo_runtime_def word_le_nat_alt)
  moreover have "store_price 653692 (prices (example_store ?s)) = [27, 43, 653692]"
    by (simp add: demo_runtime_def store_price_def MAX_LEN_def)
  ultimately show ?thesis
    using worker_price_reaches_the_chain_once [of "[\<lparr>acc_id = 0, acc_public = 0\<rparr>]"
        "mock_init [(200, [])]" "[]" "\<lambda>_. usd_json 6536 92 2" 653692 ?s "\<lambda>_ _. True" "\<lambda>_. ()"
        "raw_api 0" NoneOrigin "\<lambda>_ _. True"]
    by (auto simp: demo_tx_def mock_init_def)
qed

section \<open>The configured priority\<close>

text \<open>
  C28. With the runtime's configuration the priority of an accepted unsigned price is 3 plus its
  distance from the current average. Unless the distance is more than a million it stays
  below the base priority of \<open>2^20\<close> that the pallet's comment announces.
\<close>

theorem runtime_price_priority:
  assumes "runtime_inv s"
    and "runtime_validate_unsigned verify_ocw verify_price (OcwExample c) s = Some (Ok vt)"
  shows "\<exists>avg. average_price (example_store s) = Some avg \<and>
    unat (vt_priority vt) = 3 + price_distance avg (call_price c) \<and>
    (price_distance avg (call_price c) \<le> 1000000 \<longrightarrow> unat (vt_priority vt) < 2 ^ 20)"
proof -
  from assms(2) obtain vt0 where vt0:
    "oracle_validate_unsigned False runtime_oracle_config verify_price (block_number s) c
       (example_store s) = Some (Ok vt0)" "vt_priority vt = vt_priority vt0"
    by (cases rule: sum.exhaust) (auto simp: retag_def)
  have inv: "oracle_inv (example_store s)"
    using assms(1) by (simp add: runtime_inv_def)
  from accepted_price_parameters [OF inv vt0(1)] obtain avg where avg:
    "average_price (example_store s) = Some avg" "unat (vt_priority vt0) =
       min (unat (unsigned_priority runtime_oracle_config) + price_distance avg (call_price c)) (2 ^ 64 - 1)"
    by blast
  have "price_distance avg (call_price c) < 2 ^ 33"
    by (rule price_distance_bound)
  moreover have "unat (unsigned_priority runtime_oracle_config) = 3"
    by (simp add: runtime_oracle_config_def UnsignedPriority_def)
  ultimately show ?thesis
    using avg vt0(2) by simp
qed

theorem runtime_price_priority_witness:
  "\<exists>vt. runtime_validate_unsigned (\<lambda>_ _. True) (\<lambda>_ _. True)
      (OcwExample (Call_submit_price_unsigned 9 50) :: (unit, unit) runtime_call) demo_runtime =
      Some (Ok vt) \<and> unat (vt_priority vt) = 18"
proof -
  let ?c = "Call_submit_price_unsigned 9 50 :: (unit, unit) oracle_call"
  have avg: "average_price (example_store demo_runtime) = Some (Some 35)"
    by (simp add: average_price_def demo_runtime_def saturating_add_def rust_div_def)
  then have "\<exists>vt. runtime_validate_unsigned (\<lambda>_ _. True) (\<lambda>_ _. True) (OcwExample ?c) demo_runtime =
      Some (Ok vt)"
    by (simp add: validate_transaction_parameters_def demo_runtime_def)
  then obtain vt where vt: "runtime_validate_unsigned (\<lambda>_ _. True) (\<lambda>_ _. True) (OcwExample ?c)
      demo_runtime = Some (Ok vt)"
    by blast
  from runtime_price_priority [OF demo_runtime_inv vt] avg have "unat (vt_priority vt) = 18"
    by (auto simp: price_distance_def)
  with vt show ?thesis by blast
qed

end
